(* ===== verification/RRR_Prelude.thy ===== *)
theory RRR_Prelude
  imports Complex_Main "HOL-Library.AList"
begin

text \<open>
  The prelude of the development.  It holds three things that every component shares.

  \<^item> The model of asynchronous code.  An \<open>async\<close> method of the program is a value of type
    \<open>('s, 'e, 'a) io\<close>: a tree whose nodes \<open>Act\<close> are the awaited calls that read or write the
    shared state \<open>'s\<close> in one indivisible step, and whose leaves \<open>Ret\<close> are the settled promise,
    \<open>Inl e\<close> for a rejection and \<open>Inr a\<close> for a fulfilment.  \<open>await\<close> is the code's \<open>await\<close>,
    \<open>try_catch\<close> its \<open>try\<close>/\<open>catch\<close>.
  \<^item> Three ways to execute such a tree: alone (\<open>run\<close>), against an environment that acts before
    each of its steps (\<open>run_env\<close>), and as one thread of a pool under any schedule (\<open>pool_step\<close>).
  \<^item> The rely/guarantee predicate \<open>wp\<close> and the theorem that lets facts about single threads
    hold of every interleaving (\<open>pool_sound\<close>).

  The collections \<open>run_simps\<close> and \<open>wp_simps\<close> gather the equations by which the component
  proofs execute a tree symbolically.
\<close>

named_theorems run_simps "equations that execute a program alone"
named_theorems wp_simps "equations that compute the rely/guarantee precondition"

section \<open>Programs as trees of atomic steps\<close>

datatype ('s, 'a) proc =
    Ret 'a
  | Act "'s \<Rightarrow> 's \<times> ('s, 'a) proc"

type_synonym ('s, 'e, 'a) io = "('s, 'e + 'a) proc"

text \<open>Induction over a program, with the hypothesis for the program after each step.\<close>

lemma proc_induct [case_names Ret Act, induct type: proc]:
  assumes "\<And>a. P (Ret a)" and "\<And>f. (\<And>s. P (snd (f s))) \<Longrightarrow> P (Act f)"
  shows "P p"
proof (induction p rule: proc.induct)
  case (Ret a)
  show ?case by (rule assms(1))
next
  case (Act f)
  show ?case
  proof (rule assms(2))
    fix s
    show "P (snd (f s))"
      by (rule Act.IH [of "f s"]) (simp_all add: snds.intros)
  qed
qed

primrec pbind :: "('s, 'a) proc \<Rightarrow> ('a \<Rightarrow> ('s, 'b) proc) \<Rightarrow> ('s, 'b) proc" where
  "pbind (Ret a) k = k a"
| "pbind (Act f) k = Act (map_prod id (\<lambda>p. pbind p k) \<circ> f)"

definition pure :: "'a \<Rightarrow> ('s, 'e, 'a) io" where
  "pure a = Ret (Inr a)"

definition throw :: "'e \<Rightarrow> ('s, 'e, 'a) io" where
  "throw e = Ret (Inl e)"

definition await :: "('s, 'e, 'a) io \<Rightarrow> ('a \<Rightarrow> ('s, 'e, 'b) io) \<Rightarrow> ('s, 'e, 'b) io" where
  "await m k = pbind m (\<lambda>r. case r of Inl e \<Rightarrow> Ret (Inl e) | Inr a \<Rightarrow> k a)"

definition try_catch :: "('s, 'e, 'a) io \<Rightarrow> ('e \<Rightarrow> ('s, 'e, 'a) io) \<Rightarrow> ('s, 'e, 'a) io" where
  "try_catch m h = pbind m (\<lambda>r. case r of Inl e \<Rightarrow> h e | Inr a \<Rightarrow> Ret (Inr a))"

text \<open>One indivisible access to the shared state, which may fail.\<close>

definition atomically :: "('s \<Rightarrow> 's \<times> ('e + 'a)) \<Rightarrow> ('s, 'e, 'a) io" where
  "atomically f = Act (\<lambda>s. case f s of (s', r) \<Rightarrow> (s', Ret r))"

definition query :: "('s \<Rightarrow> 'a) \<Rightarrow> ('s, 'e, 'a) io" where
  "query f = atomically (\<lambda>s. (s, Inr (f s)))"

definition lift_result :: "'e + 'a \<Rightarrow> ('s, 'e, 'a) io" where
  "lift_result r = Ret r"

text \<open>Awaiting what is settled already.\<close>

lemma await_settled [simp]:
  "await (pure a) k = k a"
  "await (throw e) k = throw e"
  "await (lift_result (Inr a)) k = k a"
  "await (lift_result (Inl e)) k = throw e"
  by (simp_all add: await_def pure_def throw_def lift_result_def)

section \<open>Execution alone\<close>

primrec run :: "('s, 'a) proc \<Rightarrow> 's \<Rightarrow> 'a \<times> 's" where
  "run (Ret a) = (\<lambda>s. (a, s))"
| "run (Act f) = (\<lambda>s. case (map_prod id run \<circ> f) s of (s', g) \<Rightarrow> g s')"

lemma run_Act: "run (Act f) s = (case f s of (s', p) \<Rightarrow> run p s')"
  by (simp add: prod.case_eq_if)

lemma run_pbind: "run (pbind p k) s = (case run p s of (a, s') \<Rightarrow> run (k a) s')"
proof (induction p arbitrary: s)
  case (Ret a)
  then show ?case by simp
next
  case (Act f)
  then show ?case by (simp add: prod.case_eq_if)
qed

lemma run_pure [run_simps]: "run (pure a) s = (Inr a, s)"
  by (simp add: pure_def)

lemma run_throw [run_simps]: "run (throw e) s = (Inl e, s)"
  by (simp add: throw_def)

lemma run_lift_result [run_simps]: "run (lift_result r) s = (r, s)"
  by (simp add: lift_result_def)

lemma run_atomically [run_simps]: "run (atomically f) s = (case f s of (s', r) \<Rightarrow> (r, s'))"
  by (simp add: atomically_def prod.case_eq_if)

lemma run_query [run_simps]: "run (query f) s = (Inr (f s), s)"
  by (simp add: query_def run_simps)

lemma run_await [run_simps]:
  "run (await m k) s =
     (case run m s of (r, s') \<Rightarrow> (case r of Inl e \<Rightarrow> (Inl e, s') | Inr a \<Rightarrow> run (k a) s'))"
  by (auto simp: await_def run_pbind split: prod.splits sum.splits)

lemma run_try_catch [run_simps]:
  "run (try_catch m h) s =
     (case run m s of (r, s') \<Rightarrow> (case r of Inl e \<Rightarrow> run (h e) s' | Inr a \<Rightarrow> (Inr a, s')))"
  by (auto simp: try_catch_def run_pbind split: prod.splits sum.splits)

lemma run_if [run_simps]: "run (if b then p else q) s = (if b then run p s else run q s)"
  by simp

section \<open>Execution against an environment\<close>

text \<open>
  \<open>run_env es p s\<close> executes \<open>p\<close>, letting the head of \<open>es\<close> act on the state before each step
  of \<open>p\<close>; when \<open>es\<close> is exhausted the environment is idle.
\<close>

primrec run_env :: "('s, 'a) proc \<Rightarrow> ('s \<Rightarrow> 's) list \<Rightarrow> 's \<Rightarrow> 'a \<times> ('s \<Rightarrow> 's) list \<times> 's" where
  "run_env (Ret a) = (\<lambda>es s. (a, es, s))"
| "run_env (Act f) = (\<lambda>es s.
     case (map_prod id run_env \<circ> f) (case es of [] \<Rightarrow> s | e # _ \<Rightarrow> e s) of
       (s', g) \<Rightarrow> g (tl es) s')"

lemma run_env_pbind:
  "run_env (pbind p k) es s = (case run_env p es s of (a, es', s') \<Rightarrow> run_env (k a) es' s')"
proof (induction p arbitrary: es s)
  case (Ret a)
  then show ?case by simp
next
  case (Act f)
  then show ?case by (simp add: prod.case_eq_if)
qed

text \<open>With an idle environment the two executions agree.\<close>

lemma run_env_idle: "run_env p [] s = (fst (run p s), [], snd (run p s))"
proof (induction p arbitrary: s)
  case (Ret a)
  then show ?case by simp
next
  case (Act f)
  then show ?case by (simp add: prod.case_eq_if)
qed

section \<open>Rely and guarantee\<close>

text \<open>
  \<open>wp R Q p s\<close>: started in \<open>s\<close>, whatever the environment does within \<open>R\<close> before, between and
  after the steps of \<open>p\<close>, every step of \<open>p\<close> itself stays within \<open>R\<close>, and when \<open>p\<close> returns
  \<open>a\<close> the postcondition \<open>Q a\<close> holds from then on.
\<close>

primrec wp :: "('s \<Rightarrow> 's \<Rightarrow> bool) \<Rightarrow> ('a \<Rightarrow> 's \<Rightarrow> bool) \<Rightarrow> ('s, 'a) proc \<Rightarrow> 's \<Rightarrow> bool" where
  "wp R Q (Ret a) = (\<lambda>s. \<forall>s'. R s s' \<longrightarrow> Q a s')"
| "wp R Q (Act f) = (\<lambda>s. \<forall>s1. R s s1 \<longrightarrow>
     (case (map_prod id (wp R Q) \<circ> f) s1 of (s2, P) \<Rightarrow> R s1 s2 \<and> P s2))"

lemma wp_Act:
  "wp R Q (Act f) s \<longleftrightarrow> (\<forall>s1. R s s1 \<longrightarrow> R s1 (fst (f s1)) \<and> wp R Q (snd (f s1)) (fst (f s1)))"
  by (simp add: prod.case_eq_if)

lemma wp_stable:
  assumes "transp R" and "wp R Q p s" and "R s s'"
  shows "wp R Q p s'"
  using assms by (cases p) (auto simp: prod.case_eq_if dest: transpD)

lemma wp_mono:
  assumes "wp R Q p s" and "\<And>a s'. Q a s' \<Longrightarrow> Q' a s'"
  shows "wp R Q' p s"
  using assms(1)
proof (induction p arbitrary: s)
  case (Ret a)
  then show ?case using assms(2) by auto
next
  case (Act f)
  then show ?case by (simp add: wp_Act del: wp.simps)
qed

lemma wp_pbind:
  assumes "reflp R" and "transp R"
  shows "wp R Q (pbind p k) s \<longleftrightarrow> wp R (\<lambda>a s'. wp R Q (k a) s') p s"
proof (induction p arbitrary: s)
  case (Ret a)
  then show ?case using assms by (auto intro: wp_stable dest: reflpD)
next
  case (Act f)
  then show ?case by (simp add: wp_Act prod.case_eq_if)
qed


text \<open>
  A pool of threads over one shared state: any thread may take its next step, and the
  environment may act within \<open>E\<close>.  A thread that is never scheduled again is a crashed one.
\<close>

inductive pool_step ::
  "('s \<Rightarrow> 's \<Rightarrow> bool) \<Rightarrow> (nat \<Rightarrow> ('s, 'a) proc) \<Rightarrow> 's \<Rightarrow> (nat \<Rightarrow> ('s, 'a) proc) \<Rightarrow> 's \<Rightarrow> bool"
  for E where
  thread_step: "pl i = Act f \<Longrightarrow> pool_step E pl s (pl(i := snd (f s))) (fst (f s))"
| env_step: "E s s' \<Longrightarrow> pool_step E pl s pl s'"

inductive pool_reach ::
  "('s \<Rightarrow> 's \<Rightarrow> bool) \<Rightarrow> (nat \<Rightarrow> ('s, 'a) proc) \<Rightarrow> 's \<Rightarrow> (nat \<Rightarrow> ('s, 'a) proc) \<Rightarrow> 's \<Rightarrow> bool"
  for E pl s where
  pool_start: "pool_reach E pl s pl s"
| pool_next: "pool_reach E pl s pl1 s1 \<Longrightarrow> pool_step E pl1 s1 pl2 s2 \<Longrightarrow> pool_reach E pl s pl2 s2"

inductive_cases pool_stepE: "pool_step E pl s pl' s'"

text \<open>Letting one thread run to its end is one of the schedules.\<close>

lemma pool_reach_run:
  assumes "pool_reach E pl0 s0 pl s"
  shows "pool_reach E pl0 s0 (pl(i := Ret (fst (run (pl i) s)))) (snd (run (pl i) s))"
proof -
  have "pool_reach E pl0 s0 (pl(i := Ret (fst (run p s)))) (snd (run p s))"
    if "pool_reach E pl0 s0 pl s" "pl i = p" for p pl s
    using that
  proof (induction p arbitrary: pl s)
    case (Ret a)
    then have "pl(i := Ret a) = pl" by (simp add: fun_upd_idem)
    then show ?case using Ret by simp
  next
    case (Act f)
    then have "pool_reach E pl0 s0 (pl(i := snd (f s))) (fst (f s))"
      by (meson pool_next thread_step)
    from Act.IH [OF this]
    have "pool_reach E pl0 s0 (pl(i := Ret (fst (run (snd (f s)) (fst (f s))))))
        (snd (run (snd (f s)) (fst (f s))))"
      by (simp del: fun_upd_apply add: fun_upd_same)
    then show ?case by (simp add: run_Act prod.case_eq_if del: run.simps fun_upd_apply)
  qed
  then show ?thesis using assms by blast
qed

text \<open>
  The interface of a rely: a preorder on the shared state.  The rules below are proved once
  here and hold for every rely that is interpreted.
\<close>

locale rely =
  fixes R :: "'s \<Rightarrow> 's \<Rightarrow> bool"
  assumes rely_refl: "R s s"
    and rely_trans: "R s1 s2 \<Longrightarrow> R s2 s3 \<Longrightarrow> R s1 s3"
begin

lemma reflp_R: "reflp R"
  by (rule reflpI) (rule rely_refl)

lemma transp_R: "transp R"
  by (rule transpI) (rule rely_trans)

lemma stable: "wp R Q p s \<Longrightarrow> R s s' \<Longrightarrow> wp R Q p s'"
  using transp_R by (rule wp_stable)

lemma wp_pure: "wp R Q (pure a) s \<longleftrightarrow> (\<forall>s'. R s s' \<longrightarrow> Q (Inr a) s')"
  by (simp add: pure_def)

lemma wp_throw: "wp R Q (throw e) s \<longleftrightarrow> (\<forall>s'. R s s' \<longrightarrow> Q (Inl e) s')"
  by (simp add: throw_def)

lemma wp_atomically:
  "wp R Q (atomically f) s \<longleftrightarrow>
     (\<forall>s1. R s s1 \<longrightarrow> R s1 (fst (f s1)) \<and> (\<forall>s2. R (fst (f s1)) s2 \<longrightarrow> Q (snd (f s1)) s2))"
  by (simp add: atomically_def wp_Act prod.case_eq_if del: wp.simps(2))

lemma wp_query:
  "wp R Q (query f) s \<longleftrightarrow> (\<forall>s1 s2. R s s1 \<longrightarrow> R s1 s2 \<longrightarrow> Q (Inr (f s1)) s2)"
  by (auto simp: query_def wp_atomically rely_refl)

text \<open>When the postcondition only needs that the state has moved within \<open>R\<close>.\<close>

lemma wp_queryI: "(\<And>s1 s2. R s s1 \<Longrightarrow> R s1 s2 \<Longrightarrow> R s s2 \<Longrightarrow> Q (Inr (f s1)) s2) \<Longrightarrow> wp R Q (query f) s"
  by (auto simp: wp_query intro: rely_trans)

lemma wp_atomicallyI:
  "(\<And>s1. R s s1 \<Longrightarrow> R s1 (fst (f s1))) \<Longrightarrow>
   (\<And>s1 s2. R s s1 \<Longrightarrow> R (fst (f s1)) s2 \<Longrightarrow> Q (snd (f s1)) s2) \<Longrightarrow> wp R Q (atomically f) s"
  by (simp add: wp_atomically)

lemma wp_weaken: "wp R Q' p s \<Longrightarrow> (\<And>a s'. Q' a s' \<Longrightarrow> Q a s') \<Longrightarrow> wp R Q p s"
  by (rule wp_mono)

lemma wp_await:
  "wp R Q (await m k) s \<longleftrightarrow>
     wp R (\<lambda>r s'. case r of Inl e \<Rightarrow> wp R Q (Ret (Inl e)) s' | Inr a \<Rightarrow> wp R Q (k a) s') m s"
  by (simp add: await_def wp_pbind [OF reflp_R transp_R] sum.case_distrib [where h = "\<lambda>p. wp R Q p _"])

lemma wp_try_catch:
  "wp R Q (try_catch m h) s \<longleftrightarrow>
     wp R (\<lambda>r s'. case r of Inl e \<Rightarrow> wp R Q (h e) s' | Inr a \<Rightarrow> wp R Q (Ret (Inr a)) s') m s"
  by (simp add: try_catch_def wp_pbind [OF reflp_R transp_R] sum.case_distrib [where h = "\<lambda>p. wp R Q p _"])

lemma wp_awaitI:
  assumes "wp R (\<lambda>r s'. case r of Inl e \<Rightarrow> \<forall>s2. R s' s2 \<longrightarrow> Q (Inl e) s2 | Inr a \<Rightarrow> wp R Q (k a) s') m s"
  shows "wp R Q (await m k) s"
  using assms unfolding wp_await wp.simps(1) .

lemma wp_try_catchI:
  assumes "wp R (\<lambda>r s'. case r of Inl e \<Rightarrow> wp R Q (h e) s' | Inr a \<Rightarrow> \<forall>s2. R s' s2 \<longrightarrow> Q (Inr a) s2) m s"
  shows "wp R Q (try_catch m h) s"
  using assms unfolding wp_try_catch wp.simps(1) .

text \<open>A program proved by \<open>wp\<close> meets its postcondition against every environment within \<open>R\<close>.\<close>

lemma run_env_sound:
  assumes "wp R Q p s" and "\<And>e s. e \<in> set es \<Longrightarrow> R s (e s)"
  shows "R s (snd (snd (run_env p es s))) \<and>
         Q (fst (run_env p es s)) (snd (snd (run_env p es s)))"
  using assms
proof (induction p arbitrary: es s)
  case (Ret a)
  then show ?case by (simp add: rely_refl)
next
  case (Act f)
  let ?s = "case es of [] \<Rightarrow> s | e # _ \<Rightarrow> e s"
  have R1: "R s ?s" using Act.prems(2) by (cases es) (auto simp: rely_refl)
  with Act.prems(1) have R2: "R ?s (fst (f ?s))" and w: "wp R Q (snd (f ?s)) (fst (f ?s))"
    by (auto simp: wp_Act simp del: wp.simps(2))
  have tl: "R s (e s)" if "e \<in> set (tl es)" for e s
    using Act.prems(2) that by (cases es) auto
  have "R (fst (f ?s)) (snd (snd (run_env (snd (f ?s)) (tl es) (fst (f ?s))))) \<and>
      Q (fst (run_env (snd (f ?s)) (tl es) (fst (f ?s)))) (snd (snd (run_env (snd (f ?s)) (tl es) (fst (f ?s)))))"
    using w tl by (rule Act.IH)
  with R1 R2 show ?case
    by (auto simp: prod.case_eq_if intro: rely_trans)
qed

lemma run_sound:
  assumes "wp R Q p s"
  shows "R s (snd (run p s)) \<and> Q (fst (run p s)) (snd (run p s))"
  using run_env_sound [OF assms, of "[]"] by (simp add: run_env_idle)

text \<open>
  The main rule: when every thread of a pool satisfies its \<open>wp\<close>, then after any interleaving
  the state has moved within \<open>R\<close>, and every thread still satisfies its \<open>wp\<close>; in particular a
  thread that has returned meets its postcondition.
\<close>

lemma pool_sound:
  assumes reach: "pool_reach E pl s pl' s'"
    and env: "\<And>s s'. E s s' \<Longrightarrow> R s s'"
    and wp: "\<And>i. wp R (Q i) (pl i) s"
  shows "R s s' \<and> (\<forall>i. wp R (Q i) (pl' i) s')"
  using reach
proof (induction rule: pool_reach.induct)
  case pool_start
  then show ?case using wp by (simp add: rely_refl)
next
  case (pool_next pl1 s1 pl2 s2)
  from \<open>pool_step E pl1 s1 pl2 s2\<close>
  consider (thread) i f where "pl1 i = Act f" "pl2 = pl1(i := snd (f s1))" "s2 = fst (f s1)"
    | (env) "E s1 s2" "pl2 = pl1"
    by (auto elim: pool_stepE)
  then show ?case
  proof cases
    case thread
    from pool_next.IH have "wp R (Q i) (Act f) s1" using thread(1) by metis
    then have "R s1 s2" and "wp R (Q i) (snd (f s1)) s2"
      using rely_refl thread(3) by (auto simp: wp_Act simp del: wp.simps(2))
    then show ?thesis using pool_next.IH thread(2) by (auto intro: rely_trans stable)
  next
    case env
    then show ?thesis using pool_next.IH assms(2) by (auto intro: rely_trans stable)
  qed
qed

lemma pool_returned:
  assumes "pool_reach E pl s pl' s'" and "\<And>s s'. E s s' \<Longrightarrow> R s s'"
    and "\<And>i. wp R (Q i) (pl i) s" and "pl' i = Ret a"
  shows "Q i a s'"
  using pool_sound [OF assms(1-3)] assms(4) rely_refl by (metis wp.simps(1))

end

text \<open>
  \<open>keeps R p\<close>: whatever the environment does, every step of \<open>p\<close> stays within \<open>R\<close>.  It
  composes through \<open>await\<close> and \<open>try_catch\<close> without any knowledge about intermediate states.
\<close>

definition keeps :: "('s \<Rightarrow> 's \<Rightarrow> bool) \<Rightarrow> ('s, 'a) proc \<Rightarrow> bool" where
  "keeps R p \<longleftrightarrow> (\<forall>s. wp R (\<lambda>_ _. True) p s)"

named_theorems keeps_intros "how a guarantee composes"

lemma keeps_pbind:
  assumes "keeps R m" and "\<And>r. keeps R (k r)"
  shows "keeps R (pbind m k)"
proof -
  have "wp R (\<lambda>_ _. True) (pbind m k) s" if "wp R (\<lambda>_ _. True) m s" for s
    using that
  proof (induction m arbitrary: s)
    case (Ret a)
    then show ?case using assms(2) by (simp add: keeps_def)
  next
    case (Act f)
    then show ?case by (simp add: wp_Act prod.case_eq_if)
  qed
  then show ?thesis using assms(1) by (simp add: keeps_def)
qed

lemma keeps_Ret: "keeps R (Ret a)"
  by (simp add: keeps_def)

lemma keeps_pure [keeps_intros]: "keeps R (pure a)"
  by (simp add: pure_def keeps_Ret)

lemma keeps_throw [keeps_intros]: "keeps R (throw e)"
  by (simp add: throw_def keeps_Ret)

lemma keeps_lift_result [keeps_intros]: "keeps R (lift_result r)"
  by (simp add: lift_result_def keeps_Ret)

lemma keeps_await [keeps_intros]: "keeps R m \<Longrightarrow> (\<And>a. keeps R (k a)) \<Longrightarrow> keeps R (await m k)"
  unfolding await_def by (rule keeps_pbind) (auto intro: keeps_Ret split: sum.split)

lemma keeps_try_catch [keeps_intros]:
  "keeps R m \<Longrightarrow> (\<And>e. keeps R (h e)) \<Longrightarrow> keeps R (try_catch m h)"
  unfolding try_catch_def by (rule keeps_pbind) (auto intro: keeps_Ret split: sum.split)

lemma keeps_atomically: "(\<And>s. R s (fst (f s))) \<Longrightarrow> keeps R (atomically f)"
  by (simp add: keeps_def atomically_def wp_Act prod.case_eq_if)

lemma keeps_query [keeps_intros]: "reflp R \<Longrightarrow> keeps R (query f)"
  unfolding query_def by (rule keeps_atomically) (simp add: reflpD)

lemma keeps_if [keeps_intros]:
  "(b \<Longrightarrow> keeps R p) \<Longrightarrow> (\<not> b \<Longrightarrow> keeps R q) \<Longrightarrow> keeps R (if b then p else q)"
  by simp

lemma keeps_option [keeps_intros]:
  "(x = None \<Longrightarrow> keeps R p) \<Longrightarrow> (\<And>a. x = Some a \<Longrightarrow> keeps R (q a)) \<Longrightarrow>
     keeps R (case x of None \<Rightarrow> p | Some a \<Rightarrow> q a)"
  by (simp split: option.split)

lemma keeps_Let [keeps_intros]: "keeps R (f x) \<Longrightarrow> keeps R (Let x f)"
  by simp

lemma keeps_wp: "keeps R p \<Longrightarrow> wp R (\<lambda>_ _. True) p s"
  by (simp add: keeps_def)

text \<open>A step that keeps the rely is followed from a state later than the one before it.\<close>

context rely begin

lemma keeps_later:
  assumes "keeps R p"
  shows "wp R (\<lambda>_ s'. R s s') p s"
proof -
  have "wp R (\<lambda>_ s'. R s s') p s1" if "R s s1" "wp R (\<lambda>_ _. True) p s1" for s1
    using that
  proof (induction p arbitrary: s1)
    case (Ret a)
    then show ?case by (auto intro: rely_trans)
  next
    case (Act f)
    have "wp R (\<lambda>_ s'. R s s') (snd (f s2)) (fst (f s2))" if "R s1 s2" for s2
      using Act.prems that by (intro Act.IH) (auto simp: wp_Act simp del: wp.simps(2) intro: rely_trans)
    then show ?case using Act.prems(2) by (simp add: wp_Act del: wp.simps(2))
  qed
  then show ?thesis using assms rely_refl by (simp add: keeps_def)
qed

lemma wp_await_later:
  assumes "keeps R m" and "\<And>a s'. R s s' \<Longrightarrow> wp R Q (k a) s'" and "\<And>e s'. R s s' \<Longrightarrow> Q (Inl e) s'"
  shows "wp R Q (await m k) s"
  by (rule wp_awaitI, rule wp_weaken [OF keeps_later [OF assms(1)]])
    (use assms(2,3) rely_trans in \<open>auto split: sum.split\<close>)

lemma wp_await_keeps:
  assumes "wp R (\<lambda>_ _. True) m s" and "\<And>a. keeps R (k a)"
  shows "wp R (\<lambda>_ _. True) (await m k) s"
  by (rule wp_awaitI, rule wp_weaken [OF assms(1)]) (use assms(2) in \<open>auto simp: keeps_def split: sum.split\<close>)

end

section \<open>Association lists as collections\<close>

text \<open>
  A collection of the database with a unique key is an association list from that key to the
  document, in insertion order; \<open>AList.update\<close> writes a document, \<open>AList.delete\<close> removes it.
\<close>

declare update_conv' [simp] delete_conv' [simp]

lemma map_of_append_new: "map_of xs k = None \<Longrightarrow> map_of (xs @ [(k, v)]) = (map_of xs)(k \<mapsto> v)"
  by (auto simp: map_add_def fun_eq_iff split: option.splits)

section \<open>Numbers and strings of the source language\<close>

text \<open>
  A number that arrives from a caller is finite, an infinity or \<open>NaN\<close>; comparisons with
  \<open>NaN\<close> are false.  Balances and amounts that have passed validation are rationals: the
  rounding of IEEE doubles is not modelled.
\<close>

datatype js_number = Finite rat | PosInfinity | NegInfinity | NaN

fun js_less :: "js_number \<Rightarrow> js_number \<Rightarrow> bool" where
  "js_less (Finite a) (Finite b) = (a < b)"
| "js_less NaN _ = False"
| "js_less _ NaN = False"
| "js_less NegInfinity b = (b \<noteq> NegInfinity)"
| "js_less _ NegInfinity = False"
| "js_less _ PosInfinity = True"
| "js_less PosInfinity _ = False"

definition js_le :: "js_number \<Rightarrow> js_number \<Rightarrow> bool" where
  "js_le a b \<longleftrightarrow> js_less a b \<or> (a = b \<and> a \<noteq> NaN)"

definition js_is_finite :: "js_number \<Rightarrow> bool" where
  "js_is_finite a \<longleftrightarrow> (case a of Finite _ \<Rightarrow> True | _ \<Rightarrow> False)"

text \<open>Values of type \<open>unknown\<close> in a metadata object.\<close>

datatype json =
    JUndefined
  | JNull
  | JBool bool
  | JNum rat
  | JStr string
  | JArr "json list"
  | JObj "(string \<times> json) list"

type_synonym metadata = "(string \<times> json) list"

fun digit_char :: "nat \<Rightarrow> char" where
  "digit_char n = char_of (48 + n mod 10)"

fun show_nat :: "nat \<Rightarrow> string" where
  "show_nat n = (if n < 10 then [digit_char n] else show_nat (n div 10) @ [digit_char n])"

declare show_nat.simps [simp del]

definition lower_char :: "char \<Rightarrow> char" where
  "lower_char c = (let n = (of_char c :: nat) in if 65 \<le> n \<and> n \<le> 90 then char_of (n + 32) else c)"

definition to_lower :: "string \<Rightarrow> string" where
  "to_lower s = map lower_char s"

definition is_space :: "char \<Rightarrow> bool" where
  "is_space c \<longleftrightarrow> (of_char c :: nat) \<in> {9, 10, 11, 12, 13, 32}"

definition trim :: "string \<Rightarrow> string" where
  "trim s = rev (dropWhile is_space (rev (dropWhile is_space s)))"

end
