(* ===== verification/Domain_Types.thy ===== *)
theory Domain_Types
  imports RRR_Prelude
begin

text \<open>
  The data of the reward system: enumerations, request and response objects, events and the
  errors the services throw (\<open>src/wallets/types\<close>, \<open>src/services/types\<close>, \<open>src/ledger/types.ts\<close>,
  \<open>src/events/types.ts\<close>).  Field names carry a short prefix per record, because the fields
  of two Isabelle records may not share a name.  A \<open>Date\<close> is its number of milliseconds.
\<close>

section \<open>Enumerations (wallets/types/domain.types.ts)\<close>

datatype transaction_type = CREDIT | DEBIT

datatype account_type = User | Model

datatype balance_state = Available | Escrow | Earned

datatype escrow_status = Held | Settling | Settled | Refunding | Refunded | Partial_settling

datatype transaction_reason =
    USER_SIGNUP_BONUS
  | REFERRAL_BONUS
  | PROMOTIONAL_AWARD
  | ADMIN_CREDIT
  | CHIP_MENU_PURCHASE
  | SPIN_WHEEL_PLAY
  | PERFORMANCE_REQUEST
  | PERFORMANCE_COMPLETED
  | PARTIAL_PERFORMANCE
  | PERFORMANCE_ABANDONED
  | USER_DISCONNECTED
  | MODEL_INITIATED_REFUND
  | ROPE_DROP_TIMEOUT
  | ADMIN_REFUND
  | POINT_EXPIRY
  | ADMIN_DEBIT
  | CHARGEBACK

fun reason_string :: "transaction_reason \<Rightarrow> string" where
  "reason_string USER_SIGNUP_BONUS = ''user_signup_bonus''"
| "reason_string REFERRAL_BONUS = ''referral_bonus''"
| "reason_string PROMOTIONAL_AWARD = ''promotional_award''"
| "reason_string ADMIN_CREDIT = ''admin_credit''"
| "reason_string CHIP_MENU_PURCHASE = ''chip_menu_purchase''"
| "reason_string SPIN_WHEEL_PLAY = ''spin_wheel_play''"
| "reason_string PERFORMANCE_REQUEST = ''performance_request''"
| "reason_string PERFORMANCE_COMPLETED = ''performance_completed''"
| "reason_string PARTIAL_PERFORMANCE = ''partial_performance''"
| "reason_string PERFORMANCE_ABANDONED = ''performance_abandoned''"
| "reason_string USER_DISCONNECTED = ''user_disconnected''"
| "reason_string MODEL_INITIATED_REFUND = ''model_initiated_refund''"
| "reason_string ROPE_DROP_TIMEOUT = ''rope_drop_timeout''"
| "reason_string ADMIN_REFUND = ''admin_refund''"
| "reason_string POINT_EXPIRY = ''point_expiry''"
| "reason_string ADMIN_DEBIT = ''admin_debit''"
| "reason_string CHARGEBACK = ''chargeback''"

lemma reason_string_nonempty [simp]: "reason_string r \<noteq> []"
  by (cases r) simp_all

lemma reason_string_short [simp]: "length (reason_string r) \<le> 128"
  by (cases r) simp_all

section \<open>Errors (services/types/error.types.ts and the messages thrown by the services)\<close>

text \<open>
  The first group are the subclasses of \<open>WalletServiceError\<close>, the second what the database
  driver rejects with (error code 11000 on a unique index, a failed schema validator); the
  others stand for \<open>new Error(...)\<close> with a message that interpolates the arguments, and \<open>Plain\<close>
  for a constant message.
\<close>

datatype error =
    InsufficientBalanceError rat rat
  | EscrowNotFoundError string
  | EscrowAlreadyProcessedError string escrow_status
  | InvalidAuthorizationError string
  | OptimisticLockError string string
  | IdempotencyConflictError string
  | DuplicateKeyError string
  | ValidationError string
  | BadRequestError string
  | PiiFieldError string
  | PiiEmailError string
  | CreditNotPositive rat
  | DeductNotPositive rat
  | DeductInsufficient string rat rat
  | LockRetriesExhausted nat string
  | AmountBelowMinimum rat
  | AmountAboveMaximum rat
  | InvalidEarningReason transaction_reason
  | InvalidDebitReason transaction_reason
  | InvalidRedemptionReason transaction_reason
  | InvalidFeatureType string
  | WalletMissing string
  | BalanceTooLow string rat rat
  | RedemptionBalanceTooLow rat rat
  | NoEarnRateConfig string string string string
  | NoTierCapConfig string string string
  | TierCapExceeded rat rat rat string
  | AdjustmentTooLarge rat
  | RefundTooLarge rat
  | RetriesOutOfFuel
  | Plain string

definition is_optimistic_lock :: "error \<Rightarrow> bool" where
  "is_optimistic_lock e \<longleftrightarrow> (case e of OptimisticLockError _ _ \<Rightarrow> True | _ \<Rightarrow> False)"

text \<open>The \<open>code\<close> and \<open>statusCode\<close> a \<open>WalletServiceError\<close> carries; no other error has them.\<close>

definition wallet_service_error :: "error \<Rightarrow> (string \<times> nat) option" where
  "wallet_service_error e =
     (case e of
        InsufficientBalanceError _ _ \<Rightarrow> Some (''INSUFFICIENT_BALANCE'', 402)
      | EscrowNotFoundError _ \<Rightarrow> Some (''ESCROW_NOT_FOUND'', 404)
      | EscrowAlreadyProcessedError _ _ \<Rightarrow> Some (''ESCROW_ALREADY_PROCESSED'', 409)
      | InvalidAuthorizationError _ \<Rightarrow> Some (''INVALID_AUTHORIZATION'', 403)
      | OptimisticLockError _ _ \<Rightarrow> Some (''OPTIMISTIC_LOCK_CONFLICT'', 409)
      | IdempotencyConflictError _ \<Rightarrow> Some (''IDEMPOTENCY_CONFLICT'', 200)
      | _ \<Rightarrow> None)"

section \<open>Escrow requests and responses (wallets/types/escrow.types.ts)\<close>

record escrow_hold_request =
  hr_userId :: string
  hr_amount :: rat
  hr_reason :: transaction_reason
  hr_queueItemId :: string
  hr_featureType :: string
  hr_idempotencyKey :: string
  hr_requestId :: string
  hr_metadata :: "metadata option"

record escrow_hold_response =
  hs_transactionId :: string
  hs_escrowId :: string
  hs_previousBalance :: rat
  hs_newAvailableBalance :: rat
  hs_escrowBalance :: rat
  hs_timestamp :: int

record escrow_settle_request =
  sr_escrowId :: string
  sr_modelId :: string
  sr_amount :: rat
  sr_queueItemId :: string
  sr_reason :: transaction_reason
  sr_authorizationToken :: string
  sr_idempotencyKey :: string
  sr_requestId :: string
  sr_metadata :: "metadata option"

record escrow_settle_response =
  ss_transactionId :: string
  ss_settledAmount :: rat
  ss_modelEarnedBalance :: rat
  ss_timestamp :: int

record escrow_refund_request =
  rr_escrowId :: string
  rr_userId :: string
  rr_amount :: rat
  rr_queueItemId :: string
  rr_reason :: transaction_reason
  rr_authorizationToken :: string
  rr_idempotencyKey :: string
  rr_requestId :: string
  rr_metadata :: "metadata option"

record escrow_refund_response =
  rs_transactionId :: string
  rs_refundedAmount :: rat
  rs_userAvailableBalance :: rat
  rs_timestamp :: int

record escrow_partial_settle_request =
  pr_escrowId :: string
  pr_userId :: string
  pr_modelId :: string
  pr_refundAmount :: rat
  pr_settleAmount :: rat
  pr_queueItemId :: string
  pr_reason :: transaction_reason
  pr_authorizationToken :: string
  pr_idempotencyKey :: string
  pr_requestId :: string
  pr_metadata :: "metadata option"

record escrow_partial_settle_response =
  ps_transactionId :: string
  ps_refundedAmount :: rat
  ps_settledAmount :: rat
  ps_userAvailableBalance :: rat
  ps_modelEarnedBalance :: rat
  ps_timestamp :: int

section \<open>Queue authorizations (services/types/queue.types.ts)\<close>

record queue_settlement_authorization =
  qs_queueItemId :: string
  qs_token :: string
  qs_escrowId :: string
  qs_modelId :: string
  qs_amount :: rat
  qs_reason :: transaction_reason
  qs_issuedAt :: int
  qs_expiresAt :: int

record queue_refund_authorization =
  qr_queueItemId :: string
  qr_token :: string
  qr_escrowId :: string
  qr_userId :: string
  qr_amount :: rat
  qr_reason :: transaction_reason
  qr_issuedAt :: int
  qr_expiresAt :: int

record queue_partial_settlement_authorization =
  qp_queueItemId :: string
  qp_token :: string
  qp_escrowId :: string
  qp_userId :: string
  qp_modelId :: string
  qp_refundAmount :: rat
  qp_settleAmount :: rat
  qp_reason :: transaction_reason
  qp_issuedAt :: int
  qp_expiresAt :: int

section \<open>Ledger requests and results (ledger/types.ts)\<close>

text \<open>A falsy \<open>reason\<close> is \<open>None\<close>; \<open>createEntry\<close> checks for it.\<close>

record create_ledger_entry_request =
  cr_transactionId :: "string option"
  cr_accountId :: string
  cr_accountType :: account_type
  cr_amount :: rat
  cr_type :: transaction_type
  cr_balanceState :: balance_state
  cr_stateTransition :: string
  cr_reason :: "transaction_reason option"
  cr_idempotencyKey :: string
  cr_requestId :: string
  cr_balanceBefore :: rat
  cr_balanceAfter :: rat
  cr_currency :: "string option"
  cr_metadata :: "metadata option"
  cr_escrowId :: "string option"
  cr_queueItemId :: "string option"
  cr_featureType :: "string option"
  cr_correlationId :: "string option"

datatype sort_field = By_timestamp | By_amount

datatype sort_order = Asc | Desc

record ledger_query_filter =
  f_accountId :: "string option"
  f_accountType :: "account_type option"
  f_type :: "transaction_type option"
  f_reason :: "transaction_reason option"
  f_balanceState :: "balance_state option"
  f_escrowId :: "string option"
  f_queueItemId :: "string option"
  f_featureType :: "string option"
  f_startDate :: "int option"
  f_endDate :: "int option"
  f_offset :: "nat option"
  f_limit :: "nat option"
  f_sortBy :: "sort_field option"
  f_sortOrder :: "sort_order option"
  f_tenantId :: "string option"

record balance_snapshot =
  bs_accountId :: string
  bs_accountType :: account_type
  bs_availableBalance :: rat
  bs_escrowBalance :: "rat option"
  bs_earnedBalance :: "rat option"
  bs_asOf :: int
  bs_currency :: string

record reconciliation_report =
  rc_accountId :: string
  rc_accountType :: account_type
  rc_startingBalance :: rat
  rc_totalCredits :: rat
  rc_totalDebits :: rat
  rc_calculatedBalance :: rat
  rc_actualBalance :: rat
  rc_difference :: rat
  rc_reconciled :: bool
  rc_reportedAt :: int
  rc_start :: int
  rc_end :: int

section \<open>Events (events/types.ts)\<close>

datatype wallet_event_type =
    BALANCE_UPDATED
  | ESCROW_HELD
  | ESCROW_SETTLED
  | ESCROW_REFUNDED
  | ESCROW_PARTIAL_SETTLED
  | LEDGER_ENTRY_CREATED

record base_reward_event =
  ev_eventId :: string
  ev_eventType :: wallet_event_type
  ev_idempotencyKey :: string
  ev_timestamp :: int
  ev_correlationId :: "string option"
  ev_source :: string
  ev_version :: string

record balance_updated_event = base_reward_event +
  bu_accountId :: string
  bu_accountType :: account_type
  bu_balanceState :: balance_state
  bu_balanceBefore :: rat
  bu_balanceAfter :: rat
  bu_changeAmount :: rat
  bu_reason :: string
  bu_transactionId :: string
  bu_ledgerEntryId :: string
  bu_metadata :: "metadata option"

record escrow_held_event = base_reward_event +
  eh_userId :: string
  eh_escrowId :: string
  eh_amount :: rat
  eh_reason :: string
  eh_queueItemId :: string
  eh_featureType :: string
  eh_transactionId :: string
  eh_userAvailableBalance :: rat
  eh_userEscrowBalance :: rat
  eh_metadata :: "metadata option"

record escrow_settled_event = base_reward_event +
  es_userId :: string
  es_modelId :: string
  es_escrowId :: string
  es_amount :: rat
  es_reason :: string
  es_queueItemId :: string
  es_transactionId :: string
  es_modelEarnedBalance :: rat
  es_metadata :: "metadata option"

record escrow_refunded_event = base_reward_event +
  er_userId :: string
  er_escrowId :: string
  er_amount :: rat
  er_reason :: string
  er_queueItemId :: string
  er_transactionId :: string
  er_userAvailableBalance :: rat
  er_userEscrowBalance :: rat
  er_metadata :: "metadata option"

record escrow_partial_settled_event = base_reward_event +
  ep_userId :: string
  ep_modelId :: string
  ep_escrowId :: string
  ep_refundAmount :: rat
  ep_settleAmount :: rat
  ep_reason :: string
  ep_queueItemId :: string
  ep_transactionId :: string
  ep_userAvailableBalance :: rat
  ep_userEscrowBalance :: rat
  ep_modelEarnedBalance :: rat
  ep_metadata :: "metadata option"

datatype reward_event =
    BalanceUpdatedEvent balance_updated_event
  | EscrowHeldEvent escrow_held_event
  | EscrowSettledEvent escrow_settled_event
  | EscrowRefundedEvent escrow_refunded_event
  | EscrowPartialSettledEvent escrow_partial_settled_event
  | LedgerEntryCreatedEvent base_reward_event

text \<open>The fields every event has.\<close>

fun base_of :: "reward_event \<Rightarrow> base_reward_event" where
  "base_of (BalanceUpdatedEvent e) = base_reward_event.truncate e"
| "base_of (EscrowHeldEvent e) = base_reward_event.truncate e"
| "base_of (EscrowSettledEvent e) = base_reward_event.truncate e"
| "base_of (EscrowRefundedEvent e) = base_reward_event.truncate e"
| "base_of (EscrowPartialSettledEvent e) = base_reward_event.truncate e"
| "base_of (LedgerEntryCreatedEvent e) = e"

end
