(* ===== verification/Doc_Store.thy ===== *)
theory Doc_Store
  imports Domain_Types
begin

text \<open>
  The documents of the database with the validators of their schemas (\<open>src/db/models\<close>), the
  shared state of the wallet side of the system, and the atomic calls of the database driver
  that the services make on it.

  The database is part of the modelled state.  What the model takes from it is documented
  behaviour: every call below works on one document and is atomic; an insert that repeats the
  key of a unique index is rejected with error 11000 (\<open>DuplicateKeyError\<close>); \<open>create\<close> runs the
  schema validators (\<open>ValidationError\<close>) and the update calls do not; \<open>required\<close> refuses the
  empty string.  The trimming of strings, the bookkeeping fields \<open>createdAt\<close>/\<open>updatedAt\<close> of the
  \<open>timestamps\<close> option and failures of the connection are not modelled.
\<close>

section \<open>Schema validators\<close>

definition required_string :: "nat \<Rightarrow> string \<Rightarrow> bool" where
  "required_string n s \<longleftrightarrow> s \<noteq> [] \<and> length s \<le> n"

definition optional_string :: "nat \<Rightarrow> string option \<Rightarrow> bool" where
  "optional_string n s \<longleftrightarrow> (case s of None \<Rightarrow> True | Some x \<Rightarrow> length x \<le> n)"

section \<open>Documents\<close>

subsection \<open>Wallets (db/models/wallet.model.ts)\<close>

record wallet =
  w_userId :: string
  w_availableBalance :: rat
  w_escrowBalance :: rat
  w_currency :: string
  w_version :: nat

definition valid_wallet :: "wallet \<Rightarrow> bool" where
  "valid_wallet w \<longleftrightarrow>
     required_string 128 (w_userId w) \<and> 0 \<le> w_availableBalance w \<and> 0 \<le> w_escrowBalance w \<and>
     required_string 16 (w_currency w)"

subsection \<open>Model wallets (db/models/model-wallet.model.ts)\<close>

datatype model_wallet_type = Promotional | Earnings

record model_wallet =
  m_modelId :: string
  m_earnedBalance :: rat
  m_currency :: string
  m_type :: model_wallet_type
  m_version :: nat

definition valid_model_wallet :: "model_wallet \<Rightarrow> bool" where
  "valid_model_wallet m \<longleftrightarrow>
     required_string 128 (m_modelId m) \<and> 0 \<le> m_earnedBalance m \<and> required_string 16 (m_currency m)"

subsection \<open>Escrow items (db/models/escrow-item.model.ts)\<close>

record escrow_item =
  e_escrowId :: string
  e_userId :: string
  e_amount :: rat
  e_status :: escrow_status
  e_queueItemId :: string
  e_featureType :: string
  e_reason :: transaction_reason
  e_metadata :: "metadata option"
  e_createdAt :: int
  e_processedAt :: "int option"
  e_modelId :: "string option"

definition valid_escrow_item :: "escrow_item \<Rightarrow> bool" where
  "valid_escrow_item e \<longleftrightarrow>
     required_string 128 (e_escrowId e) \<and> required_string 128 (e_userId e) \<and>
     0 \<le> e_amount e \<and> required_string 128 (e_queueItemId e) \<and>
     required_string 64 (e_featureType e) \<and> required_string 128 (reason_string (e_reason e)) \<and>
     optional_string 128 (e_modelId e)"

subsection \<open>Ledger entries (db/models/ledger-entry.model.ts)\<close>

record ledger_entry =
  l_entryId :: string
  l_transactionId :: string
  l_accountId :: string
  l_accountType :: account_type
  l_amount :: rat
  l_type :: transaction_type
  l_balanceState :: balance_state
  l_stateTransition :: string
  l_reason :: transaction_reason
  l_idempotencyKey :: string
  l_requestId :: string
  l_balanceBefore :: rat
  l_balanceAfter :: rat
  l_timestamp :: int
  l_currency :: string
  l_metadata :: "metadata option"
  l_escrowId :: "string option"
  l_queueItemId :: "string option"
  l_featureType :: "string option"
  l_correlationId :: "string option"
  l_tenant_id :: "string option"

definition valid_ledger_entry :: "ledger_entry \<Rightarrow> bool" where
  "valid_ledger_entry l \<longleftrightarrow>
     required_string 128 (l_entryId l) \<and> required_string 128 (l_transactionId l) \<and>
     required_string 128 (l_accountId l) \<and> required_string 128 (l_stateTransition l) \<and>
     required_string 128 (reason_string (l_reason l)) \<and>
     required_string 256 (l_idempotencyKey l) \<and> required_string 128 (l_requestId l) \<and>
     required_string 16 (l_currency l) \<and>
     optional_string 128 (l_escrowId l) \<and> optional_string 128 (l_queueItemId l) \<and>
     optional_string 64 (l_featureType l) \<and> optional_string 128 (l_correlationId l) \<and>
     optional_string 128 (l_tenant_id l)"

subsection \<open>Idempotency records (db/models/idempotency.model.ts)\<close>

text \<open>The unique index is on the pair \<open>(pointsIdempotencyKey, eventScope)\<close>.\<close>

record idempotency_record =
  i_pointsIdempotencyKey :: string
  i_eventScope :: string
  i_resultHash :: string
  i_storedResult :: "json option"
  i_retentionUntil :: "int option"
  i_expiresAt :: "int option"
  i_tenant_id :: "string option"

definition valid_idempotency_record :: "idempotency_record \<Rightarrow> bool" where
  "valid_idempotency_record i \<longleftrightarrow>
     required_string 256 (i_pointsIdempotencyKey i) \<and> required_string 128 (i_eventScope i) \<and>
     required_string 512 (i_resultHash i) \<and> optional_string 128 (i_tenant_id i)"

section \<open>The shared state\<close>

text \<open>
  \<open>published\<close> is the sequence of events handed to the event bus; \<open>clock\<close> is what \<open>new Date()\<close>
  reads; \<open>uuids\<close> is the stream of values that \<open>uuidv4()\<close> returns, a parameter of the model,
  and \<open>uuid_count\<close> how many of them have been drawn.
\<close>

record store =
  wallets :: "(string \<times> wallet) list"
  model_wallets :: "(string \<times> model_wallet) list"
  escrow_items :: "(string \<times> escrow_item) list"
  ledger_entries :: "ledger_entry list"
  idempotency_records :: "((string \<times> string) \<times> idempotency_record) list"
  published :: "reward_event list"
  clock :: int
  uuids :: "nat \<Rightarrow> string"
  uuid_count :: nat

type_synonym 'a svc = "(store, error, 'a) io"

definition uuidv4 :: "string svc" where
  "uuidv4 = atomically (\<lambda>s. (s\<lparr>uuid_count := Suc (uuid_count s)\<rparr>, Inr (uuids s (uuid_count s))))"

definition new_date :: "int svc" where
  "new_date = query clock"

definition publish_event :: "reward_event \<Rightarrow> unit svc" where
  "publish_event ev = atomically (\<lambda>s. (s\<lparr>published := published s @ [ev]\<rparr>, Inr ()))"

subsection \<open>Calls on the wallets\<close>

abbreviation wallet_of :: "store \<Rightarrow> string \<Rightarrow> wallet option" where
  "wallet_of s u \<equiv> map_of (wallets s) u"

abbreviation model_wallet_of :: "store \<Rightarrow> string \<Rightarrow> model_wallet option" where
  "model_wallet_of s m \<equiv> map_of (model_wallets s) m"

abbreviation escrow_of :: "store \<Rightarrow> string \<Rightarrow> escrow_item option" where
  "escrow_of s e \<equiv> map_of (escrow_items s) e"

definition wallet_findOne :: "string \<Rightarrow> wallet option svc" where
  "wallet_findOne u = query (\<lambda>s. wallet_of s u)"

definition wallet_create :: "wallet \<Rightarrow> wallet svc" where
  "wallet_create w = atomically (\<lambda>s.
     if \<not> valid_wallet w then (s, Inl (ValidationError ''Wallet''))
     else if wallet_of s (w_userId w) \<noteq> None then (s, Inl (DuplicateKeyError ''userId''))
     else (s\<lparr>wallets := AList.update (w_userId w) w (wallets s)\<rparr>, Inr w))"

text \<open>
  \<open>findOneAndUpdate({userId, ...}, change, {new: true})\<close>: when the document of this user meets
  the rest of the filter it is changed and returned.
\<close>

definition wallet_findOneAndUpdate ::
  "string \<Rightarrow> (wallet \<Rightarrow> bool) \<Rightarrow> (wallet \<Rightarrow> wallet) \<Rightarrow> wallet option svc" where
  "wallet_findOneAndUpdate u filt change = atomically (\<lambda>s.
     case wallet_of s u of
       None \<Rightarrow> (s, Inr None)
     | Some w \<Rightarrow>
         if filt w then (s\<lparr>wallets := AList.update u (change w) (wallets s)\<rparr>, Inr (Some (change w)))
         else (s, Inr None))"

definition model_wallet_findOne :: "string \<Rightarrow> model_wallet option svc" where
  "model_wallet_findOne m = query (\<lambda>s. model_wallet_of s m)"

definition model_wallet_create :: "model_wallet \<Rightarrow> model_wallet svc" where
  "model_wallet_create m = atomically (\<lambda>s.
     if \<not> valid_model_wallet m then (s, Inl (ValidationError ''ModelWallet''))
     else if model_wallet_of s (m_modelId m) \<noteq> None then (s, Inl (DuplicateKeyError ''modelId''))
     else (s\<lparr>model_wallets := AList.update (m_modelId m) m (model_wallets s)\<rparr>, Inr m))"

definition model_wallet_findOneAndUpdate ::
  "string \<Rightarrow> (model_wallet \<Rightarrow> bool) \<Rightarrow> (model_wallet \<Rightarrow> model_wallet) \<Rightarrow> model_wallet option svc" where
  "model_wallet_findOneAndUpdate m filt change = atomically (\<lambda>s.
     case model_wallet_of s m of
       None \<Rightarrow> (s, Inr None)
     | Some w \<Rightarrow>
         if filt w
         then (s\<lparr>model_wallets := AList.update m (change w) (model_wallets s)\<rparr>, Inr (Some (change w)))
         else (s, Inr None))"

subsection \<open>Calls on the escrow items\<close>

definition escrow_findOne :: "string \<Rightarrow> escrow_item option svc" where
  "escrow_findOne e = query (\<lambda>s. escrow_of s e)"

text \<open>Two unique indexes: \<open>escrowId\<close> and \<open>queueItemId\<close>.\<close>

definition escrow_create :: "escrow_item \<Rightarrow> escrow_item svc" where
  "escrow_create e = atomically (\<lambda>s.
     if \<not> valid_escrow_item e then (s, Inl (ValidationError ''EscrowItem''))
     else if escrow_of s (e_escrowId e) \<noteq> None then (s, Inl (DuplicateKeyError ''escrowId''))
     else if list_ex (\<lambda>(_, x). e_queueItemId x = e_queueItemId e) (escrow_items s)
       then (s, Inl (DuplicateKeyError ''queueItemId''))
     else (s\<lparr>escrow_items := AList.update (e_escrowId e) e (escrow_items s)\<rparr>, Inr e))"

text \<open>\<open>findOneAndUpdate(..., {new: false})\<close> returns the document as it was before the change.\<close>

definition escrow_findOneAndUpdate ::
  "string \<Rightarrow> (escrow_item \<Rightarrow> bool) \<Rightarrow> (escrow_item \<Rightarrow> escrow_item) \<Rightarrow> escrow_item option svc" where
  "escrow_findOneAndUpdate i filt change = atomically (\<lambda>s.
     case escrow_of s i of
       None \<Rightarrow> (s, Inr None)
     | Some e \<Rightarrow>
         if filt e then (s\<lparr>escrow_items := AList.update i (change e) (escrow_items s)\<rparr>, Inr (Some e))
         else (s, Inr None))"

definition escrow_updateOne :: "string \<Rightarrow> (escrow_item \<Rightarrow> escrow_item) \<Rightarrow> unit svc" where
  "escrow_updateOne i change = atomically (\<lambda>s.
     case escrow_of s i of
       None \<Rightarrow> (s, Inr ())
     | Some e \<Rightarrow> (s\<lparr>escrow_items := AList.update i (change e) (escrow_items s)\<rparr>, Inr ()))"

definition escrow_deleteOne :: "string \<Rightarrow> unit svc" where
  "escrow_deleteOne i = atomically (\<lambda>s.
     (s\<lparr>escrow_items := AList.delete i (escrow_items s)\<rparr>, Inr ()))"

subsection \<open>Calls on the ledger and the idempotency records\<close>

definition ledger_create :: "ledger_entry \<Rightarrow> ledger_entry svc" where
  "ledger_create l = atomically (\<lambda>s.
     if \<not> valid_ledger_entry l then (s, Inl (ValidationError ''LedgerEntry''))
     else if list_ex (\<lambda>x. l_entryId x = l_entryId l) (ledger_entries s)
       then (s, Inl (DuplicateKeyError ''entryId''))
     else if list_ex (\<lambda>x. l_idempotencyKey x = l_idempotencyKey l) (ledger_entries s)
       then (s, Inl (DuplicateKeyError ''idempotencyKey''))
     else (s\<lparr>ledger_entries := ledger_entries s @ [l]\<rparr>, Inr l))"

definition ledger_find :: "(ledger_entry \<Rightarrow> bool) \<Rightarrow> ledger_entry list svc" where
  "ledger_find filt = query (\<lambda>s. filter filt (ledger_entries s))"

definition idempotency_findOne :: "(idempotency_record \<Rightarrow> bool) \<Rightarrow> idempotency_record option svc" where
  "idempotency_findOne filt = query (\<lambda>s. find filt (map snd (idempotency_records s)))"

definition idempotency_create :: "idempotency_record \<Rightarrow> unit svc" where
  "idempotency_create i = atomically (\<lambda>s.
     if \<not> valid_idempotency_record i then (s, Inl (ValidationError ''IdempotencyRecord''))
     else if map_of (idempotency_records s) (i_pointsIdempotencyKey i, i_eventScope i) \<noteq> None
       then (s, Inl (DuplicateKeyError ''pointsIdempotencyKey''))
     else (s\<lparr>idempotency_records := AList.update (i_pointsIdempotencyKey i, i_eventScope i) i
                                      (idempotency_records s)\<rparr>, Inr ()))"

end
