(* ===== verification/Store_Rely.thy ===== *)
theory Store_Rely
  imports Doc_Store
begin

text \<open>
  How the shared state may evolve while the services run concurrently.  \<open>safe_rely\<close> says what
  every step of every service respects: versioned documents change only together with their
  version, the ledger is append-only, idempotency records are never overwritten, no wallet's
  available balance turns negative.  \<open>conserve_rely\<close> adds that no wallet's total changes.
  The locale \<open>versioned_docs\<close> is the interface of optimistic locking.
\<close>

section \<open>Executing the calls alone\<close>

lemma run_uuidv4 [run_simps]:
  "run uuidv4 s = (Inr (uuids s (uuid_count s)), s\<lparr>uuid_count := Suc (uuid_count s)\<rparr>)"
  by (simp add: uuidv4_def run_simps)

lemma run_new_date [run_simps]: "run new_date s = (Inr (clock s), s)"
  by (simp add: new_date_def run_simps)

lemma run_publish_event [run_simps]:
  "run (publish_event ev) s = (Inr (), s\<lparr>published := published s @ [ev]\<rparr>)"
  by (simp add: publish_event_def run_simps)

lemma run_wallet_findOne [run_simps]: "run (wallet_findOne u) s = (Inr (wallet_of s u), s)"
  by (simp add: wallet_findOne_def run_simps)

lemma run_wallet_create [run_simps]:
  "run (wallet_create w) s =
     (if \<not> valid_wallet w then (Inl (ValidationError ''Wallet''), s)
      else if wallet_of s (w_userId w) \<noteq> None then (Inl (DuplicateKeyError ''userId''), s)
      else (Inr w, s\<lparr>wallets := AList.update (w_userId w) w (wallets s)\<rparr>))"
  by (simp add: wallet_create_def run_simps)

lemma run_wallet_findOneAndUpdate [run_simps]:
  "run (wallet_findOneAndUpdate u filt change) s =
     (case wallet_of s u of
        None \<Rightarrow> (Inr None, s)
      | Some w \<Rightarrow>
          if filt w then (Inr (Some (change w)), s\<lparr>wallets := AList.update u (change w) (wallets s)\<rparr>)
          else (Inr None, s))"
  by (simp add: wallet_findOneAndUpdate_def run_simps split: option.split)

lemma run_model_wallet_findOne [run_simps]:
  "run (model_wallet_findOne m) s = (Inr (model_wallet_of s m), s)"
  by (simp add: model_wallet_findOne_def run_simps)

lemma run_model_wallet_create [run_simps]:
  "run (model_wallet_create m) s =
     (if \<not> valid_model_wallet m then (Inl (ValidationError ''ModelWallet''), s)
      else if model_wallet_of s (m_modelId m) \<noteq> None then (Inl (DuplicateKeyError ''modelId''), s)
      else (Inr m, s\<lparr>model_wallets := AList.update (m_modelId m) m (model_wallets s)\<rparr>))"
  by (simp add: model_wallet_create_def run_simps)

lemma run_model_wallet_findOneAndUpdate [run_simps]:
  "run (model_wallet_findOneAndUpdate m filt change) s =
     (case model_wallet_of s m of
        None \<Rightarrow> (Inr None, s)
      | Some w \<Rightarrow>
          if filt w
          then (Inr (Some (change w)), s\<lparr>model_wallets := AList.update m (change w) (model_wallets s)\<rparr>)
          else (Inr None, s))"
  by (simp add: model_wallet_findOneAndUpdate_def run_simps split: option.split)

lemma run_escrow_findOne [run_simps]: "run (escrow_findOne i) s = (Inr (escrow_of s i), s)"
  by (simp add: escrow_findOne_def run_simps)

lemma run_escrow_create [run_simps]:
  "run (escrow_create e) s =
     (if \<not> valid_escrow_item e then (Inl (ValidationError ''EscrowItem''), s)
      else if escrow_of s (e_escrowId e) \<noteq> None then (Inl (DuplicateKeyError ''escrowId''), s)
      else if list_ex (\<lambda>(_, x). e_queueItemId x = e_queueItemId e) (escrow_items s)
        then (Inl (DuplicateKeyError ''queueItemId''), s)
      else (Inr e, s\<lparr>escrow_items := AList.update (e_escrowId e) e (escrow_items s)\<rparr>))"
  by (simp add: escrow_create_def run_simps)

lemma run_escrow_findOneAndUpdate [run_simps]:
  "run (escrow_findOneAndUpdate i filt change) s =
     (case escrow_of s i of
        None \<Rightarrow> (Inr None, s)
      | Some e \<Rightarrow>
          if filt e then (Inr (Some e), s\<lparr>escrow_items := AList.update i (change e) (escrow_items s)\<rparr>)
          else (Inr None, s))"
  by (simp add: escrow_findOneAndUpdate_def run_simps split: option.split)

lemma run_escrow_updateOne [run_simps]:
  "run (escrow_updateOne i change) s =
     (case escrow_of s i of
        None \<Rightarrow> (Inr (), s)
      | Some e \<Rightarrow> (Inr (), s\<lparr>escrow_items := AList.update i (change e) (escrow_items s)\<rparr>))"
  by (simp add: escrow_updateOne_def run_simps split: option.split)

lemma run_escrow_deleteOne [run_simps]:
  "run (escrow_deleteOne i) s = (Inr (), s\<lparr>escrow_items := AList.delete i (escrow_items s)\<rparr>)"
  by (simp add: escrow_deleteOne_def run_simps)

lemma run_ledger_create [run_simps]:
  "run (ledger_create l) s =
     (if \<not> valid_ledger_entry l then (Inl (ValidationError ''LedgerEntry''), s)
      else if list_ex (\<lambda>x. l_entryId x = l_entryId l) (ledger_entries s)
        then (Inl (DuplicateKeyError ''entryId''), s)
      else if list_ex (\<lambda>x. l_idempotencyKey x = l_idempotencyKey l) (ledger_entries s)
        then (Inl (DuplicateKeyError ''idempotencyKey''), s)
      else (Inr l, s\<lparr>ledger_entries := ledger_entries s @ [l]\<rparr>))"
  by (simp add: ledger_create_def run_simps)

lemma run_ledger_find [run_simps]:
  "run (ledger_find filt) s = (Inr (filter filt (ledger_entries s)), s)"
  by (simp add: ledger_find_def run_simps)

lemma run_idempotency_findOne [run_simps]:
  "run (idempotency_findOne filt) s = (Inr (find filt (map snd (idempotency_records s))), s)"
  by (simp add: idempotency_findOne_def run_simps)

lemma run_idempotency_create [run_simps]:
  "run (idempotency_create i) s =
     (if \<not> valid_idempotency_record i then (Inl (ValidationError ''IdempotencyRecord''), s)
      else if map_of (idempotency_records s) (i_pointsIdempotencyKey i, i_eventScope i) \<noteq> None
        then (Inl (DuplicateKeyError ''pointsIdempotencyKey''), s)
      else (Inr (), s\<lparr>idempotency_records :=
              AList.update (i_pointsIdempotencyKey i, i_eventScope i) i (idempotency_records s)\<rparr>))"
  by (simp add: idempotency_create_def run_simps)

section \<open>Optimistic locking as an interface\<close>

definition docs_advance :: "('d \<Rightarrow> nat) \<Rightarrow> (string \<times> 'd) list \<Rightarrow> (string \<times> 'd) list \<Rightarrow> bool" where
  "docs_advance ver xs ys \<longleftrightarrow>
     (\<forall>k d. map_of xs k = Some d \<longrightarrow>
        (\<exists>d'. map_of ys k = Some d' \<and> ver d \<le> ver d' \<and> (ver d' = ver d \<longrightarrow> d' = d)))"

lemma docs_advance_refl: "docs_advance ver xs xs"
  by (simp add: docs_advance_def)

lemma docs_advance_trans:
  assumes "docs_advance ver xs ys" and "docs_advance ver ys zs"
  shows "docs_advance ver xs zs"
  unfolding docs_advance_def
proof (intro allI impI)
  fix k d assume "map_of xs k = Some d"
  then obtain d1 where 1: "map_of ys k = Some d1" "ver d \<le> ver d1" "ver d1 = ver d \<longrightarrow> d1 = d"
    using assms(1) by (auto simp: docs_advance_def)
  then obtain d2 where "map_of zs k = Some d2" "ver d1 \<le> ver d2" "ver d2 = ver d1 \<longrightarrow> d2 = d1"
    using assms(2) by (auto simp: docs_advance_def)
  with 1 show "\<exists>d'. map_of zs k = Some d' \<and> ver d \<le> ver d' \<and> (ver d' = ver d \<longrightarrow> d' = d)"
    by auto
qed

lemma docs_advance_update:
  "(\<And>d. map_of xs k = Some d \<Longrightarrow> ver d < ver d') \<Longrightarrow> docs_advance ver xs (AList.update k d' xs)"
  by (fastforce simp: docs_advance_def)

text \<open>The document \<open>d\<close> has been read: it is still there, or a later version of it is.\<close>

definition seen :: "('d \<Rightarrow> nat) \<Rightarrow> (string \<times> 'd) list \<Rightarrow> string \<Rightarrow> 'd \<Rightarrow> bool" where
  "seen ver ds k d \<longleftrightarrow>
     (\<exists>d'. map_of ds k = Some d' \<and> ver d \<le> ver d' \<and> (ver d' = ver d \<longrightarrow> d' = d))"

lemma seen_now: "map_of ds k = Some d \<Longrightarrow> seen ver ds k d"
  by (simp add: seen_def)

text \<open>
  The client of optimistic locking reads a document and later writes it only if the version is
  the one it read.  The provider promises that the collection advances between two states
  related by \<open>R\<close>; the client gets that a successful write replaces exactly what it read.
\<close>

locale versioned_docs = rely R for R :: "'s \<Rightarrow> 's \<Rightarrow> bool" +
  fixes docs :: "'s \<Rightarrow> (string \<times> 'd) list"
    and version :: "'d \<Rightarrow> nat"
  assumes docs_rely: "R s s' \<Longrightarrow> docs_advance version (docs s) (docs s')"
begin

lemma seen_stable:
  assumes "seen version (docs s) k d" and "R s s'"
  shows "seen version (docs s') k d"
proof -
  obtain d1 where 1: "map_of (docs s) k = Some d1" "version d \<le> version d1" "version d1 = version d \<longrightarrow> d1 = d"
    using assms(1) by (auto simp: seen_def)
  then obtain d2 where "map_of (docs s') k = Some d2" "version d1 \<le> version d2"
    "version d2 = version d1 \<longrightarrow> d2 = d1"
    using docs_rely [OF assms(2)] by (fastforce simp: docs_advance_def)
  with 1 show ?thesis by (auto simp: seen_def)
qed

lemma no_lost_update:
  assumes "seen version (docs s) k d" and "R s s'"
    and "map_of (docs s') k = Some d'" and "version d' = version d"
  shows "d' = d"
  using seen_stable [OF assms(1,2)] assms(3,4) by (auto simp: seen_def)

lemma persists:
  assumes "map_of (docs s) k = Some d" and "R s s'"
  shows "\<exists>d'. map_of (docs s') k = Some d' \<and> version d \<le> version d'"
  using docs_rely [OF assms(2)] assms(1) by (fastforce simp: docs_advance_def)

end

section \<open>The rely of the services\<close>

definition available_ok :: "store \<Rightarrow> bool" where
  "available_ok s \<longleftrightarrow> (\<forall>u w. wallet_of s u = Some w \<longrightarrow> 0 \<le> w_availableBalance w)"

definition records_kept :: "store \<Rightarrow> store \<Rightarrow> bool" where
  "records_kept s s' \<longleftrightarrow>
     (\<forall>k i. map_of (idempotency_records s) k = Some i \<longrightarrow> map_of (idempotency_records s') k = Some i)"

definition ledger_grows :: "store \<Rightarrow> store \<Rightarrow> bool" where
  "ledger_grows s s' \<longleftrightarrow> (\<exists>new. ledger_entries s' = ledger_entries s @ new)"

definition safe_rely :: "store \<Rightarrow> store \<Rightarrow> bool" where
  "safe_rely s s' \<longleftrightarrow>
     docs_advance w_version (wallets s) (wallets s') \<and>
     docs_advance m_version (model_wallets s) (model_wallets s') \<and>
     ledger_grows s s' \<and> records_kept s s' \<and>
     (available_ok s \<longrightarrow> available_ok s')"

lemma ledger_grows_refl [simp]: "ledger_grows s s"
  by (simp add: ledger_grows_def)

lemma ledger_grows_trans: "ledger_grows s1 s2 \<Longrightarrow> ledger_grows s2 s3 \<Longrightarrow> ledger_grows s1 s3"
  by (auto simp: ledger_grows_def)

lemma records_kept_refl [simp]: "records_kept s s"
  by (simp add: records_kept_def)

lemma records_kept_trans: "records_kept s1 s2 \<Longrightarrow> records_kept s2 s3 \<Longrightarrow> records_kept s1 s3"
  by (simp add: records_kept_def)

interpretation safe: rely safe_rely
proof unfold_locales
  show "safe_rely s s" for s by (simp add: safe_rely_def docs_advance_refl)
next
  show "safe_rely s1 s2 \<Longrightarrow> safe_rely s2 s3 \<Longrightarrow> safe_rely s1 s3" for s1 s2 s3
    by (auto simp: safe_rely_def intro: docs_advance_trans ledger_grows_trans records_kept_trans)
qed

interpretation safe_wallets: versioned_docs safe_rely wallets w_version
  by unfold_locales (simp add: safe_rely_def)

interpretation safe_models: versioned_docs safe_rely model_wallets m_version
  by unfold_locales (simp add: safe_rely_def)

text \<open>What a wallet holds in all; a wallet that does not exist yet holds nothing.\<close>

definition wallet_total :: "store \<Rightarrow> string \<Rightarrow> rat" where
  "wallet_total s u =
     (case wallet_of s u of None \<Rightarrow> 0 | Some w \<Rightarrow> w_availableBalance w + w_escrowBalance w)"

definition conserve_rely :: "store \<Rightarrow> store \<Rightarrow> bool" where
  "conserve_rely s s' \<longleftrightarrow> safe_rely s s' \<and> (\<forall>u. wallet_total s' u = wallet_total s u)"

interpretation conserve: rely conserve_rely
  by unfold_locales (auto simp: conserve_rely_def safe.rely_refl intro: safe.rely_trans)

interpretation conserve_wallets: versioned_docs conserve_rely wallets w_version
  by unfold_locales (simp add: conserve_rely_def safe_rely_def)

section \<open>Every call keeps the relies\<close>

lemma safe_rely_wallets:
  assumes "\<And>w. wallet_of s u = Some w \<Longrightarrow> w_version w < w_version w'"
    and "available_ok s \<Longrightarrow> 0 \<le> w_availableBalance w'"
  shows "safe_rely s (s\<lparr>wallets := AList.update u w' (wallets s)\<rparr>)"
  using assms
  by (auto simp: safe_rely_def docs_advance_refl docs_advance_update ledger_grows_def
      records_kept_def available_ok_def)

lemma safe_rely_model_wallets:
  assumes "\<And>w. model_wallet_of s m = Some w \<Longrightarrow> m_version w < m_version w'"
  shows "safe_rely s (s\<lparr>model_wallets := AList.update m w' (model_wallets s)\<rparr>)"
  using assms
  by (auto simp: safe_rely_def docs_advance_refl docs_advance_update ledger_grows_def
      records_kept_def available_ok_def)

lemma safe_rely_frame:
  assumes "wallets s' = wallets s" and "model_wallets s' = model_wallets s"
    and "ledger_grows s s'" and "records_kept s s'"
  shows "safe_rely s s'"
  using assms by (simp add: safe_rely_def docs_advance_refl available_ok_def)

lemma conserve_rely_frame:
  "safe_rely s s' \<Longrightarrow> wallets s' = wallets s \<Longrightarrow> conserve_rely s s'"
  by (simp add: conserve_rely_def wallet_total_def)

named_theorems store_calls "the calls of the database driver"

lemmas store_calls_defs =
  uuidv4_def new_date_def publish_event_def wallet_findOne_def wallet_create_def
  wallet_findOneAndUpdate_def model_wallet_findOne_def model_wallet_create_def
  model_wallet_findOneAndUpdate_def escrow_findOne_def escrow_create_def
  escrow_findOneAndUpdate_def escrow_updateOne_def escrow_deleteOne_def ledger_create_def
  ledger_find_def idempotency_findOne_def idempotency_create_def

declare store_calls_defs [store_calls]

lemma safe_keeps_calls [keeps_intros]:
  "keeps safe_rely uuidv4"
  "keeps safe_rely new_date"
  "keeps safe_rely (publish_event ev)"
  "keeps safe_rely (wallet_findOne u)"
  "keeps safe_rely (model_wallet_findOne m)"
  "keeps safe_rely (escrow_findOne i)"
  "keeps safe_rely (escrow_create e)"
  "keeps safe_rely (escrow_findOneAndUpdate i filt change)"
  "keeps safe_rely (escrow_updateOne i change)"
  "keeps safe_rely (escrow_deleteOne i)"
  "keeps safe_rely (ledger_create l)"
  "keeps safe_rely (ledger_find lf)"
  "keeps safe_rely (idempotency_findOne fi)"
  "keeps safe_rely (idempotency_create rec)"
  unfolding store_calls query_def
  by (rule keeps_atomically,
      auto intro!: safe_rely_frame simp: ledger_grows_def records_kept_def split: option.split)+

lemma safe_keeps_wallet_create [keeps_intros]: "keeps safe_rely (wallet_create w)"
  unfolding wallet_create_def
  by (rule keeps_atomically) (auto intro!: safe_rely_wallets safe.rely_refl simp: valid_wallet_def)

lemma safe_keeps_model_wallet_create [keeps_intros]: "keeps safe_rely (model_wallet_create w)"
  unfolding model_wallet_create_def
  by (rule keeps_atomically) (auto intro!: safe_rely_model_wallets safe.rely_refl)

lemma safe_keeps_wallet_update [keeps_intros]:
  assumes "\<And>w. filt w \<Longrightarrow> w_version w < w_version (change w)"
    and "\<And>w. filt w \<Longrightarrow> 0 \<le> w_availableBalance w \<Longrightarrow> 0 \<le> w_availableBalance (change w)"
  shows "keeps safe_rely (wallet_findOneAndUpdate u filt change)"
  unfolding wallet_findOneAndUpdate_def
  using assms
  by (intro keeps_atomically)
    (auto intro!: safe_rely_wallets safe.rely_refl simp: available_ok_def split: option.split)

lemma safe_keeps_model_wallet_update [keeps_intros]:
  assumes "\<And>w. filt w \<Longrightarrow> m_version w < m_version (change w)"
  shows "keeps safe_rely (model_wallet_findOneAndUpdate m filt change)"
  unfolding model_wallet_findOneAndUpdate_def
  using assms
  by (intro keeps_atomically)
    (auto intro!: safe_rely_model_wallets safe.rely_refl split: option.split)


section \<open>Fresh identifiers and a concrete store\<close>

text \<open>
  What the services rely on from \<open>uuidv4()\<close>: the next \<open>k\<close> values are valid identifiers, differ
  from each other, and name no document yet.
\<close>

definition fresh_ids :: "nat \<Rightarrow> store \<Rightarrow> bool" where
  "fresh_ids k s \<longleftrightarrow>
     (let ids = map (\<lambda>i. uuids s (uuid_count s + i)) [0..<k] in
      distinct ids \<and>
      list_all (\<lambda>u. required_string 128 u \<and> trim u \<noteq> [] \<and>
        list_all (\<lambda>e. l_entryId e \<noteq> u) (ledger_entries s) \<and> escrow_of s u = None) ids)"

lemma fresh_ids_mono: "fresh_ids k s \<Longrightarrow> j \<le> k \<Longrightarrow> fresh_ids j s"
  by (auto simp: fresh_ids_def Let_def list_all_iff distinct_map inj_on_def)

lemma fresh_ids_nth:
  assumes "fresh_ids k s" and "i < k"
  shows "required_string 128 (uuids s (uuid_count s + i))" and "trim (uuids s (uuid_count s + i)) \<noteq> []"
    and "\<And>e. e \<in> set (ledger_entries s) \<Longrightarrow> l_entryId e \<noteq> uuids s (uuid_count s + i)"
    and "escrow_of s (uuids s (uuid_count s + i)) = None"
  using assms by (auto simp: fresh_ids_def Let_def list_all_iff)

lemma fresh_ids_distinct:
  assumes "fresh_ids k s" and "i < k" and "j < k" and "i \<noteq> j"
  shows "uuids s (uuid_count s + i) \<noteq> uuids s (uuid_count s + j)"
  using assms by (auto simp: fresh_ids_def Let_def distinct_map inj_on_def)

text \<open>The empty database, and a stream of identifiers, for the witnesses.\<close>

definition demo_uuid :: "nat \<Rightarrow> string" where
  "demo_uuid n = ''uuid-'' @ show_nat n"

definition empty_store :: store where
  "empty_store =
     \<lparr>wallets = [], model_wallets = [], escrow_items = [], ledger_entries = [],
      idempotency_records = [], published = [], clock = 1000, uuids = demo_uuid, uuid_count = 0\<rparr>"

end
