(* ===== verification/Ledger_Service.thy ===== *)
theory Ledger_Service
  imports Store_Rely
begin

text \<open>
  The ledger service (\<open>src/ledger/ledger.service.ts\<close>): entry creation with its metadata screen,
  queries, balance snapshots, reconciliation, audit trail, idempotency claims, and the
  promotional credit and debit that write the ledger only.

  A transaction of the driver around a single insert adds nothing to the insert, so
  \<open>withTransaction\<close> is not modelled: its body is executed as it is.
\<close>

section \<open>The metadata screen of createEntry\<close>

definition char_code :: "char \<Rightarrow> nat" where
  "char_code c = of_char c"

definition is_letter :: "char \<Rightarrow> bool" where
  "is_letter c \<longleftrightarrow> (65 \<le> char_code c \<and> char_code c \<le> 90) \<or> (97 \<le> char_code c \<and> char_code c \<le> 122)"

definition is_digit :: "char \<Rightarrow> bool" where
  "is_digit c \<longleftrightarrow> 48 \<le> char_code c \<and> char_code c \<le> 57"

definition is_word :: "char \<Rightarrow> bool" where
  "is_word c \<longleftrightarrow> is_letter c \<or> is_digit c \<or> c = CHR ''_''"

definition is_local_char :: "char \<Rightarrow> bool" where
  "is_local_char c \<longleftrightarrow> is_letter c \<or> is_digit c \<or> c \<in> set ''._%+-''"

definition is_domain_char :: "char \<Rightarrow> bool" where
  "is_domain_char c \<longleftrightarrow> is_letter c \<or> is_digit c \<or> c \<in> set ''.-''"

text \<open>
  The pattern \<open>\b[A-Za-z0-9._%+-]+@[A-Za-z0-9.-]+\.[A-Za-z]{2,}\b\<close>, searched in a string: some
  \<open>@\<close> has a local part ending before it that starts at a word boundary, and after it a domain,
  a dot and two or more letters that end at a word boundary.
\<close>

definition word_boundary :: "string \<Rightarrow> nat \<Rightarrow> bool" where
  "word_boundary s i \<longleftrightarrow>
     (0 < i \<and> i \<le> length s \<and> is_word (s ! (i - 1))) \<noteq> (i < length s \<and> is_word (s ! i))"

definition local_part_before :: "string \<Rightarrow> nat \<Rightarrow> bool" where
  "local_part_before s p \<longleftrightarrow>
     list_ex (\<lambda>j. word_boundary s j \<and> list_all is_local_char (drop j (take p s))) [0..<p]"

definition domain_after :: "string \<Rightarrow> nat \<Rightarrow> bool" where
  "domain_after s p \<longleftrightarrow>
     list_ex (\<lambda>dot. s ! dot = CHR ''.'' \<and> list_all is_domain_char (drop (Suc p) (take dot s)) \<and>
       list_ex (\<lambda>stop. list_all is_letter (drop (Suc dot) (take stop s)) \<and> word_boundary s stop)
         [dot + 3..<Suc (length s)])
       [p + 2..<length s]"

definition emailPattern_test :: "string \<Rightarrow> bool" where
  "emailPattern_test s \<longleftrightarrow>
     list_ex (\<lambda>p. s ! p = CHR ''@'' \<and> local_part_before s p \<and> domain_after s p) [0..<length s]"

definition piiFieldNames :: "string list" where
  "piiFieldNames = [''email'', ''password'', ''ssn'', ''creditcard'', ''phonenumber'', ''phone'']"

fun screen_metadata :: "metadata \<Rightarrow> error option" where
  "screen_metadata [] = None"
| "screen_metadata ((key, val) # rest) =
     (if to_lower key \<in> set piiFieldNames then Some (PiiFieldError key)
      else case val of
        JStr str \<Rightarrow> if emailPattern_test str then Some (PiiEmailError key) else screen_metadata rest
      | _ \<Rightarrow> screen_metadata rest)"

section \<open>createEntry\<close>

text \<open>The domain object has every field of the document but the tenant.\<close>

definition mapToDomain :: "ledger_entry \<Rightarrow> ledger_entry" where
  "mapToDomain doc = doc\<lparr>l_tenant_id := None\<rparr>"

definition truthy :: "string option \<Rightarrow> bool" where
  "truthy x \<longleftrightarrow> (case x of None \<Rightarrow> False | Some s \<Rightarrow> s \<noteq> [])"

definition correlation_of :: "create_ledger_entry_request \<Rightarrow> string \<Rightarrow> string" where
  "correlation_of r transactionId =
     (case cr_correlationId r of
        Some c \<Rightarrow> if trim c \<noteq> [] then c else transactionId
      | None \<Rightarrow> transactionId)"

definition entry_doc ::
  "string \<Rightarrow> create_ledger_entry_request \<Rightarrow> string \<Rightarrow> string \<Rightarrow> int \<Rightarrow> transaction_reason \<Rightarrow> ledger_entry" where
  "entry_doc currency r entryId transactionId timestamp reason =
     \<lparr>l_entryId = entryId, l_transactionId = transactionId, l_accountId = cr_accountId r,
      l_accountType = cr_accountType r, l_amount = cr_amount r, l_type = cr_type r,
      l_balanceState = cr_balanceState r, l_stateTransition = cr_stateTransition r,
      l_reason = reason, l_idempotencyKey = cr_idempotencyKey r, l_requestId = cr_requestId r,
      l_balanceBefore = cr_balanceBefore r, l_balanceAfter = cr_balanceAfter r,
      l_timestamp = timestamp,
      l_currency = (if truthy (cr_currency r) then the (cr_currency r) else currency),
      l_metadata = cr_metadata r, l_escrowId = cr_escrowId r, l_queueItemId = cr_queueItemId r,
      l_featureType = cr_featureType r,
      l_correlationId = Some (correlation_of r transactionId), l_tenant_id = None\<rparr>"

definition insert_entry :: "ledger_entry \<Rightarrow> ledger_entry svc" where
  "insert_entry entryDoc =
     try_catch
       (await (ledger_create entryDoc) (\<lambda>created. pure (mapToDomain created)))
       (\<lambda>err. if err = DuplicateKeyError ''idempotencyKey'' then
          await (ledger_find (\<lambda>x. l_idempotencyKey x = l_idempotencyKey entryDoc)) (\<lambda>found.
          case found of
            existing # _ \<Rightarrow> pure (mapToDomain existing)
          | [] \<Rightarrow> throw err)
        else throw err)"

definition createEntry :: "string \<Rightarrow> create_ledger_entry_request \<Rightarrow> ledger_entry svc" where
  "createEntry currency r =
     (if cr_accountType r = User \<and> cr_balanceState r = Earned then
        throw (Plain ''Invalid state transition: users cannot use earned balance state'')
      else if cr_accountType r = Model \<and> cr_balanceState r = Escrow then
        throw (Plain ''Invalid state transition: models cannot use escrow balance state'')
      else case (case cr_metadata r of None \<Rightarrow> None | Some md \<Rightarrow> screen_metadata md) of
        Some e \<Rightarrow> throw e
      | None \<Rightarrow>
          await uuidv4 (\<lambda>entryId.
          await (if truthy (cr_transactionId r) then pure (the (cr_transactionId r)) else uuidv4)
            (\<lambda>transactionId.
          await new_date (\<lambda>timestamp.
          if trim (correlation_of r transactionId) = [] then
            throw (Plain ''createEntry: correlationId is required (invariant B-012)'')
          else case cr_reason r of
            None \<Rightarrow> throw (Plain ''createEntry: reason is required (invariant B-012)'')
          | Some reason \<Rightarrow>
              insert_entry (entry_doc currency r entryId transactionId timestamp reason)))))"

section \<open>Queries\<close>

definition opt_match :: "'a option \<Rightarrow> 'a \<Rightarrow> bool" where
  "opt_match f x \<longleftrightarrow> (case f of None \<Rightarrow> True | Some y \<Rightarrow> x = y)"

definition str_match :: "string option \<Rightarrow> string option \<Rightarrow> bool" where
  "str_match f x \<longleftrightarrow> (truthy f \<longrightarrow> x = f)"

definition query_matches :: "ledger_query_filter \<Rightarrow> ledger_entry \<Rightarrow> bool" where
  "query_matches f e \<longleftrightarrow>
     str_match (f_accountId f) (Some (l_accountId e)) \<and>
     opt_match (f_accountType f) (l_accountType e) \<and>
     opt_match (f_type f) (l_type e) \<and>
     opt_match (f_reason f) (l_reason e) \<and>
     opt_match (f_balanceState f) (l_balanceState e) \<and>
     str_match (f_escrowId f) (l_escrowId e) \<and>
     str_match (f_queueItemId f) (l_queueItemId e) \<and>
     str_match (f_featureType f) (l_featureType e) \<and>
     (case f_startDate f of None \<Rightarrow> True | Some d \<Rightarrow> d \<le> l_timestamp e) \<and>
     (case f_endDate f of None \<Rightarrow> True | Some d \<Rightarrow> l_timestamp e \<le> d) \<and>
     str_match (f_tenantId f) (l_tenant_id e)"

definition sort_value :: "sort_field \<Rightarrow> ledger_entry \<Rightarrow> rat" where
  "sort_value fld e = (case fld of By_timestamp \<Rightarrow> of_int (l_timestamp e) | By_amount \<Rightarrow> l_amount e)"

definition sort_entries :: "sort_field \<Rightarrow> sort_order \<Rightarrow> ledger_entry list \<Rightarrow> ledger_entry list" where
  "sort_entries fld ord es =
     sort_key (\<lambda>e. case ord of Asc \<Rightarrow> sort_value fld e | Desc \<Rightarrow> - sort_value fld e) es"

definition query_limit :: "ledger_query_filter \<Rightarrow> nat" where
  "query_limit f =
     min (case f_limit f of None \<Rightarrow> 100 | Some n \<Rightarrow> if n = 0 then 100 else n) 1000"

definition query_offset :: "ledger_query_filter \<Rightarrow> nat" where
  "query_offset f = (case f_offset f of None \<Rightarrow> 0 | Some n \<Rightarrow> n)"

definition query_sorted :: "ledger_query_filter \<Rightarrow> ledger_entry list \<Rightarrow> ledger_entry list" where
  "query_sorted f es =
     sort_entries (case f_sortBy f of None \<Rightarrow> By_timestamp | Some fld \<Rightarrow> fld)
       (if f_sortOrder f = Some Asc then Asc else Desc) es"

record ledger_query_result =
  q_entries :: "ledger_entry list"
  q_totalCount :: nat
  q_offset :: nat
  q_limit :: nat
  q_hasMore :: bool

definition queryEntries :: "ledger_query_filter \<Rightarrow> ledger_query_result svc" where
  "queryEntries f =
     await (ledger_find (query_matches f)) (\<lambda>matching.
     await (query (\<lambda>s. length (filter (query_matches f) (ledger_entries s)))) (\<lambda>totalCount.
     let entries = take (query_limit f) (drop (query_offset f) (query_sorted f matching)) in
     pure \<lparr>q_entries = map mapToDomain entries, q_totalCount = totalCount,
           q_offset = query_offset f, q_limit = query_limit f,
           q_hasMore = (query_offset f + length entries < totalCount)\<rparr>))"

definition getEntry :: "string \<Rightarrow> string option \<Rightarrow> ledger_entry option svc" where
  "getEntry entryId tenantId =
     await (ledger_find (\<lambda>e. str_match tenantId (l_tenant_id e) \<and> l_entryId e = entryId)) (\<lambda>found.
     pure (case found of [] \<Rightarrow> None | e # _ \<Rightarrow> Some (mapToDomain e)))"

section \<open>Balance snapshots\<close>

definition snapshot_matches ::
  "string \<Rightarrow> account_type \<Rightarrow> int option \<Rightarrow> string option \<Rightarrow> ledger_entry \<Rightarrow> bool" where
  "snapshot_matches accountId accountType asOf tenantId e \<longleftrightarrow>
     str_match tenantId (l_tenant_id e) \<and> l_accountId e = accountId \<and>
     l_accountType e = accountType \<and>
     (case asOf of None \<Rightarrow> True | Some t \<Rightarrow> l_timestamp e \<le> t)"

definition fold_balances :: "ledger_entry list \<Rightarrow> balance_state \<Rightarrow> rat" where
  "fold_balances es = foldl (\<lambda>balances e. balances(l_balanceState e := l_balanceAfter e)) (\<lambda>_. 0) es"

definition getBalanceSnapshot ::
  "string \<Rightarrow> string \<Rightarrow> account_type \<Rightarrow> int option \<Rightarrow> string option \<Rightarrow> balance_snapshot svc" where
  "getBalanceSnapshot currency accountId accountType asOf tenantId =
     await (ledger_find (snapshot_matches accountId accountType asOf tenantId)) (\<lambda>found.
     await new_date (\<lambda>now.
     let balances = fold_balances (sort_entries By_timestamp Asc found) in
     pure \<lparr>bs_accountId = accountId, bs_accountType = accountType,
           bs_availableBalance = balances Available,
           bs_escrowBalance = (if accountType = User then Some (balances Escrow) else None),
           bs_earnedBalance = (if accountType = Model then Some (balances Earned) else None),
           bs_asOf = (case asOf of None \<Rightarrow> now | Some t \<Rightarrow> t),
           bs_currency = currency\<rparr>))"

section \<open>Reconciliation and audit trail\<close>

definition total_credits :: "ledger_entry list \<Rightarrow> rat" where
  "total_credits es = sum_list (map (\<lambda>e. if l_type e = CREDIT then l_amount e else 0) es)"

definition total_debits :: "ledger_entry list \<Rightarrow> rat" where
  "total_debits es = sum_list (map (\<lambda>e. if l_type e = CREDIT then 0 else \<bar>l_amount e\<bar>) es)"

definition or_zero :: "rat option \<Rightarrow> rat" where
  "or_zero x = (case x of None \<Rightarrow> 0 | Some v \<Rightarrow> v)"

definition snapshot_sum :: "balance_snapshot \<Rightarrow> rat" where
  "snapshot_sum b = bs_availableBalance b + or_zero (bs_escrowBalance b) + or_zero (bs_earnedBalance b)"

definition generateReconciliationReport ::
  "string \<Rightarrow> string \<Rightarrow> account_type \<Rightarrow> int \<Rightarrow> int \<Rightarrow> string \<Rightarrow> reconciliation_report svc" where
  "generateReconciliationReport currency accountId accountType startDate endDate tenantId =
     await (getBalanceSnapshot currency accountId accountType (Some startDate) None) (\<lambda>startSnapshot.
     await (ledger_find (\<lambda>e. l_tenant_id e = Some tenantId \<and> l_accountId e = accountId \<and>
              l_accountType e = accountType \<and> startDate \<le> l_timestamp e \<and> l_timestamp e \<le> endDate))
       (\<lambda>entries.
     await (getBalanceSnapshot currency accountId accountType (Some endDate) None) (\<lambda>endSnapshot.
     await new_date (\<lambda>now.
     let totalCredits = total_credits entries;
         totalDebits = total_debits entries;
         startingBalance = snapshot_sum startSnapshot;
         calculatedBalance = startingBalance + totalCredits - totalDebits;
         actualBalance = snapshot_sum endSnapshot;
         difference = actualBalance - calculatedBalance
     in pure \<lparr>rc_accountId = accountId, rc_accountType = accountType,
              rc_startingBalance = startingBalance, rc_totalCredits = totalCredits,
              rc_totalDebits = totalDebits, rc_calculatedBalance = calculatedBalance,
              rc_actualBalance = actualBalance, rc_difference = difference,
              rc_reconciled = (\<bar>difference\<bar> < 1 / 100), rc_reportedAt = now,
              rc_start = startDate, rc_end = endDate\<rparr>))))"

record audit_trail_entry =
  a_auditId :: string
  a_ledgerEntry :: ledger_entry
  a_auditedAt :: int

definition getAuditTrail :: "string \<Rightarrow> string \<Rightarrow> audit_trail_entry list svc" where
  "getAuditTrail transactionId tenantId =
     await (ledger_find (\<lambda>e. l_tenant_id e = Some tenantId \<and> l_transactionId e = transactionId))
       (\<lambda>entries.
     pure (map (\<lambda>e. \<lparr>a_auditId = l_entryId e, a_ledgerEntry = mapToDomain e, a_auditedAt = l_timestamp e\<rparr>)
             (sort_entries By_timestamp Asc entries)))"

section \<open>Idempotency\<close>

definition checkIdempotency :: "string \<Rightarrow> string \<Rightarrow> string \<Rightarrow> bool svc" where
  "checkIdempotency key operationType tenantId =
     await (idempotency_findOne (\<lambda>i. i_tenant_id i = Some tenantId \<and>
              i_pointsIdempotencyKey i = key \<and> i_eventScope i = operationType)) (\<lambda>existing.
     pure (existing \<noteq> None))"

definition claimIdempotency :: "string \<Rightarrow> string \<Rightarrow> string option \<Rightarrow> bool svc" where
  "claimIdempotency key operationType tenantId =
     await new_date (\<lambda>now.
     try_catch
       (await (idempotency_create
           \<lparr>i_pointsIdempotencyKey = key, i_eventScope = operationType, i_resultHash = ''pending'',
            i_storedResult = Some (JObj []), i_retentionUntil = Some (now + 60000),
            i_expiresAt = Some (now + 60000), i_tenant_id = tenantId\<rparr>) (\<lambda>_.
        pure True))
       (\<lambda>error. case error of DuplicateKeyError _ \<Rightarrow> pure False | _ \<Rightarrow> throw error))"

text \<open>\<open>stringify\<close> is \<open>JSON.stringify\<close>, a parameter.\<close>

definition storeIdempotencyResult ::
  "(json \<Rightarrow> string) \<Rightarrow> string \<Rightarrow> string \<Rightarrow> json \<Rightarrow> nat \<Rightarrow> int \<Rightarrow> unit svc" where
  "storeIdempotencyResult stringify key operationType result statusCode ttlSeconds =
     await new_date (\<lambda>now.
     idempotency_create
       \<lparr>i_pointsIdempotencyKey = key, i_eventScope = operationType,
        i_resultHash = stringify result, i_storedResult = Some result,
        i_retentionUntil = Some (now + ttlSeconds * 1000),
        i_expiresAt = Some (now + ttlSeconds * 1000), i_tenant_id = None\<rparr>)"

section \<open>Promotional credit and debit\<close>

definition creditPoints ::
  "string \<Rightarrow> string \<Rightarrow> rat \<Rightarrow> string \<Rightarrow> string \<Rightarrow> string option \<Rightarrow> bool svc" where
  "creditPoints currency accountId amount source reason idempotencyKey =
     (if amount \<le> 0 then throw (CreditNotPositive amount)
      else
        await (getBalanceSnapshot currency accountId User None None) (\<lambda>snapshot.
        await (case idempotencyKey of
            Some k \<Rightarrow> pure k
          | None \<Rightarrow> await uuidv4 (\<lambda>u. pure (''credit-'' @ source @ ''-'' @ accountId @ ''-'' @ u)))
          (\<lambda>key.
        await uuidv4 (\<lambda>requestId.
        await (createEntry currency
          \<lparr>cr_transactionId = None, cr_accountId = accountId, cr_accountType = User,
           cr_amount = amount, cr_type = CREDIT, cr_balanceState = Available,
           cr_stateTransition = ''promotional-credit->available'',
           cr_reason = Some PROMOTIONAL_AWARD, cr_idempotencyKey = key, cr_requestId = requestId,
           cr_balanceBefore = bs_availableBalance snapshot,
           cr_balanceAfter = bs_availableBalance snapshot + amount,
           cr_currency = None,
           cr_metadata = Some [(''reason'', JStr reason), (''source'', JStr source)],
           cr_escrowId = None, cr_queueItemId = None, cr_featureType = None,
           cr_correlationId = Some source\<rparr>) (\<lambda>_.
        pure True)))))"

definition deductPoints ::
  "string \<Rightarrow> string \<Rightarrow> rat \<Rightarrow> string \<Rightarrow> string \<Rightarrow> string option \<Rightarrow> bool svc" where
  "deductPoints currency accountId amount source reason idempotencyKey =
     (if amount \<le> 0 then throw (DeductNotPositive amount)
      else
        await (getBalanceSnapshot currency accountId User None None) (\<lambda>snapshot.
        if bs_availableBalance snapshot < amount then
          throw (DeductInsufficient accountId (bs_availableBalance snapshot) amount)
        else
        await (case idempotencyKey of
            Some k \<Rightarrow> pure k
          | None \<Rightarrow> await uuidv4 (\<lambda>u. pure (''debit-'' @ source @ ''-'' @ accountId @ ''-'' @ u)))
          (\<lambda>key.
        await uuidv4 (\<lambda>requestId.
        await (createEntry currency
          \<lparr>cr_transactionId = None, cr_accountId = accountId, cr_accountType = User,
           cr_amount = - amount, cr_type = DEBIT, cr_balanceState = Available,
           cr_stateTransition = ''available->promotional-debit'',
           cr_reason = Some ADMIN_DEBIT, cr_idempotencyKey = key, cr_requestId = requestId,
           cr_balanceBefore = bs_availableBalance snapshot,
           cr_balanceAfter = bs_availableBalance snapshot - amount,
           cr_currency = None,
           cr_metadata = Some [(''reason'', JStr reason), (''source'', JStr source)],
           cr_escrowId = None, cr_queueItemId = None, cr_featureType = None,
           cr_correlationId = Some source\<rparr>) (\<lambda>_.
        pure True)))))"

definition awardPromotionalPoints ::
  "string \<Rightarrow> string \<Rightarrow> rat \<Rightarrow> string \<Rightarrow> string \<Rightarrow> int option \<Rightarrow> bool svc" where
  "awardPromotionalPoints currency creatorId points source reason expiryDays =
     creditPoints currency creatorId points source reason None"

definition createGiftingPromotion :: "string \<Rightarrow> rat \<Rightarrow> string \<Rightarrow> string \<Rightarrow> bool svc" where
  "createGiftingPromotion creatorId points title condition = pure True"


section \<open>Lemmas on createEntry\<close>

definition request_ok :: "create_ledger_entry_request \<Rightarrow> bool" where
  "request_ok r \<longleftrightarrow>
     \<not> (cr_accountType r = User \<and> cr_balanceState r = Earned) \<and>
     \<not> (cr_accountType r = Model \<and> cr_balanceState r = Escrow) \<and>
     (case cr_metadata r of None \<Rightarrow> True | Some md \<Rightarrow> screen_metadata md = None) \<and>
     cr_reason r \<noteq> None"

lemma list_ex_find: "list_ex P xs \<longleftrightarrow> find P xs \<noteq> None"
  by (induction xs) auto

lemma filter_hd_find: "filter P xs = [] \<longleftrightarrow> find P xs = None"
  by (induction xs) auto

lemma find_filter: "find P xs = (case filter P xs of [] \<Rightarrow> None | x # _ \<Rightarrow> Some x)"
  by (induction xs) auto

lemma run_insert_entry:
  "run (insert_entry d) s =
     (if \<not> valid_ledger_entry d then (Inl (ValidationError ''LedgerEntry''), s)
      else if list_ex (\<lambda>x. l_entryId x = l_entryId d) (ledger_entries s)
        then (Inl (DuplicateKeyError ''entryId''), s)
      else case find (\<lambda>x. l_idempotencyKey x = l_idempotencyKey d) (ledger_entries s) of
        Some x \<Rightarrow> (Inr (mapToDomain x), s)
      | None \<Rightarrow> (Inr (mapToDomain d), s\<lparr>ledger_entries := ledger_entries s @ [d]\<rparr>))"
  by (auto simp: insert_entry_def run_simps list_ex_find find_filter
      split: list.splits option.splits)

lemma correlation_of_nonblank: "trim t \<noteq> [] \<Longrightarrow> trim (correlation_of r t) \<noteq> []"
  by (auto simp: correlation_of_def split: option.split)

text \<open>The execution of \<open>createEntry\<close>, branch by branch, up to the insert.\<close>

definition transaction_id_of :: "create_ledger_entry_request \<Rightarrow> store \<Rightarrow> string" where
  "transaction_id_of r s =
     (if truthy (cr_transactionId r) then the (cr_transactionId r) else uuids s (Suc (uuid_count s)))"

definition after_ids :: "create_ledger_entry_request \<Rightarrow> store \<Rightarrow> store" where
  "after_ids r s =
     s\<lparr>uuid_count := uuid_count s + (if truthy (cr_transactionId r) then 1 else 2)\<rparr>"

lemma run_createEntry:
  "run (createEntry currency r) s =
     (if cr_accountType r = User \<and> cr_balanceState r = Earned then
        (Inl (Plain ''Invalid state transition: users cannot use earned balance state''), s)
      else if cr_accountType r = Model \<and> cr_balanceState r = Escrow then
        (Inl (Plain ''Invalid state transition: models cannot use escrow balance state''), s)
      else case (case cr_metadata r of None \<Rightarrow> None | Some md \<Rightarrow> screen_metadata md) of
        Some e \<Rightarrow> (Inl e, s)
      | None \<Rightarrow>
          if trim (correlation_of r (transaction_id_of r s)) = [] then
            (Inl (Plain ''createEntry: correlationId is required (invariant B-012)''), after_ids r s)
          else case cr_reason r of
            None \<Rightarrow> (Inl (Plain ''createEntry: reason is required (invariant B-012)''), after_ids r s)
          | Some reason \<Rightarrow>
              run (insert_entry (entry_doc currency r (uuids s (uuid_count s))
                (transaction_id_of r s) (clock s) reason)) (after_ids r s))"
proof (cases "case cr_metadata r of None \<Rightarrow> None | Some md \<Rightarrow> screen_metadata md")
  case None
  show ?thesis
    by (cases "truthy (cr_transactionId r)"; cases "cr_reason r")
      (simp_all add: None createEntry_def run_simps transaction_id_of_def after_ids_def)
next
  case (Some e)
  then show ?thesis by (simp add: createEntry_def run_simps)
qed

text \<open>With a transaction id supplied, an accepted request draws one id and inserts.\<close>

lemma run_createEntry_given:
  assumes "request_ok r" and "cr_transactionId r = Some t" and "trim t \<noteq> []"
    and "cr_reason r = Some reason"
  shows "run (createEntry currency r) s =
    run (insert_entry (entry_doc currency r (uuids s (uuid_count s)) t (clock s) reason))
      (s\<lparr>uuid_count := Suc (uuid_count s)\<rparr>)"
proof -
  have "truthy (Some t)" using assms(3) by (auto simp: trim_def truthy_def)
  then show ?thesis
    using assms correlation_of_nonblank [OF assms(3), of r]
    by (auto simp: run_createEntry request_ok_def transaction_id_of_def after_ids_def
        split: option.splits)
qed

text \<open>Without one, the transaction id is drawn as well.\<close>

lemma run_createEntry_drawn:
  assumes "request_ok r" and "cr_transactionId r = None"
    and "trim (uuids s (Suc (uuid_count s))) \<noteq> []" and "cr_reason r = Some reason"
  shows "run (createEntry currency r) s =
    run (insert_entry (entry_doc currency r (uuids s (uuid_count s)) (uuids s (Suc (uuid_count s)))
        (clock s) reason))
      (s\<lparr>uuid_count := Suc (Suc (uuid_count s))\<rparr>)"
  using assms correlation_of_nonblank [of "uuids s (Suc (uuid_count s))" r]
  by (auto simp: run_createEntry request_ok_def transaction_id_of_def after_ids_def truthy_def
      split: option.splits)

text \<open>
  The three outcomes: the request is refused, an earlier entry with its idempotency key is
  returned, or exactly one well-formed entry is appended.
\<close>

lemma createEntry_cases:
  obtains (unchanged) n where "snd (run (createEntry currency r) s) = s\<lparr>uuid_count := n\<rparr>"
  | (appended) n eid tid reason d where
      "run (createEntry currency r) s =
         (Inr (mapToDomain d), s\<lparr>uuid_count := n, ledger_entries := ledger_entries s @ [d]\<rparr>)"
      and "d = entry_doc currency r eid tid (clock s) reason"
      and "request_ok r" and "valid_ledger_entry d" and "trim (correlation_of r tid) \<noteq> []"
      and "\<forall>x\<in>set (ledger_entries s). l_entryId x \<noteq> l_entryId d"
      and "\<forall>x\<in>set (ledger_entries s). l_idempotencyKey x \<noteq> l_idempotencyKey d"
proof (cases "request_ok r \<and> trim (correlation_of r (transaction_id_of r s)) \<noteq> []")
  case False
  then have "snd (run (createEntry currency r) s) = s \<or>
      snd (run (createEntry currency r) s) = after_ids r s"
    by (auto simp: run_createEntry request_ok_def split: option.splits)
  moreover have "s = s\<lparr>uuid_count := uuid_count s\<rparr>" by simp
  ultimately show ?thesis using unchanged unfolding after_ids_def by metis
next
  case True
  then obtain reason where r: "cr_reason r = Some reason" by (auto simp: request_ok_def)
  define d where "d = entry_doc currency r (uuids s (uuid_count s)) (transaction_id_of r s)
    (clock s) reason"
  have run: "run (createEntry currency r) s = run (insert_entry d) (after_ids r s)"
    using True r by (auto simp: run_createEntry request_ok_def d_def split: option.splits)
  show ?thesis
  proof (cases "valid_ledger_entry d \<and> \<not> list_ex (\<lambda>x. l_entryId x = l_entryId d) (ledger_entries (after_ids r s))
      \<and> find (\<lambda>x. l_idempotencyKey x = l_idempotencyKey d) (ledger_entries (after_ids r s)) = None")
    case True1: True
    then have "run (createEntry currency r) s = (Inr (mapToDomain d),
        s\<lparr>uuid_count := uuid_count (after_ids r s), ledger_entries := ledger_entries s @ [d]\<rparr>)"
      by (simp add: run run_insert_entry) (simp add: after_ids_def)
    then show ?thesis
      by (rule appended [OF _ d_def])
        (use True True1 in \<open>auto simp: find_None_iff list_ex_iff after_ids_def\<close>)
  next
    case False
    then have "snd (run (createEntry currency r) s) = after_ids r s"
      by (auto simp: run run_insert_entry after_ids_def split: option.split)
    then show ?thesis using unchanged by (simp add: after_ids_def)
  qed
qed

definition ledger_wf :: "store \<Rightarrow> bool" where
  "ledger_wf s \<longleftrightarrow>
     distinct (map l_idempotencyKey (ledger_entries s)) \<and>
     distinct (map l_entryId (ledger_entries s)) \<and>
     (\<forall>e\<in>set (ledger_entries s).
        valid_ledger_entry e \<and> l_tenant_id e = None \<and>
        (case l_correlationId e of None \<Rightarrow> False | Some c \<Rightarrow> trim c \<noteq> []) \<and>
        \<not> (l_accountType e = User \<and> l_balanceState e = Earned) \<and>
        \<not> (l_accountType e = Model \<and> l_balanceState e = Escrow) \<and>
        (case l_metadata e of None \<Rightarrow> True | Some md \<Rightarrow> screen_metadata md = None))"

lemma keeps_createEntry [keeps_intros]: "keeps safe_rely (createEntry currency r)"
  unfolding createEntry_def insert_entry_def
  by (intro keeps_intros | auto split: list.split intro: keeps_intros)+


section \<open>Properties of createEntry\<close>

lemma screen_metadata_None:
  "screen_metadata md = None \<longleftrightarrow>
     (\<forall>(key, val)\<in>set md. to_lower key \<notin> set piiFieldNames \<and>
        (\<forall>str. val = JStr str \<longrightarrow> \<not> emailPattern_test str))"
  by (induction md rule: screen_metadata.induct) (auto split: json.splits)

lemma ledger_wf_append:
  assumes "ledger_wf s" and "request_ok r" and "d = entry_doc currency r eid tid ts reason"
    and "valid_ledger_entry d" and "trim (correlation_of r tid) \<noteq> []"
    and "\<forall>x\<in>set (ledger_entries s). l_entryId x \<noteq> l_entryId d"
    and "\<forall>x\<in>set (ledger_entries s). l_idempotencyKey x \<noteq> l_idempotencyKey d"
  shows "ledger_wf (s\<lparr>uuid_count := n, ledger_entries := ledger_entries s @ [d]\<rparr>)"
proof -
  have "l_tenant_id d = None \<and> (case l_correlationId d of None \<Rightarrow> False | Some c \<Rightarrow> trim c \<noteq> []) \<and>
      \<not> (l_accountType d = User \<and> l_balanceState d = Earned) \<and>
      \<not> (l_accountType d = Model \<and> l_balanceState d = Escrow) \<and>
      (case l_metadata d of None \<Rightarrow> True | Some md \<Rightarrow> screen_metadata md = None)"
    using assms(2,3,5) by (simp add: entry_doc_def request_ok_def)
  then show ?thesis using assms(1,4,6,7) by (auto simp: ledger_wf_def)
qed


definition demo_entry :: create_ledger_entry_request where
  "demo_entry =
     \<lparr>cr_transactionId = Some ''tx'', cr_accountId = ''alice'', cr_accountType = User,
      cr_amount = 100, cr_type = CREDIT, cr_balanceState = Available,
      cr_stateTransition = ''none->available'', cr_reason = Some ADMIN_CREDIT,
      cr_idempotencyKey = ''key-1'', cr_requestId = ''req-1'', cr_balanceBefore = 0,
      cr_balanceAfter = 100, cr_currency = None, cr_metadata = Some [(''note'', JStr ''ok'')],
      cr_escrowId = None, cr_queueItemId = None, cr_featureType = None,
      cr_correlationId = None\<rparr>"


text \<open>After a success the entry that will answer every repeat of the key is in the ledger.\<close>

lemma find_append_Some: "find P xs = Some x \<Longrightarrow> find P (xs @ ys) = Some x"
  by (induction xs) auto

lemma entry_doc_key [simp]: "l_idempotencyKey (entry_doc c r e t ts reason) = cr_idempotencyKey r"
  by (simp add: entry_doc_def)

lemma createEntry_success:
  assumes "run (createEntry currency r) s = (Inr d, s')"
  obtains doc where "l_idempotencyKey doc = cr_idempotencyKey r"
    and "run (insert_entry doc) (after_ids r s) = (Inr d, s')"
proof -
  from assms obtain reason where
    "run (insert_entry (entry_doc currency r (uuids s (uuid_count s)) (transaction_id_of r s)
       (clock s) reason)) (after_ids r s) = (Inr d, s')"
    unfolding run_createEntry by (auto split: if_splits option.splits)
  then show ?thesis by (rule that [rotated]) simp
qed

lemma createEntry_success_stored:
  assumes "run (createEntry currency r) s = (Inr d, s')"
  shows "\<exists>x. find (\<lambda>x. l_idempotencyKey x = cr_idempotencyKey r) (ledger_entries s') = Some x \<and>
             d = mapToDomain x"
proof -
  obtain doc where key: "l_idempotencyKey doc = cr_idempotencyKey r"
    and run: "run (insert_entry doc) (after_ids r s) = (Inr d, s')"
    using assms by (rule createEntry_success)
  have "find (\<lambda>x. l_idempotencyKey x = l_idempotencyKey doc) (xs @ [doc]) = Some doc"
    if "find (\<lambda>x. l_idempotencyKey x = l_idempotencyKey doc) xs = None" for xs
    using that by (induction xs) auto
  then show ?thesis
    using run by (auto simp: run_insert_entry key [symmetric] split: if_splits option.splits)
qed

lemma createEntry_repeat:
  assumes "find (\<lambda>x. l_idempotencyKey x = cr_idempotencyKey r) (ledger_entries s) = Some x"
    and "run (createEntry currency r) s = (Inr d, s')"
  shows "d = mapToDomain x \<and> ledger_entries s' = ledger_entries s"
proof -
  obtain doc where key: "l_idempotencyKey doc = cr_idempotencyKey r"
    and run: "run (insert_entry doc) (after_ids r s) = (Inr d, s')"
    using assms(2) by (rule createEntry_success)
  have "ledger_entries (after_ids r s) = ledger_entries s" by (simp add: after_ids_def)
  then show ?thesis
    using run assms(1) by (auto simp: run_insert_entry key split: if_splits)
qed

text \<open>
  C9: Once \<open>createEntry\<close> has returned an entry for an idempotency key, then whatever the system
  does afterwards, a later \<open>createEntry\<close> with that key, whatever else it asks for, returns the
  very same entry and adds nothing to the ledger, if it returns at all.
\<close>

theorem createEntry_idempotent:
  assumes "run (createEntry currency r) s = (Inr d, s1)"
    and "safe_rely s1 s2"
    and "cr_idempotencyKey r' = cr_idempotencyKey r"
    and "run (createEntry currency' r') s2 = (Inr d', s3)"
  shows "d' = d \<and> ledger_entries s3 = ledger_entries s2"
proof -
  obtain x where "find (\<lambda>x. l_idempotencyKey x = cr_idempotencyKey r) (ledger_entries s1) = Some x"
    and d: "d = mapToDomain x"
    using createEntry_success_stored [OF assms(1)] by blast
  then have "find (\<lambda>x. l_idempotencyKey x = cr_idempotencyKey r') (ledger_entries s2) = Some x"
    using assms(2,3) by (auto simp: safe_rely_def ledger_grows_def find_append_Some)
  from createEntry_repeat [OF this assms(4)] d show ?thesis by simp
qed

theorem createEntry_idempotent_witness:
  "\<exists>d s1 s3. run (createEntry ''points'' demo_entry) empty_store = (Inr d, s1) \<and>
     run (createEntry ''points'' (demo_entry\<lparr>cr_amount := 7\<rparr>)) s1 = (Inr d, s3) \<and>
     ledger_entries s3 = ledger_entries s1"
proof -
  let ?p = "run (createEntry ''points'' demo_entry) empty_store"
  let ?q = "run (createEntry ''points'' (demo_entry\<lparr>cr_amount := 7\<rparr>)) (snd ?p)"
  have "\<not> isl (fst ?p) \<and> \<not> isl (fst ?q)" by code_simp
  then obtain d d' where p: "?p = (Inr d, snd ?p)" and q: "?q = (Inr d', snd ?q)"
    by (metis prod.collapse sum.collapse(2))
  have "d' = d \<and> ledger_entries (snd ?q) = ledger_entries (snd ?p)"
    by (rule createEntry_idempotent [OF p safe.rely_refl _ q]) simp
  then show ?thesis using p q by metis
qed

end
