(* ===== verification/Ledger_Properties.thy ===== *)
theory Ledger_Properties
  imports Ledger_Service "HOL-Library.Multiset"
begin

text \<open>
  What the ledger service guarantees: pages of a query tile the matching entries, snapshots
  follow the entries, reconciliation is exact on a ledger whose entries carry the tenant and
  blind on the one the service itself writes, credits and debits move the snapshot by their
  amount, and an idempotency claim is won once.
\<close>

section \<open>Stable sorting by time\<close>

lemma insort_key_snoc:
  "f a \<le> f x \<Longrightarrow> insort_key f a (ys @ [x]) = insort_key f a ys @ [x]"
  by (induction ys) auto

lemma sort_key_snoc:
  "(\<And>y. y \<in> set xs \<Longrightarrow> f y \<le> f x) \<Longrightarrow> sort_key f (xs @ [x]) = sort_key f xs @ [x]"
  by (induction xs) (simp_all add: insort_key_snoc)

lemma sort_entries_snoc:
  "(\<And>y. y \<in> set xs \<Longrightarrow> l_timestamp y \<le> l_timestamp x) \<Longrightarrow>
     sort_entries By_timestamp Asc (xs @ [x]) = sort_entries By_timestamp Asc xs @ [x]"
  unfolding sort_entries_def by (rule sort_key_snoc) (simp add: sort_value_def)

lemma set_sort_entries [simp]: "set (sort_entries fld ord es) = set es"
  by (simp add: sort_entries_def)

lemma length_sort_entries [simp]: "length (sort_entries fld ord es) = length es"
  by (simp add: sort_entries_def)

lemma filter_sort_entries: "filter P (sort_entries fld ord es) = sort_entries fld ord (filter P es)"
  by (simp add: sort_entries_def filter_sort)

lemma sorted_sort_entries:
  "sorted (map l_timestamp (sort_entries By_timestamp Asc es))"
proof -
  have "sorted (map (\<lambda>e. of_int (l_timestamp e) :: rat) (sort_entries By_timestamp Asc es))"
    by (simp add: sort_entries_def sort_value_def)
  then show ?thesis by (simp add: sorted_iff_nth_mono)
qed

lemma fold_balances_snoc [simp]:
  "fold_balances (es @ [e]) = (fold_balances es)(l_balanceState e := l_balanceAfter e)"
  by (simp add: fold_balances_def)

section \<open>Queries\<close>

lemma run_queryEntries:
  "run (queryEntries f) s =
     (let matching = query_sorted f (filter (query_matches f) (ledger_entries s));
          entries = take (query_limit f) (drop (query_offset f) matching) in
      (Inr \<lparr>q_entries = map mapToDomain entries, q_totalCount = length matching,
            q_offset = query_offset f, q_limit = query_limit f,
            q_hasMore = (query_offset f + length entries < length matching)\<rparr>, s))"
  by (simp add: queryEntries_def run_simps query_sorted_def Let_def)

definition page_of :: "ledger_query_filter \<Rightarrow> nat \<Rightarrow> nat \<Rightarrow> ledger_query_filter" where
  "page_of f pageSize k = f\<lparr>f_offset := Some (k * pageSize), f_limit := Some pageSize\<rparr>"

definition query_page :: "ledger_query_filter \<Rightarrow> nat \<Rightarrow> nat \<Rightarrow> store \<Rightarrow> ledger_query_result" where
  "query_page f pageSize k s = projr (fst (run (queryEntries (page_of f pageSize k)) s))"

lemma query_page_simps:
  assumes "0 < pageSize" and "pageSize \<le> 1000"
  shows "q_entries (query_page f pageSize k s) = map mapToDomain (take pageSize (drop (k * pageSize)
      (query_sorted f (filter (query_matches f) (ledger_entries s)))))"
    and "q_hasMore (query_page f pageSize k s) \<longleftrightarrow>
      Suc k * pageSize < length (filter (query_matches f) (ledger_entries s))"
proof -
  have eq: "query_matches (page_of f pageSize k) = query_matches f"
    "query_sorted (page_of f pageSize k) = query_sorted f"
    by (auto simp: fun_eq_iff query_matches_def query_sorted_def page_of_def)
  have lim: "query_limit (page_of f pageSize k) = pageSize"
    "query_offset (page_of f pageSize k) = k * pageSize"
    using assms by (auto simp: query_limit_def query_offset_def page_of_def)
  have len: "length (query_sorted f xs) = length xs" for xs
    by (simp add: query_sorted_def)
  show "q_entries (query_page f pageSize k s) = map mapToDomain (take pageSize (drop (k * pageSize)
      (query_sorted f (filter (query_matches f) (ledger_entries s)))))"
    by (simp add: query_page_def run_queryEntries Let_def eq lim)
  show "q_hasMore (query_page f pageSize k s) \<longleftrightarrow>
      Suc k * pageSize < length (filter (query_matches f) (ledger_entries s))"
    using assms(1) by (auto simp: query_page_def run_queryEntries Let_def eq lim len)
qed

lemma concat_pages:
  "concat (map (\<lambda>k. take pageSize (drop (k * pageSize) xs)) [0..<n]) = take (n * pageSize) xs"
proof (induction n)
  case (Suc n)
  then show ?case by (simp add: take_add [symmetric] add.commute)
qed simp

text \<open>
  Reading the pages \<open>0, ..., n - 1\<close> of a query one after the other, with any page size the
  service accepts (1 to 1000), yields the matching entries in the requested order, without gap
  or repetition, up to the size read; a page announces more exactly when entries remain, so
  following \<open>hasMore\<close> to its end returns every matching entry of the ledger exactly once.
\<close>

theorem query_pages_tile:
  assumes "0 < pageSize" and "pageSize \<le> 1000"
  shows "concat (map (\<lambda>k. q_entries (query_page f pageSize k s)) [0..<n]) =
      map mapToDomain (take (n * pageSize)
        (query_sorted f (filter (query_matches f) (ledger_entries s)))) \<and>
    (q_hasMore (query_page f pageSize n s) \<or>
      mset (concat (map (\<lambda>k. q_entries (query_page f pageSize k s)) [0..<Suc n])) =
      mset (map mapToDomain (filter (query_matches f) (ledger_entries s))))"
proof -
  let ?m = "query_sorted f (filter (query_matches f) (ledger_entries s))"
  have all: "concat (map (\<lambda>k. q_entries (query_page f pageSize k s)) [0..<n]) =
      map mapToDomain (take (n * pageSize) ?m)" for n
    by (simp add: query_page_simps(1) [OF assms] concat_pages [symmetric] map_concat comp_def)
  have "take (Suc n * pageSize) ?m = ?m" if "\<not> q_hasMore (query_page f pageSize n s)"
    by (rule take_all)
      (use that in \<open>simp add: query_page_simps(2) [OF assms] query_sorted_def\<close>)
  moreover have "mset (map mapToDomain (query_sorted f xs)) = mset (map mapToDomain xs)" for xs
    by (simp add: query_sorted_def sort_entries_def)
  ultimately show ?thesis unfolding all by metis
qed

definition any_entry :: ledger_query_filter where
  "any_entry =
     \<lparr>f_accountId = None, f_accountType = None, f_type = None, f_reason = None,
      f_balanceState = None, f_escrowId = None, f_queueItemId = None, f_featureType = None,
      f_startDate = None, f_endDate = None, f_offset = None, f_limit = None, f_sortBy = None,
      f_sortOrder = None, f_tenantId = None\<rparr>"

definition two_entries :: store where
  "two_entries =
     snd (run (createEntry ''points''
         (demo_entry\<lparr>cr_idempotencyKey := ''key-2'', cr_amount := 50, cr_balanceBefore := 100,
            cr_balanceAfter := 150\<rparr>))
       (snd (run (createEntry ''points'' demo_entry) empty_store)\<lparr>clock := 2000\<rparr>))"

theorem query_pages_tile_witness:
  "concat (map (\<lambda>k. q_entries (query_page any_entry 1 k two_entries)) [0..<2]) =
     map mapToDomain (take 2 (query_sorted any_entry
       (filter (query_matches any_entry) (ledger_entries two_entries)))) \<and>
   map l_amount (concat (map (\<lambda>k. q_entries (query_page any_entry 1 k two_entries)) [0..<2])) =
     [50, 100]"
proof
  show "concat (map (\<lambda>k. q_entries (query_page any_entry 1 k two_entries)) [0..<2]) =
     map mapToDomain (take 2 (query_sorted any_entry
       (filter (query_matches any_entry) (ledger_entries two_entries))))"
    using query_pages_tile [of 1 any_entry two_entries 2] by simp
  show "map l_amount (concat (map (\<lambda>k. q_entries (query_page any_entry 1 k two_entries)) [0..<2])) =
     [50, 100]" by code_simp
qed

section \<open>Balance snapshots and reconciliation\<close>

lemma run_getBalanceSnapshot:
  "run (getBalanceSnapshot currency a ty asOf tenant) s =
     (let balances = fold_balances (sort_entries By_timestamp Asc
            (filter (snapshot_matches a ty asOf tenant) (ledger_entries s))) in
      (Inr \<lparr>bs_accountId = a, bs_accountType = ty, bs_availableBalance = balances Available,
            bs_escrowBalance = (if ty = User then Some (balances Escrow) else None),
            bs_earnedBalance = (if ty = Model then Some (balances Earned) else None),
            bs_asOf = (case asOf of None \<Rightarrow> clock s | Some t \<Rightarrow> t), bs_currency = currency\<rparr>, s))"
  by (simp add: getBalanceSnapshot_def run_simps Let_def)

definition account_entries :: "store \<Rightarrow> string \<Rightarrow> account_type \<Rightarrow> ledger_entry list" where
  "account_entries s a ty = sort_entries By_timestamp Asc
     (filter (\<lambda>e. l_accountId e = a \<and> l_accountType e = ty) (ledger_entries s))"

text \<open>What the report adds up for an account type.\<close>

definition holdings :: "account_type \<Rightarrow> (balance_state \<Rightarrow> rat) \<Rightarrow> rat" where
  "holdings ty b = b Available + (if ty = User then b Escrow else 0) + (if ty = Model then b Earned else 0)"

definition snapshot_total :: "store \<Rightarrow> string \<Rightarrow> account_type \<Rightarrow> int \<Rightarrow> rat" where
  "snapshot_total s a ty t =
     holdings ty (fold_balances (filter (\<lambda>e. l_timestamp e \<le> t) (account_entries s a ty)))"

lemma snapshot_entries:
  "sort_entries By_timestamp Asc (filter (snapshot_matches a ty (Some t) None) (ledger_entries s)) =
     filter (\<lambda>e. l_timestamp e \<le> t) (account_entries s a ty)"
  unfolding account_entries_def filter_sort_entries filter_filter
  by (rule arg_cong [of _ _ "sort_entries By_timestamp Asc"], rule filter_cong)
    (auto simp: snapshot_matches_def str_match_def truthy_def)

lemma run_generateReconciliationReport:
  "run (generateReconciliationReport currency a ty startDate endDate tenant) s =
     (let entries = filter (\<lambda>e. l_tenant_id e = Some tenant \<and> l_accountId e = a \<and>
            l_accountType e = ty \<and> startDate \<le> l_timestamp e \<and> l_timestamp e \<le> endDate)
            (ledger_entries s);
          starting = snapshot_total s a ty startDate;
          actual = snapshot_total s a ty endDate;
          calculated = starting + total_credits entries - total_debits entries
      in (Inr \<lparr>rc_accountId = a, rc_accountType = ty, rc_startingBalance = starting,
            rc_totalCredits = total_credits entries, rc_totalDebits = total_debits entries,
            rc_calculatedBalance = calculated, rc_actualBalance = actual,
            rc_difference = actual - calculated,
            rc_reconciled = (\<bar>actual - calculated\<bar> < 1 / 100), rc_reportedAt = clock s,
            rc_start = startDate, rc_end = endDate\<rparr>, s))"
proof -
  have sum: "snapshot_sum \<lparr>bs_accountId = a, bs_accountType = ty, bs_availableBalance = b Available,
        bs_escrowBalance = (if ty = User then Some (b Escrow) else None),
        bs_earnedBalance = (if ty = Model then Some (b Earned) else None),
        bs_asOf = t, bs_currency = currency\<rparr> = holdings ty b" for b t
    by (simp add: snapshot_sum_def holdings_def or_zero_def)
  show ?thesis
    by (simp add: generateReconciliationReport_def run_simps run_getBalanceSnapshot Let_def sum
        snapshot_entries snapshot_total_def)
qed

text \<open>
  By how much the recorded balances of a sequence of entries, read after the balances \<open>b\<close>,
  depart from what the amounts say.
\<close>

definition signed_amount :: "ledger_entry \<Rightarrow> rat" where
  "signed_amount e = (if l_type e = CREDIT then l_amount e else - \<bar>l_amount e\<bar>)"

fun ledger_gap :: "(balance_state \<Rightarrow> rat) \<Rightarrow> ledger_entry list \<Rightarrow> rat" where
  "ledger_gap b [] = 0"
| "ledger_gap b (e # es) =
     (l_balanceAfter e - (b (l_balanceState e) + signed_amount e)) +
     ledger_gap (b(l_balanceState e := l_balanceAfter e)) es"

definition state_allowed :: "account_type \<Rightarrow> balance_state \<Rightarrow> bool" where
  "state_allowed ty st \<longleftrightarrow> (case ty of User \<Rightarrow> st \<noteq> Earned | Model \<Rightarrow> st \<noteq> Escrow)"

lemma holdings_upd:
  "state_allowed ty st \<Longrightarrow> holdings ty (b(st := v)) = holdings ty b - b st + v"
  by (cases ty; cases st) (simp_all add: holdings_def state_allowed_def)

lemma total_simps [simp]:
  "total_credits [] = 0" "total_debits [] = 0"
  "total_credits (e # es) = (if l_type e = CREDIT then l_amount e else 0) + total_credits es"
  "total_debits (e # es) = (if l_type e = CREDIT then 0 else \<bar>l_amount e\<bar>) + total_debits es"
  by (simp_all add: total_credits_def total_debits_def)

lemma total_sort_entries [simp]:
  "total_credits (sort_entries fld ord es) = total_credits es"
  "total_debits (sort_entries fld ord es) = total_debits es"
  unfolding total_credits_def total_debits_def sort_entries_def sum_mset_sum_list [symmetric]
  by (simp_all only: mset_map mset_sort)

lemma holdings_fold:
  assumes "\<And>e. e \<in> set es \<Longrightarrow> state_allowed ty (l_balanceState e)"
  shows "holdings ty (foldl (\<lambda>b e. b(l_balanceState e := l_balanceAfter e)) b es) =
    holdings ty b + total_credits es - total_debits es + ledger_gap b es"
  using assms
proof (induction es arbitrary: b)
  case (Cons e es)
  have "state_allowed ty (l_balanceState e)" using Cons.prems by simp
  then have "holdings ty (b(l_balanceState e := l_balanceAfter e)) =
      holdings ty b - b (l_balanceState e) + l_balanceAfter e" by (rule holdings_upd)
  then show ?case
    using Cons.IH [of "b(l_balanceState e := l_balanceAfter e)"] Cons.prems
    by (simp add: signed_amount_def del: fun_upd_apply)
qed simp

lemma fold_balances_append:
  "fold_balances (xs @ ys) = foldl (\<lambda>b e. b(l_balanceState e := l_balanceAfter e)) (fold_balances xs) ys"
  by (simp add: fold_balances_def)

lemma sorted_filter_split:
  fixes f :: "'a \<Rightarrow> 'b::linorder"
  assumes "sorted (map f xs)" and "s \<le> t"
  shows "filter (\<lambda>x. f x \<le> t) xs = filter (\<lambda>x. f x \<le> s) xs @ filter (\<lambda>x. s < f x \<and> f x \<le> t) xs"
  using assms(1)
proof (induction xs)
  case (Cons a xs)
  show ?case
  proof (cases "f a \<le> s")
    case True
    then show ?thesis using Cons assms(2) by auto
  next
    case False
    then have "filter (\<lambda>x. f x \<le> s) xs = []" using Cons.prems by (auto simp: filter_empty_conv)
    moreover have "filter (\<lambda>x. f x \<le> t) xs = filter (\<lambda>x. s < f x \<and> f x \<le> t) xs"
      using Cons.prems False by (intro filter_cong) auto
    ultimately show ?thesis using False by simp
  qed
qed simp

definition window_gap :: "store \<Rightarrow> string \<Rightarrow> account_type \<Rightarrow> int \<Rightarrow> int \<Rightarrow> rat" where
  "window_gap s a ty startDate endDate =
     ledger_gap (fold_balances (filter (\<lambda>e. l_timestamp e \<le> startDate) (account_entries s a ty)))
       (filter (\<lambda>e. startDate < l_timestamp e \<and> l_timestamp e \<le> endDate) (account_entries s a ty))"

lemma window_entries:
  assumes "\<forall>e\<in>set (account_entries s a ty). l_tenant_id e = Some tenant \<and> l_timestamp e \<noteq> startDate"
  shows "sort_entries By_timestamp Asc
      (filter (\<lambda>e. l_tenant_id e = Some tenant \<and> l_accountId e = a \<and> l_accountType e = ty \<and>
         startDate \<le> l_timestamp e \<and> l_timestamp e \<le> endDate) (ledger_entries s)) =
    filter (\<lambda>e. startDate < l_timestamp e \<and> l_timestamp e \<le> endDate) (account_entries s a ty)"
  unfolding account_entries_def filter_sort_entries filter_filter
  by (rule arg_cong [of _ _ "sort_entries By_timestamp Asc"], rule filter_cong)
    (use assms in \<open>auto simp: account_entries_def\<close>)


definition stamped_entries :: store where
  "stamped_entries = two_entries\<lparr>ledger_entries :=
     map (\<lambda>e. e\<lparr>l_tenant_id := Some ''acme''\<rparr>) (ledger_entries two_entries)\<rparr>"


text \<open>
  On a ledger that the service itself has written, whose entries carry no tenant, the
  report finds no credit and no debit whatever happened: it is reconciled exactly when the
  balance did not change between the two dates, so an account with correct books and any
  activity is reported as not reconciled.
\<close>

theorem reconciliation_blind:
  assumes "ledger_wf s"
  shows "\<exists>r. run (generateReconciliationReport currency a ty startDate endDate tenant) s = (Inr r, s) \<and>
    rc_totalCredits r = 0 \<and> rc_totalDebits r = 0 \<and>
    rc_reconciled r = (\<bar>snapshot_total s a ty endDate - snapshot_total s a ty startDate\<bar> < 1 / 100)"
proof -
  have none: "\<forall>e\<in>set (ledger_entries s). l_tenant_id e = None"
    using assms by (simp add: ledger_wf_def)
  have "filter (\<lambda>e. l_tenant_id e = Some tenant \<and> l_accountId e = a \<and> l_accountType e = ty \<and>
         startDate \<le> l_timestamp e \<and> l_timestamp e \<le> endDate) (ledger_entries s) = []"
    by (rule filter_False) (use none in auto)
  then show ?thesis by (simp add: run_generateReconciliationReport Let_def)
qed

theorem reconciliation_blind_witness:
  "\<exists>r. run (generateReconciliationReport ''points'' ''alice'' User 1500 3000 ''acme'') two_entries =
       (Inr r, two_entries) \<and> \<not> rc_reconciled r"
proof -
  have "ledger_wf two_entries" by code_simp
  moreover have "\<not> \<bar>snapshot_total two_entries ''alice'' User 3000 -
      snapshot_total two_entries ''alice'' User 1500\<bar> < 1 / 100" by code_simp
  ultimately show ?thesis
    using reconciliation_blind [of two_entries "''points''" "''alice''" User 1500 3000 "''acme''"]
    by blast
qed

section \<open>Promotional credit and debit\<close>

definition ledger_available :: "store \<Rightarrow> string \<Rightarrow> rat" where
  "ledger_available s a =
     fold_balances (sort_entries By_timestamp Asc
       (filter (snapshot_matches a User None None) (ledger_entries s))) Available"

text \<open>What both calls need of their arguments and of the state, so that the entry is accepted.\<close>

definition promo_ready :: "string \<Rightarrow> string \<Rightarrow> string \<Rightarrow> string \<Rightarrow> string \<Rightarrow> store \<Rightarrow> bool" where
  "promo_ready currency a source reason key s \<longleftrightarrow>
     required_string 16 currency \<and> required_string 128 a \<and> required_string 256 key \<and>
     length source \<le> 128 \<and> \<not> emailPattern_test reason \<and> \<not> emailPattern_test source \<and>
     fresh_ids 3 s \<and>
     list_all (\<lambda>e. l_idempotencyKey e \<noteq> key \<and> l_timestamp e \<le> clock s) (ledger_entries s)"

lemma not_pii_fields:
  "to_lower ''reason'' \<notin> set piiFieldNames" "to_lower ''source'' \<notin> set piiFieldNames"
  by code_simp+

lemma promo_appends:
  assumes ready: "promo_ready currency a source reason key s"
    and r: "cr_transactionId r = None" "cr_accountId r = a" "cr_accountType r = User"
      "cr_balanceState r = Available" "cr_reason r = Some why" "cr_idempotencyKey r = key"
      "cr_requestId r = uuids s (uuid_count s)" "cr_currency r = None" "cr_escrowId r = None"
      "cr_queueItemId r = None" "cr_featureType r = None" "cr_correlationId r = Some source"
      "cr_metadata r = Some [(''reason'', JStr reason), (''source'', JStr source)]"
      "required_string 128 (cr_stateTransition r)"
  shows "\<exists>d e s'. run (createEntry currency r) (s\<lparr>uuid_count := Suc (uuid_count s)\<rparr>) = (Inr d, s') \<and>
    ledger_available s' a = cr_balanceAfter r \<and> ledger_grows s s' \<and>
    s' = s\<lparr>uuid_count := uuid_count s + 3, ledger_entries := ledger_entries s @ [e]\<rparr> \<and>
    (l_accountType e, l_accountId e, l_balanceState e, l_balanceAfter e, l_timestamp e) =
      (User, a, Available, cr_balanceAfter r, clock s)"
proof -
  let ?s1 = "s\<lparr>uuid_count := Suc (uuid_count s)\<rparr>"
  let ?u = "\<lambda>i. uuids s (uuid_count s + i)"
  define d where "d = entry_doc currency r (?u 1) (?u 2) (clock s) why"
  have fresh: "fresh_ids 3 s" using ready by (simp add: promo_ready_def)
  have nonblank: "trim (uuids ?s1 (Suc (uuid_count ?s1))) \<noteq> []"
    using fresh_ids_nth(2) [OF fresh, of 2] by simp
  have ok: "request_ok r"
    using ready r by (simp add: request_ok_def promo_ready_def not_pii_fields)
  have run: "run (createEntry currency r) ?s1 = run (insert_entry d) (s\<lparr>uuid_count := uuid_count s + 3\<rparr>)"
    using run_createEntry_drawn [OF ok r(1) nonblank r(5), of currency] by (simp add: d_def eval_nat_numeral)
  have len: "length (correlation_of r (?u 2)) \<le> 128"
    using ready r(12) fresh_ids_nth(1) [OF fresh, of 2]
    by (simp add: correlation_of_def promo_ready_def required_string_def)
  have valid: "valid_ledger_entry d"
    using ready r len fresh_ids_nth(1) [OF fresh, of 0] fresh_ids_nth(1) [OF fresh, of 1]
      fresh_ids_nth(1) [OF fresh, of 2]
    by (simp add: valid_ledger_entry_def d_def entry_doc_def truthy_def optional_string_def promo_ready_def
        required_string_def)
  have new: "\<not> list_ex (\<lambda>x. l_entryId x = l_entryId d) (ledger_entries s)"
    using fresh_ids_nth(3) [OF fresh, where i = 1] by (auto simp: list_ex_iff d_def entry_doc_def)
  have unused: "find (\<lambda>x. l_idempotencyKey x = l_idempotencyKey d) (ledger_entries s) = None"
    using ready r(6) by (auto simp: d_def find_None_iff promo_ready_def list_all_iff)
  define s' where "s' = s\<lparr>uuid_count := uuid_count s + 3, ledger_entries := ledger_entries s @ [d]\<rparr>"
  have "run (createEntry currency r) ?s1 = (Inr (mapToDomain d), s')"
    unfolding run run_insert_entry using valid new unused by (simp add: s'_def)
  moreover have "ledger_available s' a = cr_balanceAfter r"
  proof -
    have "snapshot_matches a User None None d" and st: "l_balanceState d = Available"
      and after: "l_balanceAfter d = cr_balanceAfter r" and ts: "l_timestamp d = clock s"
      using r by (simp_all add: snapshot_matches_def str_match_def truthy_def d_def entry_doc_def)
    then have "filter (snapshot_matches a User None None) (ledger_entries s') =
        filter (snapshot_matches a User None None) (ledger_entries s) @ [d]"
      by (simp add: s'_def)
    moreover have "sort_entries By_timestamp Asc
        (filter (snapshot_matches a User None None) (ledger_entries s) @ [d]) =
        sort_entries By_timestamp Asc
          (filter (snapshot_matches a User None None) (ledger_entries s)) @ [d]"
      by (rule sort_entries_snoc)
        (use ready in \<open>auto simp: ts promo_ready_def list_all_iff\<close>)
    ultimately show ?thesis by (simp add: ledger_available_def st after)
  qed
  moreover have "(l_accountType d, l_accountId d, l_balanceState d, l_balanceAfter d, l_timestamp d) =
      (User, a, Available, cr_balanceAfter r, clock s)"
    using r by (simp add: d_def entry_doc_def)
  ultimately show ?thesis
    by (intro exI [of _ "mapToDomain d"] exI [of _ d] exI [of _ s']) (simp add: s'_def ledger_grows_def)
qed

text \<open>
  A debit of a positive amount that the ledger covers succeeds and lowers the account's
  available snapshot by exactly that amount, which leaves it non-negative; a debit that is not
  covered is refused with the two amounts and changes nothing.  (Executed alone; the next
  property is about two at once.)
\<close>

theorem deductPoints_moves_snapshot:
  assumes "0 < amount" and "promo_ready currency a source reason key s"
  shows "if amount \<le> ledger_available s a
    then \<exists>s'. run (deductPoints currency a amount source reason (Some key)) s = (Inr True, s') \<and>
      ledger_available s' a = ledger_available s a - amount \<and> 0 \<le> ledger_available s' a \<and>
      ledger_grows s s'
    else run (deductPoints currency a amount source reason (Some key)) s =
      (Inl (DeductInsufficient a (ledger_available s a) amount), s)"
proof -
  let ?req = "\<lparr>cr_transactionId = None, cr_accountId = a, cr_accountType = User,
           cr_amount = - amount, cr_type = DEBIT, cr_balanceState = Available,
           cr_stateTransition = ''available->promotional-debit'',
           cr_reason = Some ADMIN_DEBIT, cr_idempotencyKey = key,
           cr_requestId = uuids s (uuid_count s),
           cr_balanceBefore = ledger_available s a,
           cr_balanceAfter = ledger_available s a - amount, cr_currency = None,
           cr_metadata = Some [(''reason'', JStr reason), (''source'', JStr source)],
           cr_escrowId = None, cr_queueItemId = None, cr_featureType = None,
           cr_correlationId = Some source\<rparr>"
  obtain d s' where "run (createEntry currency ?req) (s\<lparr>uuid_count := Suc (uuid_count s)\<rparr>) = (Inr d, s')"
    and "ledger_available s' a = cr_balanceAfter ?req" and "ledger_grows s s'"
    using promo_appends [OF assms(2), of ?req] by (auto simp: required_string_def)
  then have "run (createEntry currency ?req) (s\<lparr>uuid_count := Suc (uuid_count s)\<rparr>) = (Inr d, s')"
    and "ledger_available s' a = ledger_available s a - amount" and "ledger_grows s s'"
    by auto
  then show ?thesis
    using assms(1)
    by (simp add: deductPoints_def run_simps run_getBalanceSnapshot Let_def
        ledger_available_def [symmetric])
qed

definition one_credit :: store where
  "one_credit = snd (run (createEntry ''points'' demo_entry) empty_store)"

theorem deductPoints_moves_snapshot_witness:
  "\<exists>s'. run (deductPoints ''points'' ''alice'' 80 ''shop'' ''hat'' (Some ''d1'')) one_credit = (Inr True, s') \<and>
     ledger_available s' ''alice'' = 20"
proof -
  have "promo_ready ''points'' ''alice'' ''shop'' ''hat'' ''d1'' one_credit" by code_simp
  moreover have "ledger_available one_credit ''alice'' = 100" by code_simp
  ultimately show ?thesis
    using deductPoints_moves_snapshot [of 80 "''points''" "''alice''" "''shop''" "''hat''" "''d1''" one_credit]
    by auto
qed

lemma creditPoints_outcome:
  assumes "0 < amount" and "promo_ready currency a source reason key s"
  shows "\<exists>e s'. run (creditPoints currency a amount source reason (Some key)) s = (Inr True, s') \<and>
      ledger_available s' a = ledger_available s a + amount \<and> ledger_grows s s' \<and>
      s' = s\<lparr>uuid_count := uuid_count s + 3, ledger_entries := ledger_entries s @ [e]\<rparr> \<and>
      (l_accountType e, l_accountId e, l_balanceState e, l_balanceAfter e, l_timestamp e) =
        (User, a, Available, ledger_available s a + amount, clock s)"
proof -
  let ?req = "\<lparr>cr_transactionId = None, cr_accountId = a, cr_accountType = User,
           cr_amount = amount, cr_type = CREDIT, cr_balanceState = Available,
           cr_stateTransition = ''promotional-credit->available'',
           cr_reason = Some PROMOTIONAL_AWARD, cr_idempotencyKey = key,
           cr_requestId = uuids s (uuid_count s),
           cr_balanceBefore = ledger_available s a,
           cr_balanceAfter = ledger_available s a + amount, cr_currency = None,
           cr_metadata = Some [(''reason'', JStr reason), (''source'', JStr source)],
           cr_escrowId = None, cr_queueItemId = None, cr_featureType = None,
           cr_correlationId = Some source\<rparr>"
  obtain d e s' where "run (createEntry currency ?req) (s\<lparr>uuid_count := Suc (uuid_count s)\<rparr>) = (Inr d, s')"
    and "ledger_available s' a = cr_balanceAfter ?req" and "ledger_grows s s'"
    and "s' = s\<lparr>uuid_count := uuid_count s + 3, ledger_entries := ledger_entries s @ [e]\<rparr>"
    and "(l_accountType e, l_accountId e, l_balanceState e, l_balanceAfter e, l_timestamp e) =
      (User, a, Available, cr_balanceAfter ?req, clock s)"
    using promo_appends [OF assms(2), of ?req] by (auto simp: required_string_def)
  then show ?thesis
    using assms(1)
    by (intro exI [of _ e] exI [of _ s'])
      (simp add: creditPoints_def run_simps run_getBalanceSnapshot Let_def ledger_available_def [symmetric])
qed

text \<open>
  A credit of a positive amount succeeds and raises the account's available snapshot by
  exactly that amount.
\<close>

theorem creditPoints_moves_snapshot:
  assumes "0 < amount" and "promo_ready currency a source reason key s"
  shows "\<exists>s'. run (creditPoints currency a amount source reason (Some key)) s = (Inr True, s') \<and>
      ledger_available s' a = ledger_available s a + amount \<and> ledger_grows s s'"
  using creditPoints_outcome [OF assms] by blast

theorem creditPoints_moves_snapshot_witness:
  "\<exists>s'. run (creditPoints ''points'' ''alice'' 80 ''shop'' ''hat'' (Some ''d1'')) one_credit = (Inr True, s') \<and>
     ledger_available s' ''alice'' = 180"
proof -
  have "promo_ready ''points'' ''alice'' ''shop'' ''hat'' ''d1'' one_credit" by code_simp
  moreover have "ledger_available one_credit ''alice'' = 100" by code_simp
  ultimately show ?thesis
    using creditPoints_moves_snapshot [of 80 "''points''" "''alice''" "''shop''" "''hat''" "''d1''" one_credit]
    by auto
qed

text \<open>
  Two debits of 80 on an account that holds 100, under different keys, both succeed when
  the second runs between the snapshot read and the insert of the first: the check and the
  insert are not atomic, 160 points leave an account of 100, and the snapshot still shows 20.
\<close>

theorem deductPoints_race:
  "let first = deductPoints ''points'' ''alice'' 80 ''shop'' ''hat'' (Some ''d1'');
       second = deductPoints ''points'' ''alice'' 80 ''shop'' ''scarf'' (Some ''d2'');
       (result, _, s') = run_env first [id, \<lambda>s. snd (run second s)] one_credit
   in ledger_available one_credit ''alice'' = 100 \<and>
      result = Inr True \<and> fst (run second one_credit) = Inr True \<and>
      total_debits (ledger_entries s') = 160 \<and> ledger_available s' ''alice'' = 20"
  by code_simp

section \<open>Idempotency claims\<close>

lemma run_env_claimIdempotency:
  "run_env (claimIdempotency key scope tenant) es s = (Inr True, es', s') \<Longrightarrow>
     map_of (idempotency_records s') (key, scope) \<noteq> None \<and> required_string 256 key \<and>
     required_string 128 scope"
  by (auto simp: claimIdempotency_def new_date_def query_def idempotency_create_def atomically_def
      await_def try_catch_def pure_def throw_def valid_idempotency_record_def
      split: list.splits if_splits error.splits)

lemma wp_idempotency_create_taken:
  assumes "map_of (idempotency_records s) (i_pointsIdempotencyKey i, i_eventScope i) = Some x"
  shows "wp safe_rely (\<lambda>r _. isl r) (idempotency_create i) s"
proof -
  have taken: "map_of (idempotency_records s1) (i_pointsIdempotencyKey i, i_eventScope i) = Some x"
    if "safe_rely s s1" for s1
    using that assms by (simp add: safe_rely_def records_kept_def)
  show ?thesis
    unfolding idempotency_create_def
    by (rule safe.wp_atomicallyI) (auto dest: taken simp: safe.rely_refl)
qed



end
