(* ===== verification/Ledger_Steps.thy ===== *)
theory Ledger_Steps
  imports Ledger_Service
begin

text \<open>
  The execution of \<open>createEntry\<close> on the requests the other services build: one equation, from
  a state to the state with one more entry, under conditions on the fields of the request.
\<close>

text \<open>A request whose fields fit the schema, and the entry it becomes.\<close>

definition request_valid :: "create_ledger_entry_request \<Rightarrow> bool" where
  "request_valid r \<longleftrightarrow>
     request_ok r \<and> required_string 128 (cr_accountId r) \<and>
     required_string 128 (cr_stateTransition r) \<and> required_string 256 (cr_idempotencyKey r) \<and>
     required_string 128 (cr_requestId r) \<and>
     (case cr_currency r of None \<Rightarrow> False | Some c \<Rightarrow> required_string 16 c) \<and>
     optional_string 128 (cr_escrowId r) \<and> optional_string 128 (cr_queueItemId r) \<and>
     optional_string 64 (cr_featureType r) \<and> optional_string 128 (cr_correlationId r)"

definition new_entry :: "string \<Rightarrow> create_ledger_entry_request \<Rightarrow> string \<Rightarrow> store \<Rightarrow> ledger_entry" where
  "new_entry currency r t s =
     entry_doc currency r (uuids s (uuid_count s)) t (clock s) (the (cr_reason r))"

definition after_entry :: "string \<Rightarrow> create_ledger_entry_request \<Rightarrow> string \<Rightarrow> store \<Rightarrow> store" where
  "after_entry currency r t s =
     s\<lparr>uuid_count := Suc (uuid_count s), ledger_entries := ledger_entries s @ [new_entry currency r t s]\<rparr>"

lemma after_entry_simps [simp]:
  "wallets (after_entry c r t s) = wallets s"
  "model_wallets (after_entry c r t s) = model_wallets s"
  "escrow_items (after_entry c r t s) = escrow_items s"
  "idempotency_records (after_entry c r t s) = idempotency_records s"
  "published (after_entry c r t s) = published s"
  "clock (after_entry c r t s) = clock s"
  "uuids (after_entry c r t s) = uuids s"
  "uuid_count (after_entry c r t s) = Suc (uuid_count s)"
  "ledger_entries (after_entry c r t s) = ledger_entries s @ [new_entry c r t s]"
  by (simp_all add: after_entry_def)

lemma new_entry_simps [simp]:
  "l_accountId (new_entry c r t s) = cr_accountId r"
  "l_accountType (new_entry c r t s) = cr_accountType r"
  "l_amount (new_entry c r t s) = cr_amount r"
  "l_type (new_entry c r t s) = cr_type r"
  "l_balanceState (new_entry c r t s) = cr_balanceState r"
  "l_idempotencyKey (new_entry c r t s) = cr_idempotencyKey r"
  "l_balanceBefore (new_entry c r t s) = cr_balanceBefore r"
  "l_balanceAfter (new_entry c r t s) = cr_balanceAfter r"
  "l_transactionId (new_entry c r t s) = t"
  "l_escrowId (new_entry c r t s) = cr_escrowId r"
  "l_entryId (new_entry c r t s) = uuids s (uuid_count s)"
  "l_timestamp (new_entry c r t s) = clock s"
  by (simp_all add: new_entry_def entry_doc_def)

lemma run_createEntry_new:
  assumes "request_valid r" and "cr_transactionId r = Some t"
    and "required_string 128 t" and "trim t \<noteq> []"
    and "required_string 128 (uuids s (uuid_count s))"
    and "\<And>e. e \<in> set (ledger_entries s) \<Longrightarrow> l_entryId e \<noteq> uuids s (uuid_count s)"
    and "\<And>e. e \<in> set (ledger_entries s) \<Longrightarrow> l_idempotencyKey e \<noteq> cr_idempotencyKey r"
  shows "run (createEntry currency r) s =
    (Inr (mapToDomain (new_entry currency r t s)), after_entry currency r t s)"
proof -
  obtain reason where r: "cr_reason r = Some reason"
    using assms(1) by (auto simp: request_valid_def request_ok_def)
  let ?d = "new_entry currency r t s"
  have "valid_ledger_entry ?d"
    using assms(1,3,5) r
    by (auto simp: valid_ledger_entry_def new_entry_def entry_doc_def request_valid_def truthy_def
        correlation_of_def optional_string_def required_string_def split: option.splits)
  moreover have "\<not> list_ex (\<lambda>x. l_entryId x = l_entryId ?d) (ledger_entries s)"
    using assms(6) by (auto simp: list_ex_iff)
  moreover have "find (\<lambda>x. l_idempotencyKey x = l_idempotencyKey ?d) (ledger_entries s) = None"
    using assms(7) by (auto simp: find_None_iff)
  moreover have "run (createEntry currency r) s = run (insert_entry ?d) (s\<lparr>uuid_count := Suc (uuid_count s)\<rparr>)"
    using run_createEntry_given [OF _ assms(2,4) r] assms(1) r
    by (simp add: request_valid_def new_entry_def)
  ultimately show ?thesis by (simp add: run_insert_entry after_entry_def)
qed

definition metadata_ok :: "metadata option \<Rightarrow> bool" where
  "metadata_ok md \<longleftrightarrow> (case md of None \<Rightarrow> True | Some m \<Rightarrow> screen_metadata m = None)"

text \<open>
  The same when the transaction id is the first fresh identifier and the entry id the second.
\<close>

lemma run_one_entry:
  assumes "request_valid r" and "cr_transactionId r = Some (uuids s (uuid_count s))"
    and "fresh_ids 3 s" and "list_all (\<lambda>e. l_idempotencyKey e \<noteq> cr_idempotencyKey r) (ledger_entries s)"
    and "uuids s1 = uuids s" and "uuid_count s1 = Suc (uuid_count s)"
    and "ledger_entries s1 = ledger_entries s"
  shows "run (createEntry c r) s1 =
    (Inr (mapToDomain (new_entry c r (uuids s (uuid_count s)) s1)),
     after_entry c r (uuids s (uuid_count s)) s1)"
  by (rule run_createEntry_new)
    (use assms fresh_ids_nth [OF assms(3), of 0] fresh_ids_nth [OF assms(3), of 1] in
      \<open>auto simp: list_all_iff\<close>)

text \<open>A request whose idempotency key is in the ledger already returns the earlier entry.\<close>

lemma run_createEntry_used:
  assumes "request_valid r" and "cr_transactionId r = Some t"
    and "required_string 128 t" and "trim t \<noteq> []"
    and "required_string 128 (uuids s (uuid_count s))"
    and "\<And>e. e \<in> set (ledger_entries s) \<Longrightarrow> l_entryId e \<noteq> uuids s (uuid_count s)"
    and "\<exists>e\<in>set (ledger_entries s). l_idempotencyKey e = cr_idempotencyKey r"
  shows "\<exists>d. run (createEntry currency r) s = (Inr d, s\<lparr>uuid_count := Suc (uuid_count s)\<rparr>)"
proof -
  obtain reason where r: "cr_reason r = Some reason"
    using assms(1) by (auto simp: request_valid_def request_ok_def)
  let ?d = "new_entry currency r t s"
  have "valid_ledger_entry ?d"
    using assms(1,3,5) r
    by (auto simp: valid_ledger_entry_def new_entry_def entry_doc_def request_valid_def truthy_def
        correlation_of_def optional_string_def required_string_def split: option.splits)
  moreover have "\<not> list_ex (\<lambda>x. l_entryId x = l_entryId ?d) (ledger_entries s)"
    using assms(6) by (auto simp: list_ex_iff)
  moreover obtain x where "find (\<lambda>x. l_idempotencyKey x = l_idempotencyKey ?d) (ledger_entries s) = Some x"
    using assms(7) by (metis (mono_tags, lifting) find_None_iff new_entry_simps(6) option.exhaust)
  moreover have "run (createEntry currency r) s = run (insert_entry ?d) (s\<lparr>uuid_count := Suc (uuid_count s)\<rparr>)"
    using run_createEntry_given [OF _ assms(2,4) r] assms(1) r
    by (simp add: request_valid_def new_entry_def)
  ultimately show ?thesis by (simp add: run_insert_entry)
qed

definition key_used :: "string \<Rightarrow> store \<Rightarrow> bool" where
  "key_used k s \<longleftrightarrow> list_ex (\<lambda>e. l_idempotencyKey e = k) (ledger_entries s)"

text \<open>Both cases at once, for a request whose transaction id is the first fresh identifier.\<close>

lemma run_createEntry_either:
  assumes "request_valid r" and "cr_transactionId r = Some (uuids s (uuid_count s))"
    and "fresh_ids 3 s" and "uuids s1 = uuids s" and "uuid_count s1 = Suc (uuid_count s)"
    and "ledger_entries s1 = ledger_entries s"
  shows "\<exists>d. run (createEntry c r) s1 =
    (Inr d, s1\<lparr>uuid_count := uuid_count s + 2,
       ledger_entries := ledger_entries s @
         (if key_used (cr_idempotencyKey r) s then [] else [new_entry c r (uuids s (uuid_count s)) s1])\<rparr>)"
proof (cases "key_used (cr_idempotencyKey r) s")
  case True
  have "\<exists>d. run (createEntry c r) s1 = (Inr d, s1\<lparr>uuid_count := Suc (uuid_count s1)\<rparr>)"
    by (rule run_createEntry_used)
      (use assms True fresh_ids_nth [OF assms(3), of 0] fresh_ids_nth [OF assms(3), of 1] in
        \<open>auto simp: key_used_def list_ex_iff\<close>)
  moreover have "s1\<lparr>uuid_count := n, ledger_entries := ledger_entries s\<rparr> = s1\<lparr>uuid_count := n\<rparr>" for n
    using assms(6) by simp
  ultimately show ?thesis using True assms(5) by simp
next
  case False
  then have "list_all (\<lambda>e. l_idempotencyKey e \<noteq> cr_idempotencyKey r) (ledger_entries s)"
    by (auto simp: key_used_def list_ex_iff list_all_iff)
  from run_one_entry [OF assms(1-3) this assms(4-6)] show ?thesis
    using False assms(5,6) by (auto simp: after_entry_def)
qed

end
