(* ===== verification/JS_Date.thy ===== *)
theory JS_Date
  imports RRR_Prelude
begin

text \<open>
  The dates of the source language, as far as the services use them: a \<open>Date\<close> is its number of
  milliseconds since 1970, \<open>toISOString\<close> prints it, and the \<open>Date\<close> constructor reads the
  printed form back.  Dates before 1970 and after 9999 are not modelled, nor are the other
  formats the constructor accepts: they read as an invalid date.
\<close>

section \<open>The calendar\<close>

definition is_leap :: "int \<Rightarrow> bool" where
  "is_leap y \<longleftrightarrow> 4 dvd y \<and> (\<not> 100 dvd y \<or> 400 dvd y)"

definition year_days :: "int \<Rightarrow> int" where
  "year_days y = (if is_leap y then 366 else 365)"

definition month_lengths :: "int \<Rightarrow> int list" where
  "month_lengths y = [31, if is_leap y then 29 else 28, 31, 30, 31, 30, 31, 31, 30, 31, 30, 31]"

definition leaps_until :: "int \<Rightarrow> int" where
  "leaps_until y = y div 4 - y div 100 + y div 400"

text \<open>Days from 1970 to the start of a year.\<close>

definition year_start :: "int \<Rightarrow> int" where
  "year_start y = 365 * (y - 1970) + leaps_until (y - 1) - leaps_until 1969"

lemma year_days_pos: "365 \<le> year_days y"
  by (simp add: year_days_def)

lemma div_pred:
  fixes n y :: int
  assumes n: "0 < n"
  shows "(y - 1) div n = (if n dvd y then y div n - 1 else y div n)"
proof (cases "n dvd y")
  case True
  then have "y - 1 = n * (y div n - 1) + (n - 1)" by (auto simp: algebra_simps)
  then have "(y - 1) div n = y div n - 1" by (rule int_div_pos_eq) (use n in auto)
  then show ?thesis using True by simp
next
  case False
  then have "y mod n \<noteq> 0" by (simp add: dvd_eq_mod_eq_0)
  then have "0 < y mod n" using n pos_mod_sign [of n y] by linarith
  moreover have "y - 1 = n * (y div n) + (y mod n - 1)" by simp
  ultimately have "(y - 1) div n = y div n"
    using n pos_mod_bound [of n y] by (intro int_div_pos_eq [of _ _ _ "y mod n - 1"]) linarith+
  then show ?thesis using False by simp
qed

lemma year_start_Suc: "year_start (y + 1) = year_start y + year_days y"
proof -
  define q4 q100 q400 where "q4 = y div 4" and "q100 = y div 100" and "q400 = y div 400"
  define d4 d100 d400 where "d4 \<longleftrightarrow> 4 dvd y" and "d100 \<longleftrightarrow> 100 dvd y" and "d400 \<longleftrightarrow> 400 dvd y"
  have div: "400 dvd y \<Longrightarrow> 100 dvd y" "100 dvd y \<Longrightarrow> 4 dvd y"
    by (rule dvd_trans [rotated], assumption, simp)+
  have "(y - 1) div 4 = (if d4 then q4 - 1 else q4)" "(y - 1) div 100 = (if d100 then q100 - 1 else q100)"
    "(y - 1) div 400 = (if d400 then q400 - 1 else q400)"
    unfolding q4_def q100_def q400_def d4_def d100_def d400_def by (rule div_pred, simp)+
  then have "leaps_until (y - 1) =
      (if d4 then q4 - 1 else q4) - (if d100 then q100 - 1 else q100) + (if d400 then q400 - 1 else q400)"
    unfolding leaps_until_def by (simp only:)
  moreover have "leaps_until y = q4 - q100 + q400"
    by (simp only: leaps_until_def q4_def q100_def q400_def)
  moreover have "is_leap y \<longleftrightarrow> d4 \<and> (\<not> d100 \<or> d400)" and "d400 \<longrightarrow> d100" and "d100 \<longrightarrow> d4"
    using div by (auto simp only: is_leap_def d4_def d100_def d400_def)
  ultimately have "leaps_until y - leaps_until (y - 1) = (if is_leap y then 1 else 0)"
    by (cases d4; cases d100; cases d400) simp_all
  then show ?thesis by (cases "is_leap y") (simp_all add: year_start_def year_days_def)
qed

lemma year_start_mono: "x \<le> y \<Longrightarrow> year_start x \<le> year_start y"
proof (induction y rule: int_ge_induct)
  case (step i)
  then show ?case using year_days_pos [of i] by (simp add: year_start_Suc)
qed simp

lemma sum_month_lengths: "sum_list (month_lengths y) = year_days y"
  by (simp add: month_lengths_def year_days_def)

function find_year :: "int \<Rightarrow> int \<Rightarrow> int \<times> int" where
  "find_year y d = (if d < year_days y then (y, d) else find_year (y + 1) (d - year_days y))"
  by pat_completeness auto
termination
proof (relation "measure (\<lambda>(y, d). nat d)", goal_cases)
  case (2 y d)
  then show ?case using year_days_pos [of y] by auto
qed simp

declare find_year.simps [simp del]

lemma find_year_correct:
  assumes "find_year y d = (y', d')" and "0 \<le> d"
  shows "year_start y' + d' = year_start y + d \<and> 0 \<le> d' \<and> d' < year_days y' \<and> y \<le> y'"
  using assms
proof (induction y d rule: find_year.induct)
  case (1 y d)
  show ?case
  proof (cases "d < year_days y")
    case True
    then show ?thesis using 1 by (simp add: find_year.simps)
  next
    case False
    then show ?thesis using 1 by (force simp: find_year.simps [of y] year_start_Suc)
  qed
qed

fun find_month :: "int list \<Rightarrow> int \<Rightarrow> int \<Rightarrow> int \<times> int" where
  "find_month [] m d = (m, d)"
| "find_month (len # rest) m d = (if d < len then (m, d) else find_month rest (m + 1) (d - len))"

text \<open>The calendar day \<open>(year, month, day of the month)\<close> of a day count.\<close>

definition civil_of_days :: "int \<Rightarrow> int \<times> int \<times> int" where
  "civil_of_days n =
     (let (y, d) = find_year 1970 n; (mo, dd) = find_month (month_lengths y) 1 d in (y, mo, dd + 1))"

definition days_of_civil :: "int \<Rightarrow> int \<Rightarrow> int \<Rightarrow> int" where
  "days_of_civil y mo dd = year_start y + sum_list (take (nat (mo - 1)) (month_lengths y)) + (dd - 1)"

lemma find_month_correct:
  assumes "find_month lens m d = (m', d')" and "0 \<le> d" and "d < sum_list lens"
  shows "m \<le> m' \<and> m' < m + int (length lens) \<and> 0 \<le> d' \<and> d' < lens ! nat (m' - m) \<and>
    sum_list (take (nat (m' - m)) lens) + d' = d"
  using assms
proof (induction lens arbitrary: m d)
  case (Cons len rest)
  show ?case
  proof (cases "d < len")
    case False
    then have "m + 1 \<le> m' \<and> m' < m + 1 + int (length rest) \<and> 0 \<le> d' \<and> d' < rest ! nat (m' - (m + 1)) \<and>
        sum_list (take (nat (m' - (m + 1))) rest) + d' = d - len"
      using Cons by (intro Cons.IH) auto
    moreover from this have "nat (m' - m) = Suc (nat (m' - (m + 1)))" by linarith
    ultimately show ?thesis by auto
  qed (use Cons.prems in auto)
qed simp

lemma civil_correct:
  assumes "civil_of_days n = (y, mo, dd)" and "0 \<le> n"
  shows "days_of_civil y mo dd = n" and "1970 \<le> y" and "year_start y \<le> n"
    and "1 \<le> mo" and "mo \<le> 12" and "1 \<le> dd" and "dd \<le> month_lengths y ! nat (mo - 1)"
proof -
  obtain d where y: "find_year 1970 n = (y, d)" and m: "find_month (month_lengths y) 1 d = (mo, dd - 1)"
    using assms(1) by (auto simp: civil_of_days_def Let_def split: prod.splits)
  have 1: "year_start y + d = n" "0 \<le> d" "d < year_days y" "1970 \<le> y"
    using find_year_correct [OF y assms(2)] by (auto simp: year_start_def)
  then have 2: "1 \<le> mo \<and> mo < 1 + int (length (month_lengths y)) \<and> 0 \<le> dd - 1 \<and>
      dd - 1 < month_lengths y ! nat (mo - 1) \<and>
      sum_list (take (nat (mo - 1)) (month_lengths y)) + (dd - 1) = d"
    by (intro find_month_correct [OF m]) (auto simp: sum_month_lengths)
  show "days_of_civil y mo dd = n" and "1970 \<le> y" and "year_start y \<le> n"
    and "1 \<le> mo" and "mo \<le> 12" and "1 \<le> dd" and "dd \<le> month_lengths y ! nat (mo - 1)"
    using 1 2 by (auto simp: days_of_civil_def month_lengths_def)
qed

section \<open>Printing and reading numbers of a fixed width\<close>

definition digit :: "int \<Rightarrow> char" where
  "digit n = char_of (48 + nat (n mod 10))"

definition digit_value :: "char \<Rightarrow> int option" where
  "digit_value c =
     (let n = (of_char c :: nat) in if 48 \<le> n \<and> n \<le> 57 then Some (int n - 48) else None)"

fun pad :: "nat \<Rightarrow> int \<Rightarrow> string" where
  "pad 0 n = []"
| "pad (Suc w) n = pad w (n div 10) @ [digit n]"

definition read_number :: "string \<Rightarrow> int option" where
  "read_number s =
     foldl (\<lambda>acc c. case acc of None \<Rightarrow> None | Some a \<Rightarrow>
        (case digit_value c of None \<Rightarrow> None | Some d \<Rightarrow> Some (10 * a + d))) (Some 0) s"

lemma digit_value_digit [simp]: "digit_value (digit n) = Some (n mod 10)"
proof -
  have "(of_char (digit n) :: nat) = 48 + nat (n mod 10)"
    by (simp add: digit_def of_char_of nat_less_iff)
  moreover have "0 \<le> n mod 10" "n mod 10 < 10" by simp_all
  ultimately show ?thesis by (auto simp: digit_value_def Let_def)
qed

lemma length_pad [simp]: "length (pad w n) = w"
  by (induction w arbitrary: n) auto

lemma read_pad: "0 \<le> n \<Longrightarrow> n < 10 ^ w \<Longrightarrow> read_number (pad w n) = Some n"
proof (induction w arbitrary: n)
  case (Suc w)
  have "n div 10 < 10 ^ w" using Suc.prems by (simp add: div_less_iff_less_mult)
  then have "read_number (pad w (n div 10)) = Some (n div 10)"
    using Suc.prems by (intro Suc.IH) (simp_all add: pos_imp_zdiv_nonneg_iff)
  then show ?case by (simp add: read_number_def)
qed (simp add: read_number_def)

section \<open>ISO strings\<close>

definition ms_per_day :: int where
  "ms_per_day = 86400000"

definition iso_limit :: int where
  "iso_limit = 253402300800000"

text \<open>\<open>YYYY-MM-DDTHH:mm:ss.sssZ\<close>\<close>

definition toISOString :: "int \<Rightarrow> string" where
  "toISOString t =
     (let (y, mo, dd) = civil_of_days (t div ms_per_day); ms = t mod ms_per_day in
      pad 4 y @ ''-'' @ pad 2 mo @ ''-'' @ pad 2 dd @ ''T'' @ pad 2 (ms div 3600000) @ '':'' @
      pad 2 (ms div 60000 mod 60) @ '':'' @ pad 2 (ms div 1000 mod 60) @ ''.'' @
      pad 3 (ms mod 1000) @ ''Z'')"

text \<open>\<open>new Date(s)\<close>; \<open>None\<close> is an invalid date.\<close>

definition slice :: "nat \<Rightarrow> nat \<Rightarrow> string \<Rightarrow> string" where
  "slice i n s = take n (drop i s)"

definition date_of_string :: "string \<Rightarrow> int option" where
  "date_of_string s =
     (if length s = 24 \<and> s ! 4 = CHR ''-'' \<and> s ! 7 = CHR ''-'' \<and> s ! 10 = CHR ''T'' \<and>
         s ! 13 = CHR '':'' \<and> s ! 16 = CHR '':'' \<and> s ! 19 = CHR ''.'' \<and> s ! 23 = CHR ''Z''
      then case (read_number (slice 0 4 s), read_number (slice 5 2 s), read_number (slice 8 2 s)) of
          (Some y, Some mo, Some dd) \<Rightarrow>
            (case (read_number (slice 11 2 s), read_number (slice 14 2 s), read_number (slice 17 2 s),
                   read_number (slice 20 3 s)) of
               (Some h, Some mi, Some sec, Some ms) \<Rightarrow>
                 if 1 \<le> mo \<and> mo \<le> 12 \<and> 1 \<le> dd \<and> dd \<le> month_lengths y ! nat (mo - 1) \<and>
                    h < 24 \<and> mi < 60 \<and> sec < 60
                 then Some (days_of_civil y mo dd * ms_per_day + h * 3600000 + mi * 60000 +
                        sec * 1000 + ms)
                 else None
             | _ \<Rightarrow> None)
        | _ \<Rightarrow> None
      else None)"

lemma split_day:
  fixes ms :: int
  assumes "0 \<le> ms" and "ms < 86400000"
  shows "ms div 3600000 * 3600000 + ms div 60000 mod 60 * 60000 + ms div 1000 mod 60 * 1000 +
      ms mod 1000 = ms"
    and "0 \<le> ms div 3600000" and "ms div 3600000 < 24"
proof -
  have "ms div 3600000 = ms div 60000 div 60" and "ms div 60000 = ms div 1000 div 60"
    by (simp_all add: zdiv_zmult2_eq [symmetric])
  then show "ms div 3600000 * 3600000 + ms div 60000 mod 60 * 60000 + ms div 1000 mod 60 * 1000 +
      ms mod 1000 = ms"
    using mult_div_mod_eq [of 60 "ms div 60000"] mult_div_mod_eq [of 60 "ms div 1000"]
      mult_div_mod_eq [of 1000 ms] by linarith
  show "0 \<le> ms div 3600000" and "ms div 3600000 < 24"
    using assms by (simp_all add: pos_imp_zdiv_nonneg_iff div_less_iff_less_mult)
qed

lemma date_of_concat:
  assumes "length Y = 4" "length M = 2" "length D = 2" "length H = 2" "length I = 2" "length S = 2"
    "length L = 3"
    and "read_number Y = Some y" "read_number M = Some mo" "read_number D = Some dd"
    "read_number H = Some h" "read_number I = Some mi" "read_number S = Some sec"
    "read_number L = Some ms"
    and "1 \<le> mo" "mo \<le> 12" "1 \<le> dd" "dd \<le> month_lengths y ! nat (mo - 1)" "h < 24" "mi < 60" "sec < 60"
  shows "date_of_string (Y @ ''-'' @ M @ ''-'' @ D @ ''T'' @ H @ '':'' @ I @ '':'' @ S @ ''.'' @ L @ ''Z'') =
    Some (days_of_civil y mo dd * ms_per_day + h * 3600000 + mi * 60000 + sec * 1000 + ms)"
proof -
  let ?s = "Y @ ''-'' @ M @ ''-'' @ D @ ''T'' @ H @ '':'' @ I @ '':'' @ S @ ''.'' @ L @ ''Z''"
  have "length ?s = 24 \<and> ?s ! 4 = CHR ''-'' \<and> ?s ! 7 = CHR ''-'' \<and> ?s ! 10 = CHR ''T'' \<and>
         ?s ! 13 = CHR '':'' \<and> ?s ! 16 = CHR '':'' \<and> ?s ! 19 = CHR ''.'' \<and> ?s ! 23 = CHR ''Z''"
    using assms(1-7) by (simp add: nth_append)
  moreover have "slice 0 4 ?s = Y" "slice 5 2 ?s = M" "slice 8 2 ?s = D" "slice 11 2 ?s = H"
    "slice 14 2 ?s = I" "slice 17 2 ?s = S" "slice 20 3 ?s = L"
    using assms(1-7) by (simp_all add: slice_def)
  ultimately show ?thesis
    unfolding date_of_string_def using assms(8-) by (simp only: if_True option.case prod.case simp_thms)
qed

text \<open>What is printed is read back.\<close>

lemma date_of_toISOString:
  assumes "0 \<le> t" and "t < iso_limit"
  shows "date_of_string (toISOString t) = Some t"
proof -
  let ?ms = "t mod ms_per_day"
  obtain y mo dd where c: "civil_of_days (t div ms_per_day) = (y, mo, dd)" by (metis prod_cases3)
  have n: "0 \<le> t div ms_per_day" "t div ms_per_day < year_start 10000"
    using assms by (simp_all add: ms_per_day_def iso_limit_def pos_imp_zdiv_nonneg_iff
        div_less_iff_less_mult year_start_def leaps_until_def)
  note civil = civil_correct [OF c n(1)]
  have y: "0 \<le> y" "y < 10 ^ 4"
  proof -
    show "0 \<le> y" using civil(2) by simp
    show "y < 10 ^ 4"
    proof (rule ccontr)
      assume "\<not> y < 10 ^ 4"
      then have "10000 \<le> y" by simp
      then have "year_start 10000 \<le> year_start y" by (rule year_start_mono)
      then show False using civil(3) n(2) by linarith
    qed
  qed
  have "month_lengths y ! nat (mo - 1) \<in> set (month_lengths y)"
    using civil(4,5) by (intro nth_mem) (auto simp: month_lengths_def)
  then have dd: "dd < 10 ^ 2" using civil(7) by (auto simp: month_lengths_def split: if_splits)
  have ms: "0 \<le> ?ms" "?ms < 86400000" by (simp_all add: ms_per_day_def)
  note day = split_day [OF ms]
  have sixty: "read_number (pad 2 (x mod 60)) = Some (x mod 60)" for x
    using pos_mod_bound [of 60 x] by (intro read_pad) simp_all
  have reads: "read_number (pad 4 y) = Some y" "read_number (pad 2 mo) = Some mo"
    "read_number (pad 2 dd) = Some dd" "read_number (pad 2 (?ms div 3600000)) = Some (?ms div 3600000)"
    "read_number (pad 3 (?ms mod 1000)) = Some (?ms mod 1000)"
    using y civil(4-6) dd day(2,3) pos_mod_bound [of 1000 ?ms] by (intro read_pad; simp)+
  have "days_of_civil y mo dd * ms_per_day + ?ms = t"
    using civil(1) by (simp add: ms_per_day_def)
  moreover have "toISOString t = pad 4 y @ ''-'' @ pad 2 mo @ ''-'' @ pad 2 dd @ ''T'' @
      pad 2 (?ms div 3600000) @ '':'' @ pad 2 (?ms div 60000 mod 60) @ '':'' @
      pad 2 (?ms div 1000 mod 60) @ ''.'' @ pad 3 (?ms mod 1000) @ ''Z''"
    by (simp only: toISOString_def c prod.case Let_def)
  moreover have "date_of_string (pad 4 y @ ''-'' @ pad 2 mo @ ''-'' @ pad 2 dd @ ''T'' @
      pad 2 (?ms div 3600000) @ '':'' @ pad 2 (?ms div 60000 mod 60) @ '':'' @
      pad 2 (?ms div 1000 mod 60) @ ''.'' @ pad 3 (?ms mod 1000) @ ''Z'') =
    Some (days_of_civil y mo dd * ms_per_day + ?ms div 3600000 * 3600000 +
      ?ms div 60000 mod 60 * 60000 + ?ms div 1000 mod 60 * 1000 + ?ms mod 1000)"
    by (rule date_of_concat [OF length_pad length_pad length_pad length_pad length_pad length_pad
          length_pad reads(1-4) sixty sixty reads(5) civil(4-7) day(3)]) simp_all
  moreover have "days_of_civil y mo dd * ms_per_day + ?ms div 3600000 * 3600000 +
      ?ms div 60000 mod 60 * 60000 + ?ms div 1000 mod 60 * 1000 + ?ms mod 1000 =
      days_of_civil y mo dd * ms_per_day + ?ms"
    using day(1) by linarith
  ultimately show ?thesis by metis
qed

end
