(* ===== verification/Point_Accrual.thy ===== *)
theory Point_Accrual
  imports Ledger_Steps JS_Date
begin

text \<open>
  The point accrual service (\<open>src/services/point-accrual.service.ts\<close>): awards with their
  validation, idempotency check and retry loop, the four kinds of bonus, the direct debit of the
  available balance, and the earn rate of the active configuration
  (\<open>src/db/models/earn-rate-config.model.ts\<close>).  The pause between retries is not modelled.
\<close>

section \<open>Requests, responses, configuration\<close>

record award_points_request =
  aw_userId :: string
  aw_amount :: js_number
  aw_reason :: transaction_reason
  aw_idempotencyKey :: string
  aw_requestId :: string
  aw_tenantId :: string
  aw_metadata :: "metadata option"
  aw_expiresAt :: "int option"

record award_points_response =
  ar_transactionId :: string
  ar_amountAwarded :: rat
  ar_newBalance :: rat
  ar_timestamp :: int

text \<open>The last field is the currency of the ledger service the service is constructed with.\<close>

record point_accrual_service =
  pa_defaultCurrency :: string
  pa_maxAwardAmount :: rat
  pa_minAwardAmount :: rat
  pa_enableExpiration :: bool
  pa_defaultExpirationDays :: nat
  pa_maxRetryAttempts :: nat
  pa_ledgerCurrency :: string

definition default_point_accrual :: point_accrual_service where
  "default_point_accrual =
     \<lparr>pa_defaultCurrency = ''points'', pa_maxAwardAmount = 1000000, pa_minAwardAmount = 1,
      pa_enableExpiration = True, pa_defaultExpirationDays = 365, pa_maxRetryAttempts = 3,
      pa_ledgerCurrency = ''points''\<rparr>"

section \<open>Validation\<close>

text \<open>The range check the accrual and the redemption service share; a finite amount is returned.\<close>

definition check_amount :: "rat \<Rightarrow> rat \<Rightarrow> js_number \<Rightarrow> error + rat" where
  "check_amount lower upper amount =
     (if js_less amount (Finite lower) then Inl (AmountBelowMinimum lower)
      else if js_less (Finite upper) amount then Inl (AmountAboveMaximum upper)
      else if \<not> js_is_finite amount \<or> js_le amount (Finite 0)
        then Inl (Plain ''Amount must be a positive finite number'')
      else Inr (case amount of Finite a \<Rightarrow> a | _ \<Rightarrow> 0))"

definition validateAmount :: "point_accrual_service \<Rightarrow> js_number \<Rightarrow> error + rat" where
  "validateAmount ps amount = check_amount (pa_minAwardAmount ps) (pa_maxAwardAmount ps) amount"

definition earningReasons :: "transaction_reason list" where
  "earningReasons = [USER_SIGNUP_BONUS, REFERRAL_BONUS, PROMOTIONAL_AWARD, ADMIN_CREDIT]"

definition validateEarningReason :: "transaction_reason \<Rightarrow> error + unit" where
  "validateEarningReason reason =
     (if reason \<notin> set earningReasons then Inl (InvalidEarningReason reason) else Inr ())"

definition debitReasons :: "transaction_reason list" where
  "debitReasons = [ADMIN_DEBIT, POINT_EXPIRY]"

definition validateDebitReason :: "transaction_reason \<Rightarrow> error + unit" where
  "validateDebitReason reason =
     (if reason \<notin> set debitReasons then Inl (InvalidDebitReason reason) else Inr ())"

section \<open>Awarding\<close>

definition spread :: "metadata option \<Rightarrow> metadata" where
  "spread md = (case md of None \<Rightarrow> [] | Some m \<Rightarrow> m)"

definition award_entry ::
  "point_accrual_service \<Rightarrow> award_points_request \<Rightarrow> rat \<Rightarrow> rat \<Rightarrow> string \<Rightarrow> create_ledger_entry_request" where
  "award_entry ps request amount previousBalance transactionId =
     \<lparr>cr_transactionId = Some transactionId, cr_accountId = aw_userId request,
      cr_accountType = User, cr_amount = amount, cr_type = CREDIT, cr_balanceState = Available,
      cr_stateTransition = ''none->available'', cr_reason = Some (aw_reason request),
      cr_idempotencyKey = aw_idempotencyKey request, cr_requestId = aw_requestId request,
      cr_balanceBefore = previousBalance, cr_balanceAfter = previousBalance + amount,
      cr_currency = Some (pa_defaultCurrency ps),
      cr_metadata = Some (AList.update ''expiresAt''
        (case aw_expiresAt request of None \<Rightarrow> JUndefined | Some t \<Rightarrow> JStr (toISOString t))
        (spread (aw_metadata request))),
      cr_escrowId = None, cr_queueItemId = None, cr_featureType = None, cr_correlationId = None\<rparr>"

definition record_award ::
  "point_accrual_service \<Rightarrow> award_points_request \<Rightarrow> rat \<Rightarrow> rat \<Rightarrow> award_points_response svc" where
  "record_award ps request amount previousBalance =
     await uuidv4 (\<lambda>transactionId.
     await new_date (\<lambda>timestamp.
     await (createEntry (pa_ledgerCurrency ps)
       (award_entry ps request amount previousBalance transactionId)) (\<lambda>_.
     pure \<lparr>ar_transactionId = transactionId, ar_amountAwarded = amount,
           ar_newBalance = previousBalance + amount, ar_timestamp = timestamp\<rparr>)))"

definition accrual_wallet :: "point_accrual_service \<Rightarrow> string \<Rightarrow> wallet svc" where
  "accrual_wallet ps userId =
     await (wallet_findOne userId) (\<lambda>found.
     case found of
       Some w \<Rightarrow> pure w
     | None \<Rightarrow> wallet_create
         \<lparr>w_userId = userId, w_availableBalance = 0, w_escrowBalance = 0,
          w_currency = pa_defaultCurrency ps, w_version = 0\<rparr>)"

definition check_not_used :: "string \<Rightarrow> string \<Rightarrow> string \<Rightarrow> unit svc" where
  "check_not_used key operation tenantId =
     await (checkIdempotency key operation tenantId) (\<lambda>exists.
     if exists then throw (Plain ''Idempotency key already used'') else pure ())"

function awardPoints ::
  "point_accrual_service \<Rightarrow> award_points_request \<Rightarrow> nat \<Rightarrow> award_points_response svc" where
  "awardPoints ps request retryCount =
     (if pa_maxRetryAttempts ps \<le> retryCount then
        throw (LockRetriesExhausted (pa_maxRetryAttempts ps) (aw_userId request))
      else
        await (lift_result (validateAmount ps (aw_amount request))) (\<lambda>amount.
        await (lift_result (validateEarningReason (aw_reason request))) (\<lambda>_.
        await (if retryCount = 0
               then check_not_used (aw_idempotencyKey request) ''award_points'' (aw_tenantId request)
               else pure ()) (\<lambda>_.
        await (accrual_wallet ps (aw_userId request)) (\<lambda>wallet.
        await (wallet_findOneAndUpdate (aw_userId request)
            (\<lambda>w. w_version w = w_version wallet)
            (\<lambda>w. w\<lparr>w_availableBalance := w_availableBalance w + amount,
                   w_version := w_version w + 1\<rparr>)) (\<lambda>updated.
        if updated = None then awardPoints ps request (retryCount + 1)
        else record_award ps request amount (w_availableBalance wallet)))))))"
  by pat_completeness auto
termination
  by (relation "measure (\<lambda>(ps, request, retryCount). pa_maxRetryAttempts ps - retryCount)") auto

declare awardPoints.simps [simp del]

definition awardSignupBonus ::
  "point_accrual_service \<Rightarrow> string \<Rightarrow> js_number \<Rightarrow> string \<Rightarrow> string \<Rightarrow> award_points_response svc" where
  "awardSignupBonus ps userId bonusAmount requestId tenantId =
     awardPoints ps
       \<lparr>aw_userId = userId, aw_amount = bonusAmount, aw_reason = USER_SIGNUP_BONUS,
        aw_idempotencyKey = ''signup-bonus-'' @ userId, aw_requestId = requestId,
        aw_tenantId = tenantId, aw_metadata = Some [(''bonusType'', JStr ''signup'')],
        aw_expiresAt = None\<rparr> 0"

definition awardReferralBonus ::
  "point_accrual_service \<Rightarrow> string \<Rightarrow> string \<Rightarrow> js_number \<Rightarrow> string \<Rightarrow> string \<Rightarrow> award_points_response svc" where
  "awardReferralBonus ps referrerId referredUserId bonusAmount requestId tenantId =
     awardPoints ps
       \<lparr>aw_userId = referrerId, aw_amount = bonusAmount, aw_reason = REFERRAL_BONUS,
        aw_idempotencyKey = ''referral-bonus-'' @ referrerId @ ''-'' @ referredUserId,
        aw_requestId = requestId, aw_tenantId = tenantId,
        aw_metadata = Some [(''bonusType'', JStr ''referral''), (''referredUserId'', JStr referredUserId)],
        aw_expiresAt = None\<rparr> 0"

definition accrual_awardPromotionalPoints ::
  "point_accrual_service \<Rightarrow> string \<Rightarrow> js_number \<Rightarrow> string \<Rightarrow> string \<Rightarrow> string \<Rightarrow> int option \<Rightarrow>
   award_points_response svc" where
  "accrual_awardPromotionalPoints ps userId amount promotionId requestId tenantId expiresAt =
     awardPoints ps
       \<lparr>aw_userId = userId, aw_amount = amount, aw_reason = PROMOTIONAL_AWARD,
        aw_idempotencyKey = ''promo-'' @ promotionId @ ''-'' @ userId, aw_requestId = requestId,
        aw_tenantId = tenantId,
        aw_metadata = Some [(''promotionId'', JStr promotionId), (''bonusType'', JStr ''promotional'')],
        aw_expiresAt = expiresAt\<rparr> 0"

definition adminCreditPoints ::
  "point_accrual_service \<Rightarrow> string \<Rightarrow> js_number \<Rightarrow> string \<Rightarrow> string \<Rightarrow> string \<Rightarrow> string \<Rightarrow>
   award_points_response svc" where
  "adminCreditPoints ps userId amount adminId reason requestId tenantId =
     awardPoints ps
       \<lparr>aw_userId = userId, aw_amount = amount, aw_reason = ADMIN_CREDIT,
        aw_idempotencyKey = ''admin-credit-'' @ adminId @ ''-'' @ userId @ ''-'' @ requestId,
        aw_requestId = requestId, aw_tenantId = tenantId,
        aw_metadata = Some [(''adminId'', JStr adminId), (''adminReason'', JStr reason),
          (''operationType'', JStr ''admin_credit'')],
        aw_expiresAt = None\<rparr> 0"

section \<open>Debiting\<close>

definition deduct_entry ::
  "point_accrual_service \<Rightarrow> award_points_request \<Rightarrow> rat \<Rightarrow> rat \<Rightarrow> string \<Rightarrow> create_ledger_entry_request" where
  "deduct_entry ps request amount previousBalance transactionId =
     \<lparr>cr_transactionId = Some transactionId, cr_accountId = aw_userId request,
      cr_accountType = User, cr_amount = - amount, cr_type = DEBIT, cr_balanceState = Available,
      cr_stateTransition = ''available->debit'', cr_reason = Some (aw_reason request),
      cr_idempotencyKey = aw_idempotencyKey request, cr_requestId = aw_requestId request,
      cr_balanceBefore = previousBalance, cr_balanceAfter = previousBalance - amount,
      cr_currency = Some (pa_defaultCurrency ps),
      cr_metadata = Some (spread (aw_metadata request)),
      cr_escrowId = None, cr_queueItemId = None, cr_featureType = None,
      cr_correlationId = Some transactionId\<rparr>"

definition record_deduct ::
  "point_accrual_service \<Rightarrow> award_points_request \<Rightarrow> rat \<Rightarrow> rat \<Rightarrow> award_points_response svc" where
  "record_deduct ps request amount previousBalance =
     await uuidv4 (\<lambda>transactionId.
     await new_date (\<lambda>timestamp.
     await (createEntry (pa_ledgerCurrency ps)
       (deduct_entry ps request amount previousBalance transactionId)) (\<lambda>_.
     pure \<lparr>ar_transactionId = transactionId, ar_amountAwarded = amount,
           ar_newBalance = previousBalance - amount, ar_timestamp = timestamp\<rparr>)))"

function deductFromAvailable ::
  "point_accrual_service \<Rightarrow> award_points_request \<Rightarrow> nat \<Rightarrow> award_points_response svc" where
  "deductFromAvailable ps request retryCount =
     (if pa_maxRetryAttempts ps \<le> retryCount then
        throw (LockRetriesExhausted (pa_maxRetryAttempts ps) (aw_userId request))
      else
        await (lift_result (validateAmount ps (aw_amount request))) (\<lambda>amount.
        await (lift_result (validateDebitReason (aw_reason request))) (\<lambda>_.
        await (if retryCount = 0
               then check_not_used (aw_idempotencyKey request) ''deduct_points'' (aw_tenantId request)
               else pure ()) (\<lambda>_.
        await (wallet_findOne (aw_userId request)) (\<lambda>found.
        case found of
          None \<Rightarrow> throw (WalletMissing (aw_userId request))
        | Some wallet \<Rightarrow>
            if w_availableBalance wallet < amount then
              throw (BalanceTooLow (aw_userId request) (w_availableBalance wallet) amount)
            else
            await (wallet_findOneAndUpdate (aw_userId request)
                (\<lambda>w. w_version w = w_version wallet \<and> amount \<le> w_availableBalance w)
                (\<lambda>w. w\<lparr>w_availableBalance := w_availableBalance w - amount,
                       w_version := w_version w + 1\<rparr>)) (\<lambda>updated.
            if updated = None then deductFromAvailable ps request (retryCount + 1)
            else record_deduct ps request amount (w_availableBalance wallet)))))))"
  by pat_completeness auto
termination
  by (relation "measure (\<lambda>(ps, request, retryCount). pa_maxRetryAttempts ps - retryCount)") auto

declare deductFromAvailable.simps [simp del]

section \<open>The earn rate\<close>

record earn_rate_config =
  ec_config_id :: string
  ec_tenant_id :: string
  ec_merchant_id :: string
  ec_effective_at :: int
  ec_superseded_at :: "int option"
  ec_correlation_id :: string
  ec_reason_code :: string
  ec_created_by :: string
  ec_merchant_tier :: string
  ec_rrr_member_tier :: "string option"
  ec_event_class :: string
  ec_base_points_per_unit :: rat
  ec_inferno_multiplier :: rat
  ec_diamond_concierge_zero_earn :: bool

definition valid_earn_rate_config :: "earn_rate_config \<Rightarrow> bool" where
  "valid_earn_rate_config c \<longleftrightarrow>
     required_string 128 (ec_config_id c) \<and> required_string 128 (ec_tenant_id c) \<and>
     required_string 128 (ec_merchant_id c) \<and> required_string 128 (ec_correlation_id c) \<and>
     required_string 128 (ec_reason_code c) \<and> required_string 128 (ec_created_by c) \<and>
     required_string 128 (ec_merchant_tier c) \<and> optional_string 128 (ec_rrr_member_tier c) \<and>
     required_string 128 (ec_event_class c) \<and> 0 \<le> ec_base_points_per_unit c \<and>
     0 \<le> ec_inferno_multiplier c"

text \<open>\<open>findOne(filter).sort({effective_at: -1})\<close> over the rows of a versioned configuration.\<close>

definition newest_active :: "('c \<Rightarrow> int) \<Rightarrow> ('c \<Rightarrow> int option) \<Rightarrow> ('c \<Rightarrow> bool) \<Rightarrow> 'c list \<Rightarrow> 'c option" where
  "newest_active effective superseded filt rows =
     (case sort_key (\<lambda>c. - effective c) (filter (\<lambda>c. filt c \<and> superseded c = None) rows) of
        [] \<Rightarrow> None
      | c # _ \<Rightarrow> Some c)"

definition calculateEarnRate ::
  "earn_rate_config list \<Rightarrow> string \<Rightarrow> string \<Rightarrow> string \<Rightarrow> string \<Rightarrow> rat \<Rightarrow> bool \<Rightarrow> error + rat" where
  "calculateEarnRate rows tenantId merchantId merchantTier eventClass amount isDiamondConcierge =
     (case newest_active ec_effective_at ec_superseded_at
         (\<lambda>c. ec_tenant_id c = tenantId \<and> ec_merchant_id c = merchantId \<and>
              ec_merchant_tier c = merchantTier \<and> ec_event_class c = eventClass) rows of
        None \<Rightarrow> Inl (NoEarnRateConfig tenantId merchantId merchantTier eventClass)
      | Some config \<Rightarrow>
          if isDiamondConcierge \<and> ec_diamond_concierge_zero_earn config then Inr 0
          else Inr (ec_base_points_per_unit config * ec_inferno_multiplier config * amount))"

section \<open>Lemmas\<close>

lemma check_amount_ok:
  assumes "0 < lower"
  shows "check_amount lower upper amount = Inr a \<longleftrightarrow> amount = Finite a \<and> lower \<le> a \<and> a \<le> upper"
  using assms
  by (cases amount) (auto simp: check_amount_def js_is_finite_def js_le_def)

lemma newest_active_Some:
  assumes "newest_active eff ended filt rows = Some c"
  shows "c \<in> set rows \<and> filt c \<and> ended c = None \<and>
    (\<forall>d\<in>set rows. filt d \<and> ended d = None \<longrightarrow> eff d \<le> eff c)"
proof -
  let ?rows = "filter (\<lambda>c. filt c \<and> ended c = None) rows"
  obtain rest where sorted: "sort_key (\<lambda>c. - eff c) ?rows = c # rest"
    using assms by (auto simp: newest_active_def split: list.splits)
  have "sorted (map (\<lambda>c. - eff c) (c # rest))" unfolding sorted [symmetric] by simp
  moreover have "set (c # rest) = set ?rows" unfolding sorted [symmetric] by simp
  ultimately show ?thesis by auto
qed

lemma sort_key_Nil_iff: "sort_key f xs = [] \<longleftrightarrow> xs = []"
  by (metis length_0_conv length_sort)

lemma newest_active_None:
  "newest_active eff ended filt rows = None \<longleftrightarrow> (\<forall>d\<in>set rows. \<not> (filt d \<and> ended d = None))"
  using sort_key_Nil_iff [of "\<lambda>c. - eff c" "filter (\<lambda>c. filt c \<and> ended c = None) rows"]
  by (auto simp: newest_active_def filter_empty_conv split: list.split)

lemma keeps_accrual_parts [keeps_intros]:
  "keeps safe_rely (accrual_wallet ps u)"
  "keeps safe_rely (check_not_used k op t)"
  "keeps safe_rely (record_award ps r a b)"
  "keeps safe_rely (record_deduct ps r a b)"
  unfolding accrual_wallet_def check_not_used_def checkIdempotency_def record_award_def record_deduct_def
  by (intro keeps_intros)+

lemma validated_positive:
  "0 < pa_minAwardAmount ps \<Longrightarrow> validateAmount ps amount = Inr a \<Longrightarrow> 0 < a"
  by (auto simp: validateAmount_def check_amount_ok)

lemma keeps_awardPoints:
  assumes "0 < pa_minAwardAmount ps"
  shows "keeps safe_rely (awardPoints ps r n)"
  using assms
proof (induction ps r n rule: awardPoints.induct)
  case (1 ps r n)
  show ?case
  proof (cases "validateAmount ps (aw_amount r)")
    case (Inr a)
    then have "0 < a" using 1 by (auto intro: validated_positive)
    then show ?thesis
      using 1 Inr
      by (subst awardPoints.simps) (auto intro!: keeps_intros)
  qed (subst awardPoints.simps, simp add: keeps_throw)
qed

lemma keeps_deductFromAvailable: "keeps safe_rely (deductFromAvailable ps r n)"
proof (induction ps r n rule: deductFromAvailable.induct)
  case (1 ps r n)
  show ?case
    by (subst deductFromAvailable.simps) (intro keeps_intros 1; auto)
qed

section \<open>Properties\<close>

definition available_of :: "store \<Rightarrow> string \<Rightarrow> rat" where
  "available_of s u = (case wallet_of s u of None \<Rightarrow> 0 | Some w \<Rightarrow> w_availableBalance w)"

text \<open>Nothing in the store stands in the way of the request; its key may be in the ledger already.\<close>

definition request_ready :: "point_accrual_service \<Rightarrow> award_points_request \<Rightarrow> string \<Rightarrow> store \<Rightarrow> bool" where
  "request_ready ps r operation s \<longleftrightarrow>
     0 < pa_maxRetryAttempts ps \<and> required_string 16 (pa_defaultCurrency ps) \<and>
     required_string 128 (aw_userId r) \<and> required_string 256 (aw_idempotencyKey r) \<and>
     required_string 128 (aw_requestId r) \<and>
     screen_metadata (spread (aw_metadata r)) = None \<and>
     find (\<lambda>i. i_tenant_id i = Some (aw_tenantId r) \<and> i_pointsIdempotencyKey i = aw_idempotencyKey r \<and>
       i_eventScope i = operation) (map snd (idempotency_records s)) = None \<and>
     fresh_ids 3 s"

lemma set_pad: "c \<in> set (pad w n) \<Longrightarrow> \<exists>k. c = digit k"
  by (induction w arbitrary: n) auto

lemma digit_not_at: "digit k \<noteq> CHR ''@''"
proof
  assume "digit k = CHR ''@''"
  then have "digit_value (CHR ''@'') = Some (k mod 10)" by (metis digit_value_digit)
  moreover have "digit_value (CHR ''@'') = None" by code_simp
  ultimately show False by simp
qed

lemma no_at_no_email: "CHR ''@'' \<notin> set s \<Longrightarrow> \<not> emailPattern_test s"
  by (auto simp: emailPattern_test_def list_ex_iff in_set_conv_nth)

lemma iso_not_email: "\<not> emailPattern_test (toISOString t)"
proof (rule no_at_no_email)
  have "CHR ''@'' \<notin> set (pad w n)" for w n using set_pad digit_not_at by metis
  then show "CHR ''@'' \<notin> set (toISOString t)"
    by (auto simp: toISOString_def Let_def split: prod.splits)
qed

lemma set_alist_update: "(k', v') \<in> set (AList.update k v md) \<Longrightarrow> (k', v') = (k, v) \<or> (k', v') \<in> set md"
  by (induction md) (auto split: if_splits)

lemma screen_metadata_update:
  assumes "screen_metadata md = None" and "to_lower k \<notin> set piiFieldNames"
    and "\<And>str. v = JStr str \<Longrightarrow> \<not> emailPattern_test str"
  shows "screen_metadata (AList.update k v md) = None"
  using assms set_alist_update [of _ _ k v md] unfolding screen_metadata_None by blast

lemma award_entry_valid:
  assumes "request_ready ps r operation s"
  shows "request_valid (award_entry ps r a b t)"
proof -
  have "to_lower ''expiresAt'' \<notin> set piiFieldNames" by code_simp
  then have "screen_metadata (AList.update ''expiresAt''
      (case aw_expiresAt r of None \<Rightarrow> JUndefined | Some t \<Rightarrow> JStr (toISOString t))
      (spread (aw_metadata r))) = None"
    using assms iso_not_email
    by (intro screen_metadata_update) (auto simp: request_ready_def split: option.splits)
  then show ?thesis
    using assms
    by (simp add: request_valid_def request_ok_def award_entry_def request_ready_def
        required_string_def optional_string_def)
qed

lemma run_check_not_used:
  "run (check_not_used key operation tenant) s =
    (if find (\<lambda>i. i_tenant_id i = Some tenant \<and> i_pointsIdempotencyKey i = key \<and>
       i_eventScope i = operation) (map snd (idempotency_records s)) = None
     then (Inr (), s) else (Inl (Plain ''Idempotency key already used''), s))"
  by (simp add: check_not_used_def checkIdempotency_def run_simps)

text \<open>The wallet an award starts from.\<close>

definition wallet_before :: "point_accrual_service \<Rightarrow> store \<Rightarrow> string \<Rightarrow> wallet" where
  "wallet_before ps s u =
     (case wallet_of s u of
        Some w \<Rightarrow> w
      | None \<Rightarrow> \<lparr>w_userId = u, w_availableBalance = 0, w_escrowBalance = 0,
                w_currency = pa_defaultCurrency ps, w_version = 0\<rparr>)"

definition credited :: "point_accrual_service \<Rightarrow> string \<Rightarrow> rat \<Rightarrow> store \<Rightarrow> store" where
  "credited ps u a s =
     s\<lparr>wallets := AList.update u ((wallet_before ps s u)
          \<lparr>w_availableBalance := w_availableBalance (wallet_before ps s u) + a,
           w_version := w_version (wallet_before ps s u) + 1\<rparr>)
        (case wallet_of s u of None \<Rightarrow> AList.update u (wallet_before ps s u) (wallets s)
         | Some _ \<Rightarrow> wallets s)\<rparr>"

lemma run_award_wallet:
  assumes "required_string 16 (pa_defaultCurrency ps)" and "required_string 128 u"
  shows "run (await (accrual_wallet ps u) (\<lambda>wallet.
        await (wallet_findOneAndUpdate u (\<lambda>w. w_version w = w_version wallet)
            (\<lambda>w. w\<lparr>w_availableBalance := w_availableBalance w + a, w_version := Suc (w_version w)\<rparr>))
          (k wallet))) s =
    run (k (wallet_before ps s u) (Some ((wallet_before ps s u)
          \<lparr>w_availableBalance := w_availableBalance (wallet_before ps s u) + a,
           w_version := w_version (wallet_before ps s u) + 1\<rparr>))) (credited ps u a s)"
  using assms
  by (cases "wallet_of s u")
    (simp_all add: accrual_wallet_def run_simps valid_wallet_def wallet_before_def credited_def)

lemma run_awardPoints:
  assumes "request_ready ps r ''award_points'' s" and "validateAmount ps (aw_amount r) = Inr a"
    and "aw_reason r \<in> set earningReasons"
  shows "run (awardPoints ps r 0) s =
    run (record_award ps r a (w_availableBalance (wallet_before ps s (aw_userId r))))
      (credited ps (aw_userId r) a s)"
  using assms
  by (subst awardPoints.simps)
    (simp add: validateEarningReason_def request_ready_def
      run_await [of "check_not_used _ _ _"] run_check_not_used run_award_wallet)

lemma credited_simps [simp]:
  "ledger_entries (credited ps u a s) = ledger_entries s"
  "idempotency_records (credited ps u a s) = idempotency_records s"
  "uuids (credited ps u a s) = uuids s"
  "uuid_count (credited ps u a s) = uuid_count s"
  "available_of (credited ps u a s) u = available_of s u + a"
  "v \<noteq> u \<Longrightarrow> available_of (credited ps u a s) v = available_of s v"
  "model_wallets (credited ps u a s) = model_wallets s"
  "clock (credited ps u a s) = clock s"
  by (simp_all add: credited_def available_of_def wallet_before_def split: option.split)

lemma available_before: "w_availableBalance (wallet_before ps s u) = available_of s u"
  by (simp add: wallet_before_def available_of_def split: option.split)

lemma available_frame [simp]:
  "available_of (s\<lparr>uuid_count := n\<rparr>) u = available_of s u"
  "available_of (s\<lparr>ledger_entries := es\<rparr>) u = available_of s u"
  by (simp_all add: available_of_def)

lemma award_outcome:
  assumes "request_ready ps r ''award_points'' s" and "validateAmount ps (aw_amount r) = Inr a"
    and "aw_reason r \<in> set earningReasons"
  shows "\<exists>resp s' d. run (awardPoints ps r 0) s = (Inr resp, s') \<and>
    ar_newBalance resp = available_of s (aw_userId r) + a \<and>
    available_of s' (aw_userId r) = available_of s (aw_userId r) + a \<and>
    ledger_entries s' = ledger_entries s @ (if key_used (aw_idempotencyKey r) s then [] else [d]) \<and>
    idempotency_records s' = idempotency_records s \<and>
    l_idempotencyKey d = aw_idempotencyKey r \<and>
    (l_accountId d, l_amount d, l_balanceAfter d) =
      (aw_userId r, a, available_of s (aw_userId r) + a) \<and>
    (l_accountType d, l_balanceState d, l_timestamp d) = (User, Available, clock s) \<and>
    (\<forall>v. v \<noteq> aw_userId r \<longrightarrow> available_of s' v = available_of s v) \<and>
    model_wallets s' = model_wallets s \<and> clock s' = clock s"
proof -
  let ?u = "aw_userId r" and ?t = "uuids s (uuid_count s)"
  let ?E = "award_entry ps r a (available_of s ?u) ?t" and ?c = "pa_ledgerCurrency ps"
  let ?s1 = "(credited ps ?u a s)\<lparr>uuid_count := Suc (uuid_count s)\<rparr>"
  have "fresh_ids 3 s" using assms(1) by (simp add: request_ready_def)
  then obtain d where entry: "run (createEntry ?c ?E) ?s1 = (Inr d, ?s1\<lparr>uuid_count := uuid_count s + 2,
       ledger_entries := ledger_entries s @
         (if key_used (cr_idempotencyKey ?E) s then [] else [new_entry ?c ?E ?t ?s1])\<rparr>)"
    using run_createEntry_either [OF award_entry_valid [OF assms(1)], of a "available_of s ?u" ?t s ?s1 ?c]
    by (auto simp: award_entry_def)
  have "run (awardPoints ps r 0) s =
      (Inr \<lparr>ar_transactionId = ?t, ar_amountAwarded = a, ar_newBalance = available_of s ?u + a,
            ar_timestamp = clock (credited ps ?u a s)\<rparr>,
       ?s1\<lparr>uuid_count := uuid_count s + 2, ledger_entries := ledger_entries s @
         (if key_used (cr_idempotencyKey ?E) s then [] else [new_entry ?c ?E ?t ?s1])\<rparr>)"
    using entry
    by (simp add: run_awardPoints [OF assms] record_award_def run_await run_uuidv4 run_new_date
        run_pure available_before)
  then show ?thesis
    by (intro exI [of _ "new_entry ?c ?E ?t ?s1"] exI conjI) (assumption | simp add: award_entry_def)+
qed

text \<open>
  An award of an admissible amount for an earning reason succeeds: the available balance of
  the user, whose wallet is created when missing, rises by exactly the amount, the answer states
  the new balance, and when the key is not in the ledger yet one entry with the amount and the
  new balance is appended.
\<close>

theorem awardPoints_success:
  assumes "request_ready ps r ''award_points'' s" and "validateAmount ps (aw_amount r) = Inr a"
    and "aw_reason r \<in> set earningReasons" and "\<not> key_used (aw_idempotencyKey r) s"
  shows "\<exists>resp s' d. run (awardPoints ps r 0) s = (Inr resp, s') \<and>
    ar_newBalance resp = available_of s (aw_userId r) + a \<and>
    available_of s' (aw_userId r) = available_of s (aw_userId r) + a \<and>
    ledger_entries s' = ledger_entries s @ [d] \<and>
    (l_accountId d, l_amount d, l_balanceAfter d) =
      (aw_userId r, a, available_of s (aw_userId r) + a)"
  using award_outcome [OF assms(1-3)] assms(4) by auto

text \<open>
  The idempotency key of an award does not protect the wallet: when the same request comes
  again, the check finds nothing, because no award ever stores a record under the caller's
  tenant, the wallet is credited a second time, and only the ledger, whose keys are unique,
  keeps the single entry.  Wallet and ledger then differ by the amount.
\<close>

theorem awardPoints_repeat_credits_again:
  assumes "request_ready ps r ''award_points'' s" and "validateAmount ps (aw_amount r) = Inr a"
    and "aw_reason r \<in> set earningReasons" and "\<not> key_used (aw_idempotencyKey r) s"
    and "run (awardPoints ps r 0) s = (Inr resp, s1)" and "fresh_ids 3 s1"
  shows "\<exists>resp' s2 d. run (awardPoints ps r 0) s1 = (Inr resp', s2) \<and>
    available_of s2 (aw_userId r) = available_of s (aw_userId r) + 2 * a \<and>
    ledger_entries s2 = ledger_entries s @ [d] \<and> l_amount d = a"
proof -
  let ?u = "aw_userId r"
  from award_outcome [OF assms(1-3)] assms(4,5) obtain d where
    1: "available_of s1 ?u = available_of s ?u + a" "ledger_entries s1 = ledger_entries s @ [d]"
      "idempotency_records s1 = idempotency_records s" "l_idempotencyKey d = aw_idempotencyKey r"
      "l_amount d = a"
    by auto
  have "request_ready ps r ''award_points'' s1"
    using assms(1,6) 1(3) by (simp add: request_ready_def)
  moreover have "key_used (aw_idempotencyKey r) s1" using 1(2,4) by (simp add: key_used_def)
  ultimately obtain resp' s2 where "run (awardPoints ps r 0) s1 = (Inr resp', s2)"
    and "available_of s2 ?u = available_of s1 ?u + a" and "ledger_entries s2 = ledger_entries s1"
    using award_outcome [OF _ assms(2,3), of s1] by auto
  with 1 show ?thesis by auto
qed

definition demo_award :: award_points_request where
  "demo_award =
     \<lparr>aw_userId = ''alice'', aw_amount = Finite 250, aw_reason = REFERRAL_BONUS,
      aw_idempotencyKey = ''award-1'', aw_requestId = ''req-1'', aw_tenantId = ''acme'',
      aw_metadata = Some [(''bonusType'', JStr ''referral'')], aw_expiresAt = Some 1767225600000\<rparr>"

lemma demo_award_facts:
  "request_ready default_point_accrual demo_award ''award_points'' empty_store"
  "validateAmount default_point_accrual (aw_amount demo_award) = Inr 250"
  "aw_reason demo_award \<in> set earningReasons"
  "\<not> key_used (aw_idempotencyKey demo_award) empty_store"
  "aw_userId demo_award = ''alice''" "available_of empty_store ''alice'' = 0"
  by code_simp+

theorem awardPoints_success_witness:
  "\<exists>resp s'. run (awardPoints default_point_accrual demo_award 0) empty_store = (Inr resp, s') \<and>
     ar_newBalance resp = 250"
  using awardPoints_success [OF demo_award_facts(1-4)] demo_award_facts by auto

theorem awardPoints_repeat_credits_again_witness:
  "\<exists>resp s1 resp' s2. run (awardPoints default_point_accrual demo_award 0) empty_store = (Inr resp, s1) \<and>
     run (awardPoints default_point_accrual demo_award 0) s1 = (Inr resp', s2) \<and>
     available_of s2 ''alice'' = 500"
proof -
  let ?p = "run (awardPoints default_point_accrual demo_award 0) empty_store"
  have "\<not> isl (fst ?p)" and fresh: "fresh_ids 3 (snd ?p)" by code_simp+
  then obtain resp where p: "?p = (Inr resp, snd ?p)" by (metis prod.collapse sum.collapse(2))
  show ?thesis
    using awardPoints_repeat_credits_again [OF demo_award_facts(1-4) p fresh] demo_award_facts p by auto
qed

text \<open>Requests to award or to debit, answered without a result here.\<close>

datatype accrual_call = Award_call award_points_request | Debit_call award_points_request

fun handle_accrual :: "point_accrual_service \<Rightarrow> accrual_call \<Rightarrow> unit svc" where
  "handle_accrual ps (Award_call r) = await (awardPoints ps r 0) (\<lambda>_. pure ())"
| "handle_accrual ps (Debit_call r) = await (deductFromAvailable ps r 0) (\<lambda>_. pure ())"

text \<open>
  C12: However awards and direct debits interleave, with each other and with anything else that
  respects the rely, no available balance turns negative, no wallet changes without its version
  increasing, and the ledger only grows; the filter of the debit, which repeats the balance
  check in the update itself, is what the first of these rests on.
\<close>

theorem awards_and_debits_safe:
  assumes "pool_reach safe_rely (\<lambda>i. handle_accrual ps (calls i)) s pl' s'"
    and "0 < pa_minAwardAmount ps"
  shows "safe_rely s s' \<and> (\<not> available_ok s \<or> available_ok s')"
proof -
  have "keeps safe_rely (handle_accrual ps c)" for c
    by (cases c) (auto intro!: keeps_await keeps_pure keeps_awardPoints keeps_deductFromAvailable assms(2))
  then have "wp safe_rely (\<lambda>_ _. True) (handle_accrual ps (calls i)) s" for i
    by (rule keeps_wp)
  then have "safe_rely s s'"
    using safe.pool_sound [OF assms(1), where Q = "\<lambda>_ _ _. True"] by blast
  then show ?thesis by (auto simp: safe_rely_def)
qed

theorem awards_and_debits_safe_witness:
  "\<exists>pl' s'. pool_reach safe_rely (\<lambda>i. handle_accrual default_point_accrual (Award_call demo_award))
       empty_store pl' s' \<and>
     safe_rely empty_store s' \<and> available_of s' ''alice'' = 250"
proof -
  let ?pl = "\<lambda>i :: nat. handle_accrual default_point_accrual (Award_call demo_award)"
  let ?s' = "snd (run (?pl 0) empty_store)"
  have r: "pool_reach safe_rely ?pl empty_store (?pl(0 := Ret (fst (run (?pl 0) empty_store)))) ?s'"
    by (rule pool_reach_run) (rule pool_start)
  have "0 < pa_minAwardAmount default_point_accrual" by code_simp
  from awards_and_debits_safe [OF r this] have "safe_rely empty_store ?s'" by simp
  moreover have "available_of ?s' ''alice'' = 250" by code_simp
  ultimately show ?thesis using r by metis
qed

text \<open>A row that is in force for the tenant, merchant, tier and event class.\<close>

definition in_force :: "string \<Rightarrow> string \<Rightarrow> string \<Rightarrow> string \<Rightarrow> earn_rate_config \<Rightarrow> bool" where
  "in_force tenant merchant tier event c \<longleftrightarrow>
     ec_tenant_id c = tenant \<and> ec_merchant_id c = merchant \<and> ec_merchant_tier c = tier \<and>
     ec_event_class c = event \<and> ec_superseded_at c = None"

text \<open>
  The earn rate is that of the newest row among those of the tenant, merchant, tier and event
  class that are not superseded; it is base points times multiplier times amount, or zero for a
  Diamond Concierge purchase when that row says so; without such a row the call is refused.
\<close>

theorem calculateEarnRate_newest_active:
  "case calculateEarnRate rows tenant merchant tier event amount concierge of
     Inl e \<Rightarrow> e = NoEarnRateConfig tenant merchant tier event \<and>
       filter (in_force tenant merchant tier event) rows = []
   | Inr points \<Rightarrow> (\<exists>c\<in>set rows. in_force tenant merchant tier event c \<and>
       (\<forall>d\<in>set (filter (in_force tenant merchant tier event) rows).
          ec_effective_at d \<le> ec_effective_at c) \<and>
       points = (if concierge \<and> ec_diamond_concierge_zero_earn c then 0
                 else ec_base_points_per_unit c * ec_inferno_multiplier c * amount))"
proof -
  let ?filt = "\<lambda>c. ec_tenant_id c = tenant \<and> ec_merchant_id c = merchant \<and>
              ec_merchant_tier c = tier \<and> ec_event_class c = event"
  have force: "in_force tenant merchant tier event d \<longleftrightarrow> ?filt d \<and> ec_superseded_at d = None" for d
    by (simp add: in_force_def)
  show ?thesis
  proof (cases "newest_active ec_effective_at ec_superseded_at ?filt rows")
    case None
    from None [unfolded newest_active_None] show ?thesis
      by (simp add: calculateEarnRate_def None filter_empty_conv force)
  next
    case (Some c)
    let ?points = "if concierge \<and> ec_diamond_concierge_zero_earn c then 0
                 else ec_base_points_per_unit c * ec_inferno_multiplier c * amount"
    have "calculateEarnRate rows tenant merchant tier event amount concierge = Inr ?points"
      by (simp add: calculateEarnRate_def Some)
    moreover from newest_active_Some [OF Some]
    have "c \<in> set rows" and "in_force tenant merchant tier event c"
      and "\<forall>d\<in>set (filter (in_force tenant merchant tier event) rows). ec_effective_at d \<le> ec_effective_at c"
      by (simp_all add: force)
    ultimately show ?thesis by (simp only: sum.case) blast
  qed
qed

definition demo_rate :: earn_rate_config where
  "demo_rate =
     \<lparr>ec_config_id = ''c1'', ec_tenant_id = ''acme'', ec_merchant_id = ''m'', ec_effective_at = 10,
      ec_superseded_at = None, ec_correlation_id = ''x'', ec_reason_code = ''r'', ec_created_by = ''ceo'',
      ec_merchant_tier = ''GOLD'', ec_rrr_member_tier = None, ec_event_class = ''PURCHASE'',
      ec_base_points_per_unit = 2, ec_inferno_multiplier = 3, ec_diamond_concierge_zero_earn = True\<rparr>"

definition demo_rates :: "earn_rate_config list" where
  "demo_rates = [demo_rate, demo_rate\<lparr>ec_effective_at := 20, ec_base_points_per_unit := 5\<rparr>]"

theorem calculateEarnRate_newest_active_witness:
  "calculateEarnRate demo_rates ''acme'' ''m'' ''GOLD'' ''PURCHASE'' 4 False = Inr 60 \<and>
   (\<exists>c\<in>set demo_rates. in_force ''acme'' ''m'' ''GOLD'' ''PURCHASE'' c \<and>
      ec_base_points_per_unit c * ec_inferno_multiplier c * 4 = 60)"
proof -
  have c: "calculateEarnRate demo_rates ''acme'' ''m'' ''GOLD'' ''PURCHASE'' 4 False = Inr 60"
    by code_simp
  have "\<exists>c\<in>set demo_rates. in_force ''acme'' ''m'' ''GOLD'' ''PURCHASE'' c \<and>
      60 = (if False \<and> ec_diamond_concierge_zero_earn c then 0
        else ec_base_points_per_unit c * ec_inferno_multiplier c * 4)"
    using calculateEarnRate_newest_active [where rows = demo_rates and tenant = "''acme''" and merchant = "''m''"
        and tier = "''GOLD''" and event = "''PURCHASE''" and amount = 4 and concierge = False]
    unfolding c sum.case by blast
  with c show ?thesis by auto
qed

end
