(* ===== verification/Wallet_Events.thy ===== *)
theory Wallet_Events
  imports Store_Rely
begin

text \<open>
  The publisher of wallet events (\<open>src/events/wallet-event-publisher.ts\<close>) and the builder of
  the fields every event has (\<open>EventBuilder.createBase\<close> in \<open>src/events/event-bus.ts\<close>).
  Delivery to subscribers is the subject of the theory of the event bus; here an event that is
  handed to the bus is appended to \<open>published\<close>.  Metrics are not modelled.
\<close>

definition createBase :: "wallet_event_type \<Rightarrow> string \<Rightarrow> base_reward_event svc" where
  "createBase eventType idempotencyKey =
     await uuidv4 (\<lambda>eventId.
     await new_date (\<lambda>timestamp.
     pure \<lparr>ev_eventId = eventId, ev_eventType = eventType, ev_idempotencyKey = idempotencyKey,
           ev_timestamp = timestamp, ev_correlationId = None, ev_source = ''reward-service'',
           ev_version = ''1.0''\<rparr>))"

text \<open>The optional \<open>correlationId\<close> that overwrites the one of the base is \<open>corr\<close>.\<close>

definition publishEscrowHeld ::
  "string \<Rightarrow> string \<Rightarrow> rat \<Rightarrow> transaction_reason \<Rightarrow> string \<Rightarrow> string \<Rightarrow> string \<Rightarrow> rat \<Rightarrow> rat \<Rightarrow> string \<Rightarrow>
   metadata option \<Rightarrow> string option \<Rightarrow> unit svc" where
  "publishEscrowHeld userId escrowId amount reason queueItemId featureType transactionId
     userAvailableBalance userEscrowBalance idempotencyKey metadata corr =
     await (createBase ESCROW_HELD idempotencyKey) (\<lambda>b.
     publish_event (EscrowHeldEvent
       (base_reward_event.extend (b\<lparr>ev_correlationId := corr\<rparr>)
         (escrow_held_event.fields userId escrowId amount (reason_string reason) queueItemId
            featureType transactionId userAvailableBalance userEscrowBalance metadata))))"

definition publishEscrowSettled ::
  "string \<Rightarrow> string \<Rightarrow> string \<Rightarrow> rat \<Rightarrow> transaction_reason \<Rightarrow> string \<Rightarrow> string \<Rightarrow> rat \<Rightarrow> string \<Rightarrow>
   metadata option \<Rightarrow> string option \<Rightarrow> unit svc" where
  "publishEscrowSettled userId modelId escrowId amount reason queueItemId transactionId
     modelEarnedBalance idempotencyKey metadata corr =
     await (createBase ESCROW_SETTLED idempotencyKey) (\<lambda>b.
     publish_event (EscrowSettledEvent
       (base_reward_event.extend (b\<lparr>ev_correlationId := corr\<rparr>)
         (escrow_settled_event.fields userId modelId escrowId amount (reason_string reason)
            queueItemId transactionId modelEarnedBalance metadata))))"

definition publishEscrowRefunded ::
  "string \<Rightarrow> string \<Rightarrow> rat \<Rightarrow> transaction_reason \<Rightarrow> string \<Rightarrow> string \<Rightarrow> rat \<Rightarrow> rat \<Rightarrow> string \<Rightarrow>
   metadata option \<Rightarrow> string option \<Rightarrow> unit svc" where
  "publishEscrowRefunded userId escrowId amount reason queueItemId transactionId
     userAvailableBalance userEscrowBalance idempotencyKey metadata corr =
     await (createBase ESCROW_REFUNDED idempotencyKey) (\<lambda>b.
     publish_event (EscrowRefundedEvent
       (base_reward_event.extend (b\<lparr>ev_correlationId := corr\<rparr>)
         (escrow_refunded_event.fields userId escrowId amount (reason_string reason)
            queueItemId transactionId userAvailableBalance userEscrowBalance metadata))))"

definition publishEscrowPartialSettled ::
  "string \<Rightarrow> string \<Rightarrow> string \<Rightarrow> rat \<Rightarrow> rat \<Rightarrow> transaction_reason \<Rightarrow> string \<Rightarrow> string \<Rightarrow> rat \<Rightarrow> rat \<Rightarrow> rat \<Rightarrow>
   string \<Rightarrow> metadata option \<Rightarrow> string option \<Rightarrow> unit svc" where
  "publishEscrowPartialSettled userId modelId escrowId refundAmount settleAmount reason
     queueItemId transactionId userAvailableBalance userEscrowBalance modelEarnedBalance
     idempotencyKey metadata corr =
     await (createBase ESCROW_PARTIAL_SETTLED idempotencyKey) (\<lambda>b.
     publish_event (EscrowPartialSettledEvent
       (base_reward_event.extend (b\<lparr>ev_correlationId := corr\<rparr>)
         (escrow_partial_settled_event.fields userId modelId escrowId refundAmount settleAmount
            (reason_string reason) queueItemId transactionId userAvailableBalance
            userEscrowBalance modelEarnedBalance metadata))))"

definition publishBalanceUpdated ::
  "string \<Rightarrow> account_type \<Rightarrow> balance_state \<Rightarrow> rat \<Rightarrow> rat \<Rightarrow> string \<Rightarrow> string \<Rightarrow> string \<Rightarrow> string \<Rightarrow>
   metadata option \<Rightarrow> string option \<Rightarrow> unit svc" where
  "publishBalanceUpdated accountId accountType balanceState balanceBefore balanceAfter reason
     transactionId ledgerEntryId idempotencyKey metadata corr =
     await (createBase BALANCE_UPDATED idempotencyKey) (\<lambda>b.
     publish_event (BalanceUpdatedEvent
       (base_reward_event.extend (b\<lparr>ev_correlationId := corr\<rparr>)
         (balance_updated_event.fields accountId accountType balanceState balanceBefore
            balanceAfter (balanceAfter - balanceBefore) reason transactionId ledgerEntryId
            metadata))))"

text \<open>A publisher draws one identifier and hands over one event; nothing else changes.\<close>

definition after_publish :: "reward_event \<Rightarrow> store \<Rightarrow> store" where
  "after_publish ev s = s\<lparr>uuid_count := Suc (uuid_count s), published := published s @ [ev]\<rparr>"

lemmas publisher_defs =
  publishEscrowHeld_def publishEscrowSettled_def publishEscrowRefunded_def
  publishEscrowPartialSettled_def publishBalanceUpdated_def

lemma run_createBase [run_simps]:
  "run (createBase ty k) s =
     (Inr \<lparr>ev_eventId = uuids s (uuid_count s), ev_eventType = ty, ev_idempotencyKey = k,
           ev_timestamp = clock s, ev_correlationId = None, ev_source = ''reward-service'',
           ev_version = ''1.0''\<rparr>,
      s\<lparr>uuid_count := Suc (uuid_count s)\<rparr>)"
  by (simp add: createBase_def run_simps)

text \<open>The balances an event tells its subscribers.\<close>

fun told :: "reward_event \<Rightarrow> ((string \<times> balance_state) \<times> rat) list" where
  "told (BalanceUpdatedEvent e) = [((bu_accountId e, bu_balanceState e), bu_balanceAfter e)]"
| "told (EscrowHeldEvent e) =
     [((eh_userId e, Available), eh_userAvailableBalance e), ((eh_userId e, Escrow), eh_userEscrowBalance e)]"
| "told (EscrowSettledEvent e) = [((es_modelId e, Earned), es_modelEarnedBalance e)]"
| "told (EscrowRefundedEvent e) =
     [((er_userId e, Available), er_userAvailableBalance e), ((er_userId e, Escrow), er_userEscrowBalance e)]"
| "told (EscrowPartialSettledEvent e) =
     [((ep_userId e, Available), ep_userAvailableBalance e), ((ep_userId e, Escrow), ep_userEscrowBalance e),
      ((ep_modelId e, Earned), ep_modelEarnedBalance e)]"
| "told (LedgerEntryCreatedEvent e) = []"

text \<open>An event about the escrow of a user, as opposed to a single balance.\<close>

fun escrow_event :: "reward_event \<Rightarrow> bool" where
  "escrow_event (BalanceUpdatedEvent e) = False"
| "escrow_event (LedgerEntryCreatedEvent e) = False"
| "escrow_event _ = True"

lemma run_publishers:
  "\<exists>ev. run (publishEscrowHeld u e a r q f t av es k md corr) s = (Inr (), after_publish ev s) \<and>
     escrow_event ev \<and> told ev = [((u, Available), av), ((u, Escrow), es)]"
  "\<exists>ev. run (publishEscrowSettled u m e a r q t b k md corr) s = (Inr (), after_publish ev s) \<and>
     escrow_event ev \<and> told ev = [((m, Earned), b)]"
  "\<exists>ev. run (publishEscrowRefunded u e a r q t av es k md corr) s = (Inr (), after_publish ev s) \<and>
     escrow_event ev \<and> told ev = [((u, Available), av), ((u, Escrow), es)]"
  "\<exists>ev. run (publishEscrowPartialSettled u m e ra sa r q t av es b k md corr) s =
     (Inr (), after_publish ev s) \<and>
     escrow_event ev \<and> told ev = [((u, Available), av), ((u, Escrow), es), ((m, Earned), b)]"
  by (simp add: publisher_defs run_simps after_publish_def,
      intro exI conjI, rule refl, simp_all add: base_reward_event.defs escrow_held_event.defs
      escrow_settled_event.defs escrow_refunded_event.defs escrow_partial_settled_event.defs)+

lemma keeps_publishers [keeps_intros]:
  "keeps safe_rely (createBase ty k)"
  "keeps safe_rely (publishEscrowHeld u e a r q f t av es k md corr)"
  "keeps safe_rely (publishEscrowSettled u m e a r q t b k md corr)"
  "keeps safe_rely (publishEscrowRefunded u e a r q t av es k md corr)"
  "keeps safe_rely (publishEscrowPartialSettled u m e ra sa r q t av es b k md corr)"
  unfolding publisher_defs createBase_def by (intro keeps_intros)+

end
