(* ===== verification/Wallet_Service.thy ===== *)
theory Wallet_Service
  imports Ledger_Steps Wallet_Events
begin

text \<open>
  The wallet service (\<open>src/wallets/wallet.service.ts\<close>): holding points in escrow, settling them
  to a model, refunding them, and the partial settlement, with their idempotency claims,
  optimistic locks, rollbacks, ledger entries and events.  Every awaited database call is one
  atomic step, so the interleavings of concurrent handlers are those of the code.  The pause
  between retries and the metrics are not modelled; the arrow of \<open>stateTransition\<close> is written
  \<open>->\<close>.
\<close>

section \<open>The operations\<close>

text \<open>
  The configuration of the service, and of the ledger service it is constructed with (whose
  default currency is used only when a request has none).
\<close>

record wallet_service =
  ws_maxRetryAttempts :: nat
  ws_defaultCurrency :: string
  ws_ledgerCurrency :: string

definition default_wallet_service :: wallet_service where
  "default_wallet_service =
     \<lparr>ws_maxRetryAttempts = 3, ws_defaultCurrency = ''points'', ws_ledgerCurrency = ''points''\<rparr>"

definition claim_or_throw :: "string \<Rightarrow> string \<Rightarrow> unit svc" where
  "claim_or_throw key operation =
     await (claimIdempotency key operation None) (\<lambda>claimed.
     if \<not> claimed then throw (Plain ''Idempotency key already used'') else pure ())"

subsection \<open>Holding\<close>

definition find_or_create_wallet :: "wallet_service \<Rightarrow> string \<Rightarrow> wallet svc" where
  "find_or_create_wallet ws userId =
     await (wallet_findOne userId) (\<lambda>found.
     case found of
       Some w \<Rightarrow> pure w
     | None \<Rightarrow> wallet_create
         \<lparr>w_userId = userId, w_availableBalance = 0, w_escrowBalance = 0,
          w_currency = ws_defaultCurrency ws, w_version = 0\<rparr>)"

definition hold_debit_entry ::
  "wallet_service \<Rightarrow> escrow_hold_request \<Rightarrow> wallet \<Rightarrow> string \<Rightarrow> string \<Rightarrow> create_ledger_entry_request" where
  "hold_debit_entry ws request w escrowId transactionId =
     \<lparr>cr_transactionId = Some transactionId, cr_accountId = hr_userId request,
      cr_accountType = User, cr_amount = - hr_amount request, cr_type = DEBIT,
      cr_balanceState = Available, cr_stateTransition = ''available->escrow'',
      cr_reason = Some (hr_reason request),
      cr_idempotencyKey = hr_idempotencyKey request @ ''_debit'',
      cr_requestId = hr_requestId request, cr_balanceBefore = w_availableBalance w,
      cr_balanceAfter = w_availableBalance w - hr_amount request,
      cr_currency = Some (ws_defaultCurrency ws), cr_metadata = hr_metadata request,
      cr_escrowId = Some escrowId, cr_queueItemId = Some (hr_queueItemId request),
      cr_featureType = Some (hr_featureType request), cr_correlationId = None\<rparr>"

definition hold_credit_entry ::
  "wallet_service \<Rightarrow> escrow_hold_request \<Rightarrow> wallet \<Rightarrow> string \<Rightarrow> string \<Rightarrow> create_ledger_entry_request" where
  "hold_credit_entry ws request w escrowId transactionId =
     \<lparr>cr_transactionId = Some transactionId, cr_accountId = hr_userId request,
      cr_accountType = User, cr_amount = hr_amount request, cr_type = CREDIT,
      cr_balanceState = Escrow, cr_stateTransition = ''available->escrow'',
      cr_reason = Some (hr_reason request),
      cr_idempotencyKey = hr_idempotencyKey request @ ''_credit'',
      cr_requestId = hr_requestId request, cr_balanceBefore = w_escrowBalance w,
      cr_balanceAfter = w_escrowBalance w + hr_amount request,
      cr_currency = Some (ws_defaultCurrency ws), cr_metadata = hr_metadata request,
      cr_escrowId = Some escrowId, cr_queueItemId = Some (hr_queueItemId request),
      cr_featureType = Some (hr_featureType request), cr_correlationId = None\<rparr>"

definition held_item :: "escrow_hold_request \<Rightarrow> string \<Rightarrow> int \<Rightarrow> escrow_item" where
  "held_item request escrowId createdAt =
     \<lparr>e_escrowId = escrowId, e_userId = hr_userId request, e_amount = hr_amount request,
      e_status = Held, e_queueItemId = hr_queueItemId request,
      e_featureType = hr_featureType request, e_reason = hr_reason request,
      e_metadata = hr_metadata request, e_createdAt = createdAt, e_processedAt = None,
      e_modelId = None\<rparr>"

text \<open>The ledger entries, the response and the event, after the wallet has been updated.\<close>

definition record_hold ::
  "wallet_service \<Rightarrow> escrow_hold_request \<Rightarrow> wallet \<Rightarrow> string \<Rightarrow> escrow_hold_response svc" where
  "record_hold ws request w escrowId =
     await uuidv4 (\<lambda>transactionId.
     await new_date (\<lambda>timestamp.
     await (createEntry (ws_ledgerCurrency ws) (hold_debit_entry ws request w escrowId transactionId)) (\<lambda>_.
     await (createEntry (ws_ledgerCurrency ws) (hold_credit_entry ws request w escrowId transactionId)) (\<lambda>_.
     await (try_catch
         (publishEscrowHeld (hr_userId request) escrowId (hr_amount request) (hr_reason request)
            (hr_queueItemId request) (hr_featureType request) transactionId
            (w_availableBalance w - hr_amount request) (w_escrowBalance w + hr_amount request)
            (hr_idempotencyKey request) (hr_metadata request) None)
         (\<lambda>eventError. pure ())) (\<lambda>_.
     pure \<lparr>hs_transactionId = transactionId, hs_escrowId = escrowId,
           hs_previousBalance = w_availableBalance w,
           hs_newAvailableBalance = w_availableBalance w - hr_amount request,
           hs_escrowBalance = w_escrowBalance w + hr_amount request,
           hs_timestamp = timestamp\<rparr>)))))"

definition executeHoldInEscrow :: "wallet_service \<Rightarrow> escrow_hold_request \<Rightarrow> escrow_hold_response svc" where
  "executeHoldInEscrow ws request =
     await (find_or_create_wallet ws (hr_userId request)) (\<lambda>wallet.
     if w_availableBalance wallet < hr_amount request then
       throw (InsufficientBalanceError (hr_amount request) (w_availableBalance wallet))
     else
     await uuidv4 (\<lambda>escrowId.
     await new_date (\<lambda>createdAt.
     await (escrow_create (held_item request escrowId createdAt)) (\<lambda>_.
     await (wallet_findOneAndUpdate (hr_userId request)
         (\<lambda>w. w_version w = w_version wallet)
         (\<lambda>w. w\<lparr>w_availableBalance := w_availableBalance wallet - hr_amount request,
                w_escrowBalance := w_escrowBalance wallet + hr_amount request,
                w_version := w_version wallet + 1\<rparr>)) (\<lambda>updated.
     case updated of
       None \<Rightarrow>
         await (escrow_deleteOne escrowId) (\<lambda>_.
         throw (OptimisticLockError ''wallet'' (hr_userId request)))
     | Some _ \<Rightarrow> record_hold ws request wallet escrowId)))))"

text \<open>The argument counts the attempts that are left.\<close>

fun hold_attempts :: "wallet_service \<Rightarrow> escrow_hold_request \<Rightarrow> nat \<Rightarrow> escrow_hold_response svc" where
  "hold_attempts ws request 0 = throw (OptimisticLockError ''wallet'' (hr_userId request))"
| "hold_attempts ws request (Suc left) =
     try_catch (executeHoldInEscrow ws request) (\<lambda>error.
       if is_optimistic_lock error \<and> 0 < left then hold_attempts ws request left
       else throw error)"

definition holdInEscrow :: "wallet_service \<Rightarrow> escrow_hold_request \<Rightarrow> escrow_hold_response svc" where
  "holdInEscrow ws request =
     await (claim_or_throw (hr_idempotencyKey request) ''hold_escrow'') (\<lambda>_.
     hold_attempts ws request (ws_maxRetryAttempts ws))"

subsection \<open>Locking, rolling back and finalising an escrow item\<close>

definition lock_escrow :: "escrow_status \<Rightarrow> string \<Rightarrow> escrow_item svc" where
  "lock_escrow interim escrowId =
     await new_date (\<lambda>now.
     await (escrow_findOneAndUpdate escrowId (\<lambda>e. e_status e = Held)
         (\<lambda>e. e\<lparr>e_status := interim, e_processedAt := Some now\<rparr>)) (\<lambda>escrow.
     case escrow of
       Some e \<Rightarrow> pure e
     | None \<Rightarrow>
         await (escrow_findOne escrowId) (\<lambda>existing.
         case existing of
           None \<Rightarrow> throw (EscrowNotFoundError escrowId)
         | Some e \<Rightarrow> throw (EscrowAlreadyProcessedError escrowId (e_status e)))))"

definition rollback_escrow :: "string \<Rightarrow> unit svc" where
  "rollback_escrow escrowId =
     escrow_updateOne escrowId (\<lambda>e. e\<lparr>e_status := Held, e_processedAt := None\<rparr>)"

definition find_or_create_model_wallet :: "wallet_service \<Rightarrow> string \<Rightarrow> model_wallet svc" where
  "find_or_create_model_wallet ws modelId =
     await (model_wallet_findOne modelId) (\<lambda>found.
     case found of
       Some m \<Rightarrow> pure m
     | None \<Rightarrow> model_wallet_create
         \<lparr>m_modelId = modelId, m_earnedBalance = 0, m_currency = ws_defaultCurrency ws,
          m_type = Earnings, m_version = 0\<rparr>)"

definition credit_model_wallet :: "string \<Rightarrow> model_wallet \<Rightarrow> rat \<Rightarrow> model_wallet option svc" where
  "credit_model_wallet modelId modelWallet amount =
     model_wallet_findOneAndUpdate modelId
       (\<lambda>m. m_version m = m_version modelWallet)
       (\<lambda>m. m\<lparr>m_earnedBalance := m_earnedBalance modelWallet + amount,
              m_version := m_version m + 1\<rparr>)"

subsection \<open>Settling\<close>

definition model_credit_entry ::
  "wallet_service \<Rightarrow> string \<Rightarrow> string \<Rightarrow> rat \<Rightarrow> transaction_reason \<Rightarrow> string \<Rightarrow> string \<Rightarrow> rat \<Rightarrow>
   metadata option \<Rightarrow> string \<Rightarrow> string \<Rightarrow> create_ledger_entry_request" where
  "model_credit_entry ws transactionId modelId amount reason idempotencyKey requestId earnedBefore
     metadata escrowId queueItemId =
     \<lparr>cr_transactionId = Some transactionId, cr_accountId = modelId, cr_accountType = Model,
      cr_amount = amount, cr_type = CREDIT, cr_balanceState = Earned,
      cr_stateTransition = ''escrow->earned'', cr_reason = Some reason,
      cr_idempotencyKey = idempotencyKey, cr_requestId = requestId,
      cr_balanceBefore = earnedBefore, cr_balanceAfter = earnedBefore + amount,
      cr_currency = Some (ws_defaultCurrency ws), cr_metadata = metadata,
      cr_escrowId = Some escrowId, cr_queueItemId = Some queueItemId, cr_featureType = None,
      cr_correlationId = None\<rparr>"

definition record_settle ::
  "wallet_service \<Rightarrow> escrow_settle_request \<Rightarrow> string \<Rightarrow> model_wallet \<Rightarrow> escrow_settle_response svc" where
  "record_settle ws request escrowUserId modelWallet =
     await uuidv4 (\<lambda>transactionId.
     await (createEntry (ws_ledgerCurrency ws)
         (model_credit_entry ws transactionId (sr_modelId request) (sr_amount request)
            (sr_reason request) (sr_idempotencyKey request) (sr_requestId request)
            (m_earnedBalance modelWallet) (sr_metadata request) (sr_escrowId request)
            (sr_queueItemId request))) (\<lambda>_.
     await new_date (\<lambda>timestamp.
     await (try_catch
         (publishEscrowSettled escrowUserId (sr_modelId request) (sr_escrowId request)
            (sr_amount request) (sr_reason request) (sr_queueItemId request) transactionId
            (m_earnedBalance modelWallet + sr_amount request) (sr_idempotencyKey request)
            (sr_metadata request) None)
         (\<lambda>eventError. pure ())) (\<lambda>_.
     pure \<lparr>ss_transactionId = transactionId, ss_settledAmount = sr_amount request,
           ss_modelEarnedBalance = m_earnedBalance modelWallet + sr_amount request,
           ss_timestamp = timestamp\<rparr>))))"

definition settleEscrow ::
  "wallet_service \<Rightarrow> escrow_settle_request \<Rightarrow> queue_settlement_authorization option \<Rightarrow>
   escrow_settle_response svc" where
  "settleEscrow ws request authorization =
     (if \<not> truthy (map_option qs_token authorization) then throw (Plain ''Authorization required'')
      else
        await (claim_or_throw (sr_idempotencyKey request) ''settle_escrow'') (\<lambda>_.
        await (lock_escrow Settling (sr_escrowId request)) (\<lambda>escrow.
        await (find_or_create_model_wallet ws (sr_modelId request)) (\<lambda>modelWallet.
        await (credit_model_wallet (sr_modelId request) modelWallet (sr_amount request))
          (\<lambda>updatedModelWallet.
        if updatedModelWallet = None then throw (OptimisticLockError ''model_wallet'' (sr_modelId request))
        else
        await (wallet_findOne (e_userId escrow)) (\<lambda>found.
        case found of
          None \<Rightarrow> throw (Plain ''User wallet not found'')
        | Some userWallet \<Rightarrow>
            await (wallet_findOneAndUpdate (e_userId escrow)
                (\<lambda>w. w_version w = w_version userWallet)
                (\<lambda>w. w\<lparr>w_escrowBalance := w_escrowBalance w - sr_amount request,
                       w_version := w_version w + 1\<rparr>)) (\<lambda>updatedUserWallet.
            if updatedUserWallet = None then
              await (rollback_escrow (sr_escrowId request)) (\<lambda>_.
              throw (OptimisticLockError ''wallet'' (e_userId escrow)))
            else
            await (escrow_updateOne (sr_escrowId request)
                (\<lambda>e. e\<lparr>e_status := Settled, e_modelId := Some (sr_modelId request)\<rparr>)) (\<lambda>_.
            record_settle ws request (e_userId escrow) modelWallet))))))))"

subsection \<open>Refunding\<close>

definition available_credit_entry ::
  "wallet_service \<Rightarrow> string \<Rightarrow> string \<Rightarrow> rat \<Rightarrow> transaction_reason \<Rightarrow> string \<Rightarrow> string \<Rightarrow> rat \<Rightarrow>
   metadata option \<Rightarrow> string \<Rightarrow> string \<Rightarrow> create_ledger_entry_request" where
  "available_credit_entry ws transactionId userId amount reason idempotencyKey requestId
     availableBefore metadata escrowId queueItemId =
     \<lparr>cr_transactionId = Some transactionId, cr_accountId = userId, cr_accountType = User,
      cr_amount = amount, cr_type = CREDIT, cr_balanceState = Available,
      cr_stateTransition = ''escrow->available'', cr_reason = Some reason,
      cr_idempotencyKey = idempotencyKey, cr_requestId = requestId,
      cr_balanceBefore = availableBefore, cr_balanceAfter = availableBefore + amount,
      cr_currency = Some (ws_defaultCurrency ws), cr_metadata = metadata,
      cr_escrowId = Some escrowId, cr_queueItemId = Some queueItemId, cr_featureType = None,
      cr_correlationId = None\<rparr>"

definition record_refund ::
  "wallet_service \<Rightarrow> escrow_refund_request \<Rightarrow> wallet \<Rightarrow> wallet \<Rightarrow> escrow_refund_response svc" where
  "record_refund ws request wallet updatedWallet =
     await uuidv4 (\<lambda>transactionId.
     await (createEntry (ws_ledgerCurrency ws)
         (available_credit_entry ws transactionId (rr_userId request) (rr_amount request)
            (rr_reason request) (rr_idempotencyKey request) (rr_requestId request)
            (w_availableBalance wallet) (rr_metadata request) (rr_escrowId request)
            (rr_queueItemId request))) (\<lambda>_.
     await new_date (\<lambda>timestamp.
     await (try_catch
         (publishEscrowRefunded (rr_userId request) (rr_escrowId request) (rr_amount request)
            (rr_reason request) (rr_queueItemId request) transactionId
            (w_availableBalance wallet + rr_amount request) (w_escrowBalance updatedWallet)
            (rr_idempotencyKey request) (rr_metadata request) None)
         (\<lambda>eventError. pure ())) (\<lambda>_.
     pure \<lparr>rs_transactionId = transactionId, rs_refundedAmount = rr_amount request,
           rs_userAvailableBalance = w_availableBalance wallet + rr_amount request,
           rs_timestamp = timestamp\<rparr>))))"

definition refundEscrow ::
  "wallet_service \<Rightarrow> escrow_refund_request \<Rightarrow> queue_refund_authorization option \<Rightarrow>
   escrow_refund_response svc" where
  "refundEscrow ws request authorization =
     (if \<not> truthy (map_option qr_token authorization) then throw (Plain ''Authorization required'')
      else
        await (claim_or_throw (rr_idempotencyKey request) ''refund_escrow'') (\<lambda>_.
        await (lock_escrow Refunding (rr_escrowId request)) (\<lambda>escrow.
        await (wallet_findOne (rr_userId request)) (\<lambda>found.
        case found of
          None \<Rightarrow> throw (Plain ''Wallet not found'')
        | Some wallet \<Rightarrow>
            await (wallet_findOneAndUpdate (rr_userId request)
                (\<lambda>w. w_version w = w_version wallet)
                (\<lambda>w. w\<lparr>w_availableBalance := w_availableBalance w + rr_amount request,
                       w_escrowBalance := w_escrowBalance w - rr_amount request,
                       w_version := w_version w + 1\<rparr>)) (\<lambda>updated.
            case updated of
              None \<Rightarrow>
                await (rollback_escrow (rr_escrowId request)) (\<lambda>_.
                throw (OptimisticLockError ''wallet'' (rr_userId request)))
            | Some updatedWallet \<Rightarrow>
                await (escrow_updateOne (rr_escrowId request) (\<lambda>e. e\<lparr>e_status := Refunded\<rparr>)) (\<lambda>_.
                record_refund ws request wallet updatedWallet))))))"

subsection \<open>Settling in part\<close>

definition record_partial_settle ::
  "wallet_service \<Rightarrow> escrow_partial_settle_request \<Rightarrow> wallet \<Rightarrow> wallet \<Rightarrow> model_wallet \<Rightarrow>
   escrow_partial_settle_response svc" where
  "record_partial_settle ws request userWallet updatedUserWallet modelWallet =
     await uuidv4 (\<lambda>transactionId.
     await (if 0 < pr_refundAmount request then
         await (createEntry (ws_ledgerCurrency ws)
           (available_credit_entry ws transactionId (pr_userId request) (pr_refundAmount request)
              (pr_reason request) (pr_idempotencyKey request @ ''_refund'') (pr_requestId request)
              (w_availableBalance userWallet) (pr_metadata request) (pr_escrowId request)
              (pr_queueItemId request))) (\<lambda>_. pure ())
       else pure ()) (\<lambda>_.
     await (if 0 < pr_settleAmount request then
         await (createEntry (ws_ledgerCurrency ws)
           (model_credit_entry ws transactionId (pr_modelId request) (pr_settleAmount request)
              (pr_reason request) (pr_idempotencyKey request @ ''_settle'') (pr_requestId request)
              (m_earnedBalance modelWallet) (pr_metadata request) (pr_escrowId request)
              (pr_queueItemId request))) (\<lambda>_. pure ())
       else pure ()) (\<lambda>_.
     await new_date (\<lambda>timestamp.
     await (try_catch
         (publishEscrowPartialSettled (pr_userId request) (pr_modelId request)
            (pr_escrowId request) (pr_refundAmount request) (pr_settleAmount request)
            (pr_reason request) (pr_queueItemId request) transactionId
            (w_availableBalance userWallet + pr_refundAmount request)
            (w_escrowBalance updatedUserWallet)
            (m_earnedBalance modelWallet + pr_settleAmount request)
            (pr_idempotencyKey request) (pr_metadata request) None)
         (\<lambda>eventError. pure ())) (\<lambda>_.
     pure \<lparr>ps_transactionId = transactionId, ps_refundedAmount = pr_refundAmount request,
           ps_settledAmount = pr_settleAmount request,
           ps_userAvailableBalance = w_availableBalance userWallet + pr_refundAmount request,
           ps_modelEarnedBalance = m_earnedBalance modelWallet + pr_settleAmount request,
           ps_timestamp = timestamp\<rparr>)))))"

definition partialSettleEscrow ::
  "wallet_service \<Rightarrow> escrow_partial_settle_request \<Rightarrow> queue_partial_settlement_authorization option \<Rightarrow>
   escrow_partial_settle_response svc" where
  "partialSettleEscrow ws request authorization =
     (if \<not> truthy (map_option qp_token authorization) then throw (Plain ''Authorization required'')
      else
        await (claim_or_throw (pr_idempotencyKey request) ''partial_settle_escrow'') (\<lambda>_.
        await (lock_escrow Partial_settling (pr_escrowId request)) (\<lambda>escrow.
        if 1 / 100 < \<bar>pr_refundAmount request + pr_settleAmount request - e_amount escrow\<bar> then
          throw (Plain ''Refund + settle amounts must equal escrow amount'')
        else
        await (wallet_findOne (pr_userId request)) (\<lambda>found.
        case found of
          None \<Rightarrow> throw (Plain ''User wallet not found'')
        | Some userWallet \<Rightarrow>
            await (find_or_create_model_wallet ws (pr_modelId request)) (\<lambda>modelWallet.
            await (wallet_findOneAndUpdate (pr_userId request)
                (\<lambda>w. w_version w = w_version userWallet)
                (\<lambda>w. w\<lparr>w_availableBalance := w_availableBalance w + pr_refundAmount request,
                       w_escrowBalance := w_escrowBalance w - e_amount escrow,
                       w_version := w_version w + 1\<rparr>)) (\<lambda>updated.
            case updated of
              None \<Rightarrow>
                await (rollback_escrow (pr_escrowId request)) (\<lambda>_.
                throw (OptimisticLockError ''wallet'' (pr_userId request)))
            | Some updatedUserWallet \<Rightarrow>
                await (credit_model_wallet (pr_modelId request) modelWallet (pr_settleAmount request))
                  (\<lambda>updatedModelWallet.
                if updatedModelWallet = None then
                  await (rollback_escrow (pr_escrowId request)) (\<lambda>_.
                  throw (OptimisticLockError ''model_wallet'' (pr_modelId request)))
                else
                await (escrow_updateOne (pr_escrowId request)
                    (\<lambda>e. e\<lparr>e_status := Settled, e_modelId := Some (pr_modelId request)\<rparr>)) (\<lambda>_.
                record_partial_settle ws request userWallet updatedUserWallet modelWallet))))))))"

subsection \<open>Reading balances\<close>

record user_balance =
  ub_available :: rat
  ub_escrow :: rat
  ub_total :: rat

definition getUserBalance :: "string \<Rightarrow> user_balance svc" where
  "getUserBalance userId =
     await (wallet_findOne userId) (\<lambda>found.
     pure (case found of
       None \<Rightarrow> \<lparr>ub_available = 0, ub_escrow = 0, ub_total = 0\<rparr>
     | Some w \<Rightarrow> \<lparr>ub_available = w_availableBalance w, ub_escrow = w_escrowBalance w,
                 ub_total = w_availableBalance w + w_escrowBalance w\<rparr>))"

definition getModelBalance :: "string \<Rightarrow> rat svc" where
  "getModelBalance modelId =
     await (model_wallet_findOne modelId) (\<lambda>found.
     pure (case found of None \<Rightarrow> 0 | Some m \<Rightarrow> m_earnedBalance m))"

end
