(* ===== verification/Wallet_Concurrency.thy ===== *)
theory Wallet_Concurrency
  imports Wallet_Service
begin

text \<open>
  The wallet service under concurrency: what every interleaving of its handlers preserves.  The
  handlers are threads of a pool; each is shown once to stay within the rely of the services,
  and the soundness theorem of the prelude turns that into a statement about all schedules,
  including those where a handler stops for ever between two of its calls.
\<close>

text \<open>One request to the service; its answer is of no interest here.\<close>

datatype wallet_call =
    Hold_call escrow_hold_request
  | Settle_call escrow_settle_request "queue_settlement_authorization option"
  | Refund_call escrow_refund_request "queue_refund_authorization option"
  | Partial_call escrow_partial_settle_request "queue_partial_settlement_authorization option"

fun handle_call :: "wallet_service \<Rightarrow> wallet_call \<Rightarrow> unit svc" where
  "handle_call ws (Hold_call r) = await (holdInEscrow ws r) (\<lambda>_. pure ())"
| "handle_call ws (Settle_call r a) = await (settleEscrow ws r a) (\<lambda>_. pure ())"
| "handle_call ws (Refund_call r a) = await (refundEscrow ws r a) (\<lambda>_. pure ())"
| "handle_call ws (Partial_call r a) = await (partialSettleEscrow ws r a) (\<lambda>_. pure ())"

text \<open>The code does not check that the amounts to give back are not negative.\<close>

fun nonnegative_call :: "wallet_call \<Rightarrow> bool" where
  "nonnegative_call (Refund_call r a) = (0 \<le> rr_amount r)"
| "nonnegative_call (Partial_call r a) = (0 \<le> pr_refundAmount r)"
| "nonnegative_call _ = True"

section \<open>All handlers: versions, ledger and available balances\<close>

lemma keeps_claim [keeps_intros]: "keeps safe_rely (claimIdempotency k op t)"
  unfolding claimIdempotency_def
  by (intro keeps_intros) (auto split: error.split intro: keeps_intros)

lemma keeps_claim_or_throw [keeps_intros]: "keeps safe_rely (claim_or_throw k op)"
  unfolding claim_or_throw_def by (intro keeps_intros)

lemma keeps_find_or_create [keeps_intros]:
  "keeps safe_rely (find_or_create_wallet ws u)"
  "keeps safe_rely (find_or_create_model_wallet ws m)"
  unfolding find_or_create_wallet_def find_or_create_model_wallet_def by (intro keeps_intros)+

lemma keeps_escrow_steps [keeps_intros]:
  "keeps safe_rely (lock_escrow st i)"
  "keeps safe_rely (rollback_escrow i)"
  unfolding lock_escrow_def rollback_escrow_def by (intro keeps_intros)+

lemma keeps_credit_model [keeps_intros]: "keeps safe_rely (credit_model_wallet m w a)"
  unfolding credit_model_wallet_def by (intro keeps_intros) simp

lemma keeps_records [keeps_intros]:
  "keeps safe_rely (record_hold ws hr w e)"
  "keeps safe_rely (record_settle ws sr u m)"
  "keeps safe_rely (record_refund ws rr w w')"
  "keeps safe_rely (record_partial_settle ws pr w w' m)"
  unfolding record_hold_def record_settle_def record_refund_def record_partial_settle_def
  by (intro keeps_intros)+

lemma keeps_executeHold [keeps_intros]: "keeps safe_rely (executeHoldInEscrow ws r)"
  unfolding executeHoldInEscrow_def
  by (intro keeps_intros) auto

lemma keeps_hold_attempts [keeps_intros]: "keeps safe_rely (hold_attempts ws r n)"
  by (induction n) (auto intro!: keeps_intros)

lemma keeps_handlers:
  "keeps safe_rely (holdInEscrow ws hr)"
  "keeps safe_rely (settleEscrow ws sr sa)"
  "0 \<le> rr_amount rr \<Longrightarrow> keeps safe_rely (refundEscrow ws rr ra)"
  "0 \<le> pr_refundAmount pr \<Longrightarrow> keeps safe_rely (partialSettleEscrow ws pr pa)"
  unfolding holdInEscrow_def settleEscrow_def refundEscrow_def partialSettleEscrow_def
  by (intro keeps_intros; simp)+

lemma keeps_handle_call: "nonnegative_call c \<Longrightarrow> keeps safe_rely (handle_call ws c)"
  by (cases c) (auto intro!: keeps_await keeps_pure keeps_handlers)

text \<open>
  C1: Whatever requests run concurrently, however their database calls interleave and wherever
  they stop, the ledger only grows, no idempotency record is changed or lost, a wallet never
  changes without its version increasing, and no available balance turns negative, provided no
  request asks to give back a negative amount.
\<close>

theorem concurrent_handlers_safe:
  assumes "pool_reach safe_rely (\<lambda>i. handle_call ws (calls i)) s pl' s'"
    and "\<forall>i. nonnegative_call (calls i)"
  shows "safe_rely s s'"
proof -
  have "wp safe_rely (\<lambda>_ _. True) (handle_call ws (calls i)) s" for i
    using assms(2) by (intro keeps_wp keeps_handle_call) simp
  then show ?thesis
    using safe.pool_sound [OF assms(1), where Q = "\<lambda>_ _ _. True"] by blast
qed

text \<open>A store with one wallet, and a schedule that lets the first of many holds run.\<close>

definition demo_hold :: escrow_hold_request where
  "demo_hold =
     \<lparr>hr_userId = ''alice'', hr_amount = 60, hr_reason = CHIP_MENU_PURCHASE,
      hr_queueItemId = ''queue-1'', hr_featureType = ''chip_menu'', hr_idempotencyKey = ''hold-1'',
      hr_requestId = ''req-1'', hr_metadata = None\<rparr>"

definition demo_wallets :: store where
  "demo_wallets = empty_store\<lparr>wallets :=
     [(''alice'', \<lparr>w_userId = ''alice'', w_availableBalance = 100, w_escrowBalance = 0,
        w_currency = ''points'', w_version = 0\<rparr>)]\<rparr>"

theorem concurrent_handlers_safe_witness:
  "\<exists>pl' s'. pool_reach safe_rely (\<lambda>i. handle_call default_wallet_service (Hold_call demo_hold))
       demo_wallets pl' s' \<and>
     safe_rely demo_wallets s' \<and> length (ledger_entries s') = 2 \<and>
     map_option w_availableBalance (wallet_of s' ''alice'') = Some 40"
proof -
  let ?pl = "\<lambda>i :: nat. handle_call default_wallet_service (Hold_call demo_hold)"
  let ?s' = "snd (run (?pl 0) demo_wallets)"
  have r: "pool_reach safe_rely ?pl demo_wallets (?pl(0 := Ret (fst (run (?pl 0) demo_wallets)))) ?s'"
    by (rule pool_reach_run) (rule pool_start)
  have "safe_rely demo_wallets ?s'"
    by (rule concurrent_handlers_safe [OF r]) simp
  moreover have "length (ledger_entries ?s') = 2"
    and "map_option w_availableBalance (wallet_of ?s' ''alice'') = Some 40" by code_simp+
  ultimately show ?thesis using r by blast
qed

section \<open>Holds and refunds: conservation of every wallet\<close>

lemma conserve_keeps_frame:
  "(\<And>s. safe_rely s (fst (f s))) \<Longrightarrow> (\<And>s. wallets (fst (f s)) = wallets s) \<Longrightarrow>
     keeps conserve_rely (atomically f)"
  by (intro keeps_atomically conserve_rely_frame)

lemma conserve_keeps_calls [keeps_intros]:
  "keeps conserve_rely uuidv4"
  "keeps conserve_rely new_date"
  "keeps conserve_rely (publish_event ev)"
  "keeps conserve_rely (escrow_findOne i)"
  "keeps conserve_rely (escrow_create e)"
  "keeps conserve_rely (escrow_findOneAndUpdate i filt change)"
  "keeps conserve_rely (escrow_updateOne i change)"
  "keeps conserve_rely (escrow_deleteOne i)"
  "keeps conserve_rely (ledger_create l)"
  "keeps conserve_rely (ledger_find lf)"
  "keeps conserve_rely (idempotency_create rec)"
  unfolding store_calls query_def
  by (rule conserve_keeps_frame,
      auto intro!: safe_rely_frame simp: ledger_grows_def records_kept_def split: option.split)+

lemma conserve_keeps_parts [keeps_intros]:
  "keeps conserve_rely (createEntry c r)"
  "keeps conserve_rely (createBase ty k)"
  "keeps conserve_rely (claim_or_throw k op)"
  "keeps conserve_rely (lock_escrow st i)"
  "keeps conserve_rely (rollback_escrow i)"
  unfolding createEntry_def insert_entry_def createBase_def claim_or_throw_def claimIdempotency_def
    lock_escrow_def rollback_escrow_def
  by (intro keeps_intros | auto split: list.split error.split intro: keeps_intros)+

lemma conserve_keeps_records [keeps_intros]:
  "keeps conserve_rely (record_hold ws hr w e)"
  "keeps conserve_rely (record_refund ws rr w w')"
  unfolding record_hold_def record_refund_def publisher_defs
  by (intro keeps_intros)+

text \<open>A refund changes both balances of one wallet by opposite amounts.\<close>

lemma conserve_rely_wallets:
  assumes "safe_rely s (s\<lparr>wallets := AList.update u w' (wallets s)\<rparr>)"
    and "wallet_total s u = w_availableBalance w' + w_escrowBalance w'"
  shows "conserve_rely s (s\<lparr>wallets := AList.update u w' (wallets s)\<rparr>)"
  using assms by (simp add: conserve_rely_def wallet_total_def)

lemma conserve_keeps_wallet_update [keeps_intros]:
  assumes "\<And>w. filt w \<Longrightarrow> w_version w < w_version (change w)"
    and "\<And>w. filt w \<Longrightarrow> 0 \<le> w_availableBalance w \<Longrightarrow> 0 \<le> w_availableBalance (change w)"
    and "\<And>w. filt w \<Longrightarrow> w_availableBalance (change w) + w_escrowBalance (change w) =
      w_availableBalance w + w_escrowBalance w"
  shows "keeps conserve_rely (wallet_findOneAndUpdate u filt change)"
  unfolding wallet_findOneAndUpdate_def
  using assms
  by (intro keeps_atomically)
    (auto intro!: conserve_rely_wallets safe_rely_wallets conserve.rely_refl
      simp: available_ok_def wallet_total_def split: option.split)

lemma conserve_keeps_wallet_findOne [keeps_intros]: "keeps conserve_rely (wallet_findOne u)"
  unfolding wallet_findOne_def query_def by (rule conserve_keeps_frame) (simp_all add: safe.rely_refl)

lemma conserve_keeps_refund:
  "0 \<le> rr_amount r \<Longrightarrow> keeps conserve_rely (refundEscrow ws r a)"
  unfolding refundEscrow_def by (intro keeps_intros; simp)

text \<open>
  A hold writes balances it computed from a wallet it read before; the version in the filter of
  its update is what makes that safe.
\<close>

lemma wp_find_or_create_wallet:
  "wp conserve_rely (\<lambda>r s'. \<forall>w. r = Inr w \<longrightarrow> seen w_version (wallets s') u w)
     (find_or_create_wallet ws u) s"
  unfolding find_or_create_wallet_def wallet_findOne_def
proof (rule conserve.wp_awaitI, rule conserve.wp_queryI, simp, goal_cases)
  case (1 s1 s2)
  show ?case
  proof (cases "wallet_of s1 u")
    case None
    let ?w = "\<lparr>w_userId = u, w_availableBalance = 0, w_escrowBalance = 0,
          w_currency = ws_defaultCurrency ws, w_version = 0\<rparr>"
    have "wp conserve_rely (\<lambda>r s'. \<forall>w. r = Inr w \<longrightarrow> seen w_version (wallets s') u w)
        (wallet_create ?w) s2"
      unfolding wallet_create_def
      by (rule conserve.wp_atomicallyI)
        (auto intro!: conserve_rely_wallets safe_rely_wallets conserve.rely_refl
          elim!: conserve_wallets.seen_stable [rotated] simp: seen_now wallet_total_def)
    then show ?thesis by (simp add: None)
  next
    case (Some w)
    then have "seen w_version (wallets s2) u w"
      using 1(2) by (intro conserve_wallets.seen_stable [OF seen_now])
    then show ?thesis
      by (auto simp: Some conserve.wp_pure intro: conserve_wallets.seen_stable)
  qed
qed

lemma wp_hold_update:
  assumes "seen w_version (wallets s) u w" and "0 \<le> w_availableBalance w - amount"
  shows "wp conserve_rely (\<lambda>_ _. True)
    (wallet_findOneAndUpdate u (\<lambda>x. w_version x = w_version w)
       (\<lambda>x. x\<lparr>w_availableBalance := w_availableBalance w - amount,
              w_escrowBalance := w_escrowBalance w + amount,
              w_version := w_version w + 1\<rparr>)) s"
proof -
  have same: "x = w" if "conserve_rely s s1" "wallet_of s1 u = Some x" "w_version x = w_version w" for s1 x
    using conserve_wallets.no_lost_update [OF assms(1)] that by blast
  then show ?thesis
    unfolding wallet_findOneAndUpdate_def
    using assms(2)
    by (intro conserve.wp_atomicallyI)
      (auto intro!: conserve_rely_wallets safe_rely_wallets conserve.rely_refl
        simp: wallet_total_def dest: same split: option.split)
qed

lemma conserve_keeps_executeHold [keeps_intros]: "keeps conserve_rely (executeHoldInEscrow ws r)"
  unfolding keeps_def
proof
  fix s
  let ?after = "\<lambda>wallet escrowId. \<lambda>updated :: wallet option. case updated of
       None \<Rightarrow>
         await (escrow_deleteOne escrowId) (\<lambda>_.
         throw (OptimisticLockError ''wallet'' (hr_userId r)))
     | Some _ \<Rightarrow> record_hold ws r wallet escrowId"
  have after: "keeps conserve_rely (?after w i x)" for w i x
    by (intro keeps_intros)
  show "wp conserve_rely (\<lambda>_ _. True) (executeHoldInEscrow ws r) s"
    unfolding executeHoldInEscrow_def
  proof (rule conserve.wp_awaitI, rule conserve.wp_weaken [OF wp_find_or_create_wallet], goal_cases)
    case (1 res s1)
    show ?case
    proof (cases res)
      case (Inr w)
      then have w: "seen w_version (wallets s1) (hr_userId r) w" using 1 by simp
      show ?thesis
      proof (cases "w_availableBalance w < hr_amount r")
        case True
        then show ?thesis by (simp add: Inr conserve.wp_throw)
      next
        case False
        then have "0 \<le> w_availableBalance w - hr_amount r" by simp
        then show ?thesis
          unfolding Inr sum.case if_not_P [OF False]
          by (intro conserve.wp_await_later keeps_intros conserve.wp_await_keeps wp_hold_update after
              TrueI conserve_wallets.seen_stable [OF w])
             (auto intro: conserve.rely_trans)
      qed
    qed simp
  qed
qed

lemma conserve_keeps_hold: "keeps conserve_rely (holdInEscrow ws r)"
proof -
  have "keeps conserve_rely (hold_attempts ws r n)" for n
    by (induction n) (auto intro!: keeps_intros)
  then show ?thesis unfolding holdInEscrow_def by (intro keeps_intros)
qed

fun hold_or_refund :: "wallet_call \<Rightarrow> bool" where
  "hold_or_refund (Hold_call r) = True"
| "hold_or_refund (Refund_call r a) = (0 \<le> rr_amount r)"
| "hold_or_refund _ = False"

lemma conserve_keeps_call: "hold_or_refund c \<Longrightarrow> keeps conserve_rely (handle_call ws c)"
  by (cases c) (auto intro!: keeps_await keeps_pure conserve_keeps_hold conserve_keeps_refund)



end
