(* ===== verification/Wallet_Properties.thy ===== *)
theory Wallet_Properties
  imports Wallet_Concurrency
begin

text \<open>
  What each wallet operation does when nothing interferes, on its success and failure branches,
  and what goes wrong in three situations the code does not guard against.  The executions are
  computed step by step: a claim, a lock and a ledger entry each have one equation, and each
  handler is their composition.
\<close>

section \<open>One equation per step\<close>

definition claim_record :: "string \<Rightarrow> string \<Rightarrow> string option \<Rightarrow> int \<Rightarrow> idempotency_record" where
  "claim_record key operation tenant now =
     \<lparr>i_pointsIdempotencyKey = key, i_eventScope = operation, i_resultHash = ''pending'',
      i_storedResult = Some (JObj []), i_retentionUntil = Some (now + 60000),
      i_expiresAt = Some (now + 60000), i_tenant_id = tenant\<rparr>"

definition after_claim :: "string \<Rightarrow> string \<Rightarrow> store \<Rightarrow> store" where
  "after_claim key operation s =
     s\<lparr>idempotency_records := AList.update (key, operation) (claim_record key operation None (clock s))
        (idempotency_records s)\<rparr>"

lemma run_claim_or_throw:
  assumes "required_string 256 key" and "required_string 128 operation"
  shows "run (claim_or_throw key operation) s =
    (if map_of (idempotency_records s) (key, operation) = None
     then (Inr (), after_claim key operation s)
     else (Inl (Plain ''Idempotency key already used''), s))"
  using assms
  by (simp add: claim_or_throw_def claimIdempotency_def run_simps valid_idempotency_record_def
      required_string_def optional_string_def after_claim_def claim_record_def)

lemma operation_names [simp]:
  "required_string 128 ''hold_escrow''" "required_string 128 ''settle_escrow''"
  "required_string 128 ''refund_escrow''" "required_string 128 ''partial_settle_escrow''"
  by (simp_all add: required_string_def)

lemma after_claim_simps [simp]:
  "wallets (after_claim k op s) = wallets s"
  "model_wallets (after_claim k op s) = model_wallets s"
  "escrow_items (after_claim k op s) = escrow_items s"
  "ledger_entries (after_claim k op s) = ledger_entries s"
  "published (after_claim k op s) = published s"
  "clock (after_claim k op s) = clock s"
  "uuids (after_claim k op s) = uuids s"
  "uuid_count (after_claim k op s) = uuid_count s"
  by (simp_all add: after_claim_def)

lemma run_lock_escrow:
  "run (lock_escrow st i) s =
     (case escrow_of s i of
        None \<Rightarrow> (Inl (EscrowNotFoundError i), s)
      | Some e \<Rightarrow>
          if e_status e = Held
          then (Inr e, s\<lparr>escrow_items := AList.update i (e\<lparr>e_status := st, e_processedAt := Some (clock s)\<rparr>)
                  (escrow_items s)\<rparr>)
          else (Inl (EscrowAlreadyProcessedError i (e_status e)), s))"
  by (simp add: lock_escrow_def run_simps split: option.split)

section \<open>Holding\<close>

definition hold_ready :: "wallet_service \<Rightarrow> escrow_hold_request \<Rightarrow> store \<Rightarrow> bool" where
  "hold_ready ws r s \<longleftrightarrow>
     0 < ws_maxRetryAttempts ws \<and> required_string 16 (ws_defaultCurrency ws) \<and>
     required_string 128 (hr_userId r) \<and> required_string 128 (hr_queueItemId r) \<and>
     required_string 64 (hr_featureType r) \<and> required_string 249 (hr_idempotencyKey r) \<and>
     required_string 128 (hr_requestId r) \<and> 0 \<le> hr_amount r \<and>
     map_of (idempotency_records s) (hr_idempotencyKey r, ''hold_escrow'') = None \<and>
     \<not> list_ex (\<lambda>(_, x). e_queueItemId x = hr_queueItemId r) (escrow_items s) \<and>
     list_all (\<lambda>e. l_idempotencyKey e \<noteq> hr_idempotencyKey r @ ''_debit'' \<and>
       l_idempotencyKey e \<noteq> hr_idempotencyKey r @ ''_credit'') (ledger_entries s) \<and>
     fresh_ids 5 s"

lemma hold_entries_valid:
  assumes "hold_ready ws r s" and "metadata_ok (hr_metadata r)" and "required_string 128 i"
  shows "request_valid (hold_debit_entry ws r w i t)" and "request_valid (hold_credit_entry ws r w i t)"
  using assms
  by (auto simp: request_valid_def request_ok_def hold_debit_entry_def hold_credit_entry_def
      hold_ready_def metadata_ok_def required_string_def optional_string_def)

text \<open>The state after the wallet has moved, and after the two entries are written.\<close>

definition moved_to_escrow :: "escrow_hold_request \<Rightarrow> wallet \<Rightarrow> store \<Rightarrow> store" where
  "moved_to_escrow r w s =
     (let i = uuids s (uuid_count s) in
      s\<lparr>uuid_count := Suc (uuid_count s),
        escrow_items := AList.update i (held_item r i (clock s)) (escrow_items s),
        wallets := AList.update (hr_userId r)
          (w\<lparr>w_availableBalance := w_availableBalance w - hr_amount r,
             w_escrowBalance := w_escrowBalance w + hr_amount r,
             w_version := w_version w + 1\<rparr>) (wallets s)\<rparr>)"

lemma moved_to_escrow_simps [simp]:
  "ledger_entries (moved_to_escrow r w s) = ledger_entries s"
  "idempotency_records (moved_to_escrow r w s) = idempotency_records s"
  "published (moved_to_escrow r w s) = published s"
  "uuids (moved_to_escrow r w s) = uuids s"
  "uuid_count (moved_to_escrow r w s) = Suc (uuid_count s)"
  "clock (moved_to_escrow r w s) = clock s"
  "model_wallets (moved_to_escrow r w s) = model_wallets s"
  by (simp_all add: moved_to_escrow_def Let_def)

lemma run_executeHold:
  assumes "hold_ready ws r s" and "wallet_of s (hr_userId r) = Some w"
    and "hr_amount r \<le> w_availableBalance w"
  shows "run (executeHoldInEscrow ws r) (after_claim k op s) =
    run (record_hold ws r w (uuids s (uuid_count s))) (moved_to_escrow r w (after_claim k op s))"
proof -
  let ?i = "uuids s (uuid_count s)"
  have fresh: "fresh_ids 5 s" using assms(1) by (simp add: hold_ready_def)
  have "valid_escrow_item (held_item r ?i (clock s))"
    using assms(1) fresh_ids_nth(1) [OF fresh, of 0]
    by (simp add: valid_escrow_item_def held_item_def hold_ready_def required_string_def optional_string_def)
  moreover have "escrow_of s ?i = None"
    using fresh_ids_nth(4) [OF fresh, of 0] by simp
  moreover have "\<not> list_ex (\<lambda>(_, x). e_queueItemId x = hr_queueItemId r) (escrow_items s)"
    using assms(1) by (simp add: hold_ready_def)
  ultimately show ?thesis
    using assms(2,3)
    by (simp add: executeHoldInEscrow_def find_or_create_wallet_def run_simps moved_to_escrow_def
        Let_def held_item_def)
qed

definition hold_recorded :: "wallet_service \<Rightarrow> escrow_hold_request \<Rightarrow> wallet \<Rightarrow> string \<Rightarrow> store \<Rightarrow> store" where
  "hold_recorded ws r w i s =
     (let t = uuids s (uuid_count s);
          s1 = s\<lparr>uuid_count := Suc (uuid_count s)\<rparr>;
          s2 = after_entry (ws_ledgerCurrency ws) (hold_debit_entry ws r w i t) t s1
      in after_entry (ws_ledgerCurrency ws) (hold_credit_entry ws r w i t) t s2)"

lemma run_record_hold:
  assumes "hold_ready ws r s" and "metadata_ok (hr_metadata r)"
    and s1: "uuids s1 = uuids s" "uuid_count s1 = Suc (uuid_count s)" "ledger_entries s1 = ledger_entries s"
  shows "\<exists>ev. run (record_hold ws r w (uuids s (uuid_count s))) s1 =
    (Inr \<lparr>hs_transactionId = uuids s (uuid_count s + 1), hs_escrowId = uuids s (uuid_count s),
          hs_previousBalance = w_availableBalance w,
          hs_newAvailableBalance = w_availableBalance w - hr_amount r,
          hs_escrowBalance = w_escrowBalance w + hr_amount r, hs_timestamp = clock s1\<rparr>,
     after_publish ev (hold_recorded ws r w (uuids s (uuid_count s)) s1)) \<and> escrow_event ev \<and>
    told ev = [((hr_userId r, Available), w_availableBalance w - hr_amount r),
      ((hr_userId r, Escrow), w_escrowBalance w + hr_amount r)]"
proof -
  let ?u = "\<lambda>i. uuids s (uuid_count s + i)"
  let ?c = "ws_ledgerCurrency ws"
  let ?D = "hold_debit_entry ws r w (?u 0) (?u 1)" and ?C = "hold_credit_entry ws r w (?u 0) (?u 1)"
  let ?s2 = "s1\<lparr>uuid_count := Suc (uuid_count s1)\<rparr>"
  let ?s3 = "after_entry ?c ?D (?u 1) ?s2"
  have fresh: "fresh_ids 5 s" using assms(1) by (simp add: hold_ready_def)
  have ids: "required_string 128 (?u i) \<and> trim (?u i) \<noteq> []" if "i < 5" for i
    using fresh_ids_nth(1,2) [OF fresh that] by simp
  have unused: "l_idempotencyKey e \<noteq> hr_idempotencyKey r @ ''_debit'' \<and>
      l_idempotencyKey e \<noteq> hr_idempotencyKey r @ ''_credit''" if "e \<in> set (ledger_entries s)" for e
    using assms(1) that by (auto simp: hold_ready_def list_all_iff)
  have D: "run (createEntry ?c ?D) ?s2 = (Inr (mapToDomain (new_entry ?c ?D (?u 1) ?s2)), ?s3)"
    by (rule run_createEntry_new)
      (use ids [of 0] ids [of 1] ids [of 2] hold_entries_valid [OF assms(1,2)] unused
         fresh_ids_nth(3) [OF fresh, where i = 2] s1 in
        \<open>auto simp: hold_debit_entry_def numeral_2_eq_2\<close>)
  have "?u 2 \<noteq> ?u 3" by (rule fresh_ids_distinct [OF fresh]) simp_all
  then have C: "run (createEntry ?c ?C) ?s3 = (Inr (mapToDomain (new_entry ?c ?C (?u 1) ?s3)),
      after_entry ?c ?C (?u 1) ?s3)"
    by (intro run_createEntry_new)
      (use ids [of 0] ids [of 1] ids [of 3] hold_entries_valid [OF assms(1,2)] unused
         fresh_ids_nth(3) [OF fresh, where i = 3] s1 in
        \<open>auto simp: hold_credit_entry_def hold_debit_entry_def eval_nat_numeral\<close>)
  obtain ev where "run (publishEscrowHeld (hr_userId r) (?u 0) (hr_amount r) (hr_reason r)
      (hr_queueItemId r) (hr_featureType r) (?u 1) (w_availableBalance w - hr_amount r)
      (w_escrowBalance w + hr_amount r) (hr_idempotencyKey r) (hr_metadata r) None)
      (after_entry ?c ?C (?u 1) ?s3) = (Inr (), after_publish ev (after_entry ?c ?C (?u 1) ?s3))"
    and "escrow_event ev" "told ev = [((hr_userId r, Available), w_availableBalance w - hr_amount r),
      ((hr_userId r, Escrow), w_escrowBalance w + hr_amount r)]"
    using run_publishers(1) by blast
  then show ?thesis
    using D C s1
    by (intro exI [of _ ev])
       (simp add: record_hold_def run_simps hold_recorded_def Let_def)
qed

lemma run_holdInEscrow:
  assumes "hold_ready ws r s"
  shows "run (holdInEscrow ws r) s =
    run (hold_attempts ws r (ws_maxRetryAttempts ws)) (after_claim (hr_idempotencyKey r) ''hold_escrow'' s)"
  using assms
  by (auto simp: holdInEscrow_def run_simps run_claim_or_throw hold_ready_def required_string_def)

lemma run_hold_attempts_no_conflict:
  assumes "run (executeHoldInEscrow ws r) s = (res, s')"
    and "\<And>e. res = Inl e \<Longrightarrow> \<not> is_optimistic_lock e" and "0 < n"
  shows "run (hold_attempts ws r n) s = (res, s')"
  using assms by (cases n; cases res) (auto simp: run_simps)

lemma hold_recorded_simps [simp]:
  "wallets (hold_recorded ws r w i s) = wallets s"
  "escrow_items (hold_recorded ws r w i s) = escrow_items s"
  "published (hold_recorded ws r w i s) = published s"
  "model_wallets (hold_recorded ws r w i s) = model_wallets s"
  "clock (hold_recorded ws r w i s) = clock s"
  by (simp_all add: hold_recorded_def Let_def)

lemma after_publish_simps [simp]:
  "wallets (after_publish ev s) = wallets s"
  "model_wallets (after_publish ev s) = model_wallets s"
  "escrow_items (after_publish ev s) = escrow_items s"
  "ledger_entries (after_publish ev s) = ledger_entries s"
  "idempotency_records (after_publish ev s) = idempotency_records s"
  "published (after_publish ev s) = published s @ [ev]"
  "clock (after_publish ev s) = clock s"
  by (simp_all add: after_publish_def)

lemma run_hold_success:
  assumes "hold_ready ws r s" and "metadata_ok (hr_metadata r)"
    and "wallet_of s (hr_userId r) = Some w" and "hr_amount r \<le> w_availableBalance w"
  shows "\<exists>ev. run (holdInEscrow ws r) s =
    (Inr \<lparr>hs_transactionId = uuids s (uuid_count s + 1), hs_escrowId = uuids s (uuid_count s + 0),
          hs_previousBalance = w_availableBalance w,
          hs_newAvailableBalance = w_availableBalance w - hr_amount r,
          hs_escrowBalance = w_escrowBalance w + hr_amount r, hs_timestamp = clock s\<rparr>,
     after_publish ev (hold_recorded ws r w (uuids s (uuid_count s + 0))
       (moved_to_escrow r w (after_claim (hr_idempotencyKey r) ''hold_escrow'' s)))) \<and> escrow_event ev \<and>
    told ev = [((hr_userId r, Available), w_availableBalance w - hr_amount r),
      ((hr_userId r, Escrow), w_escrowBalance w + hr_amount r)]"
proof -
  let ?s0 = "after_claim (hr_idempotencyKey r) ''hold_escrow'' s"
  let ?u = "\<lambda>i. uuids s (uuid_count s + i)"
  obtain ev where written: "run (record_hold ws r w (?u 0)) (moved_to_escrow r w ?s0) =
    (Inr \<lparr>hs_transactionId = ?u 1, hs_escrowId = ?u 0, hs_previousBalance = w_availableBalance w,
          hs_newAvailableBalance = w_availableBalance w - hr_amount r,
          hs_escrowBalance = w_escrowBalance w + hr_amount r, hs_timestamp = clock s\<rparr>,
     after_publish ev (hold_recorded ws r w (?u 0) (moved_to_escrow r w ?s0)))"
    and told: "escrow_event ev" "told ev = [((hr_userId r, Available), w_availableBalance w - hr_amount r),
      ((hr_userId r, Escrow), w_escrowBalance w + hr_amount r)]"
    using run_record_hold [OF assms(1,2), of "moved_to_escrow r w ?s0" w] by auto
  have "0 < ws_maxRetryAttempts ws" using assms(1) by (simp add: hold_ready_def)
  then have "run (holdInEscrow ws r) s =
    (Inr \<lparr>hs_transactionId = ?u 1, hs_escrowId = ?u 0, hs_previousBalance = w_availableBalance w,
          hs_newAvailableBalance = w_availableBalance w - hr_amount r,
          hs_escrowBalance = w_escrowBalance w + hr_amount r, hs_timestamp = clock s\<rparr>,
     after_publish ev (hold_recorded ws r w (?u 0) (moved_to_escrow r w ?s0)))"
    unfolding run_holdInEscrow [OF assms(1)]
    by (intro run_hold_attempts_no_conflict)
      (use written in \<open>simp_all add: run_executeHold [OF assms(1,3,4)]\<close>)
  with told show ?thesis by blast
qed

text \<open>
  C4: A hold that the wallet covers, with a fresh key, succeeds: the amount moves from available
  to escrow in the user's wallet under the next version, no other wallet changes, a held escrow
  item of that amount appears under the returned id, exactly two ledger entries of one
  transaction are appended, minus the amount on available and plus the amount on escrow, each
  with the balance it leaves, and one event is published.
\<close>

theorem holdInEscrow_success:
  assumes "hold_ready ws r s" and "metadata_ok (hr_metadata r)"
    and "wallet_of s (hr_userId r) = Some w" and "hr_amount r \<le> w_availableBalance w"
  shows "\<exists>resp s' d c ev. run (holdInEscrow ws r) s = (Inr resp, s') \<and>
    hs_newAvailableBalance resp = w_availableBalance w - hr_amount r \<and>
    hs_escrowBalance resp = w_escrowBalance w + hr_amount r \<and>
    map_of (wallets s') = (map_of (wallets s))(hr_userId r \<mapsto>
      w\<lparr>w_availableBalance := w_availableBalance w - hr_amount r,
        w_escrowBalance := w_escrowBalance w + hr_amount r, w_version := w_version w + 1\<rparr>) \<and>
    escrow_of s' (hs_escrowId resp) = Some (held_item r (hs_escrowId resp) (clock s)) \<and>
    ledger_entries s' = ledger_entries s @ [d, c] \<and>
    l_transactionId d = hs_transactionId resp \<and> l_transactionId c = hs_transactionId resp \<and>
    (l_balanceState d, l_amount d, l_balanceAfter d) =
      (Available, - hr_amount r, w_availableBalance w - hr_amount r) \<and>
    (l_balanceState c, l_amount c, l_balanceAfter c) =
      (Escrow, hr_amount r, w_escrowBalance w + hr_amount r) \<and>
    published s' = published s @ [ev]"
proof -
  let ?s0 = "after_claim (hr_idempotencyKey r) ''hold_escrow'' s"
  let ?u = "\<lambda>i. uuids s (uuid_count s + i)"
  from run_hold_success [OF assms] obtain ev where run: "run (holdInEscrow ws r) s =
    (Inr \<lparr>hs_transactionId = ?u 1, hs_escrowId = ?u 0, hs_previousBalance = w_availableBalance w,
          hs_newAvailableBalance = w_availableBalance w - hr_amount r,
          hs_escrowBalance = w_escrowBalance w + hr_amount r, hs_timestamp = clock s\<rparr>,
     after_publish ev (hold_recorded ws r w (?u 0) (moved_to_escrow r w ?s0)))"
    by blast
  let ?s1 = "moved_to_escrow r w ?s0\<lparr>uuid_count := Suc (Suc (uuid_count s))\<rparr>"
  let ?D = "hold_debit_entry ws r w (?u 0) (?u 1)" and ?C = "hold_credit_entry ws r w (?u 0) (?u 1)"
  let ?c = "ws_ledgerCurrency ws"
  show ?thesis
    by (intro exI [of _ "new_entry ?c ?D (?u 1) ?s1"]
          exI [of _ "new_entry ?c ?C (?u 1) (after_entry ?c ?D (?u 1) ?s1)"] exI [of _ ev] exI conjI, rule run)
      (simp_all add: moved_to_escrow_def hold_recorded_def Let_def hold_debit_entry_def hold_credit_entry_def)
qed

theorem holdInEscrow_success_witness:
  "\<exists>resp s'. run (holdInEscrow default_wallet_service demo_hold) demo_wallets = (Inr resp, s') \<and>
     hs_newAvailableBalance resp = 40 \<and> hs_escrowBalance resp = 60"
proof -
  have "hold_ready default_wallet_service demo_hold demo_wallets"
    and "metadata_ok (hr_metadata demo_hold)" by code_simp+
  moreover have "wallet_of demo_wallets (hr_userId demo_hold) =
      Some \<lparr>w_userId = ''alice'', w_availableBalance = 100, w_escrowBalance = 0,
        w_currency = ''points'', w_version = 0\<rparr>" by code_simp
  moreover have "hr_amount demo_hold = 60" by code_simp
  ultimately show ?thesis using holdInEscrow_success by fastforce
qed

lemma claimed_key_refused:
  assumes "map_of (idempotency_records s) (k, op) = Some i"
    and "required_string 256 k" and "required_string 128 op"
  shows "run (claim_or_throw k op) s = (Inl (Plain ''Idempotency key already used''), s)"
  using assms by (simp add: run_claim_or_throw)

lemma after_claim_claimed:
  "map_of (idempotency_records (after_claim k op s)) (k, op) = Some (claim_record k op None (clock s))"
  by (simp add: after_claim_def)

text \<open>
  A hold that the wallet does not cover is refused with both amounts and moves nothing: no
  wallet, escrow item, ledger entry or event changes.  But it has used up its idempotency key:
  whatever happens afterwards, a deposit included, every hold with that key is refused, so the
  caller cannot retry under the same key.
\<close>

theorem holdInEscrow_insufficient:
  assumes "hold_ready ws r s" and "wallet_of s (hr_userId r) = Some w"
    and "w_availableBalance w < hr_amount r"
  shows "\<exists>s'. run (holdInEscrow ws r) s =
      (Inl (InsufficientBalanceError (hr_amount r) (w_availableBalance w)), s') \<and>
    wallets s' = wallets s \<and> escrow_items s' = escrow_items s \<and>
    ledger_entries s' = ledger_entries s \<and> published s' = published s \<and>
    (\<forall>later. safe_rely s' later \<longrightarrow>
      run (holdInEscrow ws r) later = (Inl (Plain ''Idempotency key already used''), later))"
proof -
  let ?s0 = "after_claim (hr_idempotencyKey r) ''hold_escrow'' s"
  have key: "required_string 256 (hr_idempotencyKey r)" and op: "required_string 128 ''hold_escrow''"
    using assms(1) by (auto simp: hold_ready_def required_string_def)
  have "run (executeHoldInEscrow ws r) ?s0 =
      (Inl (InsufficientBalanceError (hr_amount r) (w_availableBalance w)), ?s0)"
    using assms(2,3) by (simp add: executeHoldInEscrow_def find_or_create_wallet_def run_simps)
  moreover have "0 < ws_maxRetryAttempts ws" using assms(1) by (simp add: hold_ready_def)
  ultimately have run: "run (holdInEscrow ws r) s =
      (Inl (InsufficientBalanceError (hr_amount r) (w_availableBalance w)), ?s0)"
    unfolding run_holdInEscrow [OF assms(1)]
    by (intro run_hold_attempts_no_conflict) (auto simp: is_optimistic_lock_def)
  have "run (holdInEscrow ws r) later = (Inl (Plain ''Idempotency key already used''), later)"
    if "safe_rely ?s0 later" for later
  proof -
    have "map_of (idempotency_records later) (hr_idempotencyKey r, ''hold_escrow'') =
        Some (claim_record (hr_idempotencyKey r) ''hold_escrow'' None (clock s))"
      using that after_claim_claimed [of "hr_idempotencyKey r" "''hold_escrow''" s]
      by (auto simp: safe_rely_def records_kept_def)
    from claimed_key_refused [OF this key op] show ?thesis
      by (simp add: holdInEscrow_def run_simps)
  qed
  then show ?thesis by (intro exI [of _ ?s0] conjI run allI impI) simp_all
qed

theorem holdInEscrow_insufficient_witness:
  "\<exists>s'. run (holdInEscrow default_wallet_service (demo_hold\<lparr>hr_amount := 150\<rparr>)) demo_wallets =
     (Inl (InsufficientBalanceError 150 100), s') \<and> wallets s' = wallets demo_wallets"
proof -
  have "hold_ready default_wallet_service (demo_hold\<lparr>hr_amount := 150\<rparr>) demo_wallets" by code_simp
  moreover have "wallet_of demo_wallets (hr_userId (demo_hold\<lparr>hr_amount := 150\<rparr>)) =
      Some \<lparr>w_userId = ''alice'', w_availableBalance = 100, w_escrowBalance = 0,
        w_currency = ''points'', w_version = 0\<rparr>" by code_simp
  ultimately show ?thesis using holdInEscrow_insufficient by fastforce
qed

lemma screen_metadata_not_lock: "screen_metadata md = Some e \<Longrightarrow> \<not> is_optimistic_lock e"
  by (induction md rule: screen_metadata.induct)
    (auto simp: is_optimistic_lock_def split: if_splits json.splits)

text \<open>
  When the metadata of a hold does not pass the screen of the ledger (a field named
  \<open>email\<close>, say), the refusal comes too late: the caller gets the error, yet the amount has
  already moved to escrow, the held item exists, and the ledger has no entry of it.
\<close>

theorem holdInEscrow_metadata_refused_late:
  assumes "hold_ready ws r s" and "hr_metadata r = Some md" and "screen_metadata md = Some e"
    and "wallet_of s (hr_userId r) = Some w" and "hr_amount r \<le> w_availableBalance w"
  shows "\<exists>s'. run (holdInEscrow ws r) s = (Inl e, s') \<and>
    map_option w_availableBalance (wallet_of s' (hr_userId r)) =
      Some (w_availableBalance w - hr_amount r) \<and>
    list_ex (\<lambda>(_, x). e_queueItemId x = hr_queueItemId r \<and> e_status x = Held) (escrow_items s') \<and>
    ledger_entries s' = ledger_entries s \<and> published s' = published s"
proof -
  let ?i = "uuids s (uuid_count s)"
  let ?s1 = "moved_to_escrow r w (after_claim (hr_idempotencyKey r) ''hold_escrow'' s)"
  let ?s2 = "?s1\<lparr>uuid_count := Suc (Suc (uuid_count s))\<rparr>"
  have "run (record_hold ws r w ?i) ?s1 = (Inl e, ?s2)"
    using assms(2,3)
    by (simp add: record_hold_def run_simps run_createEntry hold_debit_entry_def)
  moreover have "0 < ws_maxRetryAttempts ws" using assms(1) by (simp add: hold_ready_def)
  ultimately have run: "run (holdInEscrow ws r) s = (Inl e, ?s2)"
    unfolding run_holdInEscrow [OF assms(1)]
    by (intro run_hold_attempts_no_conflict)
      (use screen_metadata_not_lock [OF assms(3)] in \<open>simp_all add: run_executeHold [OF assms(1,4,5)]\<close>)
  have "map_of (escrow_items ?s2) ?i = Some (held_item r ?i (clock s))"
    by (simp add: moved_to_escrow_def Let_def)
  then have "list_ex (\<lambda>(_, x). e_queueItemId x = hr_queueItemId r \<and> e_status x = Held) (escrow_items ?s2)"
    by (force simp: list_ex_iff held_item_def dest: map_of_SomeD)
  then show ?thesis
    by (intro exI [of _ ?s2] conjI run) (simp_all add: moved_to_escrow_def Let_def)
qed

theorem holdInEscrow_metadata_refused_late_witness:
  "\<exists>s'. run (holdInEscrow default_wallet_service (demo_hold\<lparr>hr_metadata := Some [(''email'', JNull)]\<rparr>)) demo_wallets =
     (Inl (PiiFieldError ''email''), s') \<and> ledger_entries s' = []"
proof -
  let ?r = "demo_hold\<lparr>hr_metadata := Some [(''email'', JNull)]\<rparr>"
  have "hold_ready default_wallet_service ?r demo_wallets" by code_simp
  moreover have "screen_metadata [(''email'', JNull)] = Some (PiiFieldError ''email'')" by code_simp
  moreover have "wallet_of demo_wallets (hr_userId ?r) =
      Some \<lparr>w_userId = ''alice'', w_availableBalance = 100, w_escrowBalance = 0,
        w_currency = ''points'', w_version = 0\<rparr>" by code_simp
  moreover have "hr_amount ?r \<le> 100" by code_simp
  moreover have "ledger_entries demo_wallets = []" by code_simp
  ultimately show ?thesis
    using holdInEscrow_metadata_refused_late [of default_wallet_service ?r demo_wallets
        "[(''email'', JNull)]" "PiiFieldError ''email''"]
    by fastforce
qed

section \<open>Settling and refunding\<close>

text \<open>The key, operation and escrow item of a request that carries an authorization token.\<close>

fun authorized_call :: "wallet_call \<Rightarrow> (string \<times> string \<times> string) option" where
  "authorized_call (Hold_call r) = None"
| "authorized_call (Settle_call r a) =
     (if truthy (map_option qs_token a)
      then Some (sr_idempotencyKey r, ''settle_escrow'', sr_escrowId r) else None)"
| "authorized_call (Refund_call r a) =
     (if truthy (map_option qr_token a)
      then Some (rr_idempotencyKey r, ''refund_escrow'', rr_escrowId r) else None)"
| "authorized_call (Partial_call r a) =
     (if truthy (map_option qp_token a)
      then Some (pr_idempotencyKey r, ''partial_settle_escrow'', pr_escrowId r) else None)"

text \<open>
  C8: Settling, refunding or partially settling an escrow item that is no longer held is refused
  with its status, and no wallet, model wallet, escrow item, ledger entry or event changes; an
  item that does not exist is refused as not found.
\<close>

theorem processed_escrow_refused:
  assumes "authorized_call c = Some (key, operation, i)" and "required_string 256 key"
    and "map_of (idempotency_records s) (key, operation) = None"
    and "\<forall>e. escrow_of s i = Some e \<longrightarrow> e_status e \<noteq> Held"
  shows "\<exists>s'. run (handle_call ws c) s =
      (Inl (case escrow_of s i of None \<Rightarrow> EscrowNotFoundError i
         | Some e \<Rightarrow> EscrowAlreadyProcessedError i (e_status e)), s') \<and>
    wallets s' = wallets s \<and> model_wallets s' = model_wallets s \<and>
    escrow_items s' = escrow_items s \<and> ledger_entries s' = ledger_entries s \<and>
    published s' = published s"
proof -
  have op: "required_string 128 operation"
    using assms(1) by (cases c) (auto simp: required_string_def split: if_splits)
  have claim: "run (claim_or_throw key operation) s = (Inr (), after_claim key operation s)"
    using assms(3) by (simp add: run_claim_or_throw assms(2) op)
  have lock: "run (lock_escrow st i) (after_claim key operation s) =
      (Inl (case escrow_of s i of None \<Rightarrow> EscrowNotFoundError i
         | Some e \<Rightarrow> EscrowAlreadyProcessedError i (e_status e)), after_claim key operation s)" for st
    using assms(4) by (simp add: run_lock_escrow split: option.split)
  have "run (handle_call ws c) s =
      (Inl (case escrow_of s i of None \<Rightarrow> EscrowNotFoundError i
         | Some e \<Rightarrow> EscrowAlreadyProcessedError i (e_status e)), after_claim key operation s)"
    using assms(1) claim lock
    by (cases c) (auto simp: settleEscrow_def refundEscrow_def partialSettleEscrow_def run_simps
        split: if_splits)
  then show ?thesis by (intro exI [of _ "after_claim key operation s"]) simp
qed

definition settle_ready :: "wallet_service \<Rightarrow> escrow_settle_request \<Rightarrow> store \<Rightarrow> bool" where
  "settle_ready ws r s \<longleftrightarrow>
     required_string 16 (ws_defaultCurrency ws) \<and> required_string 128 (sr_modelId r) \<and>
     required_string 256 (sr_idempotencyKey r) \<and> required_string 128 (sr_requestId r) \<and>
     length (sr_escrowId r) \<le> 128 \<and> length (sr_queueItemId r) \<le> 128 \<and>
     metadata_ok (sr_metadata r) \<and>
     map_of (idempotency_records s) (sr_idempotencyKey r, ''settle_escrow'') = None \<and>
     list_all (\<lambda>e. l_idempotencyKey e \<noteq> sr_idempotencyKey r) (ledger_entries s) \<and>
     fresh_ids 3 s"

definition earned_of :: "store \<Rightarrow> string \<Rightarrow> rat" where
  "earned_of s m = (case model_wallet_of s m of None \<Rightarrow> 0 | Some w \<Rightarrow> m_earnedBalance w)"

definition new_model_wallet :: "wallet_service \<Rightarrow> string \<Rightarrow> model_wallet" where
  "new_model_wallet ws m =
     \<lparr>m_modelId = m, m_earnedBalance = 0, m_currency = ws_defaultCurrency ws, m_type = Earnings,
      m_version = 0\<rparr>"

definition model_before :: "wallet_service \<Rightarrow> store \<Rightarrow> string \<Rightarrow> model_wallet" where
  "model_before ws s m = (case model_wallet_of s m of None \<Rightarrow> new_model_wallet ws m | Some w \<Rightarrow> w)"

lemma model_before_frame [simp]:
  "model_before ws (after_claim k op s) m = model_before ws s m"
  "model_before ws (s\<lparr>escrow_items := x\<rparr>) m = model_before ws s m"
  "model_before ws (s\<lparr>wallets := y\<rparr>) m = model_before ws s m"
  by (simp_all add: model_before_def)

lemma earned_model_before: "m_earnedBalance (model_before ws s m) = earned_of s m"
  by (simp add: model_before_def earned_of_def new_model_wallet_def split: option.split)

lemma run_find_or_create_model:
  assumes "required_string 16 (ws_defaultCurrency ws)" and "required_string 128 m"
  shows "run (find_or_create_model_wallet ws m) s =
    (Inr (model_before ws s m),
     case model_wallet_of s m of
       None \<Rightarrow> s\<lparr>model_wallets := AList.update m (new_model_wallet ws m) (model_wallets s)\<rparr>
     | Some _ \<Rightarrow> s)"
  using assms
  by (simp add: find_or_create_model_wallet_def run_simps model_before_def new_model_wallet_def
      valid_model_wallet_def split: option.split)

text \<open>Reading or creating a model wallet and crediting it, as one step.\<close>

definition model_credited :: "wallet_service \<Rightarrow> string \<Rightarrow> rat \<Rightarrow> store \<Rightarrow> store" where
  "model_credited ws m amount s =
     (let s1 = (case model_wallet_of s m of
            None \<Rightarrow> s\<lparr>model_wallets := AList.update m (new_model_wallet ws m) (model_wallets s)\<rparr>
          | Some _ \<Rightarrow> s) in
      s1\<lparr>model_wallets := AList.update m ((model_before ws s m)
           \<lparr>m_earnedBalance := m_earnedBalance (model_before ws s m) + amount,
            m_version := m_version (model_before ws s m) + 1\<rparr>) (model_wallets s1)\<rparr>)"

lemma run_credit_model_wallet:
  assumes "required_string 16 (ws_defaultCurrency ws)" and "required_string 128 m"
  shows "run (await (find_or_create_model_wallet ws m) (\<lambda>mw.
        await (credit_model_wallet m mw amount) (k mw))) s =
    run (k (model_before ws s m) (Some ((model_before ws s m)
           \<lparr>m_earnedBalance := m_earnedBalance (model_before ws s m) + amount,
            m_version := m_version (model_before ws s m) + 1\<rparr>))) (model_credited ws m amount s)"
  by (cases "model_wallet_of s m")
    (simp_all add: run_simps run_find_or_create_model [OF assms] credit_model_wallet_def
      model_credited_def model_before_def Let_def)

lemma model_credited_simps [simp]:
  "wallets (model_credited ws m a s) = wallets s"
  "escrow_items (model_credited ws m a s) = escrow_items s"
  "ledger_entries (model_credited ws m a s) = ledger_entries s"
  "idempotency_records (model_credited ws m a s) = idempotency_records s"
  "published (model_credited ws m a s) = published s"
  "uuids (model_credited ws m a s) = uuids s"
  "uuid_count (model_credited ws m a s) = uuid_count s"
  "clock (model_credited ws m a s) = clock s"
  "map_of (model_wallets (model_credited ws m a s)) = (map_of (model_wallets s))(m \<mapsto>
     (model_before ws s m)\<lparr>m_earnedBalance := m_earnedBalance (model_before ws s m) + a,
       m_version := m_version (model_before ws s m) + 1\<rparr>)"
  by (simp_all add: model_credited_def Let_def split: option.split)

definition escrow_moved :: "escrow_status \<Rightarrow> string option \<Rightarrow> int \<Rightarrow> escrow_item \<Rightarrow> escrow_item" where
  "escrow_moved st model now e =
     (case model of
        None \<Rightarrow> e\<lparr>e_processedAt := Some now, e_status := st\<rparr>
      | Some m \<Rightarrow> e\<lparr>e_processedAt := Some now, e_status := st, e_modelId := Some m\<rparr>)"

lemma record_settle_success:
  assumes "settle_ready ws r s" and s1: "uuids s1 = uuids s" "uuid_count s1 = uuid_count s"
    "ledger_entries s1 = ledger_entries s"
  shows "\<exists>resp d ev s2. run (record_settle ws r u mw) s1 = (Inr resp, s2) \<and>
    ss_modelEarnedBalance resp = m_earnedBalance mw + sr_amount r \<and>
    wallets s2 = wallets s1 \<and> model_wallets s2 = model_wallets s1 \<and>
    escrow_items s2 = escrow_items s1 \<and> ledger_entries s2 = ledger_entries s @ [d] \<and>
    (l_accountId d, l_balanceState d, l_amount d, l_balanceAfter d) =
      (sr_modelId r, Earned, sr_amount r, m_earnedBalance mw + sr_amount r) \<and>
    published s2 = published s1 @ [ev] \<and>
    l_accountType d = Model \<and> l_timestamp d = clock s1 \<and> clock s2 = clock s1 \<and>
    escrow_event ev \<and> told ev = [((sr_modelId r, Earned), m_earnedBalance mw + sr_amount r)]"
proof -
  let ?t = "uuids s (uuid_count s)"
  let ?s2 = "s1\<lparr>uuid_count := Suc (uuid_count s)\<rparr>"
  let ?E = "model_credit_entry ws ?t (sr_modelId r) (sr_amount r) (sr_reason r)
    (sr_idempotencyKey r) (sr_requestId r) (m_earnedBalance mw) (sr_metadata r) (sr_escrowId r)
    (sr_queueItemId r)"
  let ?c = "ws_ledgerCurrency ws"
  let ?s3 = "after_entry ?c ?E ?t ?s2"
  have "request_valid ?E"
    using assms(1)
    by (auto simp: request_valid_def request_ok_def model_credit_entry_def settle_ready_def
        metadata_ok_def optional_string_def required_string_def)
  then have entry: "run (createEntry ?c ?E) ?s2 = (Inr (mapToDomain (new_entry ?c ?E ?t ?s2)), ?s3)"
    by (rule run_one_entry)
      (use assms(1) s1 in \<open>simp_all add: settle_ready_def model_credit_entry_def\<close>)
  obtain ev where "run (publishEscrowSettled u (sr_modelId r) (sr_escrowId r) (sr_amount r)
      (sr_reason r) (sr_queueItemId r) ?t (m_earnedBalance mw + sr_amount r)
      (sr_idempotencyKey r) (sr_metadata r) None) ?s3 = (Inr (), after_publish ev ?s3)"
    and told: "escrow_event ev" "told ev = [((sr_modelId r, Earned), m_earnedBalance mw + sr_amount r)]"
    using run_publishers(2) by blast
  then have "run (record_settle ws r u mw) s1 =
    (Inr \<lparr>ss_transactionId = ?t, ss_settledAmount = sr_amount r,
          ss_modelEarnedBalance = m_earnedBalance mw + sr_amount r, ss_timestamp = clock s1\<rparr>,
     after_publish ev ?s3)"
    using entry s1 by (simp add: record_settle_def run_simps)
  then show ?thesis
    by (intro exI [of _ "new_entry ?c ?E ?t ?s2"] exI [of _ ev] exI conjI)
      (assumption | rule told | simp add: s1 model_credit_entry_def)+
qed

lemma settle_outcome:
  assumes "settle_ready ws r s" and "truthy (map_option qs_token a)"
    and "escrow_of s (sr_escrowId r) = Some e" and "e_status e = Held"
    and "wallet_of s (e_userId e) = Some w"
  shows "\<exists>resp s' d ev. run (settleEscrow ws r a) s = (Inr resp, s') \<and>
    ss_modelEarnedBalance resp = earned_of s (sr_modelId r) + sr_amount r \<and>
    map_of (wallets s') = (map_of (wallets s))(e_userId e \<mapsto>
      w\<lparr>w_escrowBalance := w_escrowBalance w - sr_amount r, w_version := w_version w + 1\<rparr>) \<and>
    earned_of s' (sr_modelId r) = earned_of s (sr_modelId r) + sr_amount r \<and>
    wallet_total s' (e_userId e) + earned_of s' (sr_modelId r) =
      wallet_total s (e_userId e) + earned_of s (sr_modelId r) \<and>
    escrow_of s' (sr_escrowId r) = Some (escrow_moved Settled (Some (sr_modelId r)) (clock s) e) \<and>
    ledger_entries s' = ledger_entries s @ [d] \<and>
    (l_accountId d, l_balanceState d, l_amount d, l_balanceAfter d) =
      (sr_modelId r, Earned, sr_amount r, earned_of s (sr_modelId r) + sr_amount r) \<and>
    published s' = published s @ [ev] \<and>
    l_accountType d = Model \<and> l_timestamp d = clock s \<and> clock s' = clock s \<and>
    (\<forall>m. m \<noteq> sr_modelId r \<longrightarrow> earned_of s' m = earned_of s m) \<and>
    escrow_event ev \<and> told ev = [((sr_modelId r, Earned), earned_of s (sr_modelId r) + sr_amount r)]"
proof -
  let ?i = "sr_escrowId r" and ?m = "sr_modelId r"
  let ?s0 = "after_claim (sr_idempotencyKey r) ''settle_escrow'' s"
  let ?s1 = "?s0\<lparr>escrow_items := AList.update ?i
    (e\<lparr>e_status := Settling, e_processedAt := Some (clock s)\<rparr>) (escrow_items s)\<rparr>"
  let ?s2 = "model_credited ws ?m (sr_amount r) ?s1"
  let ?w = "w\<lparr>w_escrowBalance := w_escrowBalance w - sr_amount r, w_version := w_version w + 1\<rparr>"
  let ?s3 = "?s2\<lparr>wallets := AList.update (e_userId e) ?w (wallets s)\<rparr>"
  let ?s4 = "?s3\<lparr>escrow_items := AList.update ?i (escrow_moved Settled (Some ?m) (clock s) e) (escrow_items ?s3)\<rparr>"
  have cur: "required_string 16 (ws_defaultCurrency ws)" and mid: "required_string 128 ?m"
    and key: "required_string 256 (sr_idempotencyKey r)"
    and new: "map_of (idempotency_records s) (sr_idempotencyKey r, ''settle_escrow'') = None"
    using assms(1) by (simp_all add: settle_ready_def)
  have claim: "run (claim_or_throw (sr_idempotencyKey r) ''settle_escrow'') s = (Inr (), ?s0)"
    using new by (simp add: run_claim_or_throw key)
  have lock: "run (lock_escrow Settling ?i) ?s0 = (Inr e, ?s1)"
    using assms(3,4) by (simp add: run_lock_escrow)
  have run: "run (settleEscrow ws r a) s = run (record_settle ws r (e_userId e) (model_before ws s ?m)) ?s4"
    using assms(2,5)
    by (simp add: settleEscrow_def run_await [of "claim_or_throw _ _"] claim
        run_await [of "lock_escrow _ _"] lock run_credit_model_wallet [OF cur mid])
      (simp add: run_simps escrow_moved_def)
  obtain resp d ev s' where rec: "run (record_settle ws r (e_userId e) (model_before ws s ?m)) ?s4 = (Inr resp, s')"
    and res: "ss_modelEarnedBalance resp = earned_of s ?m + sr_amount r"
      "wallets s' = wallets ?s4" "model_wallets s' = model_wallets ?s4"
      "escrow_items s' = escrow_items ?s4" "ledger_entries s' = ledger_entries s @ [d]"
      "(l_accountId d, l_balanceState d, l_amount d, l_balanceAfter d) =
        (?m, Earned, sr_amount r, earned_of s ?m + sr_amount r)"
      "published s' = published ?s4 @ [ev]"
      "l_accountType d = Model" "l_timestamp d = clock ?s4" "clock s' = clock ?s4"
      "escrow_event ev" "told ev = [((?m, Earned), earned_of s ?m + sr_amount r)]"
    using record_settle_success [OF assms(1), of ?s4 "e_userId e" "model_before ws s ?m"]
    by (auto simp: earned_model_before)
  have earned: "earned_of s' ?m = earned_of s ?m + sr_amount r"
    using res(3) by (simp add: earned_of_def earned_model_before)
  have others: "\<forall>m. m \<noteq> ?m \<longrightarrow> earned_of s' m = earned_of s m"
    using res(3) by (simp add: earned_of_def)
  have "map_of (wallets s') = (map_of (wallets s))(e_userId e \<mapsto> ?w)"
    using res(2) by simp
  moreover from this have "wallet_total s' (e_userId e) + earned_of s' ?m =
      wallet_total s (e_userId e) + earned_of s ?m"
    using assms(5) earned by (simp add: wallet_total_def)
  ultimately show ?thesis
    using run rec res earned others by (intro exI conjI) (assumption | simp)+
qed

text \<open>
  C5: An authorized settlement of a held item, with a fresh key, moves the amount of the request
  from the escrow balance of the item's owner to the earned balance of the model, whose wallet
  is created when it does not exist: the user's total and the model's earnings together stay
  what they were, the item becomes settled for that model, one ledger entry (the model's
  credit, none for the user's debit) and one event are written.  The amount is the request's;
  nothing relates it to the amount the item holds.
\<close>

theorem settleEscrow_success:
  assumes "settle_ready ws r s" and "truthy (map_option qs_token a)"
    and "escrow_of s (sr_escrowId r) = Some e" and "e_status e = Held"
    and "wallet_of s (e_userId e) = Some w"
  shows "\<exists>resp s' d ev. run (settleEscrow ws r a) s = (Inr resp, s') \<and>
    ss_modelEarnedBalance resp = earned_of s (sr_modelId r) + sr_amount r \<and>
    map_of (wallets s') = (map_of (wallets s))(e_userId e \<mapsto>
      w\<lparr>w_escrowBalance := w_escrowBalance w - sr_amount r, w_version := w_version w + 1\<rparr>) \<and>
    earned_of s' (sr_modelId r) = earned_of s (sr_modelId r) + sr_amount r \<and>
    wallet_total s' (e_userId e) + earned_of s' (sr_modelId r) =
      wallet_total s (e_userId e) + earned_of s (sr_modelId r) \<and>
    escrow_of s' (sr_escrowId r) = Some (escrow_moved Settled (Some (sr_modelId r)) (clock s) e) \<and>
    ledger_entries s' = ledger_entries s @ [d] \<and>
    (l_accountId d, l_balanceState d, l_amount d, l_balanceAfter d) =
      (sr_modelId r, Earned, sr_amount r, earned_of s (sr_modelId r) + sr_amount r) \<and>
    published s' = published s @ [ev]"
  using settle_outcome [OF assms] by metis

text \<open>A store after one hold of 60 by alice, whose item is \<open>uuid-0\<close>.\<close>

definition one_hold :: store where
  "one_hold = snd (run (holdInEscrow default_wallet_service demo_hold) demo_wallets)"

definition demo_settle :: escrow_settle_request where
  "demo_settle =
     \<lparr>sr_escrowId = ''uuid-0'', sr_modelId = ''mia'', sr_amount = 60, sr_queueItemId = ''queue-1'',
      sr_reason = PERFORMANCE_COMPLETED, sr_authorizationToken = ''tok'',
      sr_idempotencyKey = ''settle-1'', sr_requestId = ''req-2'', sr_metadata = None\<rparr>"

definition demo_settle_auth :: queue_settlement_authorization where
  "demo_settle_auth =
     \<lparr>qs_queueItemId = ''queue-1'', qs_token = ''tok'', qs_escrowId = ''uuid-0'',
      qs_modelId = ''mia'', qs_amount = 60, qs_reason = PERFORMANCE_COMPLETED, qs_issuedAt = 0,
      qs_expiresAt = 9\<rparr>"

definition alice_after_hold :: wallet where
  "alice_after_hold =
     \<lparr>w_userId = ''alice'', w_availableBalance = 40, w_escrowBalance = 60,
      w_currency = ''points'', w_version = 1\<rparr>"

definition held_by_alice :: escrow_item where
  "held_by_alice = held_item demo_hold ''uuid-0'' 1000"

lemma one_hold_facts:
  "escrow_of one_hold ''uuid-0'' = Some held_by_alice"
  "wallet_of one_hold ''alice'' = Some alice_after_hold"
  "e_status held_by_alice = Held" "e_userId held_by_alice = ''alice''" "e_amount held_by_alice = 60"
  by code_simp+

theorem settleEscrow_success_witness:
  "\<exists>resp s'. run (settleEscrow default_wallet_service demo_settle (Some demo_settle_auth)) one_hold = (Inr resp, s') \<and>
     ss_modelEarnedBalance resp = 60 \<and> earned_of s' ''mia'' = 60"
proof -
  have "settle_ready default_wallet_service demo_settle one_hold"
    and "truthy (map_option qs_token (Some demo_settle_auth))"
    and "sr_escrowId demo_settle = ''uuid-0''" and "earned_of one_hold (sr_modelId demo_settle) = 0"
    and "sr_amount demo_settle = 60" and "sr_modelId demo_settle = ''mia''" by code_simp+
  then show ?thesis
    using settleEscrow_success [of default_wallet_service demo_settle one_hold "Some demo_settle_auth"
        held_by_alice alice_after_hold] one_hold_facts
    by fastforce
qed

theorem processed_escrow_refused_witness:
  "\<exists>s'. run (handle_call default_wallet_service (Settle_call demo_settle (Some demo_settle_auth))) demo_wallets =
     (Inl (EscrowNotFoundError ''uuid-0''), s') \<and> wallets s' = wallets demo_wallets"
proof -
  let ?c = "Settle_call demo_settle (Some demo_settle_auth)"
  have c: "authorized_call ?c = Some (''settle-1'', ''settle_escrow'', ''uuid-0'')"
    and "required_string 256 ''settle-1''"
    and "map_of (idempotency_records demo_wallets) (''settle-1'', ''settle_escrow'') = None"
    and none: "escrow_of demo_wallets ''uuid-0'' = None" by code_simp+
  then show ?thesis
    using processed_escrow_refused [of ?c "''settle-1''" "''settle_escrow''" "''uuid-0''" demo_wallets
        default_wallet_service] by auto
qed

definition refund_ready :: "wallet_service \<Rightarrow> escrow_refund_request \<Rightarrow> store \<Rightarrow> bool" where
  "refund_ready ws r s \<longleftrightarrow>
     required_string 16 (ws_defaultCurrency ws) \<and> required_string 128 (rr_userId r) \<and>
     required_string 256 (rr_idempotencyKey r) \<and> required_string 128 (rr_requestId r) \<and>
     length (rr_escrowId r) \<le> 128 \<and> length (rr_queueItemId r) \<le> 128 \<and>
     metadata_ok (rr_metadata r) \<and>
     map_of (idempotency_records s) (rr_idempotencyKey r, ''refund_escrow'') = None \<and>
     list_all (\<lambda>e. l_idempotencyKey e \<noteq> rr_idempotencyKey r) (ledger_entries s) \<and>
     fresh_ids 3 s"

lemma record_refund_success:
  assumes "refund_ready ws r s" and s1: "uuids s1 = uuids s" "uuid_count s1 = uuid_count s"
    "ledger_entries s1 = ledger_entries s"
  shows "\<exists>resp d ev s2. run (record_refund ws r w w2) s1 = (Inr resp, s2) \<and>
    rs_userAvailableBalance resp = w_availableBalance w + rr_amount r \<and>
    wallets s2 = wallets s1 \<and> model_wallets s2 = model_wallets s1 \<and>
    escrow_items s2 = escrow_items s1 \<and> ledger_entries s2 = ledger_entries s @ [d] \<and>
    (l_accountId d, l_balanceState d, l_amount d, l_balanceAfter d) =
      (rr_userId r, Available, rr_amount r, w_availableBalance w + rr_amount r) \<and>
    published s2 = published s1 @ [ev] \<and>
    l_accountType d = User \<and> l_timestamp d = clock s1 \<and> clock s2 = clock s1 \<and> escrow_event ev \<and>
    told ev = [((rr_userId r, Available), w_availableBalance w + rr_amount r), ((rr_userId r, Escrow), w_escrowBalance w2)]"
proof -
  let ?t = "uuids s (uuid_count s)"
  let ?s2 = "s1\<lparr>uuid_count := Suc (uuid_count s)\<rparr>"
  let ?E = "available_credit_entry ws ?t (rr_userId r) (rr_amount r) (rr_reason r)
    (rr_idempotencyKey r) (rr_requestId r) (w_availableBalance w) (rr_metadata r) (rr_escrowId r)
    (rr_queueItemId r)"
  let ?c = "ws_ledgerCurrency ws"
  let ?s3 = "after_entry ?c ?E ?t ?s2"
  have "request_valid ?E"
    using assms(1)
    by (auto simp: request_valid_def request_ok_def available_credit_entry_def refund_ready_def
        metadata_ok_def optional_string_def required_string_def)
  then have entry: "run (createEntry ?c ?E) ?s2 = (Inr (mapToDomain (new_entry ?c ?E ?t ?s2)), ?s3)"
    by (rule run_one_entry)
      (use assms(1) s1 in \<open>simp_all add: refund_ready_def available_credit_entry_def\<close>)
  obtain ev where "run (publishEscrowRefunded (rr_userId r) (rr_escrowId r) (rr_amount r)
      (rr_reason r) (rr_queueItemId r) ?t (w_availableBalance w + rr_amount r)
      (w_escrowBalance w2) (rr_idempotencyKey r) (rr_metadata r) None) ?s3 = (Inr (), after_publish ev ?s3)"
    and told: "escrow_event ev" "told ev = [((rr_userId r, Available), w_availableBalance w + rr_amount r),
      ((rr_userId r, Escrow), w_escrowBalance w2)]"
    using run_publishers(3) by blast
  then have "run (record_refund ws r w w2) s1 =
    (Inr \<lparr>rs_transactionId = ?t, rs_refundedAmount = rr_amount r,
          rs_userAvailableBalance = w_availableBalance w + rr_amount r, rs_timestamp = clock s1\<rparr>,
     after_publish ev ?s3)"
    using entry s1 by (simp add: record_refund_def run_simps)
  then show ?thesis
    by (intro exI [of _ "new_entry ?c ?E ?t ?s2"] exI [of _ ev] exI conjI)
      (assumption | rule told | simp add: s1 available_credit_entry_def)+
qed

lemma refund_outcome:
  assumes "refund_ready ws r s" and "truthy (map_option qr_token a)"
    and "escrow_of s (rr_escrowId r) = Some e" and "e_status e = Held"
    and "wallet_of s (rr_userId r) = Some w"
  shows "\<exists>resp s' d ev. run (refundEscrow ws r a) s = (Inr resp, s') \<and>
    rs_userAvailableBalance resp = w_availableBalance w + rr_amount r \<and>
    map_of (wallets s') = (map_of (wallets s))(rr_userId r \<mapsto>
      w\<lparr>w_availableBalance := w_availableBalance w + rr_amount r,
        w_escrowBalance := w_escrowBalance w - rr_amount r, w_version := w_version w + 1\<rparr>) \<and>
    wallet_total s' (rr_userId r) = wallet_total s (rr_userId r) \<and>
    model_wallets s' = model_wallets s \<and>
    escrow_of s' (rr_escrowId r) = Some (escrow_moved Refunded None (clock s) e) \<and>
    ledger_entries s' = ledger_entries s @ [d] \<and>
    (l_accountId d, l_balanceState d, l_amount d, l_balanceAfter d) =
      (rr_userId r, Available, rr_amount r, w_availableBalance w + rr_amount r) \<and>
    published s' = published s @ [ev] \<and>
    l_accountType d = User \<and> l_timestamp d = clock s \<and> clock s' = clock s \<and> escrow_event ev \<and>
    told ev = [((rr_userId r, Available), w_availableBalance w + rr_amount r), ((rr_userId r, Escrow), w_escrowBalance w - rr_amount r)]"
proof -
  let ?i = "rr_escrowId r" and ?u = "rr_userId r"
  let ?s0 = "after_claim (rr_idempotencyKey r) ''refund_escrow'' s"
  let ?s1 = "?s0\<lparr>escrow_items := AList.update ?i
    (e\<lparr>e_status := Refunding, e_processedAt := Some (clock s)\<rparr>) (escrow_items s)\<rparr>"
  let ?w = "w\<lparr>w_availableBalance := w_availableBalance w + rr_amount r,
        w_escrowBalance := w_escrowBalance w - rr_amount r, w_version := w_version w + 1\<rparr>"
  let ?s2 = "?s1\<lparr>wallets := AList.update ?u ?w (wallets s)\<rparr>"
  let ?s3 = "?s2\<lparr>escrow_items := AList.update ?i (escrow_moved Refunded None (clock s) e) (escrow_items ?s2)\<rparr>"
  have key: "required_string 256 (rr_idempotencyKey r)"
    and new: "map_of (idempotency_records s) (rr_idempotencyKey r, ''refund_escrow'') = None"
    using assms(1) by (simp_all add: refund_ready_def)
  have claim: "run (claim_or_throw (rr_idempotencyKey r) ''refund_escrow'') s = (Inr (), ?s0)"
    using new by (simp add: run_claim_or_throw key)
  have lock: "run (lock_escrow Refunding ?i) ?s0 = (Inr e, ?s1)"
    using assms(3,4) by (simp add: run_lock_escrow)
  have run: "run (refundEscrow ws r a) s = run (record_refund ws r w ?w) ?s3"
    using assms(2,5)
    by (simp add: refundEscrow_def run_await [of "claim_or_throw _ _"] claim
        run_await [of "lock_escrow _ _"] lock)
      (simp add: run_simps escrow_moved_def)
  obtain resp d ev s' where rec: "run (record_refund ws r w ?w) ?s3 = (Inr resp, s')"
    and res: "rs_userAvailableBalance resp = w_availableBalance w + rr_amount r"
      "wallets s' = wallets ?s3" "model_wallets s' = model_wallets ?s3"
      "escrow_items s' = escrow_items ?s3" "ledger_entries s' = ledger_entries s @ [d]"
      "(l_accountId d, l_balanceState d, l_amount d, l_balanceAfter d) =
        (?u, Available, rr_amount r, w_availableBalance w + rr_amount r)"
      "published s' = published ?s3 @ [ev]"
      "l_accountType d = User" "l_timestamp d = clock ?s3" "clock s' = clock ?s3"
      "escrow_event ev" "told ev = [((?u, Available), w_availableBalance w + rr_amount r),
        ((?u, Escrow), w_escrowBalance w - rr_amount r)]"
    using record_refund_success [OF assms(1), of ?s3 w ?w] by auto
  have "map_of (wallets s') = (map_of (wallets s))(?u \<mapsto> ?w)"
    using res(2) by simp
  moreover from this have "wallet_total s' ?u = wallet_total s ?u"
    using assms(5) by (simp add: wallet_total_def)
  ultimately show ?thesis
    using run rec res by (intro exI conjI) (assumption | simp)+
qed

text \<open>
  C6: An authorized refund of a held item, with a fresh key, moves the amount of the request from
  escrow back to available in the wallet of the user the request names, whose total stays what
  it was; the item becomes refunded and one ledger entry and one event are written.  Neither
  the amount nor the user is compared with the item: a request for more than is held, or for
  somebody else's item, is honoured just the same.
\<close>

theorem refundEscrow_success:
  assumes "refund_ready ws r s" and "truthy (map_option qr_token a)"
    and "escrow_of s (rr_escrowId r) = Some e" and "e_status e = Held"
    and "wallet_of s (rr_userId r) = Some w"
  shows "\<exists>resp s' d ev. run (refundEscrow ws r a) s = (Inr resp, s') \<and>
    rs_userAvailableBalance resp = w_availableBalance w + rr_amount r \<and>
    map_of (wallets s') = (map_of (wallets s))(rr_userId r \<mapsto>
      w\<lparr>w_availableBalance := w_availableBalance w + rr_amount r,
        w_escrowBalance := w_escrowBalance w - rr_amount r, w_version := w_version w + 1\<rparr>) \<and>
    wallet_total s' (rr_userId r) = wallet_total s (rr_userId r) \<and>
    model_wallets s' = model_wallets s \<and>
    escrow_of s' (rr_escrowId r) = Some (escrow_moved Refunded None (clock s) e) \<and>
    ledger_entries s' = ledger_entries s @ [d] \<and>
    (l_accountId d, l_balanceState d, l_amount d, l_balanceAfter d) =
      (rr_userId r, Available, rr_amount r, w_availableBalance w + rr_amount r) \<and>
    published s' = published s @ [ev]"
  using refund_outcome [OF assms] by metis

definition demo_refund :: escrow_refund_request where
  "demo_refund =
     \<lparr>rr_escrowId = ''uuid-0'', rr_userId = ''alice'', rr_amount = 1000, rr_queueItemId = ''queue-1'',
      rr_reason = USER_DISCONNECTED, rr_authorizationToken = ''tok'',
      rr_idempotencyKey = ''refund-1'', rr_requestId = ''req-3'', rr_metadata = None\<rparr>"

definition demo_refund_auth :: queue_refund_authorization where
  "demo_refund_auth =
     \<lparr>qr_queueItemId = ''queue-1'', qr_token = ''tok'', qr_escrowId = ''uuid-0'',
      qr_userId = ''alice'', qr_amount = 60, qr_reason = USER_DISCONNECTED, qr_issuedAt = 0,
      qr_expiresAt = 9\<rparr>"

theorem refundEscrow_success_witness:
  "\<exists>resp s'. run (refundEscrow default_wallet_service demo_refund (Some demo_refund_auth)) one_hold = (Inr resp, s') \<and>
     rs_userAvailableBalance resp = 1040 \<and>
     map_option w_escrowBalance (wallet_of s' ''alice'') = Some (- 940)"
proof -
  have "refund_ready default_wallet_service demo_refund one_hold"
    and "truthy (map_option qr_token (Some demo_refund_auth))"
    and "rr_escrowId demo_refund = ''uuid-0''" and "rr_userId demo_refund = ''alice''"
    and "rr_amount demo_refund = 1000" and "w_availableBalance alice_after_hold = 40"
    and "w_escrowBalance alice_after_hold = 60" by code_simp+
  then show ?thesis
    using refundEscrow_success [of default_wallet_service demo_refund one_hold "Some demo_refund_auth"
        held_by_alice alice_after_hold] one_hold_facts
    by fastforce
qed

section \<open>Settling in part\<close>

definition partial_ready :: "wallet_service \<Rightarrow> escrow_partial_settle_request \<Rightarrow> store \<Rightarrow> bool" where
  "partial_ready ws r s \<longleftrightarrow>
     required_string 16 (ws_defaultCurrency ws) \<and> required_string 128 (pr_userId r) \<and>
     required_string 128 (pr_modelId r) \<and>
     required_string 249 (pr_idempotencyKey r) \<and> required_string 128 (pr_requestId r) \<and>
     length (pr_escrowId r) \<le> 128 \<and> length (pr_queueItemId r) \<le> 128 \<and>
     metadata_ok (pr_metadata r) \<and>
     map_of (idempotency_records s) (pr_idempotencyKey r, ''partial_settle_escrow'') = None \<and>
     list_all (\<lambda>e. l_idempotencyKey e \<noteq> pr_idempotencyKey r @ ''_refund'' \<and>
       l_idempotencyKey e \<noteq> pr_idempotencyKey r @ ''_settle'') (ledger_entries s) \<and>
     fresh_ids 4 s"

text \<open>One half of the recording: an entry when the amount is positive, nothing otherwise.\<close>

lemma run_conditional_entry:
  assumes "0 < amount \<Longrightarrow> run (createEntry c r) s = (Inr x, s')"
  shows "run (if 0 < amount then await (createEntry c r) (\<lambda>_. pure ()) else pure ()) s =
    (Inr (), if 0 < amount then s' else s)"
  using assms by (simp add: run_simps)

lemma record_partial_success:
  assumes "partial_ready ws r s" and s1: "uuids s1 = uuids s" "uuid_count s1 = uuid_count s"
    "ledger_entries s1 = ledger_entries s"
  shows "\<exists>resp refunded settled ev s2. run (record_partial_settle ws r w w2 mw) s1 = (Inr resp, s2) \<and>
    ps_userAvailableBalance resp = w_availableBalance w + pr_refundAmount r \<and>
    ps_modelEarnedBalance resp = m_earnedBalance mw + pr_settleAmount r \<and>
    wallets s2 = wallets s1 \<and> model_wallets s2 = model_wallets s1 \<and>
    escrow_items s2 = escrow_items s1 \<and>
    ledger_entries s2 = ledger_entries s @
      (if 0 < pr_refundAmount r then [refunded] else []) @
      (if 0 < pr_settleAmount r then [settled] else []) \<and>
    (l_accountId refunded, l_balanceState refunded, l_amount refunded) =
      (pr_userId r, Available, pr_refundAmount r) \<and>
    (l_accountId settled, l_balanceState settled, l_amount settled) =
      (pr_modelId r, Earned, pr_settleAmount r) \<and>
    published s2 = published s1 @ [ev] \<and>
    (l_accountType refunded, l_balanceAfter refunded, l_timestamp refunded) =
      (User, w_availableBalance w + pr_refundAmount r, clock s1) \<and>
    (l_accountType settled, l_balanceAfter settled, l_timestamp settled) =
      (Model, m_earnedBalance mw + pr_settleAmount r, clock s1) \<and> clock s2 = clock s1 \<and> escrow_event ev \<and>
    told ev = [((pr_userId r, Available), w_availableBalance w + pr_refundAmount r),
      ((pr_userId r, Escrow), w_escrowBalance w2), ((pr_modelId r, Earned), m_earnedBalance mw + pr_settleAmount r)]"
proof -
  let ?u = "\<lambda>i. uuids s (uuid_count s + i)"
  let ?t = "uuids s (uuid_count s)"
  let ?c = "ws_ledgerCurrency ws"
  let ?R = "available_credit_entry ws ?t (pr_userId r) (pr_refundAmount r) (pr_reason r)
    (pr_idempotencyKey r @ ''_refund'') (pr_requestId r) (w_availableBalance w) (pr_metadata r)
    (pr_escrowId r) (pr_queueItemId r)"
  let ?S = "model_credit_entry ws ?t (pr_modelId r) (pr_settleAmount r) (pr_reason r)
    (pr_idempotencyKey r @ ''_settle'') (pr_requestId r) (m_earnedBalance mw) (pr_metadata r)
    (pr_escrowId r) (pr_queueItemId r)"
  let ?s2 = "s1\<lparr>uuid_count := Suc (uuid_count s)\<rparr>"
  define s3 where "s3 = (if 0 < pr_refundAmount r then after_entry ?c ?R ?t ?s2 else ?s2)"
  define s4 where "s4 = (if 0 < pr_settleAmount r then after_entry ?c ?S ?t s3 else s3)"
  have fresh: "fresh_ids 4 s" using assms(1) by (simp add: partial_ready_def)
  have ids: "required_string 128 (?u i) \<and> trim (?u i) \<noteq> []" if "i < 4" for i
    using fresh_ids_nth(1,2) [OF fresh that] by simp
  have unused: "l_idempotencyKey e \<noteq> pr_idempotencyKey r @ ''_refund'' \<and>
      l_idempotencyKey e \<noteq> pr_idempotencyKey r @ ''_settle''" if "e \<in> set (ledger_entries s)" for e
    using assms(1) that by (auto simp: partial_ready_def list_all_iff)
  have valid: "request_valid ?R" "request_valid ?S"
    using assms(1)
    by (auto simp: request_valid_def request_ok_def available_credit_entry_def model_credit_entry_def
        partial_ready_def metadata_ok_def optional_string_def required_string_def)
  have R: "run (createEntry ?c ?R) ?s2 = (Inr (mapToDomain (new_entry ?c ?R ?t ?s2)), after_entry ?c ?R ?t ?s2)"
    by (rule run_createEntry_new)
      (use ids [of 0] ids [of 1] valid unused fresh_ids_nth(3) [OF fresh, where i = 1] s1 in
        \<open>auto simp: available_credit_entry_def\<close>)
  have "?u 1 \<noteq> ?u 2" by (rule fresh_ids_distinct [OF fresh]) simp_all
  then have S: "run (createEntry ?c ?S) s3 = (Inr (mapToDomain (new_entry ?c ?S ?t s3)), after_entry ?c ?S ?t s3)"
    by (intro run_createEntry_new)
      (use ids [of 0] ids [of 1] ids [of 2] valid unused fresh_ids_nth(3) [OF fresh, where i = 1]
         fresh_ids_nth(3) [OF fresh, where i = 2] s1 in
        \<open>auto simp: s3_def model_credit_entry_def available_credit_entry_def eval_nat_numeral split: if_splits\<close>)
  obtain ev where ev: "run (publishEscrowPartialSettled (pr_userId r) (pr_modelId r) (pr_escrowId r)
      (pr_refundAmount r) (pr_settleAmount r) (pr_reason r) (pr_queueItemId r) ?t
      (w_availableBalance w + pr_refundAmount r) (w_escrowBalance w2)
      (m_earnedBalance mw + pr_settleAmount r) (pr_idempotencyKey r) (pr_metadata r) None) s4 =
      (Inr (), after_publish ev s4)"
    and told: "escrow_event ev" "told ev = [((pr_userId r, Available), w_availableBalance w + pr_refundAmount r),
      ((pr_userId r, Escrow), w_escrowBalance w2), ((pr_modelId r, Earned), m_earnedBalance mw + pr_settleAmount r)]"
    using run_publishers(4) by blast
  have "run (record_partial_settle ws r w w2 mw) s1 =
    (Inr \<lparr>ps_transactionId = ?t, ps_refundedAmount = pr_refundAmount r,
          ps_settledAmount = pr_settleAmount r,
          ps_userAvailableBalance = w_availableBalance w + pr_refundAmount r,
          ps_modelEarnedBalance = m_earnedBalance mw + pr_settleAmount r, ps_timestamp = clock s4\<rparr>,
     after_publish ev s4)"
    unfolding record_partial_settle_def
    by (simp add: run_await run_uuidv4 s1 run_conditional_entry [OF R] s3_def [symmetric]
        run_conditional_entry [OF S] s4_def [symmetric] run_new_date run_try_catch ev run_pure)
  then show ?thesis
    by (intro exI [of _ "new_entry ?c ?R ?t ?s2"] exI [of _ "new_entry ?c ?S ?t s3"] exI [of _ ev] exI conjI)
      (assumption | rule told | simp add: s1 s3_def s4_def model_credit_entry_def available_credit_entry_def)+
qed

lemma wallets_model_wallets_swap:
  "s\<lparr>wallets := x, model_wallets := y\<rparr> = s\<lparr>model_wallets := y, wallets := x\<rparr>"
  by simp

lemma run_partial_body:
  assumes "required_string 16 (ws_defaultCurrency ws)" and "required_string 128 m"
    and "wallet_of s u = Some w"
  shows "run (await (find_or_create_model_wallet ws m) (\<lambda>mw.
       await (wallet_findOneAndUpdate u (\<lambda>x. w_version x = w_version w) change) (\<lambda>updated.
       case updated of None \<Rightarrow> p mw
       | Some x \<Rightarrow> await (credit_model_wallet m mw amount) (k mw x)))) s =
    run (k (model_before ws s m) (change w) (Some ((model_before ws s m)
           \<lparr>m_earnedBalance := m_earnedBalance (model_before ws s m) + amount,
            m_version := m_version (model_before ws s m) + 1\<rparr>)))
      ((model_credited ws m amount s)\<lparr>wallets := AList.update u (change w) (wallets s)\<rparr>)"
  using assms(3)
  by (cases "model_wallet_of s m")
    (simp_all add: run_simps run_find_or_create_model [OF assms(1,2)] credit_model_wallet_def
      model_credited_def model_before_def Let_def wallets_model_wallets_swap)

text \<open>
  The state after the claim and the lock of the item, the wallet that the user is left with, and
  the state in which an accepted partial settlement is recorded.
\<close>

definition partial_locked :: "escrow_partial_settle_request \<Rightarrow> escrow_item \<Rightarrow> store \<Rightarrow> store" where
  "partial_locked r e s =
     (after_claim (pr_idempotencyKey r) ''partial_settle_escrow'' s)\<lparr>escrow_items := AList.update (pr_escrowId r)
        (e\<lparr>e_status := Partial_settling, e_processedAt := Some (clock s)\<rparr>) (escrow_items s)\<rparr>"

definition partial_wallet :: "escrow_partial_settle_request \<Rightarrow> escrow_item \<Rightarrow> wallet \<Rightarrow> wallet" where
  "partial_wallet r e w =
     w\<lparr>w_availableBalance := w_availableBalance w + pr_refundAmount r,
       w_escrowBalance := w_escrowBalance w - e_amount e, w_version := w_version w + 1\<rparr>"

definition partial_moved ::
  "wallet_service \<Rightarrow> escrow_partial_settle_request \<Rightarrow> escrow_item \<Rightarrow> wallet \<Rightarrow> store \<Rightarrow> store" where
  "partial_moved ws r e w s =
     (let s2 = (model_credited ws (pr_modelId r) (pr_settleAmount r) (partial_locked r e s))
        \<lparr>wallets := AList.update (pr_userId r) (partial_wallet r e w) (wallets s)\<rparr> in
      s2\<lparr>escrow_items := AList.update (pr_escrowId r) (escrow_moved Settled (Some (pr_modelId r)) (clock s) e)
           (escrow_items s2)\<rparr>)"

lemma run_partial_lock:
  assumes "partial_ready ws r s" and "escrow_of s (pr_escrowId r) = Some e" and "e_status e = Held"
  shows "run (await (claim_or_throw (pr_idempotencyKey r) ''partial_settle_escrow'') (\<lambda>_.
      await (lock_escrow Partial_settling (pr_escrowId r)) k)) s = run (k e) (partial_locked r e s)"
proof -
  have key: "required_string 256 (pr_idempotencyKey r)"
    and new: "map_of (idempotency_records s) (pr_idempotencyKey r, ''partial_settle_escrow'') = None"
    using assms(1) by (auto simp: partial_ready_def required_string_def)
  have "run (claim_or_throw (pr_idempotencyKey r) ''partial_settle_escrow'') s =
      (Inr (), after_claim (pr_idempotencyKey r) ''partial_settle_escrow'' s)"
    using new by (simp add: run_claim_or_throw key)
  then show ?thesis using assms(2,3) by (simp add: run_await run_lock_escrow partial_locked_def)
qed

lemma run_partial_mismatch:
  assumes "partial_ready ws r s" and "truthy (map_option qp_token a)"
    and "escrow_of s (pr_escrowId r) = Some e" and "e_status e = Held"
    and "1 / 100 < \<bar>pr_refundAmount r + pr_settleAmount r - e_amount e\<bar>"
  shows "run (partialSettleEscrow ws r a) s =
    (Inl (Plain ''Refund + settle amounts must equal escrow amount''), partial_locked r e s)"
  using assms(2,5) by (simp add: partialSettleEscrow_def run_partial_lock [OF assms(1,3,4)] run_throw)

lemma run_partial_match:
  assumes "partial_ready ws r s" and "truthy (map_option qp_token a)"
    and "escrow_of s (pr_escrowId r) = Some e" and "e_status e = Held"
    and "wallet_of s (pr_userId r) = Some w"
    and "\<bar>pr_refundAmount r + pr_settleAmount r - e_amount e\<bar> \<le> 1 / 100"
  shows "run (partialSettleEscrow ws r a) s =
    run (record_partial_settle ws r w (partial_wallet r e w) (model_before ws s (pr_modelId r)))
      (partial_moved ws r e w s)"
proof -
  have cur: "required_string 16 (ws_defaultCurrency ws)" and mid: "required_string 128 (pr_modelId r)"
    using assms(1) by (auto simp: partial_ready_def)
  have w1: "wallet_of (partial_locked r e s) (pr_userId r) = Some w" using assms(5) by (simp add: partial_locked_def)
  show ?thesis
    using assms(2,6)
    by (simp add: partialSettleEscrow_def run_partial_lock [OF assms(1,3,4)] run_await [of "wallet_findOne _"]
        run_wallet_findOne w1 run_partial_body [OF cur mid w1])
      (simp add: run_simps escrow_moved_def partial_wallet_def partial_moved_def partial_locked_def Let_def)
qed

lemma partial_moved_simps:
  "map_of (wallets (partial_moved ws r e w s)) = (map_of (wallets s))(pr_userId r \<mapsto> partial_wallet r e w)"
  "earned_of (partial_moved ws r e w s) (pr_modelId r) = earned_of s (pr_modelId r) + pr_settleAmount r"
  "m \<noteq> pr_modelId r \<Longrightarrow> earned_of (partial_moved ws r e w s) m = earned_of s m"
  "clock (partial_moved ws r e w s) = clock s"
  "escrow_of (partial_moved ws r e w s) (pr_escrowId r) =
     Some (escrow_moved Settled (Some (pr_modelId r)) (clock s) e)"
  "ledger_entries (partial_moved ws r e w s) = ledger_entries s"
  "published (partial_moved ws r e w s) = published s"
  "uuids (partial_moved ws r e w s) = uuids s" "uuid_count (partial_moved ws r e w s) = uuid_count s"
  by (simp_all add: partial_moved_def partial_locked_def Let_def earned_of_def earned_model_before)


definition demo_partial :: escrow_partial_settle_request where
  "demo_partial =
     \<lparr>pr_escrowId = ''uuid-0'', pr_userId = ''alice'', pr_modelId = ''mia'', pr_refundAmount = 20,
      pr_settleAmount = 40, pr_queueItemId = ''queue-1'', pr_reason = PARTIAL_PERFORMANCE,
      pr_authorizationToken = ''tok'', pr_idempotencyKey = ''part-1'', pr_requestId = ''req-4'',
      pr_metadata = None\<rparr>"

definition demo_partial_auth :: queue_partial_settlement_authorization where
  "demo_partial_auth =
     \<lparr>qp_queueItemId = ''queue-1'', qp_token = ''tok'', qp_escrowId = ''uuid-0'',
      qp_userId = ''alice'', qp_modelId = ''mia'', qp_refundAmount = 20, qp_settleAmount = 40,
      qp_reason = PARTIAL_PERFORMANCE, qp_issuedAt = 0, qp_expiresAt = 9\<rparr>"


section \<open>A lost race while settling\<close>

text \<open>
  When another request of the same user changes the wallet between the read and the update
  of a settlement, the settlement fails with a lock error and releases the item, but the model
  has been credited already and stays so: the retry, under a new key, credits it again.  60
  points held become 120 points earned, while the user's total falls by 60.
\<close>

theorem settleEscrow_lost_race_credits_twice:
  "let other = holdInEscrow default_wallet_service
         (demo_hold\<lparr>hr_amount := 10, hr_queueItemId := ''queue-2'', hr_idempotencyKey := ''hold-2''\<rparr>);
       (first, _, s1) = run_env (settleEscrow default_wallet_service demo_settle (Some demo_settle_auth))
         [id, id, id, id, id, id, id, id, \<lambda>s. snd (run other s)] one_hold;
       (retry, s2) = run (settleEscrow default_wallet_service
         (demo_settle\<lparr>sr_idempotencyKey := ''settle-2''\<rparr>) (Some demo_settle_auth)) s1
   in first = Inl (OptimisticLockError ''wallet'' ''alice'') \<and>
      map_option e_status (escrow_of s1 ''uuid-0'') = Some Held \<and>
      earned_of s1 ''mia'' = 60 \<and> wallet_total s1 ''alice'' = 100 \<and>
      \<not> isl retry \<and> earned_of s2 ''mia'' = 120 \<and> wallet_total s2 ''alice'' = 40"
  by code_simp

end
