(* ===== verification/Point_Redemption.thy ===== *)
theory Point_Redemption
  imports Point_Accrual Wallet_Properties
begin

text \<open>
  The point redemption service (\<open>src/services/point-redemption.service.ts\<close>), which holds the
  redeemed amount in escrow through the wallet service, and the cap on redemptions per member
  tier (\<open>src/db/models/tier-cap-config.model.ts\<close>).
\<close>

section \<open>Requests, responses, configuration\<close>

record redeem_points_request =
  rq_userId :: string
  rq_amount :: js_number
  rq_featureType :: string
  rq_modelId :: "string option"
  rq_queueItemId :: string
  rq_reason :: transaction_reason
  rq_requestId :: string
  rq_metadata :: "metadata option"

record redeem_points_response =
  rp_transactionId :: string
  rp_escrowId :: string
  rp_amountRedeemed :: rat
  rp_newAvailableBalance :: rat
  rp_escrowBalance :: rat
  rp_queueItemId :: string
  rp_timestamp :: int

record point_redemption_service =
  rd_maxRedemptionAmount :: rat
  rd_minRedemptionAmount :: rat
  rd_validateBalance :: bool

definition default_point_redemption :: point_redemption_service where
  "default_point_redemption =
     \<lparr>rd_maxRedemptionAmount = 100000, rd_minRedemptionAmount = 1, rd_validateBalance = True\<rparr>"

section \<open>Redeeming\<close>

definition redemption_validateAmount :: "point_redemption_service \<Rightarrow> js_number \<Rightarrow> error + rat" where
  "redemption_validateAmount rs amount =
     check_amount (rd_minRedemptionAmount rs) (rd_maxRedemptionAmount rs) amount"

definition redemptionReasons :: "transaction_reason list" where
  "redemptionReasons = [CHIP_MENU_PURCHASE, SPIN_WHEEL_PLAY, PERFORMANCE_REQUEST]"

definition validateRedemptionReason :: "transaction_reason \<Rightarrow> error + unit" where
  "validateRedemptionReason reason =
     (if reason \<notin> set redemptionReasons then Inl (InvalidRedemptionReason reason) else Inr ())"

definition validFeatures :: "string list" where
  "validFeatures = [''chip_menu'', ''spin_wheel'', ''performance'']"

definition validateFeatureType :: "string \<Rightarrow> error + unit" where
  "validateFeatureType featureType =
     (if featureType \<notin> set validFeatures then Inl (InvalidFeatureType featureType) else Inr ())"

definition redemption_hold :: "redeem_points_request \<Rightarrow> rat \<Rightarrow> escrow_hold_request" where
  "redemption_hold request amount =
     \<lparr>hr_userId = rq_userId request, hr_amount = amount, hr_reason = rq_reason request,
      hr_queueItemId = rq_queueItemId request, hr_featureType = rq_featureType request,
      hr_idempotencyKey = ''redemption-'' @ rq_userId request @ ''-'' @ rq_queueItemId request,
      hr_requestId = rq_requestId request,
      hr_metadata = Some (AList.update ''modelId''
        (case rq_modelId request of None \<Rightarrow> JUndefined | Some m \<Rightarrow> JStr m)
        (spread (rq_metadata request)))\<rparr>"

definition check_balance :: "string \<Rightarrow> rat \<Rightarrow> unit svc" where
  "check_balance userId amount =
     await (getUserBalance userId) (\<lambda>balance.
     if ub_available balance < amount
     then throw (RedemptionBalanceTooLow amount (ub_available balance)) else pure ())"

definition redeemPoints ::
  "point_redemption_service \<Rightarrow> wallet_service \<Rightarrow> redeem_points_request \<Rightarrow> redeem_points_response svc" where
  "redeemPoints rs ws request =
     await (lift_result (redemption_validateAmount rs (rq_amount request))) (\<lambda>amount.
     await (lift_result (validateRedemptionReason (rq_reason request))) (\<lambda>_.
     await (lift_result (validateFeatureType (rq_featureType request))) (\<lambda>_.
     await (if rd_validateBalance rs then check_balance (rq_userId request) amount else pure ()) (\<lambda>_.
     await (holdInEscrow ws (redemption_hold request amount)) (\<lambda>escrowResponse.
     pure \<lparr>rp_transactionId = hs_transactionId escrowResponse,
           rp_escrowId = hs_escrowId escrowResponse, rp_amountRedeemed = amount,
           rp_newAvailableBalance = hs_newAvailableBalance escrowResponse,
           rp_escrowBalance = hs_escrowBalance escrowResponse,
           rp_queueItemId = rq_queueItemId request,
           rp_timestamp = hs_timestamp escrowResponse\<rparr>)))))"

definition redeemForChipMenu ::
  "point_redemption_service \<Rightarrow> wallet_service \<Rightarrow> string \<Rightarrow> string \<Rightarrow> js_number \<Rightarrow> string \<Rightarrow> string \<Rightarrow>
   string \<Rightarrow> redeem_points_response svc" where
  "redeemForChipMenu rs ws userId modelId amount actionType queueItemId requestId =
     redeemPoints rs ws
       \<lparr>rq_userId = userId, rq_amount = amount, rq_featureType = ''chip_menu'',
        rq_modelId = Some modelId, rq_queueItemId = queueItemId, rq_reason = CHIP_MENU_PURCHASE,
        rq_requestId = requestId, rq_metadata = Some [(''actionType'', JStr actionType)]\<rparr>"

definition redeemForSpinWheel ::
  "point_redemption_service \<Rightarrow> wallet_service \<Rightarrow> string \<Rightarrow> js_number \<Rightarrow> string \<Rightarrow> string \<Rightarrow>
   redeem_points_response svc" where
  "redeemForSpinWheel rs ws userId amount queueItemId requestId =
     redeemPoints rs ws
       \<lparr>rq_userId = userId, rq_amount = amount, rq_featureType = ''spin_wheel'',
        rq_modelId = None, rq_queueItemId = queueItemId, rq_reason = SPIN_WHEEL_PLAY,
        rq_requestId = requestId, rq_metadata = None\<rparr>"

definition redeemForPerformance ::
  "point_redemption_service \<Rightarrow> wallet_service \<Rightarrow> string \<Rightarrow> string \<Rightarrow> js_number \<Rightarrow> string \<Rightarrow> string \<Rightarrow>
   string \<Rightarrow> redeem_points_response svc" where
  "redeemForPerformance rs ws userId modelId amount performanceType queueItemId requestId =
     redeemPoints rs ws
       \<lparr>rq_userId = userId, rq_amount = amount, rq_featureType = ''performance'',
        rq_modelId = Some modelId, rq_queueItemId = queueItemId, rq_reason = PERFORMANCE_REQUEST,
        rq_requestId = requestId, rq_metadata = Some [(''performanceType'', JStr performanceType)]\<rparr>"

section \<open>The tier cap\<close>

datatype member_tier = PLATINUM | GOLD | SILVER | MEMBER | GUEST

definition tier_string :: "member_tier \<Rightarrow> string" where
  "tier_string t =
     (case t of PLATINUM \<Rightarrow> ''PLATINUM'' | GOLD \<Rightarrow> ''GOLD'' | SILVER \<Rightarrow> ''SILVER'' | MEMBER \<Rightarrow> ''MEMBER''
      | GUEST \<Rightarrow> ''GUEST'')"

record tier_cap_config =
  tc_config_id :: string
  tc_tenant_id :: string
  tc_merchant_id :: string
  tc_effective_at :: int
  tc_superseded_at :: "int option"
  tc_correlation_id :: string
  tc_reason_code :: string
  tc_created_by :: string
  tc_tier_name :: member_tier
  tc_redemption_cap_pct :: rat

definition valid_tier_cap_config :: "tier_cap_config \<Rightarrow> bool" where
  "valid_tier_cap_config c \<longleftrightarrow>
     required_string 128 (tc_config_id c) \<and> required_string 128 (tc_tenant_id c) \<and>
     required_string 128 (tc_merchant_id c) \<and> required_string 128 (tc_correlation_id c) \<and>
     required_string 128 (tc_reason_code c) \<and> required_string 128 (tc_created_by c) \<and>
     0 \<le> tc_redemption_cap_pct c \<and> tc_redemption_cap_pct c \<le> 100"

definition validateTierCap ::
  "tier_cap_config list \<Rightarrow> string \<Rightarrow> string \<Rightarrow> string \<Rightarrow> rat \<Rightarrow> rat \<Rightarrow> error + unit" where
  "validateTierCap rows tenantId merchantId tierName transactionValue redemptionAmount =
     (case newest_active tc_effective_at tc_superseded_at
         (\<lambda>c. tc_tenant_id c = tenantId \<and> tc_merchant_id c = merchantId \<and>
              tier_string (tc_tier_name c) = tierName) rows of
        None \<Rightarrow> Inl (NoTierCapConfig tenantId merchantId tierName)
      | Some capConfig \<Rightarrow>
          let maxAllowed = (tc_redemption_cap_pct capConfig / 100) * transactionValue in
          if maxAllowed < redemptionAmount
          then Inl (TierCapExceeded redemptionAmount (tc_redemption_cap_pct capConfig) maxAllowed tierName)
          else Inr ())"

section \<open>Properties\<close>

text \<open>
  A redemption that passes the tier cap is within the percentage of the newest row in force
  for the tenant, merchant and tier, and, as every percentage is at most a hundred, never above
  the value of the transaction.
\<close>

theorem validateTierCap_bounds:
  assumes "validateTierCap rows tenant merchant tier val amount = Inr ()"
    and "list_all valid_tier_cap_config rows" and "0 \<le> val"
  shows "amount \<le> val \<and>
    (\<exists>c\<in>set rows. tc_tenant_id c = tenant \<and> tc_merchant_id c = merchant \<and>
       tier_string (tc_tier_name c) = tier \<and> tc_superseded_at c = None \<and>
       amount \<le> tc_redemption_cap_pct c / 100 * val)"
proof -
  let ?filt = "\<lambda>c. tc_tenant_id c = tenant \<and> tc_merchant_id c = merchant \<and>
    tier_string (tc_tier_name c) = tier"
  obtain c where c: "newest_active tc_effective_at tc_superseded_at ?filt rows = Some c"
    and le: "amount \<le> tc_redemption_cap_pct c / 100 * val"
    using assms(1) by (auto simp: validateTierCap_def Let_def split: option.splits if_splits)
  note found = newest_active_Some [OF c]
  have "tc_redemption_cap_pct c / 100 \<le> 1"
    using assms(2) found by (auto simp: list_all_iff valid_tier_cap_config_def)
  then have "tc_redemption_cap_pct c / 100 * val \<le> 1 * val"
    using assms(3) by (rule mult_right_mono)
  then show ?thesis using le found by auto
qed

definition demo_caps :: "tier_cap_config list" where
  "demo_caps =
     [\<lparr>tc_config_id = ''c'', tc_tenant_id = ''acme'', tc_merchant_id = ''m'', tc_effective_at = 5,
       tc_superseded_at = None, tc_correlation_id = ''x'', tc_reason_code = ''r'',
       tc_created_by = ''ceo'', tc_tier_name = GOLD, tc_redemption_cap_pct = 40\<rparr>]"

theorem validateTierCap_bounds_witness:
  "validateTierCap demo_caps ''acme'' ''m'' ''GOLD'' 200 80 = Inr () \<and> (80 :: rat) \<le> 200"
proof -
  have "validateTierCap demo_caps ''acme'' ''m'' ''GOLD'' 200 80 = Inr ()"
    and "list_all valid_tier_cap_config demo_caps" by code_simp+
  then show ?thesis using validateTierCap_bounds [of demo_caps "''acme''" "''m''" "''GOLD''" 200 80] by auto
qed

subsection \<open>A redemption is a transfer between two balances\<close>

text \<open>The abstract state: what each user has available and in escrow.\<close>

type_synonym accounts = "string \<Rightarrow> rat \<times> rat"

definition accounts_of :: "store \<Rightarrow> accounts" where
  "accounts_of s u =
     (case wallet_of s u of None \<Rightarrow> (0, 0) | Some w \<Rightarrow> (w_availableBalance w, w_escrowBalance w))"

definition spec_redeem :: "point_redemption_service \<Rightarrow> redeem_points_request \<Rightarrow> accounts \<Rightarrow> accounts option" where
  "spec_redeem rs r m =
     (case rq_amount r of
        Finite a \<Rightarrow>
          if rd_minRedemptionAmount rs \<le> a \<and> a \<le> rd_maxRedemptionAmount rs \<and>
             rq_reason r \<in> {CHIP_MENU_PURCHASE, SPIN_WHEEL_PLAY, PERFORMANCE_REQUEST} \<and>
             rq_featureType r \<in> {''chip_menu'', ''spin_wheel'', ''performance''} \<and>
             a \<le> fst (m (rq_userId r))
          then Some (m(rq_userId r := (fst (m (rq_userId r)) - a, snd (m (rq_userId r)) + a)))
          else None
      | _ \<Rightarrow> None)"

definition redeem_ready ::
  "point_redemption_service \<Rightarrow> wallet_service \<Rightarrow> redeem_points_request \<Rightarrow> store \<Rightarrow> bool" where
  "redeem_ready rs ws r s \<longleftrightarrow>
     0 < rd_minRedemptionAmount rs \<and> rd_validateBalance rs \<and>
     hold_ready ws (redemption_hold r 0) s \<and> metadata_ok (hr_metadata (redemption_hold r 0))"

lemma hold_ready_redemption:
  "redeem_ready rs ws r s \<Longrightarrow> 0 \<le> a \<Longrightarrow>
     hold_ready ws (redemption_hold r a) s \<and> metadata_ok (hr_metadata (redemption_hold r a))"
  by (simp add: redeem_ready_def hold_ready_def redemption_hold_def)

lemma run_check_balance:
  "run (check_balance u a) s =
     (if fst (accounts_of s u) < a then (Inl (RedemptionBalanceTooLow a (fst (accounts_of s u))), s)
      else (Inr (), s))"
  by (simp add: check_balance_def getUserBalance_def run_simps accounts_of_def split: option.split)

lemma redemption_amount_ok:
  assumes "0 < rd_minRedemptionAmount rs"
  shows "redemption_validateAmount rs amount = Inr a \<longleftrightarrow>
    amount = Finite a \<and> rd_minRedemptionAmount rs \<le> a \<and> a \<le> rd_maxRedemptionAmount rs"
  using assms by (simp add: redemption_validateAmount_def check_amount_ok)

lemma spec_redeem_Some:
  assumes "0 < rd_minRedemptionAmount rs"
  shows "spec_redeem rs r m = Some m' \<longleftrightarrow>
    (\<exists>a. redemption_validateAmount rs (rq_amount r) = Inr a \<and>
       validateRedemptionReason (rq_reason r) = Inr () \<and> validateFeatureType (rq_featureType r) = Inr () \<and>
       a \<le> fst (m (rq_userId r)) \<and>
       m' = m(rq_userId r := (fst (m (rq_userId r)) - a, snd (m (rq_userId r)) + a)))"
  using assms
  by (cases "rq_amount r")
    (auto simp: spec_redeem_def redemption_amount_ok validateRedemptionReason_def
      redemptionReasons_def validateFeatureType_def validFeatures_def)

lemma run_redeemPoints:
  assumes "rd_validateBalance rs"
  shows "run (redeemPoints rs ws r) s =
    (case redemption_validateAmount rs (rq_amount r) of
       Inl e \<Rightarrow> (Inl e, s)
     | Inr a \<Rightarrow>
      (case validateRedemptionReason (rq_reason r) of
        Inl e \<Rightarrow> (Inl e, s)
      | Inr _ \<Rightarrow>
       (case validateFeatureType (rq_featureType r) of
         Inl e \<Rightarrow> (Inl e, s)
       | Inr _ \<Rightarrow>
          if fst (accounts_of s (rq_userId r)) < a
          then (Inl (RedemptionBalanceTooLow a (fst (accounts_of s (rq_userId r)))), s)
          else (case run (holdInEscrow ws (redemption_hold r a)) s of
            (Inl e, s') \<Rightarrow> (Inl e, s')
          | (Inr h, s') \<Rightarrow> (Inr \<lparr>rp_transactionId = hs_transactionId h, rp_escrowId = hs_escrowId h,
              rp_amountRedeemed = a, rp_newAvailableBalance = hs_newAvailableBalance h,
              rp_escrowBalance = hs_escrowBalance h, rp_queueItemId = rq_queueItemId r,
              rp_timestamp = hs_timestamp h\<rparr>, s')))))"
  using assms
  by (simp add: redeemPoints_def run_await run_lift_result run_check_balance run_pure
      split: sum.split prod.split)

text \<open>
  C13: Redeeming refines a transfer on the abstract accounts.  Where the specification refuses
  (the amount is out of range or not finite, the reason or the feature is not one for
  redemptions, or the balance is too low) the call fails and the store is unchanged; where it
  allows the transfer, the call succeeds, the accounts of the resulting store are those of the
  specification, and the response reports the user's two new balances.
\<close>

theorem redeemPoints_refines_transfer:
  assumes "redeem_ready rs ws r s"
  shows "case spec_redeem rs r (accounts_of s) of
      None \<Rightarrow> (\<exists>e. run (redeemPoints rs ws r) s = (Inl e, s))
    | Some m \<Rightarrow> (\<exists>resp s'. run (redeemPoints rs ws r) s = (Inr resp, s') \<and> accounts_of s' = m \<and>
        (rp_newAvailableBalance resp, rp_escrowBalance resp) = m (rq_userId r))"
proof (cases "spec_redeem rs r (accounts_of s)")
  case None
  have min: "0 < rd_minRedemptionAmount rs" and bal: "rd_validateBalance rs"
    using assms by (simp_all add: redeem_ready_def)
  have "\<not> (\<exists>a. redemption_validateAmount rs (rq_amount r) = Inr a \<and>
       validateRedemptionReason (rq_reason r) = Inr () \<and> validateFeatureType (rq_featureType r) = Inr () \<and>
       a \<le> fst (accounts_of s (rq_userId r)))"
    using None spec_redeem_Some [OF min, of r "accounts_of s"] by auto
  then show ?thesis
    unfolding None option.case run_redeemPoints [OF bal] by (auto split: sum.split)
next
  case (Some m)
  have min: "0 < rd_minRedemptionAmount rs" and bal: "rd_validateBalance rs"
    using assms by (simp_all add: redeem_ready_def)
  let ?u = "rq_userId r"
  obtain a where a: "redemption_validateAmount rs (rq_amount r) = Inr a"
      "validateRedemptionReason (rq_reason r) = Inr ()" "validateFeatureType (rq_featureType r) = Inr ()"
      "a \<le> fst (accounts_of s ?u)"
    and m: "m = (accounts_of s)(?u := (fst (accounts_of s ?u) - a, snd (accounts_of s ?u) + a))"
    using Some spec_redeem_Some [OF min] by auto
  have "0 < a" using a(1) min by (auto simp: redemption_amount_ok [OF min])
  then obtain w where w: "wallet_of s ?u = Some w" and acc: "accounts_of s ?u = (w_availableBalance w, w_escrowBalance w)"
    using a(4) by (auto simp: accounts_of_def split: option.splits)
  let ?h = "redemption_hold r a"
  have h: "hr_userId ?h = ?u" "hr_amount ?h = a" by (simp_all add: redemption_hold_def)
  have "hold_ready ws ?h s" "metadata_ok (hr_metadata ?h)"
    using hold_ready_redemption [OF assms] \<open>0 < a\<close> by (simp_all add: less_imp_le)
  from run_hold_success [OF this, of w] obtain ev where
    run: "run (holdInEscrow ws ?h) s =
      (Inr \<lparr>hs_transactionId = uuids s (uuid_count s + 1), hs_escrowId = uuids s (uuid_count s + 0),
          hs_previousBalance = w_availableBalance w, hs_newAvailableBalance = w_availableBalance w - a,
          hs_escrowBalance = w_escrowBalance w + a, hs_timestamp = clock s\<rparr>,
       after_publish ev (hold_recorded ws ?h w (uuids s (uuid_count s + 0))
         (moved_to_escrow ?h w (after_claim (hr_idempotencyKey ?h) ''hold_escrow'' s))))"
    using w a(4) acc by (auto simp: h)
  let ?s' = "after_publish ev (hold_recorded ws ?h w (uuids s (uuid_count s + 0))
         (moved_to_escrow ?h w (after_claim (hr_idempotencyKey ?h) ''hold_escrow'' s)))"
  have "accounts_of ?s' = m"
    by (auto simp: fun_eq_iff m accounts_of_def moved_to_escrow_def Let_def h w)
  then show ?thesis
    unfolding Some option.case run_redeemPoints [OF bal]
    using a run acc by (simp add: m)
qed

definition demo_redeem :: redeem_points_request where
  "demo_redeem =
     \<lparr>rq_userId = ''alice'', rq_amount = Finite 60, rq_featureType = ''spin_wheel'', rq_modelId = None,
      rq_queueItemId = ''q9'', rq_reason = SPIN_WHEEL_PLAY, rq_requestId = ''req'', rq_metadata = None\<rparr>"

lemma demo_redeem_ready: "redeem_ready default_point_redemption default_wallet_service demo_redeem demo_wallets"
  by code_simp

theorem redeemPoints_refines_transfer_witness:
  "\<exists>resp s'. run (redeemPoints default_point_redemption default_wallet_service demo_redeem) demo_wallets
      = (Inr resp, s') \<and> accounts_of s' ''alice'' = (40, 60)"
proof -
  have "map_option (\<lambda>m. m ''alice'') (spec_redeem default_point_redemption demo_redeem (accounts_of demo_wallets))
      = Some (40, 60)"
    by code_simp
  then show ?thesis
    using redeemPoints_refines_transfer [OF demo_redeem_ready] by (auto split: option.splits)
qed

lemma hold_success_claims:
  assumes "hold_ready ws h s" and "metadata_ok (hr_metadata h)"
    and "wallet_of s (hr_userId h) = Some w" and "hr_amount h \<le> w_availableBalance w"
  shows "\<exists>i. map_of (idempotency_records (snd (run (holdInEscrow ws h) s)))
    (hr_idempotencyKey h, ''hold_escrow'') = Some i"
proof -
  from run_hold_success [OF assms] obtain resp ev where "run (holdInEscrow ws h) s =
     (Inr resp, after_publish ev (hold_recorded ws h w (uuids s (uuid_count s + 0))
       (moved_to_escrow h w (after_claim (hr_idempotencyKey h) ''hold_escrow'' s))))" by blast
  then show ?thesis
    by (simp add: hold_recorded_def Let_def after_claim_claimed)
qed



end
