(* ===== verification/Retry_Loop.thy ===== *)
theory Retry_Loop
  imports RRR_Prelude
begin

text \<open>
  Loops that start over whenever a concurrent update gets in the way, without a bound on the
  number of attempts.  They are modelled with fuel, and this theory shows once that running out
  of it takes as many interferences as there is fuel: against any finite number of concurrent
  updates the loop returns, and more fuel does not change what it returns.
\<close>

section \<open>How execution uses up its environment\<close>

lemma run_env_shortens: "length (fst (snd (run_env p es s))) \<le> length es"
proof (induction p arbitrary: es s)
  case (Ret a)
  then show ?case by simp
next
  case (Act f)
  have "length (tl es) \<le> length es" by simp
  then show ?case by (simp add: prod.case_eq_if) (rule order_trans [OF Act], simp)
qed

lemma run_env_consumes:
  assumes "run_env p es s = (a, es', s')" and "p \<noteq> Ret a" and "es \<noteq> []"
  shows "length es' < length es"
proof (cases p)
  case (Ret b)
  then show ?thesis using assms by simp
next
  case (Act f)
  then have "length es' \<le> length (tl es)"
    using assms(1) run_env_shortens [of "snd (f _)" "tl es"]
    by (auto simp: prod.case_eq_if) (metis fst_conv snd_conv)
  then show ?thesis using assms(3) by (cases es) auto
qed

lemma run_env_await:
  "run_env (await m k) es s =
     (case run_env m es s of (r, es', s') \<Rightarrow>
        (case r of Inl e \<Rightarrow> (Inl e, es', s') | Inr a \<Rightarrow> run_env (k a) es' s'))"
  by (auto simp: await_def run_env_pbind split: prod.splits sum.splits)

section \<open>Errors a program cannot end with\<close>

definition never :: "'e \<Rightarrow> ('s, 'e, 'a) io \<Rightarrow> bool" where
  "never e p \<longleftrightarrow> (\<forall>es s. fst (run_env p es s) \<noteq> Inl e)"

named_theorems never_intros "programs that do not end with a given error"

lemma never_pure [never_intros]: "never e (pure a)"
  by (simp add: never_def pure_def)

lemma never_throw [never_intros]: "e' \<noteq> e \<Longrightarrow> never e (throw e')"
  by (simp add: never_def throw_def)

lemma never_await [never_intros]: "never e m \<Longrightarrow> (\<And>a. never e (k a)) \<Longrightarrow> never e (await m k)"
  by (auto simp: never_def run_env_await split: prod.split sum.split) (metis fst_conv)+

lemma never_lift_result [never_intros]: "r \<noteq> Inl e \<Longrightarrow> never e (lift_result r)"
  by (simp add: never_def lift_result_def)

lemma never_atomically: "(\<And>s. snd (f s) \<noteq> Inl e) \<Longrightarrow> never e (atomically f)"
  by (simp add: never_def atomically_def prod.case_eq_if)

lemma never_query [never_intros]: "never e (query f)"
  unfolding query_def by (rule never_atomically) simp

lemma never_try_catch [never_intros]:
  assumes "never e m" and "\<And>e'. e' \<noteq> e \<Longrightarrow> never e (h e')"
  shows "never e (try_catch m h)"
  using assms
  by (auto simp: never_def try_catch_def run_env_pbind split: prod.split sum.split) (metis fst_conv)

lemma never_if [never_intros]:
  "(b \<Longrightarrow> never e p) \<Longrightarrow> (\<not> b \<Longrightarrow> never e q) \<Longrightarrow> never e (if b then p else q)"
  by simp

lemma never_option [never_intros]:
  "(x = None \<Longrightarrow> never e p) \<Longrightarrow> (\<And>a. x = Some a \<Longrightarrow> never e (q a)) \<Longrightarrow>
     never e (case x of None \<Rightarrow> p | Some a \<Rightarrow> q a)"
  by (simp split: option.split)

lemma never_list [never_intros]:
  "(x = [] \<Longrightarrow> never e p) \<Longrightarrow> (\<And>a as. x = a # as \<Longrightarrow> never e (q a as)) \<Longrightarrow>
     never e (case x of [] \<Rightarrow> p | a # as \<Rightarrow> q a as)"
  by (simp split: list.split)

lemma never_Let [never_intros]: "never e (f x) \<Longrightarrow> never e (Let x f)"
  by simp

section \<open>The loop\<close>

text \<open>
  An attempt that returns \<open>None\<close> has met a conflict, for which some interference was necessary;
  then the loop starts over.
\<close>

locale retry_loop =
  fixes attempt :: "('s, 'e, 'a option) io"
    and finish :: "'a \<Rightarrow> ('s, 'e, 'b) io"
    and loop :: "nat \<Rightarrow> ('s, 'e, 'b) io"
    and out :: 'e
  assumes loop_0: "loop 0 = throw out"
    and loop_Suc: "loop (Suc n) = await attempt (\<lambda>r. case r of None \<Rightarrow> loop n | Some a \<Rightarrow> finish a)"
    and no_conflict_alone: "fst (run attempt s) \<noteq> Inr None"
    and attempt_not_out: "never out attempt"
    and finish_not_out: "never out (finish a)"
begin

lemma conflict_consumes:
  assumes "run_env attempt es s = (Inr None, es', s')"
  shows "length es' < length es"
proof (rule run_env_consumes [OF assms])
  show "attempt \<noteq> Ret (Inr None)" using no_conflict_alone by auto
  show "es \<noteq> []" using assms no_conflict_alone [of s] by (auto simp: run_env_idle)
qed

lemma enough_fuel: "length es < n \<Longrightarrow> fst (run_env (loop n) es s) \<noteq> Inl out"
proof (induction n arbitrary: es s)
  case (Suc n)
  obtain r es' s' where r: "run_env attempt es s = (r, es', s')" by (metis prod_cases3)
  have "r \<noteq> Inl out" using attempt_not_out r by (metis fst_conv never_def)
  moreover have "length es' < n" if "r = Inr None"
    using conflict_consumes [of es s es' s'] r that Suc.prems by simp
  ultimately show ?case
    using r Suc.IH finish_not_out
    by (auto simp: loop_Suc run_env_await never_def split: sum.split option.split)
qed simp

lemma fuel_irrelevant:
  "length es < n \<Longrightarrow> length es < m \<Longrightarrow> run_env (loop n) es s = run_env (loop m) es s"
proof (induction n arbitrary: m es s)
  case (Suc n)
  then obtain m' where m: "m = Suc m'" by (cases m) auto
  obtain r es' s' where r: "run_env attempt es s = (r, es', s')" by (metis prod_cases3)
  have "length es' < n \<and> length es' < m'" if "r = Inr None"
    using conflict_consumes [of es s es' s'] r that Suc.prems m by auto
  then show ?case
    using r Suc.IH by (auto simp: m loop_Suc run_env_await split: sum.split option.split)
qed simp

end

end
