(* ===== verification/Admin_Ops.thy ===== *)
theory Admin_Ops
  imports Point_Accrual Retry_Loop
begin

text \<open>
  The admin operations service (\<open>src/services/admin-ops.service.ts\<close>): manual adjustments, and
  the refund and the balance correction that are built on them.  Amounts are finite numbers.

  After a conflict \<open>manualAdjustment\<close> calls itself without a bound; the recursion takes fuel, and
  the interpretation of \<open>retry_loop\<close> shows that as much fuel as there are concurrent steps is
  enough.
\<close>

section \<open>Requests, responses, configuration\<close>

record admin_context =
  ad_adminId :: string
  ad_adminUsername :: string
  ad_roles :: "string list"
  ad_ipAddress :: "string option"
  ad_userAgent :: "string option"

record manual_adjustment_request =
  ma_userId :: string
  ma_amount :: rat
  ma_reason :: string
  ma_admin :: admin_context
  ma_requestId :: string
  ma_metadata :: "metadata option"

record manual_adjustment_response =
  mr_transactionId :: string
  mr_amountAdjusted :: rat
  mr_previousBalance :: rat
  mr_newBalance :: rat
  mr_timestamp :: int

record admin_refund_request =
  fr_userId :: string
  fr_amount :: rat
  fr_reason :: string
  fr_referenceTransactionId :: "string option"
  fr_admin :: admin_context
  fr_requestId :: string

record admin_refund_response =
  fs_transactionId :: string
  fs_amountRefunded :: rat
  fs_newBalance :: rat
  fs_timestamp :: int

record balance_correction_request =
  bc_userId :: string
  bc_expectedBalance :: rat
  bc_actualBalance :: rat
  bc_reason :: string
  bc_admin :: admin_context
  bc_requestId :: string

record balance_correction_response =
  br_transactionId :: string
  br_correctionAmount :: rat
  br_newBalance :: rat
  br_timestamp :: int

text \<open>The last field is the currency of the ledger service the service is constructed with.\<close>

record admin_ops_service =
  ao_defaultCurrency :: string
  ao_maxAdjustmentAmount :: rat
  ao_requireReason :: bool
  ao_enhancedAuditLogging :: bool
  ao_ledgerCurrency :: string

definition default_admin_ops :: admin_ops_service where
  "default_admin_ops =
     \<lparr>ao_defaultCurrency = ''points'', ao_maxAdjustmentAmount = 1000000, ao_requireReason = True,
      ao_enhancedAuditLogging = True, ao_ledgerCurrency = ''points''\<rparr>"

section \<open>Operations\<close>

definition validateAdminAuth :: "admin_context \<Rightarrow> error + unit" where
  "validateAdminAuth admin =
     (if ad_adminId admin = [] \<or> ad_roles admin = [] then Inl (Plain ''Invalid admin context'')
      else if \<not> (''admin'' \<in> set (ad_roles admin) \<or> ''super_admin'' \<in> set (ad_roles admin) \<or>
                 ''finance_admin'' \<in> set (ad_roles admin))
        then Inl (Plain ''Insufficient permissions for admin operation'')
      else Inr ())"

text \<open>The value of a key of an object, and whether a value counts as true.\<close>

definition property :: "metadata option \<Rightarrow> string \<Rightarrow> json" where
  "property md k = (case map_of (spread md) k of None \<Rightarrow> JUndefined | Some v \<Rightarrow> v)"

definition json_truthy :: "json \<Rightarrow> bool" where
  "json_truthy v =
     (case v of
        JUndefined \<Rightarrow> False | JNull \<Rightarrow> False | JBool b \<Rightarrow> b | JNum n \<Rightarrow> n \<noteq> 0 | JStr s \<Rightarrow> s \<noteq> []
      | JArr _ \<Rightarrow> True | JObj _ \<Rightarrow> True)"

definition allowNegative :: "manual_adjustment_request \<Rightarrow> bool" where
  "allowNegative request = json_truthy (property (ma_metadata request) ''allowNegative'')"

definition check_adjustment :: "admin_ops_service \<Rightarrow> manual_adjustment_request \<Rightarrow> error + unit" where
  "check_adjustment ao request =
     (case validateAdminAuth (ma_admin request) of
        Inl e \<Rightarrow> Inl e
      | Inr _ \<Rightarrow>
          if ao_requireReason ao \<and> ma_reason request = []
            then Inl (Plain ''Reason is required for manual adjustments'')
          else if ao_maxAdjustmentAmount ao < \<bar>ma_amount request\<bar>
            then Inl (AdjustmentTooLarge (ao_maxAdjustmentAmount ao))
          else if ma_amount request = 0 then Inl (Plain ''Adjustment amount cannot be zero'')
          else Inr ())"

text \<open>Up to the write: the balance it started from, or \<open>None\<close> when the version had moved on.\<close>

definition adjust_wallet :: "admin_ops_service \<Rightarrow> manual_adjustment_request \<Rightarrow> rat option svc" where
  "adjust_wallet ao request =
     await (lift_result (check_adjustment ao request)) (\<lambda>_.
     await (wallet_findOne (ma_userId request)) (\<lambda>found.
     case found of
       None \<Rightarrow> throw (WalletMissing (ma_userId request))
     | Some wallet \<Rightarrow>
         if w_availableBalance wallet + ma_amount request < 0 \<and> \<not> allowNegative request then
           throw (Plain ''Adjustment would result in negative balance'')
         else
           await (wallet_findOneAndUpdate (ma_userId request)
               (\<lambda>w. w_version w = w_version wallet)
               (\<lambda>w. w\<lparr>w_availableBalance := w_availableBalance w + ma_amount request,
                      w_version := w_version w + 1\<rparr>)) (\<lambda>updated.
           pure (if updated = None then None else Some (w_availableBalance wallet)))))"

definition adjustment_metadata :: "manual_adjustment_request \<Rightarrow> metadata" where
  "adjustment_metadata request =
     AList.update ''operationType'' (JStr ''manual_adjustment'')
     (AList.update ''adminIpAddress''
        (case ad_ipAddress (ma_admin request) of None \<Rightarrow> JUndefined | Some ip \<Rightarrow> JStr ip)
     (AList.update ''adminReason'' (JStr (ma_reason request))
     (AList.update ''adminUsername'' (JStr (ad_adminUsername (ma_admin request)))
     (AList.update ''adminId'' (JStr (ad_adminId (ma_admin request)))
        (spread (ma_metadata request))))))"

definition adjustment_key :: "manual_adjustment_request \<Rightarrow> string" where
  "adjustment_key request =
     ''admin-adjustment-'' @ ad_adminId (ma_admin request) @ ''-'' @ ma_userId request @ ''-'' @
       ma_requestId request"

definition adjustment_entry ::
  "admin_ops_service \<Rightarrow> manual_adjustment_request \<Rightarrow> rat \<Rightarrow> string \<Rightarrow> create_ledger_entry_request" where
  "adjustment_entry ao request previousBalance transactionId =
     \<lparr>cr_transactionId = Some transactionId, cr_accountId = ma_userId request,
      cr_accountType = User, cr_amount = ma_amount request,
      cr_type = (if 0 < ma_amount request then CREDIT else DEBIT), cr_balanceState = Available,
      cr_stateTransition = (if 0 < ma_amount request then ''none->available'' else ''available->none''),
      cr_reason = Some (if 0 < ma_amount request then ADMIN_CREDIT else ADMIN_DEBIT),
      cr_idempotencyKey = adjustment_key request, cr_requestId = ma_requestId request,
      cr_balanceBefore = previousBalance, cr_balanceAfter = previousBalance + ma_amount request,
      cr_currency = Some (ao_defaultCurrency ao),
      cr_metadata = Some (adjustment_metadata request),
      cr_escrowId = None, cr_queueItemId = None, cr_featureType = None, cr_correlationId = None\<rparr>"

definition record_adjustment ::
  "admin_ops_service \<Rightarrow> manual_adjustment_request \<Rightarrow> rat \<Rightarrow> manual_adjustment_response svc" where
  "record_adjustment ao request previousBalance =
     await uuidv4 (\<lambda>transactionId.
     await new_date (\<lambda>timestamp.
     await (createEntry (ao_ledgerCurrency ao)
       (adjustment_entry ao request previousBalance transactionId)) (\<lambda>_.
     pure \<lparr>mr_transactionId = transactionId, mr_amountAdjusted = ma_amount request,
           mr_previousBalance = previousBalance,
           mr_newBalance = previousBalance + ma_amount request, mr_timestamp = timestamp\<rparr>)))"

primrec manualAdjustment ::
  "admin_ops_service \<Rightarrow> manual_adjustment_request \<Rightarrow> nat \<Rightarrow> manual_adjustment_response svc" where
  "manualAdjustment ao request 0 = throw RetriesOutOfFuel"
| "manualAdjustment ao request (Suc fuel) =
     await (adjust_wallet ao request) (\<lambda>outcome.
     case outcome of
       None \<Rightarrow> manualAdjustment ao request fuel
     | Some previousBalance \<Rightarrow> record_adjustment ao request previousBalance)"

definition refund_adjustment :: "admin_refund_request \<Rightarrow> manual_adjustment_request" where
  "refund_adjustment request =
     \<lparr>ma_userId = fr_userId request, ma_amount = fr_amount request, ma_reason = fr_reason request,
      ma_admin = fr_admin request, ma_requestId = fr_requestId request,
      ma_metadata = Some [(''operationType'', JStr ''admin_refund''),
        (''referenceTransactionId'', (case fr_referenceTransactionId request of
           None \<Rightarrow> JUndefined | Some t \<Rightarrow> JStr t))]\<rparr>"

definition processRefund ::
  "admin_ops_service \<Rightarrow> admin_refund_request \<Rightarrow> nat \<Rightarrow> admin_refund_response svc" where
  "processRefund ao request fuel =
     await (lift_result (validateAdminAuth (fr_admin request))) (\<lambda>_.
     if fr_amount request \<le> 0 then throw (Plain ''Refund amount must be positive'')
     else if ao_maxAdjustmentAmount ao < fr_amount request then
       throw (RefundTooLarge (ao_maxAdjustmentAmount ao))
     else
       await (manualAdjustment ao (refund_adjustment request) fuel) (\<lambda>result.
       pure \<lparr>fs_transactionId = mr_transactionId result, fs_amountRefunded = fr_amount request,
             fs_newBalance = mr_newBalance result, fs_timestamp = mr_timestamp result\<rparr>))"

definition correction_adjustment :: "balance_correction_request \<Rightarrow> manual_adjustment_request" where
  "correction_adjustment request =
     \<lparr>ma_userId = bc_userId request,
      ma_amount = bc_expectedBalance request - bc_actualBalance request,
      ma_reason = bc_reason request, ma_admin = bc_admin request,
      ma_requestId = bc_requestId request,
      ma_metadata = Some [(''operationType'', JStr ''balance_correction''),
        (''expectedBalance'', JNum (bc_expectedBalance request)),
        (''actualBalance'', JNum (bc_actualBalance request)),
        (''allowNegative'', JBool True)]\<rparr>"

definition correctBalance ::
  "admin_ops_service \<Rightarrow> balance_correction_request \<Rightarrow> nat \<Rightarrow> balance_correction_response svc" where
  "correctBalance ao request fuel =
     await (lift_result (validateAdminAuth (bc_admin request))) (\<lambda>_.
     if bc_expectedBalance request - bc_actualBalance request = 0 then
       throw (Plain ''No correction needed - balances match'')
     else
       await (manualAdjustment ao (correction_adjustment request) fuel) (\<lambda>result.
       pure \<lparr>br_transactionId = mr_transactionId result,
             br_correctionAmount = bc_expectedBalance request - bc_actualBalance request,
             br_newBalance = mr_newBalance result, br_timestamp = mr_timestamp result\<rparr>))"

definition no_filter :: ledger_query_filter where
  "no_filter =
     \<lparr>f_accountId = None, f_accountType = None, f_type = None, f_reason = None,
      f_balanceState = None, f_escrowId = None, f_queueItemId = None, f_featureType = None,
      f_startDate = None, f_endDate = None, f_offset = None, f_limit = None, f_sortBy = None,
      f_sortOrder = None, f_tenantId = None\<rparr>"

definition getAdminOperationHistory :: "string \<Rightarrow> ledger_entry list svc" where
  "getAdminOperationHistory userId =
     await (queryEntries (no_filter\<lparr>f_accountId := Some userId, f_accountType := Some User\<rparr>)) (\<lambda>result.
     pure (filter (\<lambda>entry. l_reason entry = ADMIN_CREDIT \<or> l_reason entry = ADMIN_DEBIT \<or>
             l_reason entry = ADMIN_REFUND) (q_entries result)))"

section \<open>The retry loop returns\<close>

lemma never_calls [never_intros]:
  "never RetriesOutOfFuel uuidv4"
  "never RetriesOutOfFuel new_date"
  "never RetriesOutOfFuel (wallet_findOne u)"
  "never RetriesOutOfFuel (wallet_findOneAndUpdate u filt change)"
  "never RetriesOutOfFuel (ledger_create l)"
  "never RetriesOutOfFuel (ledger_find lf)"
  unfolding store_calls query_def by (rule never_atomically, simp split: option.split)+

lemma screen_metadata_not_fuel: "screen_metadata md \<noteq> Some RetriesOutOfFuel"
  by (induction md rule: screen_metadata.induct) (auto split: json.split)

lemma never_createEntry [never_intros]: "never RetriesOutOfFuel (createEntry c r)"
  unfolding createEntry_def insert_entry_def
  by (intro never_intros; auto simp: screen_metadata_not_fuel split: option.splits)

lemma check_adjustment_not_fuel: "check_adjustment ao r \<noteq> Inl RetriesOutOfFuel"
  by (auto simp: check_adjustment_def validateAdminAuth_def)

interpretation adjusting: retry_loop "adjust_wallet ao r" "record_adjustment ao r"
    "manualAdjustment ao r" RetriesOutOfFuel for ao r
proof unfold_locales
  show "fst (run (adjust_wallet ao r) s) \<noteq> Inr None" for s
    by (auto simp: adjust_wallet_def run_simps split: sum.split option.split)
  show "never RetriesOutOfFuel (adjust_wallet ao r)"
    unfolding adjust_wallet_def by (intro never_intros check_adjustment_not_fuel) simp_all
  show "never RetriesOutOfFuel (record_adjustment ao r b)" for b
    unfolding record_adjustment_def by (intro never_intros)
qed simp_all

text \<open>
  C16: An adjustment returns against any finite number of concurrent steps: with more fuel than
  there are such steps it never runs out, and any further fuel leaves the result as it is.  The
  comment in the code promises a single retry; the recursion has no bound of its own.
\<close>

theorem manualAdjustment_returns:
  "fst (run_env (manualAdjustment ao r (Suc (length es))) es s) \<noteq> Inl RetriesOutOfFuel \<and>
   run_env (manualAdjustment ao r (Suc (length es) + k)) es s =
     run_env (manualAdjustment ao r (Suc (length es))) es s"
  using adjusting.enough_fuel [of es "Suc (length es)" ao r s]
    adjusting.fuel_irrelevant [of es "Suc (length es) + k" "Suc (length es)" ao r s] by simp

section \<open>What an adjustment does\<close>

definition adjusted :: "wallet \<Rightarrow> manual_adjustment_request \<Rightarrow> store \<Rightarrow> store" where
  "adjusted w r s =
     s\<lparr>wallets := AList.update (ma_userId r)
          (w\<lparr>w_availableBalance := w_availableBalance w + ma_amount r,
             w_version := w_version w + 1\<rparr>) (wallets s)\<rparr>"

lemma adjusted_simps [simp]:
  "ledger_entries (adjusted w r s) = ledger_entries s"
  "uuids (adjusted w r s) = uuids s"
  "uuid_count (adjusted w r s) = uuid_count s"
  "clock (adjusted w r s) = clock s"
  "escrow_items (adjusted w r s) = escrow_items s"
  "model_wallets (adjusted w r s) = model_wallets s"
  "available_of (adjusted w r s) (ma_userId r) = w_availableBalance w + ma_amount r"
  by (simp_all add: adjusted_def available_of_def)

definition adjustable :: "admin_ops_service \<Rightarrow> manual_adjustment_request \<Rightarrow> wallet \<Rightarrow> bool" where
  "adjustable ao r w \<longleftrightarrow>
     check_adjustment ao r = Inr () \<and> (0 \<le> w_availableBalance w + ma_amount r \<or> allowNegative r)"

lemma run_manualAdjustment:
  "run (manualAdjustment ao r (Suc n)) s =
     (case check_adjustment ao r of
        Inl e \<Rightarrow> (Inl e, s)
      | Inr _ \<Rightarrow>
          (case wallet_of s (ma_userId r) of
             None \<Rightarrow> (Inl (WalletMissing (ma_userId r)), s)
           | Some w \<Rightarrow>
               if adjustable ao r w
               then run (record_adjustment ao r (w_availableBalance w)) (adjusted w r s)
               else (Inl (Plain ''Adjustment would result in negative balance''), s)))"
  by (auto simp: adjust_wallet_def run_simps adjustable_def adjusted_def split: sum.split option.split)

declare manualAdjustment.simps(2) [simp del]

lemma record_adjustment_frame:
  "snd (run (record_adjustment ao r b) s) =
     s\<lparr>uuid_count := uuid_count (snd (run (record_adjustment ao r b) s)),
       ledger_entries := ledger_entries (snd (run (record_adjustment ao r b) s))\<rparr>"
  by (simp add: record_adjustment_def run_simps run_createEntry run_insert_entry after_ids_def
      split: prod.split sum.split option.split)

lemma check_adjustment_ok:
  "check_adjustment ao r = Inr () \<longleftrightarrow>
     ad_adminId (ma_admin r) \<noteq> [] \<and>
     (\<exists>role\<in>{''admin'', ''super_admin'', ''finance_admin''}. role \<in> set (ad_roles (ma_admin r))) \<and>
     (ao_requireReason ao \<longrightarrow> ma_reason r \<noteq> []) \<and>
     \<bar>ma_amount r\<bar> \<le> ao_maxAdjustmentAmount ao \<and> ma_amount r \<noteq> 0"
  by (auto simp: check_adjustment_def validateAdminAuth_def split: sum.splits if_splits)

text \<open>
  C15: A manual adjustment changes a wallet only for an identified administrator with one of the
  three roles, with a reason where one is required, by an amount that is not zero and within
  the maximum, and not below zero unless the request allows it; then exactly the available
  balance and the version of that one wallet change.  Escrow items and model wallets never do.
\<close>

theorem manualAdjustment_authorised:
  "case run (manualAdjustment ao r n) s of (_, s') \<Rightarrow>
    escrow_items s' = escrow_items s \<and> model_wallets s' = model_wallets s \<and>
    (wallets s' = wallets s \<or>
     (\<exists>w. wallet_of s (ma_userId r) = Some w \<and>
        wallets s' = AList.update (ma_userId r)
          (w\<lparr>w_availableBalance := w_availableBalance w + ma_amount r, w_version := w_version w + 1\<rparr>)
          (wallets s) \<and>
        ad_adminId (ma_admin r) \<noteq> [] \<and>
        (\<exists>role\<in>{''admin'', ''super_admin'', ''finance_admin''}. role \<in> set (ad_roles (ma_admin r))) \<and>
        (if ao_requireReason ao then ma_reason r \<noteq> [] else True) \<and>
        ma_amount r \<noteq> 0 \<and> \<bar>ma_amount r\<bar> \<le> ao_maxAdjustmentAmount ao \<and>
        (0 \<le> w_availableBalance w + ma_amount r \<or> allowNegative r)))"
proof (cases n)
  case 0
  then show ?thesis by (simp add: run_simps)
next
  case (Suc m)
  define s' where "s' = snd (run (manualAdjustment ao r n) s)"
  have run: "run (manualAdjustment ao r n) s = (fst (run (manualAdjustment ao r n) s), s')"
    by (simp add: s'_def)
  show ?thesis
  proof (cases "\<exists>w. wallet_of s (ma_userId r) = Some w \<and> adjustable ao r w")
    case True
    then obtain w where w: "wallet_of s (ma_userId r) = Some w" and a: "adjustable ao r w" by auto
    then have s': "s' = snd (run (record_adjustment ao r (w_availableBalance w)) (adjusted w r s))"
      by (simp add: s'_def Suc run_manualAdjustment adjustable_def)
    have frame: "wallets s' = wallets (adjusted w r s)" "escrow_items s' = escrow_items s"
      "model_wallets s' = model_wallets s"
      by (subst s', subst record_adjustment_frame, simp)+
    from a have "check_adjustment ao r = Inr ()"
      and neg: "0 \<le> w_availableBalance w + ma_amount r \<or> allowNegative r"
      by (simp_all add: adjustable_def)
    then show ?thesis
      using w frame
      by (subst run) (simp add: check_adjustment_ok adjusted_def del: bex_simps)
  next
    case False
    then have "s' = s"
      by (auto simp: s'_def Suc run_manualAdjustment adjustable_def 
          split: sum.split option.split)
    then show ?thesis by (subst run) simp
  qed
qed

text \<open>A request that fits the ledger; the caller's metadata has passed the screen.\<close>

definition adjustment_ready ::
  "admin_ops_service \<Rightarrow> manual_adjustment_request \<Rightarrow> wallet \<Rightarrow> store \<Rightarrow> bool" where
  "adjustment_ready ao r w s \<longleftrightarrow>
     adjustable ao r w \<and> wallet_of s (ma_userId r) = Some w \<and>
     required_string 16 (ao_defaultCurrency ao) \<and> required_string 128 (ma_userId r) \<and>
     required_string 256 (adjustment_key r) \<and> required_string 128 (ma_requestId r) \<and>
     screen_metadata (adjustment_metadata r) = None \<and> fresh_ids 3 s"

lemma adjustment_entry_valid:
  assumes "adjustment_ready ao r w s"
  shows "request_valid (adjustment_entry ao r b t)"
  using assms
  by (simp add: request_valid_def request_ok_def adjustment_entry_def adjustment_ready_def
      required_string_def optional_string_def)

lemma adjustment_outcome:
  assumes "adjustment_ready ao r w s"
  shows "\<exists>resp s' d. run (manualAdjustment ao r (Suc n)) s = (Inr resp, s') \<and>
    mr_previousBalance resp = w_availableBalance w \<and>
    mr_newBalance resp = w_availableBalance w + ma_amount r \<and>
    available_of s' (ma_userId r) = w_availableBalance w + ma_amount r \<and>
    ledger_entries s' = ledger_entries s @ (if key_used (adjustment_key r) s then [] else [d]) \<and>
    l_metadata d = Some (adjustment_metadata r) \<and>
    l_reason d = (if 0 < ma_amount r then ADMIN_CREDIT else ADMIN_DEBIT) \<and>
    (l_accountId d, l_amount d, l_balanceBefore d, l_balanceAfter d) =
      (ma_userId r, ma_amount r, w_availableBalance w, w_availableBalance w + ma_amount r)"
proof -
  let ?t = "uuids s (uuid_count s)" and ?b = "w_availableBalance w"
  let ?E = "adjustment_entry ao r ?b ?t" and ?c = "ao_ledgerCurrency ao"
  let ?s1 = "(adjusted w r s)\<lparr>uuid_count := Suc (uuid_count s)\<rparr>"
  have "fresh_ids 3 s" using assms by (simp add: adjustment_ready_def)
  then obtain d where entry: "run (createEntry ?c ?E) ?s1 = (Inr d, ?s1\<lparr>uuid_count := uuid_count s + 2,
       ledger_entries := ledger_entries s @
         (if key_used (cr_idempotencyKey ?E) s then [] else [new_entry ?c ?E ?t ?s1])\<rparr>)"
    using run_createEntry_either [OF adjustment_entry_valid [OF assms], of ?b ?t s ?s1 ?c]
    by (auto simp: adjustment_entry_def)
  have "run (manualAdjustment ao r (Suc n)) s =
      (Inr \<lparr>mr_transactionId = ?t, mr_amountAdjusted = ma_amount r, mr_previousBalance = ?b,
            mr_newBalance = ?b + ma_amount r, mr_timestamp = clock s\<rparr>,
       ?s1\<lparr>uuid_count := uuid_count s + 2, ledger_entries := ledger_entries s @
         (if key_used (cr_idempotencyKey ?E) s then [] else [new_entry ?c ?E ?t ?s1])\<rparr>)"
    using entry assms
    by (simp add: run_manualAdjustment adjustment_ready_def adjustable_def record_adjustment_def
        run_await run_uuidv4 run_new_date run_pure)
  then show ?thesis
    by (intro exI [of _ "new_entry ?c ?E ?t ?s1"] exI conjI)
      (assumption | simp add: adjustment_entry_def new_entry_def entry_doc_def)+
qed

text \<open>
  A balance correction whose stated actual balance is the one in the wallet leaves exactly the
  expected balance available, also when that is negative, and appends one entry for the difference.
\<close>

theorem correctBalance_restores:
  assumes "adjustment_ready ao (correction_adjustment r) w s"
    and "bc_actualBalance r = w_availableBalance w"
    and "\<not> key_used (adjustment_key (correction_adjustment r)) s"
  shows "\<exists>resp s' d. run (correctBalance ao r (Suc n)) s = (Inr resp, s') \<and>
    available_of s' (bc_userId r) = bc_expectedBalance r \<and> br_newBalance resp = bc_expectedBalance r \<and>
    ledger_entries s' = ledger_entries s @ [d] \<and> l_balanceAfter d = bc_expectedBalance r \<and>
    l_amount d = bc_expectedBalance r - bc_actualBalance r"
proof -
  let ?a = "correction_adjustment r"
  have auth: "check_adjustment ao ?a = Inr ()"
    using assms(1) by (simp add: adjustment_ready_def adjustable_def)
  then have "validateAdminAuth (bc_admin r) = Inr ()"
    by (auto simp: check_adjustment_def correction_adjustment_def split: sum.splits)
  moreover have "bc_expectedBalance r - bc_actualBalance r \<noteq> 0"
    using auth by (simp add: check_adjustment_ok correction_adjustment_def)
  moreover obtain resp s' d where "run (manualAdjustment ao ?a (Suc n)) s = (Inr resp, s')"
    and "mr_newBalance resp = w_availableBalance w + ma_amount ?a"
    and "available_of s' (ma_userId ?a) = w_availableBalance w + ma_amount ?a"
    and "ledger_entries s' = ledger_entries s @ [d]"
    and "l_balanceAfter d = w_availableBalance w + ma_amount ?a" and "l_amount d = ma_amount ?a"
    using adjustment_outcome [OF assms(1), of n] assms(3) by auto
  ultimately show ?thesis
    using assms(2)
    by (simp add: correctBalance_def run_await run_lift_result run_pure)
      (simp add: correction_adjustment_def)
qed

text \<open>
  An admin refund credits the wallet, but the entry it leaves does not say so: the operation
  type \<open>admin_refund\<close> that \<open>processRefund\<close> puts into the metadata is overwritten, and the reason
  is that of an admin credit.
\<close>

theorem processRefund_recorded_as_adjustment:
  assumes "adjustment_ready ao (refund_adjustment r) w s"
    and "0 < fr_amount r" and "\<not> key_used (adjustment_key (refund_adjustment r)) s"
  shows "\<exists>resp s' d. run (processRefund ao r (Suc n)) s = (Inr resp, s') \<and>
    available_of s' (fr_userId r) = w_availableBalance w + fr_amount r \<and>
    ledger_entries s' = ledger_entries s @ [d] \<and> l_reason d = ADMIN_CREDIT \<and>
    l_amount d = fr_amount r \<and>
    property (l_metadata d) ''operationType'' = JStr ''manual_adjustment''"
proof -
  let ?a = "refund_adjustment r"
  have auth: "check_adjustment ao ?a = Inr ()"
    using assms(1) by (simp add: adjustment_ready_def adjustable_def)
  then have "validateAdminAuth (fr_admin r) = Inr ()" and "fr_amount r \<le> ao_maxAdjustmentAmount ao"
    using assms(2) by (auto simp: check_adjustment_def refund_adjustment_def split: sum.splits if_splits)
  moreover obtain resp s' d where "run (manualAdjustment ao ?a (Suc n)) s = (Inr resp, s')"
    and "available_of s' (ma_userId ?a) = w_availableBalance w + ma_amount ?a"
    and "ledger_entries s' = ledger_entries s @ [d]" and "l_amount d = ma_amount ?a"
    and "l_metadata d = Some (adjustment_metadata ?a)"
    and "l_reason d = (if 0 < ma_amount ?a then ADMIN_CREDIT else ADMIN_DEBIT)"
    using adjustment_outcome [OF assms(1), of n] assms(3) by auto
  moreover have "property (Some (adjustment_metadata ?a)) ''operationType'' = JStr ''manual_adjustment''"
    by (simp add: property_def spread_def adjustment_metadata_def update_conv')
  ultimately show ?thesis
    using assms(2)
    by (simp add: processRefund_def run_await run_lift_result run_pure)
      (simp add: refund_adjustment_def)
qed

lemma in_alist_update_other: "k \<noteq> k' \<Longrightarrow> (k, v) \<in> set (AList.update k' v' md) \<longleftrightarrow> (k, v) \<in> set md"
  by (induction md) auto

lemma in_alist_update_same: "(k, v) \<in> set (AList.update k v md)"
  by (induction md) auto

text \<open>
  The context of an administrator is documented to carry a user name or an e-mail address, but
  the ledger refuses metadata that looks like one.  When the user name is an e-mail address, the
  adjustment fails after the wallet has been changed: the balance has moved by the amount and no
  entry explains it.
\<close>

theorem manualAdjustment_email_unrecorded:
  assumes "adjustable ao r w" and "wallet_of s (ma_userId r) = Some w"
    and "emailPattern_test (ad_adminUsername (ma_admin r))"
  shows "\<exists>e s'. run (manualAdjustment ao r (Suc n)) s = (Inl e, s') \<and>
    available_of s' (ma_userId r) = w_availableBalance w + ma_amount r \<and>
    ledger_entries s' = ledger_entries s"
proof -
  let ?u = "ad_adminUsername (ma_admin r)"
  have "(''adminUsername'', JStr ?u) \<in> set (adjustment_metadata r)"
    by (simp add: adjustment_metadata_def in_alist_update_other in_alist_update_same)
  then have "screen_metadata (adjustment_metadata r) \<noteq> None"
    using assms(3) unfolding screen_metadata_None by blast
  then obtain e where e: "screen_metadata (adjustment_metadata r) = Some e" by blast
  have "run (manualAdjustment ao r (Suc n)) s =
      (Inl e, (adjusted w r s)\<lparr>uuid_count := Suc (uuid_count s)\<rparr>)"
    using assms(1,2) e
    by (simp add: run_manualAdjustment adjustable_def record_adjustment_def run_simps run_createEntry
        adjustment_entry_def)
  then show ?thesis by simp
qed

definition demo_admin :: admin_context where
  "demo_admin =
     \<lparr>ad_adminId = ''a1'', ad_adminUsername = ''ops'', ad_roles = [''finance_admin''],
      ad_ipAddress = Some ''10.0.0.1'', ad_userAgent = None\<rparr>"

definition demo_correction :: balance_correction_request where
  "demo_correction =
     \<lparr>bc_userId = ''alice'', bc_expectedBalance = - 20, bc_actualBalance = 100,
      bc_reason = ''ledger audit'', bc_admin = demo_admin, bc_requestId = ''req-7''\<rparr>"

definition demo_admin_refund :: admin_refund_request where
  "demo_admin_refund =
     \<lparr>fr_userId = ''alice'', fr_amount = 30, fr_reason = ''goodwill'',
      fr_referenceTransactionId = Some ''t-1'', fr_admin = demo_admin, fr_requestId = ''req-8''\<rparr>"

definition alice_wallet :: wallet where
  "alice_wallet =
     \<lparr>w_userId = ''alice'', w_availableBalance = 100, w_escrowBalance = 0, w_currency = ''points'',
      w_version = 4\<rparr>"

definition alice_store :: store where
  "alice_store = empty_store\<lparr>wallets := [(''alice'', alice_wallet)]\<rparr>"

lemma demo_adjustment_facts:
  "adjustment_ready default_admin_ops (correction_adjustment demo_correction) alice_wallet alice_store"
  "bc_actualBalance demo_correction = w_availableBalance alice_wallet"
  "\<not> key_used (adjustment_key (correction_adjustment demo_correction)) alice_store"
  "bc_userId demo_correction = ''alice''" "bc_expectedBalance demo_correction = - 20"
  "adjustment_ready default_admin_ops (refund_adjustment demo_admin_refund) alice_wallet alice_store"
  "0 < fr_amount demo_admin_refund"
  "\<not> key_used (adjustment_key (refund_adjustment demo_admin_refund)) alice_store"
  "fr_userId demo_admin_refund = ''alice''" "w_availableBalance alice_wallet + fr_amount demo_admin_refund = 130"
  by code_simp+

theorem correctBalance_restores_witness:
  "\<exists>resp s'. run (correctBalance default_admin_ops demo_correction (Suc 0)) alice_store = (Inr resp, s') \<and>
     available_of s' ''alice'' = - 20"
  using correctBalance_restores [OF demo_adjustment_facts(1-3), of 0] demo_adjustment_facts by auto

theorem processRefund_recorded_as_adjustment_witness:
  "\<exists>resp s' d. run (processRefund default_admin_ops demo_admin_refund (Suc 0)) alice_store = (Inr resp, s') \<and>
     available_of s' ''alice'' = 130 \<and> ledger_entries s' = [d] \<and>
     property (l_metadata d) ''operationType'' = JStr ''manual_adjustment''"
proof -
  have "ledger_entries alice_store = []" by code_simp
  then show ?thesis
    using processRefund_recorded_as_adjustment [OF demo_adjustment_facts(6-8), of 0]
      demo_adjustment_facts by auto
qed

definition mailed_adjustment :: manual_adjustment_request where
  "mailed_adjustment =
     (refund_adjustment demo_admin_refund)\<lparr>ma_admin := demo_admin\<lparr>ad_adminUsername := ''ops@example.com''\<rparr>\<rparr>"

theorem manualAdjustment_email_unrecorded_witness:
  "\<exists>e s'. run (manualAdjustment default_admin_ops mailed_adjustment (Suc 0)) alice_store = (Inl e, s') \<and>
     available_of s' ''alice'' = 130 \<and> ledger_entries s' = []"
proof -
  have "adjustable default_admin_ops mailed_adjustment alice_wallet"
    and "wallet_of alice_store (ma_userId mailed_adjustment) = Some alice_wallet"
    and "emailPattern_test (ad_adminUsername (ma_admin mailed_adjustment))"
    by code_simp+
  from manualAdjustment_email_unrecorded [OF this, of 0]
  show ?thesis
    by (simp add: mailed_adjustment_def refund_adjustment_def demo_admin_refund_def alice_wallet_def
        alice_store_def empty_store_def)
qed

end
