(* ===== verification/Promise_All.thy ===== *)
theory Promise_All
  imports Retry_Loop
begin

text \<open>
  \<open>Promise.all\<close> over programs: all of them are started, their atomic steps interleave, and when
  the last has returned, the list of their results is returned in the order of the programs.
  Which of them makes the next step is decided by a schedule, a parameter of the model; a choice
  that names no unfinished program is skipped, and when the schedule is used up the rest is
  executed in order.
\<close>

primrec run_rest :: "('s, 'a) proc list \<Rightarrow> ('s, 'a list) proc" where
  "run_rest [] = Ret []"
| "run_rest (p # ps) = pbind p (\<lambda>a. pbind (run_rest ps) (\<lambda>as. Ret (a # as)))"

primrec promise_all :: "nat list \<Rightarrow> ('s, 'a) proc list \<Rightarrow> ('s, 'a list) proc" where
  "promise_all [] ps = run_rest ps"
| "promise_all (i # sched) ps =
     (if i < length ps then
        (case ps ! i of
           Ret _ \<Rightarrow> promise_all sched ps
         | Act f \<Rightarrow> Act (\<lambda>s. case f s of (s', p) \<Rightarrow> (s', promise_all sched (ps[i := p]))))
      else promise_all sched ps)"

text \<open>Programs that cannot fail are lists of results, whatever the schedule.\<close>

lemma run_env_run_rest_length: "length (fst (run_env (run_rest ps) es s)) = length ps"
proof (induction ps arbitrary: es s)
  case (Cons p ps)
  obtain a es' s' where "run_env p es s = (a, es', s')" by (metis prod_cases3)
  then show ?case
    using Cons [of es' s'] by (simp add: run_env_pbind prod.case_eq_if)
qed simp

lemma run_env_promise_all_length: "length (fst (run_env (promise_all sched ps) es s)) = length ps"
proof (induction sched arbitrary: ps es s)
  case Nil
  then show ?case by (simp add: run_env_run_rest_length)
next
  case (Cons i sched)
  then show ?case by (cases "ps ! i") (simp_all add: prod.case_eq_if)
qed

text \<open>The guarantee of a composition is that of its parts.\<close>

context rely begin

lemma wp_carry:
  assumes "wp R (\<lambda>_ _. True) p s" and "I s" and "\<And>s s'. I s \<Longrightarrow> R s s' \<Longrightarrow> I s'"
  shows "wp R (\<lambda>_ s'. I s') p s"
  using assms(1,2)
proof (induction p arbitrary: s)
  case (Ret a)
  then show ?case using assms(3) by simp
next
  case (Act f)
  have "wp R (\<lambda>_ s'. I s') (snd (f s1)) (fst (f s1)) \<and> R s1 (fst (f s1))" if "R s s1" for s1
  proof -
    have "R s1 (fst (f s1)) \<and> wp R (\<lambda>_ _. True) (snd (f s1)) (fst (f s1))"
      using Act.prems(1) that by (simp add: wp_Act del: wp.simps(2))
    moreover have "I (fst (f s1))" using assms(3) Act.prems(2) that calculation by blast
    ultimately show ?thesis using Act.IH by blast
  qed
  then show ?case by (simp add: wp_Act del: wp.simps(2))
qed

lemma wp_run_rest:
  assumes "\<And>p. p \<in> set ps \<Longrightarrow> wp R (\<lambda>_ _. True) p s"
  shows "wp R (\<lambda>_ _. True) (run_rest ps) s"
  using assms
proof (induction ps arbitrary: s)
  case (Cons p ps)
  have "wp R (\<lambda>_ s'. \<forall>q\<in>set ps. wp R (\<lambda>_ _. True) q s') p s"
  proof (rule wp_carry)
    show "\<forall>q\<in>set ps. wp R (\<lambda>_ _. True) q s2"
      if "\<forall>q\<in>set ps. wp R (\<lambda>_ _. True) q s1" "R s1 s2" for s1 s2
      using stable that by blast
  qed (simp_all add: Cons.prems)
  then have "wp R (\<lambda>_ s'. wp R (\<lambda>_ _. True) (run_rest ps) s') p s"
    by (rule wp_mono) (simp add: Cons.IH)
  then show ?case
    by (auto simp: wp_pbind [OF reflp_R transp_R] elim: wp_mono)
qed simp

lemma wp_promise_all:
  assumes "\<And>p. p \<in> set ps \<Longrightarrow> wp R (\<lambda>_ _. True) p s"
  shows "wp R (\<lambda>_ _. True) (promise_all sched ps) s"
  using assms
proof (induction sched arbitrary: ps s)
  case Nil
  then show ?case by (simp add: wp_run_rest)
next
  case (Cons i sched)
  show ?case
  proof (cases "i < length ps \<and> (\<exists>f. ps ! i = Act f)")
    case True
    then obtain f where f: "ps ! i = Act f" and i: "i < length ps" by auto
    then have "Act f \<in> set ps" by (metis nth_mem)
    then have w: "wp R (\<lambda>_ _. True) (Act f) s" by (rule Cons.prems)
    have "R s1 (fst (f s1)) \<and> wp R (\<lambda>_ _. True) (promise_all sched (ps[i := snd (f s1)])) (fst (f s1))"
      if "R s s1" for s1
    proof
      show step: "R s1 (fst (f s1))" using w that by (simp add: wp_Act del: wp.simps(2))
      have "wp R (\<lambda>_ _. True) q (fst (f s1))" if q: "q \<in> set (ps[i := snd (f s1)])" for q
        using w \<open>R s s1\<close> q set_update_subset_insert [of ps i "snd (f s1)"] step Cons.prems
      proof -
        have "wp R (\<lambda>_ _. True) (snd (f s1)) (fst (f s1))"
          using w that \<open>R s s1\<close> by (simp add: wp_Act del: wp.simps(2))
        moreover have "wp R (\<lambda>_ _. True) q (fst (f s1))" if "q \<in> set ps"
          by (rule stable [OF Cons.prems [OF that]]) (rule rely_trans [OF \<open>R s s1\<close> step])
        ultimately show ?thesis using q set_update_subset_insert [of ps i "snd (f s1)"] by auto
      qed
      then show "wp R (\<lambda>_ _. True) (promise_all sched (ps[i := snd (f s1)])) (fst (f s1))"
        by (rule Cons.IH)
    qed
    then show ?thesis using f i by (simp add: prod.case_eq_if)
  next
    case False
    then have "promise_all (i # sched) ps = promise_all sched ps"
      by (auto split: proc.split)
    then show ?thesis using Cons by simp
  qed
qed

lemma keeps_promise_all: "(\<And>p. p \<in> set ps \<Longrightarrow> keeps R p) \<Longrightarrow> keeps R (promise_all sched ps)"
  by (simp add: keeps_def wp_promise_all)

end

end
