(* ===== verification/Point_Expiration.thy ===== *)
theory Point_Expiration
  imports Admin_Ops Promise_All
begin

text \<open>
  The point expiration service (\<open>src/services/point-expiration.service.ts\<close>): the expiration of
  one user's points, its batch over many users, and the list of points about to expire.

  Like \<open>manualAdjustment\<close>, \<open>processUserExpiration\<close> starts over without a bound after a conflict
  and takes fuel.  The users of a batch run concurrently; the schedules of the batches are an
  argument.  The loop over the batches does not end when the batch size is zero, so it takes fuel
  as well.
\<close>

section \<open>Results and configuration\<close>

record user_expiration_details =
  ue_userId :: string
  ue_amountExpired :: rat
  ue_transactionId :: string
  ue_timestamp :: int

record expiration_batch_result =
  eb_usersProcessed :: nat
  eb_totalPointsExpired :: rat
  eb_successCount :: nat
  eb_failureCount :: nat
  eb_timestamp :: int
  eb_errors :: "(string \<times> error) list"

record point_expiration_service =
  px_defaultCurrency :: string
  px_gracePeriodDays :: nat
  px_batchSize :: nat
  px_enableNotifications :: bool
  px_warningPeriodDays :: nat
  px_ledgerCurrency :: string

definition default_point_expiration :: point_expiration_service where
  "default_point_expiration =
     \<lparr>px_defaultCurrency = ''points'', px_gracePeriodDays = 0, px_batchSize = 100,
      px_enableNotifications = True, px_warningPeriodDays = 7, px_ledgerCurrency = ''points''\<rparr>"

section \<open>What has expired\<close>

text \<open>
  \<open>new Date(value)\<close> for the values that occur as expiry; \<open>None\<close> is an invalid date, for which
  every comparison is false.
\<close>

definition date_of_json :: "json \<Rightarrow> int option" where
  "date_of_json v =
     (case v of
        JStr s \<Rightarrow> date_of_string s
      | JNum n \<Rightarrow> if \<bar>n\<bar> \<le> 8640000000000000 then Some (if n < 0 then \<lceil>n\<rceil> else \<lfloor>n\<rfloor>) else None
      | JBool True \<Rightarrow> Some 1
      | _ \<Rightarrow> None)"

definition expiry_of :: "ledger_entry \<Rightarrow> int option" where
  "expiry_of entry =
     (let v = property (l_metadata entry) ''expiresAt'' in
      if json_truthy v then date_of_json v else None)"

definition expired_total :: "int \<Rightarrow> ledger_entry list \<Rightarrow> rat" where
  "expired_total deadline entries =
     foldl (\<lambda>total entry. case expiry_of entry of
         None \<Rightarrow> total
       | Some t \<Rightarrow> if t \<le> deadline then total + l_amount entry else total) 0 entries"

definition credit_filter :: ledger_query_filter where
  "credit_filter = no_filter\<lparr>f_type := Some CREDIT, f_balanceState := Some Available\<rparr>"

definition user_credit_filter :: "string \<Rightarrow> ledger_query_filter" where
  "user_credit_filter userId = credit_filter\<lparr>f_accountId := Some userId, f_accountType := Some User\<rparr>"

section \<open>Expiring the points of one user\<close>

definition expiration_key :: "string \<Rightarrow> int \<Rightarrow> string" where
  "expiration_key userId timestamp =
     ''expiration-'' @ userId @ ''-'' @ takeWhile (\<lambda>c. c \<noteq> CHR ''T'') (toISOString timestamp)"

definition expiration_entry ::
  "point_expiration_service \<Rightarrow> string \<Rightarrow> string \<Rightarrow> rat \<Rightarrow> rat \<Rightarrow> string \<Rightarrow> int \<Rightarrow> create_ledger_entry_request" where
  "expiration_entry px userId requestId amountToExpire previousBalance transactionId timestamp =
     \<lparr>cr_transactionId = Some transactionId, cr_accountId = userId, cr_accountType = User,
      cr_amount = - amountToExpire, cr_type = DEBIT, cr_balanceState = Available,
      cr_stateTransition = ''available->expired'', cr_reason = Some POINT_EXPIRY,
      cr_idempotencyKey = expiration_key userId timestamp, cr_requestId = requestId,
      cr_balanceBefore = previousBalance, cr_balanceAfter = previousBalance - amountToExpire,
      cr_currency = Some (px_defaultCurrency px),
      cr_metadata = Some [(''expirationDate'', JStr (toISOString timestamp)),
        (''amountExpired'', JNum amountToExpire)],
      cr_escrowId = None, cr_queueItemId = None, cr_featureType = None, cr_correlationId = None\<rparr>"

text \<open>
  Up to the write: \<open>Some None\<close> when there is nothing to expire, \<open>Some (amount, balance)\<close> when the
  wallet has been debited, \<open>None\<close> when its version had moved on.
\<close>

definition expire_wallet :: "point_expiration_service \<Rightarrow> string \<Rightarrow> (rat \<times> rat) option option svc" where
  "expire_wallet px userId =
     await (queryEntries (user_credit_filter userId)) (\<lambda>ledgerResult.
     await new_date (\<lambda>now.
     let gracePeriodDate = now - int (px_gracePeriodDays px) * 24 * 60 * 60 * 1000;
         totalExpired = expired_total gracePeriodDate (q_entries ledgerResult) in
     if totalExpired = 0 then pure (Some None)
     else
       await (wallet_findOne userId) (\<lambda>found.
       case found of
         None \<Rightarrow> throw (WalletMissing userId)
       | Some wallet \<Rightarrow>
           let amountToExpire = min totalExpired (w_availableBalance wallet) in
           if amountToExpire \<le> 0 then pure (Some None)
           else
             await (wallet_findOneAndUpdate userId
                 (\<lambda>w. w_version w = w_version wallet)
                 (\<lambda>w. w\<lparr>w_availableBalance := w_availableBalance w - amountToExpire,
                        w_version := w_version w + 1\<rparr>)) (\<lambda>updated.
             pure (if updated = None then None
                   else Some (Some (amountToExpire, w_availableBalance wallet)))))))"

definition record_expiration ::
  "point_expiration_service \<Rightarrow> string \<Rightarrow> string \<Rightarrow> (rat \<times> rat) option \<Rightarrow> user_expiration_details option svc" where
  "record_expiration px userId requestId debited =
     (case debited of
        None \<Rightarrow> pure None
      | Some (amountToExpire, previousBalance) \<Rightarrow>
          await uuidv4 (\<lambda>transactionId.
          await new_date (\<lambda>timestamp.
          await (createEntry (px_ledgerCurrency px)
            (expiration_entry px userId requestId amountToExpire previousBalance transactionId timestamp))
            (\<lambda>_.
          pure (Some \<lparr>ue_userId = userId, ue_amountExpired = amountToExpire,
                      ue_transactionId = transactionId, ue_timestamp = timestamp\<rparr>)))))"

primrec processUserExpiration ::
  "point_expiration_service \<Rightarrow> string \<Rightarrow> string \<Rightarrow> nat \<Rightarrow> user_expiration_details option svc" where
  "processUserExpiration px userId requestId 0 = throw RetriesOutOfFuel"
| "processUserExpiration px userId requestId (Suc fuel) =
     await (expire_wallet px userId) (\<lambda>outcome.
     case outcome of
       None \<Rightarrow> processUserExpiration px userId requestId fuel
     | Some debited \<Rightarrow> record_expiration px userId requestId debited)"

section \<open>Batches\<close>

definition getAllUserIds :: "string list svc" where
  "getAllUserIds = query (\<lambda>s. map (\<lambda>(_, w). w_userId w) (wallets s))"

text \<open>What one user of a batch comes to: an error that is caught, or a result.\<close>

definition try_expiration ::
  "point_expiration_service \<Rightarrow> string \<Rightarrow> nat \<Rightarrow> string \<Rightarrow> (store, string \<times> (error + user_expiration_details option)) proc" where
  "try_expiration px requestId fuel userId =
     pbind (processUserExpiration px userId requestId fuel) (\<lambda>r. Ret (userId, r))"

text \<open>The counters, updated by each user on its way out.\<close>

definition count_expiration ::
  "expiration_batch_result \<Rightarrow> string \<times> (error + user_expiration_details option) \<Rightarrow> expiration_batch_result" where
  "count_expiration result outcome =
     (case outcome of
        (userId, Inl error) \<Rightarrow>
          result\<lparr>eb_failureCount := eb_failureCount result + 1,
                 eb_errors := eb_errors result @ [(userId, error)]\<rparr>
      | (userId, Inr None) \<Rightarrow> result\<lparr>eb_usersProcessed := eb_usersProcessed result + 1\<rparr>
      | (userId, Inr (Some expiration)) \<Rightarrow>
          result\<lparr>eb_usersProcessed := eb_usersProcessed result + 1,
                 eb_totalPointsExpired := eb_totalPointsExpired result + ue_amountExpired expiration,
                 eb_successCount := eb_successCount result + 1\<rparr>)"

primrec expire_batches ::
  "point_expiration_service \<Rightarrow> string \<Rightarrow> nat \<Rightarrow> (nat \<Rightarrow> nat list) \<Rightarrow> nat \<Rightarrow> string list \<Rightarrow>
   expiration_batch_result \<Rightarrow> expiration_batch_result svc" where
  "expire_batches px requestId fuel scheds 0 users result =
     (if users = [] then pure result else throw RetriesOutOfFuel)"
| "expire_batches px requestId fuel scheds (Suc n) users result =
     (if users = [] then pure result
      else
        pbind (promise_all (scheds n) (map (try_expiration px requestId fuel) (take (px_batchSize px) users)))
          (\<lambda>outcomes.
        expire_batches px requestId fuel scheds n (drop (px_batchSize px) users)
          (foldl count_expiration result outcomes)))"

definition processBatchExpiration ::
  "point_expiration_service \<Rightarrow> string list option \<Rightarrow> string \<Rightarrow> nat \<Rightarrow> (nat \<Rightarrow> nat list) \<Rightarrow> nat \<Rightarrow>
   expiration_batch_result svc" where
  "processBatchExpiration px userIds requestId fuel scheds n =
     await new_date (\<lambda>now.
     await (case userIds of Some us \<Rightarrow> pure us | None \<Rightarrow> getAllUserIds) (\<lambda>users.
     expire_batches px requestId fuel scheds n users
       \<lparr>eb_usersProcessed = 0, eb_totalPointsExpired = 0, eb_successCount = 0, eb_failureCount = 0,
        eb_timestamp = now, eb_errors = []\<rparr>))"

section \<open>Points about to expire\<close>

definition note_expiring ::
  "int \<Rightarrow> int \<Rightarrow> (string \<times> rat \<times> int) list \<Rightarrow> ledger_entry \<Rightarrow> (string \<times> rat \<times> int) list" where
  "note_expiring now warningDate expiring entry =
     (case expiry_of entry of
        None \<Rightarrow> expiring
      | Some expiresAt \<Rightarrow>
          if now \<le> expiresAt \<and> expiresAt \<le> warningDate then
            (case map_of expiring (l_accountId entry) of
               Some (amount, date) \<Rightarrow>
                 AList.update (l_accountId entry) (amount + l_amount entry, min expiresAt date) expiring
             | None \<Rightarrow> AList.update (l_accountId entry) (l_amount entry, expiresAt) expiring)
          else expiring)"

definition getUsersWithExpiringPoints :: "point_expiration_service \<Rightarrow> (string \<times> rat \<times> int) list svc" where
  "getUsersWithExpiringPoints px =
     await new_date (\<lambda>now.
     let warningDate = now + int (px_warningPeriodDays px) * 24 * 60 * 60 * 1000 in
     await (queryEntries credit_filter) (\<lambda>ledgerResult.
     pure (foldl (note_expiring now warningDate) [] (q_entries ledgerResult))))"

section \<open>The retry loop returns\<close>

lemma never_queryEntries [never_intros]: "never RetriesOutOfFuel (queryEntries f)"
  unfolding queryEntries_def Let_def by (intro never_intros)

interpretation expiring: retry_loop "expire_wallet px u" "record_expiration px u rid"
    "processUserExpiration px u rid" RetriesOutOfFuel for px u rid
proof unfold_locales
  show "fst (run (expire_wallet px u) s) \<noteq> Inr None" for s
    by (auto simp: expire_wallet_def queryEntries_def run_simps Let_def split: option.split)
  show "never RetriesOutOfFuel (expire_wallet px u)"
    unfolding expire_wallet_def Let_def by (intro never_intros) simp_all
  show "never RetriesOutOfFuel (record_expiration px u rid d)" for d
    unfolding record_expiration_def by (auto intro!: never_intros split: option.split)
qed simp_all

text \<open>
  The expiration of a user's points returns against any finite number of concurrent steps, and
  fuel beyond their number does not change what it returns.
\<close>

theorem processUserExpiration_returns:
  "fst (run_env (processUserExpiration px u rid (Suc (length es))) es s) \<noteq> Inl RetriesOutOfFuel \<and>
   run_env (processUserExpiration px u rid (Suc (length es) + k)) es s =
     run_env (processUserExpiration px u rid (Suc (length es))) es s"
  using expiring.enough_fuel [of es "Suc (length es)" px u rid s]
    expiring.fuel_irrelevant [of es "Suc (length es) + k" "Suc (length es)" px u rid s] by simp

section \<open>Safety under concurrency\<close>

text \<open>
  The write is guarded by the version only; that the wallet is still the one that was read is
  what the law of optimistic locking gives.
\<close>

lemma wp_wallet_read:
  "wp safe_rely (\<lambda>r s'. \<forall>w. r = Inr (Some w) \<longrightarrow> seen w_version (wallets s') u w) (wallet_findOne u) s"
  unfolding wallet_findOne_def
  by (rule safe.wp_queryI) (auto intro: safe_wallets.seen_stable [OF seen_now])

lemma wp_wallet_write:
  assumes "seen w_version (wallets s) u w" and "w_version w < w_version (change w)"
    and "0 \<le> w_availableBalance (change w)"
  shows "wp safe_rely (\<lambda>_ _. True) (wallet_findOneAndUpdate u (\<lambda>x. w_version x = w_version w) change) s"
proof -
  have same: "x = w" if "safe_rely s s1" "wallet_of s1 u = Some x" "w_version x = w_version w" for s1 x
    using safe_wallets.no_lost_update [OF assms(1)] that by blast
  then show ?thesis
    unfolding wallet_findOneAndUpdate_def
    using assms(2,3)
    by (intro safe.wp_atomicallyI)
      (auto intro!: safe_rely_wallets safe.rely_refl dest: same split: option.split)
qed

lemma keeps_read_then_write:
  assumes "keeps safe_rely p" and "\<And>w. keeps safe_rely (q w)" and "\<And>w r. keeps safe_rely (k w r)"
    and "\<And>w. good w \<Longrightarrow> w_version w < w_version (change w w) \<and> 0 \<le> w_availableBalance (change w w)"
  shows "keeps safe_rely (await (wallet_findOne u) (\<lambda>found.
    case found of None \<Rightarrow> p
    | Some w \<Rightarrow> if good w
        then await (wallet_findOneAndUpdate u (\<lambda>x. w_version x = w_version w) (change w)) (k w)
        else q w))"
  unfolding keeps_def
proof
  fix s
  show "wp safe_rely (\<lambda>_ _. True) (await (wallet_findOne u) (\<lambda>found.
    case found of None \<Rightarrow> p
    | Some w \<Rightarrow> if good w
        then await (wallet_findOneAndUpdate u (\<lambda>x. w_version x = w_version w) (change w)) (k w)
        else q w)) s"
  proof (rule safe.wp_awaitI, rule safe.wp_weaken [OF wp_wallet_read], goal_cases)
    case (1 r s1)
    show ?case
    proof (cases "\<exists>w. r = Inr (Some w) \<and> good w")
      case True
      then obtain w where w: "r = Inr (Some w)" "good w" by auto
      have "seen w_version (wallets s1) u w" using 1 w(1) by simp
      then have "wp safe_rely (\<lambda>_ _. True)
          (wallet_findOneAndUpdate u (\<lambda>x. w_version x = w_version w) (change w)) s1"
        using assms(4) [OF w(2)] by (intro wp_wallet_write) auto
      then show ?thesis using w by (auto intro: safe.wp_await_keeps assms(3))
    next
      case False
      then show ?thesis
        using assms(1,2) by (auto simp: keeps_def split: sum.split option.split)
    qed
  qed
qed

lemma keeps_queryEntries [keeps_intros]: "keeps safe_rely (queryEntries f)"
  unfolding queryEntries_def Let_def
  by (intro keeps_intros) (auto simp: reflp_def safe.rely_refl)

lemma keeps_expire_wallet [keeps_intros]: "keeps safe_rely (expire_wallet px u)"
proof -
  have swap: "(if a \<le> 0 then p else q) = (if 0 < a then q else p)" for a :: rat and p q :: "'b svc"
    by auto
  show ?thesis
    unfolding expire_wallet_def Let_def swap
    by (intro keeps_intros keeps_read_then_write) auto
qed

lemma keeps_record_expiration [keeps_intros]: "keeps safe_rely (record_expiration px u rid d)"
  unfolding record_expiration_def by (auto intro!: keeps_intros split: option.split)

lemma keeps_processUserExpiration: "keeps safe_rely (processUserExpiration px u rid n)"
  by (induction n) (auto intro!: keeps_intros)

lemma keeps_expire_batches: "keeps safe_rely (expire_batches px rid fuel scheds n users result)"
proof (induction n arbitrary: users result)
  case (Suc n)
  have "keeps safe_rely (try_expiration px rid fuel u)" for u
    unfolding try_expiration_def by (rule keeps_pbind [OF keeps_processUserExpiration keeps_Ret])
  then show ?case
    by (auto intro!: keeps_pure keeps_pbind rely.keeps_promise_all [OF safe.rely_axioms] Suc)
qed (auto intro: keeps_intros)

text \<open>
  C17: A batch of expirations, whose users are processed concurrently under any schedule, against
  any environment that respects the rely, never makes an available balance negative and only
  appends to the ledger.
\<close>

theorem expirations_safe:
  assumes "pool_reach safe_rely (\<lambda>i. processBatchExpiration px (users i) rid fuel scheds n) s pl' s'"
  shows "safe_rely s s' \<and> (\<not> available_ok s \<or> available_ok s')"
proof -
  have "keeps safe_rely (processBatchExpiration px us rid fuel scheds n)" for us
    unfolding processBatchExpiration_def getAllUserIds_def
    by (intro keeps_intros keeps_expire_batches) (auto simp: reflp_def safe.rely_refl)
  then have "wp safe_rely (\<lambda>_ _. True) (processBatchExpiration px (users i) rid fuel scheds n) s" for i
    by (rule keeps_wp)
  then have "safe_rely s s'"
    using safe.pool_sound [OF assms, where Q = "\<lambda>_ _ _. True"] by blast
  then show ?thesis by (auto simp: safe_rely_def)
qed

section \<open>What a run does\<close>

definition expired_now :: "point_expiration_service \<Rightarrow> store \<Rightarrow> string \<Rightarrow> rat" where
  "expired_now px s u =
     expired_total (clock s - int (px_gracePeriodDays px) * 24 * 60 * 60 * 1000)
       (map mapToDomain (take 100 (query_sorted (user_credit_filter u)
          (filter (query_matches (user_credit_filter u)) (ledger_entries s)))))"

definition expired_from :: "string \<Rightarrow> wallet \<Rightarrow> rat \<Rightarrow> store \<Rightarrow> store" where
  "expired_from u w a s =
     s\<lparr>wallets := AList.update u
         (w\<lparr>w_availableBalance := w_availableBalance w - a, w_version := w_version w + 1\<rparr>) (wallets s)\<rparr>"

lemma expired_from_simps [simp]:
  "ledger_entries (expired_from u w a s) = ledger_entries s"
  "uuids (expired_from u w a s) = uuids s"
  "uuid_count (expired_from u w a s) = uuid_count s"
  "clock (expired_from u w a s) = clock s"
  "wallet_of (expired_from u w a s) u =
     Some (w\<lparr>w_availableBalance := w_availableBalance w - a, w_version := w_version w + 1\<rparr>)"
  by (simp_all add: expired_from_def)

lemma credit_page:
  "query_limit (user_credit_filter u) = 100" "query_offset (user_credit_filter u) = 0"
  by (simp_all add: user_credit_filter_def credit_filter_def no_filter_def query_limit_def query_offset_def)

lemma run_expire_wallet:
  assumes "wallet_of s u = Some w"
  shows "run (expire_wallet px u) s =
    (let a = min (expired_now px s u) (w_availableBalance w) in
     if expired_now px s u = 0 \<or> a \<le> 0 then (Inr (Some None), s)
     else (Inr (Some (Some (a, w_availableBalance w))), expired_from u w a s))"
  using assms
  by (simp add: expire_wallet_def queryEntries_def run_simps Let_def expired_now_def credit_page
      expired_from_def mult.assoc)

definition expiration_ready :: "point_expiration_service \<Rightarrow> string \<Rightarrow> string \<Rightarrow> store \<Rightarrow> bool" where
  "expiration_ready px u rid s \<longleftrightarrow>
     required_string 16 (px_defaultCurrency px) \<and> required_string 128 u \<and>
     required_string 256 (expiration_key u (clock s)) \<and> required_string 128 rid \<and> fresh_ids 3 s"

lemma expiration_entry_valid:
  assumes "expiration_ready px u rid s"
  shows "request_valid (expiration_entry px u rid a b t (clock s))"
proof -
  have "to_lower ''expirationDate'' \<notin> set piiFieldNames" "to_lower ''amountExpired'' \<notin> set piiFieldNames"
    by code_simp+
  then have "screen_metadata [(''expirationDate'', JStr (toISOString (clock s))), (''amountExpired'', JNum a)] = None"
    using iso_not_email by (simp del: to_lower_def)
  then show ?thesis
    using assms
    by (simp add: request_valid_def request_ok_def expiration_entry_def expiration_ready_def
        required_string_def optional_string_def)
qed

lemma expiration_outcome:
  assumes "expiration_ready px u rid s" and "wallet_of s u = Some w"
    and "0 < expired_now px s u" and "0 < w_availableBalance w"
  defines "a \<equiv> min (expired_now px s u) (w_availableBalance w)"
  shows "\<exists>x s' d. run (processUserExpiration px u rid (Suc n)) s = (Inr (Some x), s') \<and>
    ue_amountExpired x = a \<and>
    wallet_of s' u = Some (w\<lparr>w_availableBalance := w_availableBalance w - a, w_version := w_version w + 1\<rparr>) \<and>
    clock s' = clock s \<and>
    ledger_entries s' = ledger_entries s @ (if key_used (expiration_key u (clock s)) s then [] else [d]) \<and>
    l_idempotencyKey d = expiration_key u (clock s) \<and> l_type d = DEBIT \<and> l_amount d = - a"
proof -
  let ?t = "uuids s (uuid_count s)" and ?b = "w_availableBalance w"
  let ?E = "expiration_entry px u rid a ?b ?t (clock s)" and ?c = "px_ledgerCurrency px"
  let ?s1 = "(expired_from u w a s)\<lparr>uuid_count := Suc (uuid_count s)\<rparr>"
  let ?new = "if key_used (cr_idempotencyKey ?E) s then [] else [new_entry ?c ?E ?t ?s1]"
  have "fresh_ids 3 s" using assms(1) by (simp add: expiration_ready_def)
  then obtain d where entry: "run (createEntry ?c ?E) ?s1 =
      (Inr d, ?s1\<lparr>uuid_count := uuid_count s + 2, ledger_entries := ledger_entries s @ ?new\<rparr>)"
    using run_createEntry_either [OF expiration_entry_valid [OF assms(1)], of a ?b ?t s ?s1 ?c]
    by (auto simp: expiration_entry_def)
  have "0 < a" using assms(3,4) by (simp add: a_def)
  then have "run (expire_wallet px u) s = (Inr (Some (Some (a, ?b))), expired_from u w a s)"
    using assms(3,4) by (simp add: run_expire_wallet [OF assms(2)] Let_def a_def)
  then have "run (processUserExpiration px u rid (Suc n)) s =
      (Inr (Some \<lparr>ue_userId = u, ue_amountExpired = a, ue_transactionId = ?t, ue_timestamp = clock s\<rparr>),
       ?s1\<lparr>uuid_count := uuid_count s + 2, ledger_entries := ledger_entries s @ ?new\<rparr>)"
    using entry by (simp add: run_await record_expiration_def run_uuidv4 run_new_date run_pure)
  then show ?thesis
    by (intro exI [of _ "new_entry ?c ?E ?t ?s1"] exI conjI) (assumption | simp add: expiration_entry_def)+
qed

lemma expired_now_frame:
  assumes "clock s' = clock s" and "ledger_entries s' = ledger_entries s @ es"
    and "list_all (\<lambda>e. l_type e = DEBIT) es"
  shows "expired_now px s' u = expired_now px s u"
proof -
  have "filter (query_matches (user_credit_filter u)) es = []"
    using assms(3)
    by (auto simp: filter_empty_conv list_all_iff query_matches_def user_credit_filter_def credit_filter_def
        opt_match_def)
  then show ?thesis using assms(1,2) by (simp add: expired_now_def)
qed

text \<open>
  An expiration leaves the credits it expired as they are, so the next run finds them again.
  Run twice on the same day over expired credits of a total below the balance, the service takes
  the total, or what is left, from the wallet each time, while the key made of user and day lets
  only the first entry into the ledger.
\<close>

theorem processUserExpiration_repeats:
  assumes "expiration_ready px u rid s" and "wallet_of s u = Some w"
    and "0 < expired_now px s u" and "expired_now px s u < w_availableBalance w"
    and "\<not> key_used (expiration_key u (clock s)) s"
    and "run (processUserExpiration px u rid (Suc n)) s = (Inr x, s1)" and "fresh_ids 3 s1"
  shows "\<exists>y s2 d. run (processUserExpiration px u rid (Suc n)) s1 = (Inr (Some y), s2) \<and>
    ue_amountExpired y = min (expired_now px s u) (w_availableBalance w - expired_now px s u) \<and>
    available_of s2 u = w_availableBalance w - expired_now px s u - ue_amountExpired y \<and>
    ledger_entries s2 = ledger_entries s @ [d] \<and> l_amount d = - expired_now px s u"
proof -
  let ?T = "expired_now px s u"
  let ?w1 = "w\<lparr>w_availableBalance := w_availableBalance w - ?T, w_version := w_version w + 1\<rparr>"
  have "0 < w_availableBalance w" using assms(3,4) by linarith
  moreover have min: "min ?T (w_availableBalance w) = ?T" using assms(4) by simp
  ultimately obtain d where
    1: "wallet_of s1 u = Some ?w1" "clock s1 = clock s" "ledger_entries s1 = ledger_entries s @ [d]"
      "l_idempotencyKey d = expiration_key u (clock s)" "l_type d = DEBIT" "l_amount d = - ?T"
    using expiration_outcome [OF assms(1-3), of n] assms(5,6) by (auto simp del: processUserExpiration.simps)
  have ready: "expiration_ready px u rid s1"
    using assms(1,7) 1(2) by (simp add: expiration_ready_def)
  have T: "expired_now px s1 u = ?T"
    by (rule expired_now_frame [OF 1(2,3)]) (simp add: 1)
  have used: "key_used (expiration_key u (clock s1)) s1" using 1 by (simp add: key_used_def)
  obtain y s2 where "run (processUserExpiration px u rid (Suc n)) s1 = (Inr (Some y), s2)"
    and "ue_amountExpired y = min ?T (w_availableBalance ?w1)"
    and "wallet_of s2 u = Some (?w1\<lparr>w_availableBalance := w_availableBalance ?w1 - min ?T (w_availableBalance ?w1),
        w_version := w_version ?w1 + 1\<rparr>)"
    and "ledger_entries s2 = ledger_entries s1"
    using expiration_outcome [OF ready 1(1), of n] assms(3,4) used
    by (auto simp: T simp del: processUserExpiration.simps)
  then show ?thesis using 1 by (auto simp: available_of_def simp del: processUserExpiration.simps)
qed

section \<open>What a batch reports\<close>

lemma foldl_count_expiration:
  assumes "result' = foldl count_expiration result outcomes"
  shows "eb_usersProcessed result' + eb_failureCount result' =
      eb_usersProcessed result + eb_failureCount result + length outcomes \<and>
    (length (eb_errors result) = eb_failureCount result \<longrightarrow> length (eb_errors result') = eb_failureCount result') \<and>
    (eb_successCount result \<le> eb_usersProcessed result \<longrightarrow> eb_successCount result' \<le> eb_usersProcessed result')"
  using assms
proof (induction outcomes arbitrary: result)
  case (Cons a outcomes)
  obtain u r where a: "a = (u, r)" by fastforce
  show ?case
    using Cons.IH [of "count_expiration result a"] Cons.prems
    by (cases r; cases "projr r") (auto simp: count_expiration_def a)
qed simp

lemma expire_batches_counts:
  assumes "0 < px_batchSize px" and "length users \<le> n"
    and "length (eb_errors result) = eb_failureCount result"
    and "eb_successCount result \<le> eb_usersProcessed result"
  shows "\<exists>result' es' s'. run_env (expire_batches px rid fuel scheds n users result) es s = (Inr result', es', s') \<and>
    eb_usersProcessed result' + eb_failureCount result' =
      eb_usersProcessed result + eb_failureCount result + length users \<and>
    length (eb_errors result') = eb_failureCount result' \<and>
    eb_successCount result' \<le> eb_usersProcessed result'"
  using assms(2-)
proof (induction n arbitrary: users result es s)
  case 0
  then show ?case by (simp add: pure_def)
next
  case (Suc n)
  show ?case
  proof (cases "users = []")
    case True
    then show ?thesis using Suc.prems by (simp add: pure_def)
  next
    case False
    let ?p = "promise_all (scheds n) (map (try_expiration px rid fuel) (take (px_batchSize px) users))"
    obtain outcomes es1 s1 where p: "run_env ?p es s = (outcomes, es1, s1)" by (metis prod_cases3)
    have len: "length outcomes = length (take (px_batchSize px) users)"
      using run_env_promise_all_length [of "scheds n" "map (try_expiration px rid fuel) (take (px_batchSize px) users)" es s] p
      by simp
    let ?r = "foldl count_expiration result outcomes"
    note counted = foldl_count_expiration [OF refl, of result outcomes]
    have "length (drop (px_batchSize px) users) \<le> n"
      using assms(1) Suc.prems(1) False by (cases "px_batchSize px") auto
    from Suc.IH [OF this, of ?r es1 s1] counted Suc.prems(2,3)
    show ?thesis using False len p by (auto simp: run_env_pbind)
  qed
qed


section \<open>From the award to the expiration\<close>

text \<open>
  C19: The expiry an award is given is the expiry its ledger entry has for the expiration service:
  printed as an ISO date into the metadata and parsed back, it is the same millisecond, whatever
  other metadata the caller supplied, an \<open>expiresAt\<close> of its own included.
\<close>

theorem award_expiry_read_back:
  assumes "aw_expiresAt r = Some t" and "0 \<le> t" and "t < iso_limit"
  shows "expiry_of (new_entry c (award_entry ps r a b tid) tid s) = Some t"
proof -
  have parsed: "date_of_string (toISOString t) = Some t" using assms(2,3) by (rule date_of_toISOString)
  then have "toISOString t \<noteq> []" by (auto simp: date_of_string_def)
  then show ?thesis
    using assms(1) parsed
    by (simp add: expiry_of_def property_def new_entry_def entry_doc_def award_entry_def spread_def
        json_truthy_def date_of_json_def)
qed

theorem award_expiry_read_back_witness:
  "expiry_of (new_entry ''points'' (award_entry default_point_accrual demo_award 250 0 ''t'') ''t'' empty_store)
     = Some 1767225600000"
  by (rule award_expiry_read_back) (simp_all add: demo_award_def iso_limit_def)

section \<open>Witnesses\<close>

text \<open>Alice has 350 points available, of which 250 were awarded until a moment that has passed.\<close>

definition expired_award :: ledger_entry where
  "expired_award =
     \<lparr>l_entryId = ''e1'', l_transactionId = ''t1'', l_accountId = ''alice'', l_accountType = User,
      l_amount = 250, l_type = CREDIT, l_balanceState = Available,
      l_stateTransition = ''none->available'', l_reason = REFERRAL_BONUS, l_idempotencyKey = ''award-1'',
      l_requestId = ''req-1'', l_balanceBefore = 100, l_balanceAfter = 350, l_timestamp = 100,
      l_currency = ''points'', l_metadata = Some [(''expiresAt'', JStr ''1970-01-01T00:00:00.500Z'')],
      l_escrowId = None, l_queueItemId = None, l_featureType = None, l_correlationId = Some ''t1'',
      l_tenant_id = None\<rparr>"

definition expired_store :: store where
  "expired_store =
     empty_store\<lparr>wallets := [(''alice'', \<lparr>w_userId = ''alice'', w_availableBalance = 350,
        w_escrowBalance = 0, w_currency = ''points'', w_version = 1\<rparr>)],
       ledger_entries := [expired_award]\<rparr>"

lemma expired_store_facts:
  "expiration_ready default_point_expiration ''alice'' ''req'' expired_store"
  "map_option w_availableBalance (wallet_of expired_store ''alice'') = Some 350"
  "expired_now default_point_expiration expired_store ''alice'' = 250"
  "\<not> key_used (expiration_key ''alice'' (clock expired_store)) expired_store"
  "\<not> isl (fst (run (processUserExpiration default_point_expiration ''alice'' ''req'' (Suc 0)) expired_store))"
  "fresh_ids 3 (snd (run (processUserExpiration default_point_expiration ''alice'' ''req'' (Suc 0)) expired_store))"
  by code_simp+

theorem processUserExpiration_repeats_witness:
  "\<exists>x s1 y s2. run (processUserExpiration default_point_expiration ''alice'' ''req'' (Suc 0)) expired_store = (Inr x, s1) \<and>
     run (processUserExpiration default_point_expiration ''alice'' ''req'' (Suc 0)) s1 = (Inr (Some y), s2) \<and>
     ue_amountExpired y = 100 \<and> available_of s2 ''alice'' = 0"
proof -
  obtain w where w: "wallet_of expired_store ''alice'' = Some w" "w_availableBalance w = 350"
    using expired_store_facts(2) by auto
  let ?p = "run (processUserExpiration default_point_expiration ''alice'' ''req'' (Suc 0)) expired_store"
  obtain x where p: "?p = (Inr x, snd ?p)"
    using expired_store_facts(5) by (metis prod.collapse sum.collapse(2))
  have "0 < expired_now default_point_expiration expired_store ''alice''"
    and "expired_now default_point_expiration expired_store ''alice'' < w_availableBalance w"
    using expired_store_facts(3) w(2) by simp_all
  from processUserExpiration_repeats [OF expired_store_facts(1) w(1) this expired_store_facts(4) p expired_store_facts(6)]
  obtain y s2 where "run (processUserExpiration default_point_expiration ''alice'' ''req'' (Suc 0)) (snd ?p) = (Inr (Some y), s2)"
    and "ue_amountExpired y = min 250 (350 - 250)" and "available_of s2 ''alice'' = 350 - 250 - ue_amountExpired y"
    unfolding expired_store_facts(3) w(2) by blast
  then have "ue_amountExpired y = 100" and "available_of s2 ''alice'' = 0" by simp_all
  then show ?thesis
    using p \<open>run (processUserExpiration default_point_expiration ''alice'' ''req'' (Suc 0)) (snd ?p) = (Inr (Some y), s2)\<close>
    by blast
qed


theorem expirations_safe_witness:
  "\<exists>pl' s'. pool_reach safe_rely (\<lambda>i. processBatchExpiration default_point_expiration None ''req'' 1 (\<lambda>_. []) 1)
       expired_store pl' s' \<and>
     safe_rely expired_store s' \<and> available_of s' ''alice'' = 100"
proof -
  let ?pl = "\<lambda>i :: nat. processBatchExpiration default_point_expiration None ''req'' 1 (\<lambda>_. []) 1"
  let ?s' = "snd (run (?pl 0) expired_store)"
  have r: "pool_reach safe_rely ?pl expired_store (?pl(0 := Ret (fst (run (?pl 0) expired_store)))) ?s'"
    by (rule pool_reach_run) (rule pool_start)
  from expirations_safe [OF r] have "safe_rely expired_store ?s'" by simp
  moreover have "available_of ?s' ''alice'' = 100" by code_simp
  ultimately show ?thesis using r by metis
qed

end
