(* ===== verification/Event_Bus.thy ===== *)
theory Event_Bus
  imports Promise_All Domain_Types
begin

text \<open>
  The event bus (\<open>src/events/event-bus.ts\<close>): subscriptions ordered by priority, deduplication by
  event id and idempotency key, notification with retries, and the singleton instance.

  Subscribers act on a world of type \<open>'s\<close>, which is a component of the state of the bus; a
  handler is a program over it.  With \<open>asyncProcessing\<close> the notifications are not awaited:
  \<open>publish\<close> hands them back as pending programs.  The pause between retries, metrics and the
  distinction between errors and other thrown values are not modelled.
\<close>

section \<open>State\<close>

record 's event_subscription =
  su_subscriberId :: string
  su_eventTypes :: "wallet_event_type list"
  su_handler :: "reward_event \<Rightarrow> ('s, error, unit) io"
  su_priority :: "int option"

record event_bus_config =
  eb_enableDeduplication :: bool
  eb_deduplicationTtlMs :: int
  eb_maxRetryAttempts :: nat
  eb_retryDelayMs :: nat
  eb_asyncProcessing :: bool

definition default_event_bus :: event_bus_config where
  "default_event_bus =
     \<lparr>eb_enableDeduplication = True, eb_deduplicationTtlMs = 3600000, eb_maxRetryAttempts = 3,
      eb_retryDelayMs = 1000, eb_asyncProcessing = True\<rparr>"

text \<open>\<open>cleaning\<close>: whether the timer that cleans the deduplication cache is running.\<close>

record 's event_bus =
  subscriptions :: "(wallet_event_type \<times> 's event_subscription list) list"
  processedEvents :: "(string \<times> int) list"
  config :: event_bus_config
  cleaning :: bool
  world :: 's

record event_publish_result =
  pb_eventId :: string
  pb_success :: bool
  pb_handlersNotified :: nat
  pb_errors :: "(string \<times> error) list option"

definition new_event_bus :: "event_bus_config \<Rightarrow> 's \<Rightarrow> 's event_bus" where
  "new_event_bus cfg w =
     \<lparr>subscriptions = [], processedEvents = [], config = cfg, cleaning = eb_enableDeduplication cfg,
      world = w\<rparr>"

section \<open>Subscriptions\<close>

text \<open>\<open>priority || 100\<close>: no priority and priority zero both count as a hundred.\<close>

definition priority_of :: "'s event_subscription \<Rightarrow> int" where
  "priority_of sub = (case su_priority sub of None \<Rightarrow> 100 | Some p \<Rightarrow> if p = 0 then 100 else p)"

definition subscribers_of :: "'s event_bus \<Rightarrow> wallet_event_type \<Rightarrow> 's event_subscription list" where
  "subscribers_of bus ty = (case map_of (subscriptions bus) ty of None \<Rightarrow> [] | Some subs \<Rightarrow> subs)"

definition subscribe_one :: "'s event_subscription \<Rightarrow> 's event_bus \<Rightarrow> wallet_event_type \<Rightarrow> 's event_bus" where
  "subscribe_one subscription bus eventType =
     bus\<lparr>subscriptions := AList.update eventType
       (sort_key priority_of (subscribers_of bus eventType @ [subscription])) (subscriptions bus)\<rparr>"

definition subscribe :: "'s event_subscription \<Rightarrow> 's event_bus \<Rightarrow> 's event_bus" where
  "subscribe subscription bus = foldl (subscribe_one subscription) bus (su_eventTypes subscription)"

definition unsubscribe :: "string \<Rightarrow> 's event_bus \<Rightarrow> 's event_bus" where
  "unsubscribe subscriberId bus =
     bus\<lparr>subscriptions :=
       map (\<lambda>(ty, subs). (ty, filter (\<lambda>s. su_subscriberId s \<noteq> subscriberId) subs)) (subscriptions bus)\<rparr>"

section \<open>Deduplication\<close>

definition dedupeKeys :: "base_reward_event \<Rightarrow> string list" where
  "dedupeKeys event =
     (''eventId:'' @ ev_eventId event) #
     (if ev_idempotencyKey event \<noteq> [] then [''idem:'' @ ev_idempotencyKey event] else [])"

definition isDuplicate :: "base_reward_event \<Rightarrow> 's event_bus \<Rightarrow> bool" where
  "isDuplicate event bus \<longleftrightarrow> list_ex (\<lambda>k. map_of (processedEvents bus) k \<noteq> None) (dedupeKeys event)"

definition markProcessed :: "int \<Rightarrow> base_reward_event \<Rightarrow> 's event_bus \<Rightarrow> 's event_bus" where
  "markProcessed now event bus =
     bus\<lparr>processedEvents := foldl (\<lambda>m k. AList.update k now m) (processedEvents bus) (dedupeKeys event)\<rparr>"

text \<open>One tick of the timer started by \<open>startCleanupInterval\<close>, every minute while it runs.\<close>

definition cleanup_tick :: "int \<Rightarrow> 's event_bus \<Rightarrow> 's event_bus" where
  "cleanup_tick now bus =
     (if cleaning bus
      then bus\<lparr>processedEvents :=
        filter (\<lambda>(k, t). \<not> eb_deduplicationTtlMs (config bus) < now - t) (processedEvents bus)\<rparr>
      else bus)"

definition clearSubscriptions :: "'s event_bus \<Rightarrow> 's event_bus" where
  "clearSubscriptions bus = bus\<lparr>subscriptions := [], processedEvents := []\<rparr>"

definition destroy :: "'s event_bus \<Rightarrow> 's event_bus" where
  "destroy bus = clearSubscriptions (bus\<lparr>cleaning := False\<rparr>)"

section \<open>Publishing\<close>

primrec on_world :: "('s, 'a) proc \<Rightarrow> ('s event_bus, 'a) proc" where
  "on_world (Ret a) = Ret a"
| "on_world (Act f) = Act (\<lambda>bus. case (map_prod id on_world \<circ> f) (world bus) of
     (w, p) \<Rightarrow> (bus\<lparr>world := w\<rparr>, p))"

text \<open>The retry loop, by the number of attempts that are left.\<close>

primrec notify_attempts ::
  "'s event_subscription \<Rightarrow> reward_event \<Rightarrow> nat \<Rightarrow> error option \<Rightarrow> ('s, error, unit) io" where
  "notify_attempts subscription event 0 lastError =
     throw (case lastError of Some e \<Rightarrow> e | None \<Rightarrow> Plain ''Handler failed after retries'')"
| "notify_attempts subscription event (Suc n) lastError =
     try_catch (su_handler subscription event) (\<lambda>error. notify_attempts subscription event n (Some error))"

definition notifySubscriber ::
  "event_bus_config \<Rightarrow> 's event_subscription \<Rightarrow> reward_event \<Rightarrow> ('s, error, unit) io" where
  "notifySubscriber cfg subscription event =
     notify_attempts subscription event (eb_maxRetryAttempts cfg) None"

text \<open>
  The synchronous part of \<open>publish\<close>: the duplicate check, the marking, and the lookup of the
  subscribers.  \<open>None\<close> is a duplicate.
\<close>

definition accept_event ::
  "int \<Rightarrow> reward_event \<Rightarrow> 's event_bus \<Rightarrow> 's event_bus \<times> 's event_subscription list option" where
  "accept_event now event bus =
     (if eb_enableDeduplication (config bus) \<and> isDuplicate (base_of event) bus then (bus, None)
      else
        let bus' = (if eb_enableDeduplication (config bus) then markProcessed now (base_of event) bus else bus)
        in (bus', Some (subscribers_of bus' (ev_eventType (base_of event)))))"

definition notification ::
  "event_bus_config \<Rightarrow> reward_event \<Rightarrow> 's event_subscription \<Rightarrow> ('s event_bus, (string \<times> error) option) proc" where
  "notification cfg event subscription =
     pbind (on_world (notifySubscriber cfg subscription event)) (\<lambda>r.
       Ret (case r of Inl e \<Rightarrow> Some (su_subscriberId subscription, e) | Inr _ \<Rightarrow> None))"

definition publish_result ::
  "string \<Rightarrow> (string \<times> error) option list \<Rightarrow> event_publish_result" where
  "publish_result eventId outcomes =
     (let errors = map the (filter (\<lambda>x. x \<noteq> None) outcomes) in
      \<lparr>pb_eventId = eventId, pb_success = (errors = []),
       pb_handlersNotified = length (filter (\<lambda>x. x = None) outcomes),
       pb_errors = (if errors = [] then None else Some errors)\<rparr>)"

text \<open>
  The result, and the notifications that are still to run.  When they are not awaited, none of
  them has reported back when the result is built.
\<close>

definition publish ::
  "int \<Rightarrow> nat list \<Rightarrow> reward_event \<Rightarrow>
   ('s event_bus, event_publish_result \<times> ('s event_bus, (string \<times> error) option) proc list) proc" where
  "publish now sched event =
     Act (\<lambda>bus. case accept_event now event bus of
       (bus', None) \<Rightarrow> (bus', Ret (publish_result (ev_eventId (base_of event)) [], []))
     | (bus', Some subscribers) \<Rightarrow>
         (bus',
          let notifications = map (notification (config bus') event) subscribers in
          if eb_asyncProcessing (config bus')
          then Ret (publish_result (ev_eventId (base_of event)) [], notifications)
          else pbind (promise_all sched notifications) (\<lambda>outcomes.
            Ret (publish_result (ev_eventId (base_of event)) outcomes, []))))"

section \<open>Statistics and the singleton\<close>

record bus_stats =
  st_totalSubscribers :: nat
  st_processedEventsCount :: nat
  st_subscriptionsByType :: "(wallet_event_type \<times> nat) list"

definition bus_getStats :: "'s event_bus \<Rightarrow> bus_stats" where
  "bus_getStats bus =
     \<lparr>st_totalSubscribers = sum_list (map (\<lambda>(_, subs). length subs) (subscriptions bus)),
      st_processedEventsCount = length (processedEvents bus),
      st_subscriptionsByType = map (\<lambda>(ty, subs). (ty, length subs)) (subscriptions bus)\<rparr>"

definition getEventBus ::
  "event_bus_config \<Rightarrow> 's \<Rightarrow> 's event_bus option \<Rightarrow> 's event_bus \<times> 's event_bus option" where
  "getEventBus cfg w current =
     (case current of Some bus \<Rightarrow> (bus, current)
      | None \<Rightarrow> (new_event_bus cfg w, Some (new_event_bus cfg w)))"

text \<open>The old instance is cleared but its timer keeps running; it is forgotten.\<close>

definition resetEventBus :: "'s event_bus option \<Rightarrow> 's event_bus option \<times> 's event_bus option" where
  "resetEventBus current = (map_option clearSubscriptions current, None)"

section \<open>Runs of the bus\<close>

text \<open>
  What happens to a bus between two moments, until it is cleared: time passes, subscribers come
  and go, events are published, the timer ticks, and handlers act on the world.
\<close>

inductive bus_reach :: "int \<Rightarrow> 's event_bus \<Rightarrow> int \<Rightarrow> 's event_bus \<Rightarrow> bool" for t0 b0 where
  at_start: "bus_reach t0 b0 t0 b0"
| time_passes: "bus_reach t0 b0 t b \<Longrightarrow> t \<le> t' \<Longrightarrow> bus_reach t0 b0 t' b"
| subscribed: "bus_reach t0 b0 t b \<Longrightarrow> bus_reach t0 b0 t (subscribe sub b)"
| unsubscribed: "bus_reach t0 b0 t b \<Longrightarrow> bus_reach t0 b0 t (unsubscribe i b)"
| accepted: "bus_reach t0 b0 t b \<Longrightarrow> bus_reach t0 b0 t (fst (accept_event t ev b))"
| ticked: "bus_reach t0 b0 t b \<Longrightarrow> bus_reach t0 b0 t (cleanup_tick t b)"
| delivered: "bus_reach t0 b0 t b \<Longrightarrow> bus_reach t0 b0 t (b\<lparr>world := w\<rparr>)"

lemma subscribe_frame [simp]:
  "processedEvents (subscribe sub b) = processedEvents b"
  "config (subscribe sub b) = config b"
  "world (subscribe sub b) = world b"
proof -
  have "processedEvents (foldl (subscribe_one sub) b tys) = processedEvents b \<and>
      config (foldl (subscribe_one sub) b tys) = config b \<and> world (foldl (subscribe_one sub) b tys) = world b" for tys
    by (induction tys arbitrary: b) (simp_all add: subscribe_one_def)
  then show "processedEvents (subscribe sub b) = processedEvents b" "config (subscribe sub b) = config b"
    "world (subscribe sub b) = world b" by (simp_all add: subscribe_def)
qed

lemma unsubscribe_frame [simp]:
  "processedEvents (unsubscribe i b) = processedEvents b" "config (unsubscribe i b) = config b"
  by (simp_all add: unsubscribe_def)

lemma accept_event_frame [simp]:
  "config (fst (accept_event t ev b)) = config b"
  "subscriptions (fst (accept_event t ev b)) = subscriptions b"
  "world (fst (accept_event t ev b)) = world b"
  by (simp_all add: accept_event_def markProcessed_def Let_def)

lemma cleanup_tick_frame [simp]:
  "config (cleanup_tick t b) = config b" "subscriptions (cleanup_tick t b) = subscriptions b"
  by (simp_all add: cleanup_tick_def)

text \<open>Handlers touch nothing of the bus but the world.\<close>

lemma run_on_world:
  "run (on_world p) b = (fst (run p (world b)), b\<lparr>world := snd (run p (world b))\<rparr>)"
  by (induction p arbitrary: b) (simp_all add: prod.case_eq_if)

section \<open>Subscribers are notified in the order of their priority\<close>

lemma subscribers_of_subscribe_one:
  "subscribers_of (subscribe_one sub b ty) ty' =
     (if ty = ty' then sort_key priority_of (subscribers_of b ty @ [sub]) else subscribers_of b ty')"
  by (simp add: subscribers_of_def subscribe_one_def)

lemma sorted_subscribe:
  assumes "\<forall>ty. sorted (map priority_of (subscribers_of b ty))"
  shows "\<forall>ty. sorted (map priority_of (subscribers_of (subscribe sub b) ty))"
proof -
  have "\<forall>ty. sorted (map priority_of (subscribers_of (foldl (subscribe_one sub) b tys) ty))" for tys
    using assms
    by (induction tys arbitrary: b) (simp_all add: subscribers_of_subscribe_one del: sort_key_simps)
  then show ?thesis by (simp add: subscribe_def)
qed

lemma subscribers_of_unsubscribe:
  "subscribers_of (unsubscribe i b) ty = filter (\<lambda>s. su_subscriberId s \<noteq> i) (subscribers_of b ty)"
  by (simp add: subscribers_of_def unsubscribe_def map_of_map split: option.split)

text \<open>
  In every state a bus can reach from its start, the subscribers of each event type are in
  the order of their priority, and notifications are started in that order.
\<close>

theorem subscribers_by_priority:
  assumes "bus_reach t0 (new_event_bus cfg w) t b"
  shows "sorted (map priority_of (subscribers_of b ty)) \<and>
    (case accept_event t ev b of (_, Some subs) \<Rightarrow> sorted (map priority_of subs) | _ \<Rightarrow> True)"
proof -
  have sorted: "\<forall>ty. sorted (map priority_of (subscribers_of b ty))"
    using assms
  proof (induction rule: bus_reach.induct)
    case at_start
    then show ?case by (simp add: subscribers_of_def new_event_bus_def)
  next
    case (subscribed t b sub)
    then show ?case by (intro sorted_subscribe)
  next
    case (unsubscribed t b i)
    then show ?case by (simp add: subscribers_of_unsubscribe sorted_filter)
  qed (simp_all add: subscribers_of_def)
  then show ?thesis
    by (auto simp: accept_event_def Let_def markProcessed_def subscribers_of_def)
qed

section \<open>An event is delivered once\<close>

definition marked_since :: "int \<Rightarrow> string \<Rightarrow> 's event_bus \<Rightarrow> bool" where
  "marked_since t k b \<longleftrightarrow> (\<exists>t1. t \<le> t1 \<and> (k, t1) \<in> set (processedEvents b))"

lemma in_update: "(k, v) \<in> set (AList.update k v m)"
  by (induction m) auto

lemma update_other: "k \<noteq> k' \<Longrightarrow> (k, v) \<in> set (AList.update k' v' m) \<longleftrightarrow> (k, v) \<in> set m"
  by (induction m) auto

lemma marks_now: "k \<in> set ks \<Longrightarrow> (k, t) \<in> set (foldl (\<lambda>m k. AList.update k t m) m ks)"
proof (induction ks arbitrary: m rule: rev_induct)
  case (snoc x ks)
  then show ?case by (cases "k = x") (auto simp: in_update update_other)
qed simp

lemma marks_keep:
  assumes "(k, t1) \<in> set m" and "t \<le> t1" and "t \<le> now"
  shows "\<exists>t2. t \<le> t2 \<and> (k, t2) \<in> set (foldl (\<lambda>m k. AList.update k now m) m ks)"
  using assms(1,2)
proof (induction ks arbitrary: m t1)
  case (Cons x ks)
  have "\<exists>t2. t \<le> t2 \<and> (k, t2) \<in> set (AList.update x now m)"
    using Cons.prems assms(3) in_update [of x now m] update_other [of k x t1 now m] by (cases "k = x") auto
  then show ?case using Cons.IH by auto
qed auto

lemma marked_accept:
  assumes "t \<le> now" and "marked_since t k b"
  shows "marked_since t k (fst (accept_event now ev b))"
  using assms marks_keep [of k _ "processedEvents b" t now "dedupeKeys (base_of ev)"]
  by (auto simp: marked_since_def accept_event_def markProcessed_def Let_def)

lemma accept_marks:
  assumes "eb_enableDeduplication (config b)" and "k \<in> set (dedupeKeys (base_of ev))"
    and "snd (accept_event t ev b) \<noteq> None"
  shows "marked_since t k (fst (accept_event t ev b))"
  using assms marks_now [of k "dedupeKeys (base_of ev)" t "processedEvents b"]
  by (auto simp: accept_event_def markProcessed_def Let_def marked_since_def split: if_splits)

lemma marked_reach:
  assumes "bus_reach t0 b0 t b" and "marked_since t0 k b0"
  shows "t0 \<le> t \<and> config b = config b0 \<and>
    (t - t0 \<le> eb_deduplicationTtlMs (config b0) \<longrightarrow> marked_since t0 k b)"
  using assms
proof (induction rule: bus_reach.induct)
  case (accepted t b ev)
  then show ?case by (auto intro: marked_accept)
next
  case (ticked t b)
  then show ?case by (auto simp: marked_since_def cleanup_tick_def)
qed (auto simp: marked_since_def)

lemma marked_duplicate:
  "marked_since t k b \<Longrightarrow> k \<in> set (dedupeKeys e) \<Longrightarrow> isDuplicate e b"
  using weak_map_of_SomeI [of k _ "processedEvents b"]
  by (fastforce simp: marked_since_def isDuplicate_def list_ex_iff)

text \<open>
  C21: With deduplication on, once an event has been accepted, an event with the same id or the
  same idempotency key that is published within the time to live is a duplicate, whatever
  subscriptions, publications, cleanups and deliveries come in between: the publication reports
  success, notifies nobody, leaves nothing to run, and does not change the bus.
\<close>

theorem publish_delivers_once:
  assumes "eb_enableDeduplication (config b)" and "accept_event t ev b = (b1, Some subs)"
    and "bus_reach t b1 t' b'" and "t' - t \<le> eb_deduplicationTtlMs (config b)"
    and "k \<in> set (dedupeKeys (base_of ev))" and "k \<in> set (dedupeKeys (base_of ev'))"
  shows "run (publish t' sched ev') b' =
    ((\<lparr>pb_eventId = ev_eventId (base_of ev'), pb_success = True, pb_handlersNotified = 0, pb_errors = None\<rparr>, []), b')"
proof -
  have cfg: "config b1 = config b" using accept_event_frame(1) [of t ev b] assms(2) by simp
  have "marked_since t k b1"
    using accept_marks [OF assms(1,5), of t] assms(2) by simp
  then have "marked_since t k b'" and "config b' = config b"
    using marked_reach [OF assms(3)] assms(4) cfg by auto
  moreover from this have "isDuplicate (base_of ev') b'" using assms(6) by (intro marked_duplicate)
  ultimately have "accept_event t' ev' b' = (b', None)"
    using assms(1) by (simp add: accept_event_def)
  then show ?thesis by (simp add: publish_def publish_result_def)
qed

section \<open>Retries and reports\<close>

text \<open>The world before the attempt numbered \<open>i\<close>, when all before it have failed.\<close>

definition world_at :: "('s, error, unit) io \<Rightarrow> 's \<Rightarrow> nat \<Rightarrow> 's" where
  "world_at h s i = ((\<lambda>w. snd (run h w)) ^^ i) s"

lemma world_at_simps [simp]:
  "world_at h s 0 = s" "world_at h s (Suc i) = world_at h (snd (run h s)) i"
  using funpow_swap1 [of "\<lambda>w. snd (run h w)" i s] by (simp_all add: world_at_def)

lemma notify_attempts_outcome:
  "case run (notify_attempts sub ev n e) s of
     (Inr _, s') \<Rightarrow> (\<exists>i<n. (\<forall>j<i. isl (fst (run (su_handler sub ev) (world_at (su_handler sub ev) s j)))) \<and>
        \<not> isl (fst (run (su_handler sub ev) (world_at (su_handler sub ev) s i))) \<and>
        s' = world_at (su_handler sub ev) s (Suc i))
   | (Inl _, s') \<Rightarrow> (\<forall>j<n. isl (fst (run (su_handler sub ev) (world_at (su_handler sub ev) s j)))) \<and>
        s' = world_at (su_handler sub ev) s n"
proof (induction n arbitrary: e s)
  case 0
  then show ?case by (simp add: run_simps)
next
  case (Suc n)
  let ?h = "su_handler sub ev"
  obtain r s1 where r: "run ?h s = (r, s1)" by fastforce
  show ?case
  proof (cases r)
    case (Inr u)
    then have "run (notify_attempts sub ev (Suc n) e) s = (Inr u, s1)" by (simp add: run_simps r)
    then show ?thesis using r Inr by (auto intro!: exI [of _ 0])
  next
    case (Inl err)
    then have step: "run (notify_attempts sub ev (Suc n) e) s = run (notify_attempts sub ev n (Some err)) s1"
      by (simp add: run_simps r)
    obtain r2 s2 where r2: "run (notify_attempts sub ev n (Some err)) s1 = (r2, s2)" by fastforce
    note IH = Suc.IH [where e = "Some err" and s = s1, unfolded r2 prod.case]
    show ?thesis
    proof (cases r2)
      case Inl2: (Inl e2)
      have "isl (fst (run ?h (world_at ?h s j)))" if "j < Suc n" for j
        using that IH r Inl Inl2 by (cases j) auto
      then show ?thesis unfolding step r2 using IH r Inl2 by simp
    next
      case Inr2: (Inr u)
      then obtain i where i: "i < n" "\<forall>j<i. isl (fst (run ?h (world_at ?h s1 j)))"
        "\<not> isl (fst (run ?h (world_at ?h s1 i)))" "s2 = world_at ?h s1 (Suc i)"
        using IH by auto
      have "isl (fst (run ?h (world_at ?h s j)))" if "j < Suc i" for j
        using that i(2) r Inl by (cases j) auto
      moreover have "\<not> isl (fst (run ?h (world_at ?h s (Suc i))))" and "s2 = world_at ?h s (Suc (Suc i))"
        using i r by simp_all
      ultimately show ?thesis
        unfolding step r2 Inr2 prod.case sum.case using i(1) by (intro exI [of _ "Suc i"]) blast
    qed
  qed
qed

text \<open>
  A subscriber is called again until a call succeeds, at most as often as configured: it is
  notified exactly when one of the first attempts succeeds, after the failed ones before it, and
  otherwise every attempt has been made and has failed.
\<close>

theorem notifySubscriber_attempts:
  "case run (notifySubscriber cfg sub ev) s of
     (Inr _, s') \<Rightarrow> (\<exists>i<eb_maxRetryAttempts cfg.
        (\<forall>j<i. isl (fst (run (su_handler sub ev) (world_at (su_handler sub ev) s j)))) \<and>
        \<not> isl (fst (run (su_handler sub ev) (world_at (su_handler sub ev) s i))) \<and>
        s' = world_at (su_handler sub ev) s (Suc i))
   | (Inl _, s') \<Rightarrow>
        (\<forall>j<eb_maxRetryAttempts cfg. isl (fst (run (su_handler sub ev) (world_at (su_handler sub ev) s j)))) \<and>
        s' = world_at (su_handler sub ev) s (eb_maxRetryAttempts cfg)"
  unfolding notifySubscriber_def by (rule notify_attempts_outcome)

lemma length_outcomes:
  "length (filter (\<lambda>x. x = None) xs) + length (filter (\<lambda>x. x \<noteq> None) xs) = length xs"
  by (induction xs) auto

definition error_count :: "event_publish_result \<Rightarrow> nat" where
  "error_count r = (case pb_errors r of None \<Rightarrow> 0 | Some es \<Rightarrow> length es)"

lemma publish_result_counts:
  "pb_handlersNotified (publish_result i xs) + error_count (publish_result i xs) = length xs"
  "pb_success (publish_result i xs) \<longleftrightarrow> error_count (publish_result i xs) = 0"
  using length_outcomes [of xs]
  by (auto simp: publish_result_def error_count_def Let_def simp del: not_None_eq)

text \<open>
  When notifications are awaited, the result of a publication accounts for every subscriber, as
  notified or with an error, and reports success exactly when there is no error.  When they are
  not awaited, which is the default, the result says success and nobody notified, whoever
  subscribes and however the handlers end.
\<close>

theorem publish_reports:
  assumes "accept_event now ev b = (b1, Some subs)"
  shows "\<exists>r pending b2. run (publish now sched ev) b = ((r, pending), b2) \<and>
    (if eb_asyncProcessing (config b)
     then (pb_success r, pb_handlersNotified r, pb_errors r) = (True, 0, None) \<and> b2 = b1 \<and>
       length pending = length subs
     else pb_handlersNotified r + error_count r = length subs \<and>
       pb_success r = (error_count r = 0) \<and> pending = [])"
proof -
  have cfg: "config b1 = config b" using accept_event_frame(1) [of now ev b] assms by simp
  let ?ps = "map (notification (config b1) ev) subs"
  have len: "length (fst (run (promise_all sched ?ps) b1)) = length subs"
    using run_env_promise_all_length [of sched ?ps "[]" b1] by (simp add: run_env_idle)
  let ?i = "ev_eventId (base_of ev)"
  show ?thesis
  proof (cases "eb_asyncProcessing (config b)")
    case True
    then have "run (publish now sched ev) b = ((publish_result ?i [], ?ps), b1)"
      using assms cfg by (simp add: publish_def)
    then show ?thesis using True by (simp add: publish_result_def)
  next
    case False
    then have "run (publish now sched ev) b =
        ((publish_result ?i (fst (run (promise_all sched ?ps) b1)), []), snd (run (promise_all sched ?ps) b1))"
      using assms cfg by (simp add: publish_def run_pbind prod.case_eq_if)
    then show ?thesis using False len by (simp add: publish_result_counts)
  qed
qed

section \<open>Witnesses\<close>

text \<open>A world that counts calls, with a handler that fails the first two times.\<close>

definition flaky :: "nat event_subscription" where
  "flaky =
     \<lparr>su_subscriberId = ''flaky'', su_eventTypes = [LEDGER_ENTRY_CREATED],
      su_handler = (\<lambda>ev. atomically (\<lambda>n. (Suc n, if n < 2 then Inl (Plain ''down'') else Inr ()))),
      su_priority = None\<rparr>"

definition demo_event :: reward_event where
  "demo_event = LedgerEntryCreatedEvent
     \<lparr>ev_eventId = ''e1'', ev_eventType = LEDGER_ENTRY_CREATED, ev_idempotencyKey = ''k1'',
      ev_timestamp = 5, ev_correlationId = None, ev_source = ''reward-service'', ev_version = ''1.0''\<rparr>"

definition urgent :: "nat event_subscription" where
  "urgent = flaky\<lparr>su_subscriberId := ''urgent'', su_priority := Some 10\<rparr>"

definition demo_bus :: "nat event_bus" where
  "demo_bus = subscribe urgent (subscribe flaky (new_event_bus default_event_bus 0))"

lemma demo_bus_reach: "bus_reach 0 (new_event_bus default_event_bus 0) 0 demo_bus"
  unfolding demo_bus_def by (intro bus_reach.subscribed bus_reach.at_start)

theorem subscribers_by_priority_witness:
  "map su_subscriberId (subscribers_of demo_bus LEDGER_ENTRY_CREATED) = [''urgent'', ''flaky''] \<and>
   sorted (map priority_of (subscribers_of demo_bus LEDGER_ENTRY_CREATED))"
proof
  show "map su_subscriberId (subscribers_of demo_bus LEDGER_ENTRY_CREATED) = [''urgent'', ''flaky'']"
    by code_simp
  show "sorted (map priority_of (subscribers_of demo_bus LEDGER_ENTRY_CREATED))"
    using subscribers_by_priority [OF demo_bus_reach] by blast
qed

lemma demo_accept:
  "\<exists>b1 subs. accept_event 7 demo_event demo_bus = (b1, Some subs) \<and> length subs = 2"
proof -
  have "map_option length (snd (accept_event 7 demo_event demo_bus)) = Some 2" by code_simp
  then show ?thesis by (cases "accept_event 7 demo_event demo_bus") auto
qed

lemma demo_bus_config: "config demo_bus = default_event_bus"
  by (simp add: demo_bus_def new_event_bus_def)

theorem publish_delivers_once_witness:
  "\<exists>b1 subs. accept_event 7 demo_event demo_bus = (b1, Some subs) \<and> length subs = 2 \<and>
     pb_handlersNotified (fst (fst (run (publish 9 [] demo_event) b1))) = 0"
proof -
  obtain b1 subs where subs: "accept_event 7 demo_event demo_bus = (b1, Some subs)" "length subs = 2"
    using demo_accept by blast
  have dedup: "eb_enableDeduplication (config demo_bus)" and ttl: "9 - 7 \<le> eb_deduplicationTtlMs (config demo_bus)"
    by (simp_all add: demo_bus_config default_event_bus_def)
  have reach: "bus_reach 7 b1 9 b1" by (rule time_passes [OF at_start]) simp
  have key: "''eventId:e1'' \<in> set (dedupeKeys (base_of demo_event))" by code_simp
  have "pb_handlersNotified (fst (fst (run (publish 9 [] demo_event) b1))) = 0"
    unfolding publish_delivers_once [OF dedup subs(1) reach ttl key key] by simp
  then show ?thesis using subs by blast
qed

theorem notifySubscriber_attempts_witness:
  "\<exists>i<3. (\<forall>j<i. isl (fst (run (su_handler flaky demo_event) (world_at (su_handler flaky demo_event) 0 j)))) \<and>
     world_at (su_handler flaky demo_event) 0 (Suc i) = 3"
proof -
  have run: "run (notifySubscriber default_event_bus flaky demo_event) 0 = (Inr (), 3)" by code_simp
  have max: "eb_maxRetryAttempts default_event_bus = 3" by code_simp
  obtain i where "i < 3" and "3 = world_at (su_handler flaky demo_event) 0 (Suc i)"
    and "\<forall>j<i. isl (fst (run (su_handler flaky demo_event) (world_at (su_handler flaky demo_event) 0 j)))"
    using notifySubscriber_attempts [of default_event_bus flaky demo_event 0]
    unfolding run max prod.case sum.case by blast
  then show ?thesis by metis
qed

theorem publish_reports_witness:
  "\<exists>b1 subs r pending b2. accept_event 7 demo_event demo_bus = (b1, Some subs) \<and>
     run (publish 7 [] demo_event) demo_bus = ((r, pending), b2) \<and>
     pb_handlersNotified r = 0 \<and> length pending = 2"
proof -
  obtain b1 subs where subs: "accept_event 7 demo_event demo_bus = (b1, Some subs)" "length subs = 2"
    using demo_accept by blast
  have async: "eb_asyncProcessing (config demo_bus)" by (simp add: demo_bus_config default_event_bus_def)
  obtain r pending b2 where "run (publish 7 [] demo_event) demo_bus = ((r, pending), b2)"
    and "pb_handlersNotified r = 0" and "length pending = 2"
    using publish_reports [OF subs(1), of "[]"] subs(2) unfolding if_P [OF async] by auto
  then show ?thesis using subs(1) by blast
qed

end
