(* ===== verification/Balance_Cache.thy ===== *)
theory Balance_Cache
  imports Event_Bus Ledger_Service
begin

text \<open>
  The balance snapshot cache (\<open>src/events/balance-snapshot-cache.ts\<close>): a map from accounts to the
  balances that the wallet events report, with a time to live and an eviction of the entries that
  were updated longest ago.  It is a subscriber of the event bus, whose world it is.  An entry is
  a value here; in the program \<open>getBalance\<close> hands out the stored object itself.
\<close>

section \<open>State\<close>

record cached_balance =
  cb_accountId :: string
  cb_accountType :: account_type
  cb_availableBalance :: rat
  cb_escrowBalance :: "rat option"
  cb_earnedBalance :: "rat option"
  cb_lastUpdated :: int
  cb_version :: nat

record balance_cache_config =
  cc_enabled :: bool
  cc_maxSize :: nat
  cc_ttlMs :: int

definition default_balance_cache :: balance_cache_config where
  "default_balance_cache = \<lparr>cc_enabled = True, cc_maxSize = 10000, cc_ttlMs = 3600000\<rparr>"

record balance_cache =
  cache :: "(string \<times> cached_balance) list"
  cache_config :: balance_cache_config

definition new_balance_cache :: "balance_cache_config \<Rightarrow> balance_cache" where
  "new_balance_cache cfg = \<lparr>cache = [], cache_config = cfg\<rparr>"

definition account_type_string :: "account_type \<Rightarrow> string" where
  "account_type_string t = (case t of User \<Rightarrow> ''user'' | Model \<Rightarrow> ''model'')"

definition getCacheKey :: "string \<Rightarrow> account_type \<Rightarrow> string" where
  "getCacheKey accountId accountType = account_type_string accountType @ '':'' @ accountId"

section \<open>Eviction\<close>

definition evictIfNeeded :: "balance_cache \<Rightarrow> balance_cache" where
  "evictIfNeeded bc =
     (if length (cache bc) \<le> cc_maxSize (cache_config bc) then bc
      else
        let entries = sort_key (\<lambda>(_, c). cb_lastUpdated c) (cache bc);
            toRemove = take (length entries - cc_maxSize (cache_config bc)) entries
        in bc\<lparr>cache := foldl (\<lambda>m (key, _). AList.delete key m) (cache bc) toRemove\<rparr>)"

section \<open>Event handlers\<close>

text \<open>Initialise the entry of a key, or change the one it has.\<close>

definition put_or_change ::
  "string \<Rightarrow> cached_balance \<Rightarrow> (cached_balance \<Rightarrow> cached_balance) \<Rightarrow> balance_cache \<Rightarrow> balance_cache" where
  "put_or_change key newEntry change bc =
     bc\<lparr>cache := AList.update key
       (case map_of (cache bc) key of
          None \<Rightarrow> newEntry
        | Some cached \<Rightarrow> (change cached)\<lparr>cb_version := cb_version cached + 1\<rparr>) (cache bc)\<rparr>"

definition put_balance :: "balance_updated_event \<Rightarrow> balance_cache \<Rightarrow> balance_cache" where
  "put_balance event =
     put_or_change (getCacheKey (bu_accountId event) (bu_accountType event))
       \<lparr>cb_accountId = bu_accountId event, cb_accountType = bu_accountType event,
        cb_availableBalance =
          (if bu_accountType event = User \<and> bu_balanceState event = Available then bu_balanceAfter event else 0),
        cb_escrowBalance = Some
          (if bu_accountType event = User \<and> bu_balanceState event = Escrow then bu_balanceAfter event else 0),
        cb_earnedBalance = Some
          (if bu_accountType event = Model \<and> bu_balanceState event = Earned then bu_balanceAfter event else 0),
        cb_lastUpdated = ev_timestamp event, cb_version = 1\<rparr>
       (\<lambda>cached.
         (case bu_balanceState event of
            Available \<Rightarrow> cached\<lparr>cb_availableBalance := bu_balanceAfter event\<rparr>
          | Escrow \<Rightarrow> cached\<lparr>cb_escrowBalance := Some (bu_balanceAfter event)\<rparr>
          | Earned \<Rightarrow> cached\<lparr>cb_earnedBalance := Some (bu_balanceAfter event)\<rparr>)
         \<lparr>cb_lastUpdated := ev_timestamp event\<rparr>)"

definition handleBalanceUpdated :: "balance_updated_event \<Rightarrow> balance_cache \<Rightarrow> balance_cache" where
  "handleBalanceUpdated event bc = evictIfNeeded (put_balance event bc)"

text \<open>The user part of a held, refunded or partially settled escrow.\<close>

definition put_user :: "string \<Rightarrow> rat \<Rightarrow> rat \<Rightarrow> int \<Rightarrow> balance_cache \<Rightarrow> balance_cache" where
  "put_user userId available escrow timestamp =
     put_or_change (getCacheKey userId User)
       \<lparr>cb_accountId = userId, cb_accountType = User, cb_availableBalance = available,
        cb_escrowBalance = Some escrow, cb_earnedBalance = None, cb_lastUpdated = timestamp,
        cb_version = 1\<rparr>
       (\<lambda>cached. cached\<lparr>cb_availableBalance := available, cb_escrowBalance := Some escrow,
                        cb_lastUpdated := timestamp\<rparr>)"

text \<open>The model part of a settled or partially settled escrow.\<close>

definition put_model :: "string \<Rightarrow> rat \<Rightarrow> int \<Rightarrow> balance_cache \<Rightarrow> balance_cache" where
  "put_model modelId earned timestamp =
     put_or_change (getCacheKey modelId Model)
       \<lparr>cb_accountId = modelId, cb_accountType = Model, cb_availableBalance = 0,
        cb_escrowBalance = None, cb_earnedBalance = Some earned, cb_lastUpdated = timestamp,
        cb_version = 1\<rparr>
       (\<lambda>cached. cached\<lparr>cb_earnedBalance := Some earned, cb_lastUpdated := timestamp\<rparr>)"

definition handleEscrowHeld :: "escrow_held_event \<Rightarrow> balance_cache \<Rightarrow> balance_cache" where
  "handleEscrowHeld event bc =
     evictIfNeeded (put_user (eh_userId event) (eh_userAvailableBalance event)
       (eh_userEscrowBalance event) (ev_timestamp event) bc)"

definition handleEscrowSettled :: "escrow_settled_event \<Rightarrow> balance_cache \<Rightarrow> balance_cache" where
  "handleEscrowSettled event bc =
     evictIfNeeded (put_model (es_modelId event) (es_modelEarnedBalance event) (ev_timestamp event) bc)"

definition handleEscrowRefunded :: "escrow_refunded_event \<Rightarrow> balance_cache \<Rightarrow> balance_cache" where
  "handleEscrowRefunded event bc =
     evictIfNeeded (put_user (er_userId event) (er_userAvailableBalance event)
       (er_userEscrowBalance event) (ev_timestamp event) bc)"

definition handleEscrowPartialSettled :: "escrow_partial_settled_event \<Rightarrow> balance_cache \<Rightarrow> balance_cache" where
  "handleEscrowPartialSettled event bc =
     evictIfNeeded
       (put_model (ep_modelId event) (ep_modelEarnedBalance event) (ev_timestamp event)
         (put_user (ep_userId event) (ep_userAvailableBalance event) (ep_userEscrowBalance event)
           (ev_timestamp event) bc))"

fun handleEvent :: "reward_event \<Rightarrow> balance_cache \<Rightarrow> balance_cache" where
  "handleEvent (LedgerEntryCreatedEvent _) bc = bc"
| "handleEvent (BalanceUpdatedEvent event) bc = handleBalanceUpdated event bc"
| "handleEvent (EscrowHeldEvent event) bc = handleEscrowHeld event bc"
| "handleEvent (EscrowSettledEvent event) bc = handleEscrowSettled event bc"
| "handleEvent (EscrowRefundedEvent event) bc = handleEscrowRefunded event bc"
| "handleEvent (EscrowPartialSettledEvent event) bc = handleEscrowPartialSettled event bc"

text \<open>The subscription that \<open>subscribeToEvents\<close> makes when the cache is enabled.\<close>

definition cache_subscription :: "balance_cache event_subscription" where
  "cache_subscription =
     \<lparr>su_subscriberId = ''balance-snapshot-cache'',
      su_eventTypes = [BALANCE_UPDATED, ESCROW_HELD, ESCROW_SETTLED, ESCROW_REFUNDED, ESCROW_PARTIAL_SETTLED],
      su_handler = (\<lambda>event. atomically (\<lambda>bc. (handleEvent event bc, Inr ()))),
      su_priority = Some 10\<rparr>"

definition subscribeToEvents :: "balance_cache event_bus \<Rightarrow> balance_cache event_bus" where
  "subscribeToEvents bus =
     (if cc_enabled (cache_config (world bus)) then subscribe cache_subscription bus else bus)"

section \<open>Reading and clearing\<close>

definition getBalance :: "int \<Rightarrow> string \<Rightarrow> account_type \<Rightarrow> balance_cache \<Rightarrow> cached_balance option \<times> balance_cache" where
  "getBalance now accountId accountType bc =
     (let key = getCacheKey accountId accountType in
      case map_of (cache bc) key of
        None \<Rightarrow> (None, bc)
      | Some cached \<Rightarrow>
          if cc_ttlMs (cache_config bc) < now - cb_lastUpdated cached
          then (None, bc\<lparr>cache := AList.delete key (cache bc)\<rparr>)
          else (Some cached, bc))"

definition invalidate :: "string \<Rightarrow> account_type \<Rightarrow> balance_cache \<Rightarrow> balance_cache" where
  "invalidate accountId accountType bc =
     bc\<lparr>cache := AList.delete (getCacheKey accountId accountType) (cache bc)\<rparr>"

definition clear_cache :: "balance_cache \<Rightarrow> balance_cache" where
  "clear_cache bc = bc\<lparr>cache := []\<rparr>"

text \<open>The number of entries and the limit; the hit rate is never set.\<close>

definition cache_getStats :: "balance_cache \<Rightarrow> nat \<times> nat" where
  "cache_getStats bc = (length (cache bc), cc_maxSize (cache_config bc))"

definition getBalanceCache ::
  "balance_cache_config \<Rightarrow> balance_cache option \<Rightarrow> balance_cache \<times> balance_cache option" where
  "getBalanceCache cfg current =
     (case current of Some bc \<Rightarrow> (bc, current)
      | None \<Rightarrow> (new_balance_cache cfg, Some (new_balance_cache cfg)))"

definition resetBalanceCache :: "balance_cache option \<Rightarrow> balance_cache option \<times> balance_cache option" where
  "resetBalanceCache current = (map_option clear_cache current, None)"

section \<open>The size of the cache\<close>

definition keys_distinct :: "balance_cache \<Rightarrow> bool" where
  "keys_distinct bc \<longleftrightarrow> distinct (map fst (cache bc))"

lemma keys_distinct_put [simp]: "keys_distinct bc \<Longrightarrow> keys_distinct (put_or_change k n f bc)"
  by (simp add: keys_distinct_def put_or_change_def distinct_update)

lemma put_config [simp]: "cache_config (put_or_change k n f bc) = cache_config bc"
  by (simp add: put_or_change_def)

lemma foldl_delete:
  "foldl (\<lambda>m (key, _). AList.delete key m) m xs = filter (\<lambda>(k, _). k \<notin> fst ` set xs) m"
proof (induction xs arbitrary: m)
  case Nil
  then show ?case by simp
next
  case (Cons x xs)
  then show ?case by (cases x) (auto simp: AList.delete_eq intro!: filter_cong)
qed

lemma evict_entries:
  assumes "keys_distinct bc"
  shows "\<exists>gone. cache (evictIfNeeded bc) = filter (\<lambda>x. x \<notin> gone) (cache bc) \<and>
    gone \<subseteq> set (cache bc) \<and> card gone = length (cache bc) - cc_maxSize (cache_config bc) \<and>
    (\<forall>x\<in>gone. \<forall>y\<in>set (cache (evictIfNeeded bc)). cb_lastUpdated (snd x) \<le> cb_lastUpdated (snd y))"
proof (cases "length (cache bc) \<le> cc_maxSize (cache_config bc)")
  case True
  then show ?thesis by (intro exI [of _ "{}"]) (simp add: evictIfNeeded_def)
next
  case False
  let ?n = "length (cache bc) - cc_maxSize (cache_config bc)"
  let ?es = "sort_key (\<lambda>(_, c). cb_lastUpdated c) (cache bc)"
  let ?gone = "set (take ?n ?es)"
  have dist: "distinct (map fst (cache bc))" using assms by (simp add: keys_distinct_def)
  then have "distinct (cache bc)" by (simp add: distinct_map)
  then have card: "card ?gone = ?n" by (simp add: distinct_card)
  have sub: "?gone \<subseteq> set (cache bc)" using set_take_subset [of ?n ?es] by simp
  have inj: "inj_on fst (set (cache bc))" using dist by (simp add: distinct_map)
  have "cache (evictIfNeeded bc) = filter (\<lambda>(k, _). k \<notin> fst ` ?gone) (cache bc)"
    using False by (simp add: evictIfNeeded_def Let_def foldl_delete)
  also have "\<dots> = filter (\<lambda>x. x \<notin> ?gone) (cache bc)"
  proof (rule filter_cong [OF refl])
    show "(case x of (k, _) \<Rightarrow> k \<notin> fst ` ?gone) = (x \<notin> ?gone)" if "x \<in> set (cache bc)" for x
      using inj_on_image_mem_iff [OF inj that sub] by (simp add: case_prod_beta)
  qed
  finally have kept: "cache (evictIfNeeded bc) = filter (\<lambda>x. x \<notin> ?gone) (cache bc)" .
  have "cb_lastUpdated (snd x) \<le> cb_lastUpdated (snd y)"
    if "x \<in> ?gone" and "y \<in> set (cache (evictIfNeeded bc))" for x y
  proof -
    have "y \<in> set (drop ?n ?es)"
    proof -
      have "y \<in> set ?es" and "y \<notin> ?gone" using that(2) kept by auto
      then show ?thesis using append_take_drop_id [of ?n ?es] by (metis UnE set_append)
    qed
    moreover have "sorted (map (\<lambda>(_, c). cb_lastUpdated c) (take ?n ?es @ drop ?n ?es))"
      by (simp only: append_take_drop_id sorted_sort_key)
    ultimately show ?thesis
      using that(1) unfolding map_append sorted_append by (fastforce simp: case_prod_beta)
  qed
  then show ?thesis using kept sub card by blast
qed

lemma keys_distinct_evict [simp]: "keys_distinct bc \<Longrightarrow> keys_distinct (evictIfNeeded bc)"
  using evict_entries [of bc] by (auto simp: keys_distinct_def distinct_map_filter)

lemma evict_config [simp]: "cache_config (evictIfNeeded bc) = cache_config bc"
  by (simp add: evictIfNeeded_def Let_def)

lemma evict_size:
  assumes "keys_distinct bc"
  shows "length (cache (evictIfNeeded bc)) \<le> cc_maxSize (cache_config bc)"
proof -
  obtain gone where g: "cache (evictIfNeeded bc) = filter (\<lambda>x. x \<notin> gone) (cache bc)"
    "gone \<subseteq> set (cache bc)" "card gone = length (cache bc) - cc_maxSize (cache_config bc)"
    using evict_entries [OF assms] by blast
  have dist: "distinct (cache bc)" using assms by (simp add: keys_distinct_def distinct_map)
  have "length (cache (evictIfNeeded bc)) = card (set (cache bc) - gone)"
    using distinct_card [OF distinct_filter [OF dist, of "\<lambda>x. x \<notin> gone"]] g(1) by (simp add: set_diff_eq)
  also have "\<dots> = length (cache bc) - card gone"
    using g(2) dist by (simp add: card_Diff_subset finite_subset distinct_card)
  finally show ?thesis using g(3) by simp
qed

lemmas event_handlers =
  handleBalanceUpdated_def handleEscrowHeld_def handleEscrowSettled_def handleEscrowRefunded_def
  handleEscrowPartialSettled_def put_user_def put_model_def put_balance_def

text \<open>The states a cache can reach.\<close>

inductive cache_reach :: "balance_cache_config \<Rightarrow> balance_cache \<Rightarrow> bool" for cfg where
  created: "cache_reach cfg (new_balance_cache cfg)"
| handled: "cache_reach cfg bc \<Longrightarrow> cache_reach cfg (handleEvent ev bc)"
| looked_up: "cache_reach cfg bc \<Longrightarrow> cache_reach cfg (snd (getBalance now a t bc))"
| invalidated: "cache_reach cfg bc \<Longrightarrow> cache_reach cfg (invalidate a t bc)"
| cleared: "cache_reach cfg bc \<Longrightarrow> cache_reach cfg (clear_cache bc)"

lemma cache_invariant:
  "cache_reach cfg bc \<Longrightarrow>
     cache_config bc = cfg \<and> keys_distinct bc \<and> length (cache bc) \<le> cc_maxSize cfg"
proof (induction rule: cache_reach.induct)
  case (handled bc ev)
  then show ?case
    by (cases ev) (auto simp: event_handlers intro!: evict_size [THEN order_trans])
next
  case (looked_up bc now a t)
  then show ?case
    by (auto simp: getBalance_def Let_def keys_distinct_def distinct_delete split: option.split
        intro: order_trans [OF length_delete_le])
next
  case (invalidated bc a t)
  then show ?case
    by (auto simp: invalidate_def keys_distinct_def distinct_delete intro: order_trans [OF length_delete_le])
qed (auto simp: new_balance_cache_def clear_cache_def keys_distinct_def)

text \<open>
  C25: In every state it can reach, the cache has at most one entry per account and no more entries
  than configured; an eviction removes just as many as are too many, and none that was updated
  later than one that stays.
\<close>

theorem cache_bounded:
  assumes "cache_reach cfg bc"
  shows "distinct (map fst (cache bc)) \<and> length (cache bc) \<le> cc_maxSize cfg \<and>
    (\<exists>gone. cache (evictIfNeeded (put_or_change k n f bc)) =
         filter (\<lambda>x. x \<notin> gone) (cache (put_or_change k n f bc)) \<and>
       card gone = length (cache (put_or_change k n f bc)) - cc_maxSize cfg \<and>
       (\<forall>x\<in>gone. \<forall>y\<in>set (cache (evictIfNeeded (put_or_change k n f bc))).
          cb_lastUpdated (snd x) \<le> cb_lastUpdated (snd y)))"
proof -
  have inv: "cache_config bc = cfg" "keys_distinct bc" "length (cache bc) \<le> cc_maxSize cfg"
    using cache_invariant [OF assms] by auto
  from evict_entries [OF keys_distinct_put [OF inv(2)], of k n f] inv show ?thesis
    unfolding put_config keys_distinct_def by blast
qed

section \<open>What the cache holds\<close>

lemma getCacheKey_inject [simp]: "getCacheKey a t = getCacheKey a' t' \<longleftrightarrow> a = a' \<and> t = t'"
  by (cases t; cases t') (simp_all add: getCacheKey_def account_type_string_def)

text \<open>The value an event reports for a balance of an account.\<close>

fun reports :: "reward_event \<Rightarrow> string \<Rightarrow> balance_state \<Rightarrow> rat option" where
  "reports (BalanceUpdatedEvent e) a st =
     (if bu_accountId e = a \<and> bu_balanceState e = st then Some (bu_balanceAfter e) else None)"
| "reports (EscrowHeldEvent e) a st =
     (if eh_userId e = a then map_of [(Available, eh_userAvailableBalance e), (Escrow, eh_userEscrowBalance e)] st
      else None)"
| "reports (EscrowSettledEvent e) a st =
     (if es_modelId e = a then map_of [(Earned, es_modelEarnedBalance e)] st else None)"
| "reports (EscrowRefundedEvent e) a st =
     (if er_userId e = a then map_of [(Available, er_userAvailableBalance e), (Escrow, er_userEscrowBalance e)] st
      else None)"
| "reports (EscrowPartialSettledEvent e) a st =
     (if ep_userId e = a \<and> st \<noteq> Earned
      then map_of [(Available, ep_userAvailableBalance e), (Escrow, ep_userEscrowBalance e)] st
      else if ep_modelId e = a \<and> st = Earned then Some (ep_modelEarnedBalance e) else None)"
| "reports (LedgerEntryCreatedEvent e) a st = None"

text \<open>The last report in a sequence of events.\<close>

definition last_report :: "reward_event list \<Rightarrow> string \<Rightarrow> balance_state \<Rightarrow> rat option" where
  "last_report evs a st = foldl (\<lambda>v ev. case reports ev a st of None \<Rightarrow> v | Some x \<Rightarrow> Some x) None evs"

text \<open>A balance update names a balance that accounts of its type have.\<close>

definition update_ok :: "reward_event \<Rightarrow> bool" where
  "update_ok ev \<longleftrightarrow> (case ev of
     BalanceUpdatedEvent e \<Rightarrow> (bu_accountType e = Model \<longleftrightarrow> bu_balanceState e = Earned) | _ \<Rightarrow> True)"

definition state_type :: "balance_state \<Rightarrow> account_type" where
  "state_type st = (if st = Earned then Model else User)"

definition value_of :: "balance_state \<Rightarrow> cached_balance \<Rightarrow> rat" where
  "value_of st c =
     (case st of Available \<Rightarrow> cb_availableBalance c | Escrow \<Rightarrow> or_zero (cb_escrowBalance c)
      | Earned \<Rightarrow> or_zero (cb_earnedBalance c))"

definition cached_value :: "balance_cache \<Rightarrow> string \<Rightarrow> balance_state \<Rightarrow> rat" where
  "cached_value bc a st =
     (case map_of (cache bc) (getCacheKey a (state_type st)) of None \<Rightarrow> 0 | Some c \<Rightarrow> value_of st c)"

lemma cached_value_put:
  "cached_value (put_or_change (getCacheKey b t) n f bc) a st =
     (if b = a \<and> t = state_type st
      then value_of st (case map_of (cache bc) (getCacheKey b t) of
        None \<Rightarrow> n | Some c \<Rightarrow> (f c)\<lparr>cb_version := cb_version c + 1\<rparr>)
      else cached_value bc a st)"
  by (auto simp: cached_value_def put_or_change_def split: option.split)

lemma value_of_version [simp]: "value_of st (c\<lparr>cb_version := n\<rparr>) = value_of st c"
  by (cases st) (simp_all add: value_of_def)

text \<open>The keys an event writes.\<close>

fun touched :: "reward_event \<Rightarrow> string set" where
  "touched (BalanceUpdatedEvent e) = {getCacheKey (bu_accountId e) (bu_accountType e)}"
| "touched (EscrowHeldEvent e) = {getCacheKey (eh_userId e) User}"
| "touched (EscrowSettledEvent e) = {getCacheKey (es_modelId e) Model}"
| "touched (EscrowRefundedEvent e) = {getCacheKey (er_userId e) User}"
| "touched (EscrowPartialSettledEvent e) = {getCacheKey (ep_userId e) User, getCacheKey (ep_modelId e) Model}"
| "touched (LedgerEntryCreatedEvent e) = {}"

lemma fits_evict: "length (cache bc) \<le> cc_maxSize (cache_config bc) \<Longrightarrow> evictIfNeeded bc = bc"
  by (simp add: evictIfNeeded_def)

lemma keys_put: "fst ` set (cache (put_or_change k n f bc)) = insert k (fst ` set (cache bc))"
  by (simp add: put_or_change_def dom_update)

lemma size_keys: "keys_distinct bc \<Longrightarrow> length (cache bc) = card (fst ` set (cache bc))"
  by (metis distinct_card keys_distinct_def length_map set_map)

text \<open>The handlers without the eviction at their end.\<close>

fun raw :: "reward_event \<Rightarrow> balance_cache \<Rightarrow> balance_cache" where
  "raw (EscrowHeldEvent e) bc =
     put_user (eh_userId e) (eh_userAvailableBalance e) (eh_userEscrowBalance e) (ev_timestamp e) bc"
| "raw (EscrowSettledEvent e) bc = put_model (es_modelId e) (es_modelEarnedBalance e) (ev_timestamp e) bc"
| "raw (EscrowRefundedEvent e) bc =
     put_user (er_userId e) (er_userAvailableBalance e) (er_userEscrowBalance e) (ev_timestamp e) bc"
| "raw (EscrowPartialSettledEvent e) bc =
     put_model (ep_modelId e) (ep_modelEarnedBalance e) (ev_timestamp e)
       (put_user (ep_userId e) (ep_userAvailableBalance e) (ep_userEscrowBalance e) (ev_timestamp e) bc)"
| "raw (BalanceUpdatedEvent e) bc = put_balance e bc"
| "raw (LedgerEntryCreatedEvent e) bc = bc"

lemma raw_structure:
  assumes "keys_distinct bc"
  shows "keys_distinct (raw ev bc) \<and> cache_config (raw ev bc) = cache_config bc \<and>
    fst ` set (cache (raw ev bc)) = touched ev \<union> fst ` set (cache bc)"
  using assms
  by (cases ev) (auto simp: put_balance_def put_user_def put_model_def keys_put)

lemma handleEvent_raw:
  assumes "length (cache (raw ev bc)) \<le> cc_maxSize (cache_config bc)"
  shows "handleEvent ev bc = raw ev bc"
  using assms by (cases ev) (simp_all add: event_handlers fits_evict)

lemma cached_value_raw:
  assumes "update_ok ev"
  shows "cached_value (raw ev bc) a st = (case reports ev a st of None \<Rightarrow> cached_value bc a st | Some x \<Rightarrow> x)"
proof (cases ev)
  case (BalanceUpdatedEvent e)
  show ?thesis
    using assms
    by (cases "bu_accountType e"; cases "bu_balanceState e"; cases st)
      (auto simp: BalanceUpdatedEvent put_balance_def update_ok_def cached_value_def put_or_change_def
        value_of_def or_zero_def state_type_def split: option.split)
qed (cases st;
    auto simp: put_user_def put_model_def cached_value_def put_or_change_def value_of_def or_zero_def
      state_type_def split: option.split)+

lemma handleEvent_step:
  assumes "keys_distinct bc" and "fst ` set (cache bc) \<subseteq> K" and "touched ev \<subseteq> K"
    and "finite K" and "card K \<le> cc_maxSize (cache_config bc)" and "update_ok ev"
  shows "fst ` set (cache (handleEvent ev bc)) \<subseteq> K \<and> keys_distinct (handleEvent ev bc) \<and>
    cache_config (handleEvent ev bc) = cache_config bc \<and>
    cached_value (handleEvent ev bc) a st =
      (case reports ev a st of None \<Rightarrow> cached_value bc a st | Some x \<Rightarrow> x)"
proof -
  note st = raw_structure [OF assms(1), of ev]
  have sub: "fst ` set (cache (raw ev bc)) \<subseteq> K" using st assms(2,3) by auto
  then have "length (cache (raw ev bc)) \<le> cc_maxSize (cache_config bc)"
    using card_mono [OF assms(4) sub] st assms(5) by (simp add: size_keys)
  then have "handleEvent ev bc = raw ev bc" by (rule handleEvent_raw)
  then show ?thesis using st sub cached_value_raw [OF assms(6)] by simp
qed

lemma cache_last_report:
  assumes "list_all update_ok evs" and "card (\<Union>ev\<in>set evs. touched ev) \<le> cc_maxSize cfg"
  shows "cached_value (foldl (\<lambda>bc ev. handleEvent ev bc) (new_balance_cache cfg) evs) a st =
    or_zero (last_report evs a st)"
proof -
  let ?K = "\<Union>ev\<in>set evs. touched ev"
  have fin: "finite (touched ev)" for ev by (cases ev) auto
  have "fst ` set (cache bc) \<subseteq> ?K \<and> keys_distinct bc \<and> cache_config bc = cfg \<and>
      (\<forall>a st. cached_value bc a st = or_zero (last_report es a st))"
    if "bc = foldl (\<lambda>bc ev. handleEvent ev bc) (new_balance_cache cfg) es" "set es \<subseteq> set evs" for es bc
    using that
  proof (induction es arbitrary: bc rule: rev_induct)
    case Nil
    then show ?case
      by (simp add: new_balance_cache_def keys_distinct_def cached_value_def last_report_def or_zero_def)
  next
    case (snoc ev es)
    let ?bc = "foldl (\<lambda>bc ev. handleEvent ev bc) (new_balance_cache cfg) es"
    have IH: "fst ` set (cache ?bc) \<subseteq> ?K" "keys_distinct ?bc" "cache_config ?bc = cfg"
      "\<And>a st. cached_value ?bc a st = or_zero (last_report es a st)"
      using snoc.IH [OF refl] snoc.prems(2) by auto
    have "touched ev \<subseteq> ?K" and "update_ok ev" and "finite ?K"
      using snoc.prems(2) assms(1) fin by (auto simp: list_all_iff)
    from handleEvent_step [OF IH(2,1) this(1,3) _ this(2)] assms(2) IH(3,4) snoc.prems(1)
    show ?case by (auto simp: last_report_def or_zero_def split: option.split)
  qed
  from this [OF refl, of evs] show ?thesis by blast
qed


text \<open>A settled escrow is reported for the model only: what the user has in escrow stays cached.\<close>

lemma settled_event_skips_user:
  assumes "length (cache (raw (EscrowSettledEvent e) bc)) \<le> cc_maxSize (cache_config bc)"
  shows "cached_value (handleEvent (EscrowSettledEvent e) bc) u Escrow = cached_value bc u Escrow"
  unfolding handleEvent_raw [OF assms]
  by (subst cached_value_raw) (simp_all add: update_ok_def)

definition base_event :: "string \<Rightarrow> int \<Rightarrow> wallet_event_type \<Rightarrow> base_reward_event" where
  "base_event i t ty =
     \<lparr>ev_eventId = i, ev_eventType = ty, ev_idempotencyKey = i, ev_timestamp = t,
      ev_correlationId = None, ev_source = ''reward-service'', ev_version = ''1.0''\<rparr>"

definition demo_held :: "string \<Rightarrow> int \<Rightarrow> reward_event" where
  "demo_held u t = EscrowHeldEvent (base_reward_event.extend (base_event u t ESCROW_HELD)
     (escrow_held_event.fields u ''esc'' 60 ''spin_wheel_play'' ''q'' ''spin_wheel'' ''t'' 40 60 None))"

definition demo_refunded :: "string \<Rightarrow> int \<Rightarrow> reward_event" where
  "demo_refunded u t = EscrowRefundedEvent (base_reward_event.extend (base_event (u @ ''r'') t ESCROW_REFUNDED)
     (escrow_refunded_event.fields u ''esc'' 60 ''user_disconnected'' ''q'' ''t'' 100 0 None))"

definition tiny_cache :: balance_cache_config where
  "tiny_cache = default_balance_cache\<lparr>cc_maxSize := 1\<rparr>"

theorem cache_bounded_witness:
  "length (cache (handleEvent (demo_held ''bob'' 2) (handleEvent (demo_held ''alice'' 1) (new_balance_cache tiny_cache)))) \<le> 1"
proof -
  have "cc_maxSize tiny_cache = 1" by code_simp
  then show ?thesis
    using cache_bounded [OF handled [OF handled [OF created, where ev = "demo_held ''alice'' 1"],
        where ev = "demo_held ''bob'' 2"], where cfg = tiny_cache]
    by metis
qed

definition demo_events :: "reward_event list" where
  "demo_events = [demo_held ''alice'' 1, demo_held ''bob'' 2, demo_refunded ''alice'' 3]"


end
