(* ===== verification/Ingest_Worker.thy ===== *)
theory Ingest_Worker
  imports Promise_All Doc_Store
begin

text \<open>
  The ingest worker (\<open>src/ingest-worker/worker.ts\<close>), the replay of its dead letter queue
  (\<open>src/ingest-worker/replay.ts\<close>), and the documents they work on
  (\<open>src/db/models/ingest-event.model.ts\<close>, \<open>dlq-event.model.ts\<close>).

  An event document is identified by its \<open>eventId\<close>, which has a unique index, where the code uses
  the \<open>_id\<close> of the database.  Handlers are programs over the whole state, with a component
  \<open>handled\<close> of type \<open>'s\<close> of their own.  The message of an error is a parameter.  Pauses, metrics
  and alerts are not modelled.
\<close>

section \<open>Documents\<close>

datatype ingest_event_status = QUEUED | PROCESSING | PROCESSED | REJECTED | DLQ

record ingest_event =
  ie_eventId :: string
  ie_eventType :: "string option"
  ie_receivedAt :: int
  ie_status :: ingest_event_status
  ie_attempts :: nat
  ie_lastErrorCode :: "string option"
  ie_lastErrorAt :: "int option"
  ie_payloadSnapshot :: "metadata option"
  ie_replayable :: bool
  ie_nextAttemptAt :: "int option"
  ie_correlationId :: "string option"
  ie_merchantId :: "string option"
  ie_idempotencyKey :: "string option"
  ie_processedAt :: "int option"
  ie_accepted :: "bool option"
  ie_replayed :: "bool option"
  ie_postedTransactions :: "nat option"

definition valid_ingest_event :: "ingest_event \<Rightarrow> bool" where
  "valid_ingest_event e \<longleftrightarrow>
     required_string 256 (ie_eventId e) \<and> optional_string 128 (ie_eventType e) \<and>
     optional_string 128 (ie_lastErrorCode e) \<and> optional_string 256 (ie_correlationId e) \<and>
     optional_string 256 (ie_merchantId e) \<and> optional_string 256 (ie_idempotencyKey e)"

record dlq_event =
  dq_eventId :: string
  dq_eventType :: "string option"
  dq_originalReceivedAt :: int
  dq_movedToDLQAt :: int
  dq_attempts :: nat
  dq_lastErrorCode :: "string option"
  dq_lastErrorMessage :: "string option"
  dq_lastErrorAt :: "int option"
  dq_payloadSnapshot :: "metadata option"
  dq_replayable :: bool

definition valid_dlq_event :: "dlq_event \<Rightarrow> bool" where
  "valid_dlq_event d \<longleftrightarrow>
     required_string 256 (dq_eventId d) \<and> optional_string 128 (dq_eventType d) \<and>
     optional_string 128 (dq_lastErrorCode d) \<and> optional_string 1024 (dq_lastErrorMessage d)"

section \<open>State and its calls\<close>

record 's ingest_store =
  ingest_events :: "(string \<times> ingest_event) list"
  dlq_events :: "(string \<times> dlq_event) list"
  ingest_records :: "((string \<times> string) \<times> idempotency_record) list"
  ingest_clock :: int
  ingest_uuids :: "nat \<Rightarrow> string"
  ingest_uuid_count :: nat
  handled :: 's

abbreviation event_of :: "'s ingest_store \<Rightarrow> string \<Rightarrow> ingest_event option" where
  "event_of s i \<equiv> map_of (ingest_events s) i"

abbreviation dlq_of :: "'s ingest_store \<Rightarrow> string \<Rightarrow> dlq_event option" where
  "dlq_of s i \<equiv> map_of (dlq_events s) i"

type_synonym ('s, 'a) ingest = "('s ingest_store, error, 'a) io"

definition ingest_now :: "('s, int) ingest" where
  "ingest_now = query ingest_clock"

definition ingest_uuid :: "('s, string) ingest" where
  "ingest_uuid = atomically (\<lambda>s.
     (s\<lparr>ingest_uuid_count := Suc (ingest_uuid_count s)\<rparr>, Inr (ingest_uuids s (ingest_uuid_count s))))"

definition event_findOne :: "string \<Rightarrow> ('s, ingest_event option) ingest" where
  "event_findOne i = query (\<lambda>s. event_of s i)"

definition event_findOneAndUpdate ::
  "string \<Rightarrow> (ingest_event \<Rightarrow> bool) \<Rightarrow> (ingest_event \<Rightarrow> ingest_event) \<Rightarrow> ('s, ingest_event option) ingest" where
  "event_findOneAndUpdate i filt change = atomically (\<lambda>s.
     case event_of s i of
       None \<Rightarrow> (s, Inr None)
     | Some e \<Rightarrow>
         if filt e then (s\<lparr>ingest_events := AList.update i (change e) (ingest_events s)\<rparr>, Inr (Some (change e)))
         else (s, Inr None))"

definition event_updateOne :: "string \<Rightarrow> (ingest_event \<Rightarrow> ingest_event) \<Rightarrow> ('s, unit) ingest" where
  "event_updateOne i change = atomically (\<lambda>s.
     case event_of s i of
       None \<Rightarrow> (s, Inr ())
     | Some e \<Rightarrow> (s\<lparr>ingest_events := AList.update i (change e) (ingest_events s)\<rparr>, Inr ()))"

definition event_create :: "ingest_event \<Rightarrow> ('s, ingest_event) ingest" where
  "event_create e = atomically (\<lambda>s.
     if \<not> valid_ingest_event e then (s, Inl (ValidationError ''IngestEvent''))
     else if event_of s (ie_eventId e) \<noteq> None then (s, Inl (DuplicateKeyError ''eventId''))
     else (s\<lparr>ingest_events := ingest_events s @ [(ie_eventId e, e)]\<rparr>, Inr e))"

definition dlq_create :: "dlq_event \<Rightarrow> ('s, unit) ingest" where
  "dlq_create d = atomically (\<lambda>s.
     if \<not> valid_dlq_event d then (s, Inl (ValidationError ''DLQEvent''))
     else if dlq_of s (dq_eventId d) \<noteq> None then (s, Inl (DuplicateKeyError ''eventId''))
     else (s\<lparr>dlq_events := dlq_events s @ [(dq_eventId d, d)]\<rparr>, Inr ()))"

definition ingest_record_find :: "string \<Rightarrow> string \<Rightarrow> ('s, idempotency_record option) ingest" where
  "ingest_record_find key scope = query (\<lambda>s. map_of (ingest_records s) (key, scope))"

definition ingest_record_create :: "idempotency_record \<Rightarrow> ('s, unit) ingest" where
  "ingest_record_create i = atomically (\<lambda>s.
     if \<not> valid_idempotency_record i then (s, Inl (ValidationError ''IdempotencyRecord''))
     else if map_of (ingest_records s) (i_pointsIdempotencyKey i, i_eventScope i) \<noteq> None
       then (s, Inl (DuplicateKeyError ''pointsIdempotencyKey''))
     else (s\<lparr>ingest_records := AList.update (i_pointsIdempotencyKey i, i_eventScope i) i (ingest_records s)\<rparr>,
           Inr ()))"

section \<open>The worker\<close>

datatype processing_result = SUCCESS | RETRYABLE_FAILURE | NON_RETRYABLE_FAILURE

record event_processing_context =
  pc_eventId :: string
  pc_eventType :: "string option"
  pc_payload :: "metadata option"
  pc_attempts :: nat

record processing_response =
  rsp_result :: processing_result
  rsp_errorCode :: "string option"
  rsp_errorMessage :: "string option"

type_synonym 's event_handler = "event_processing_context \<Rightarrow> ('s, processing_response) ingest"

record worker_config =
  wc_pollIntervalMs :: nat
  wc_maxConcurrentJobs :: nat
  wc_maxRetryAttempts :: nat
  wc_initialRetryDelayMs :: nat
  wc_maxRetryDelayMs :: nat
  wc_retryBackoffMultiplier :: nat

text \<open>\<open>config.field || default\<close>: a field that is missing or zero takes the default.\<close>

definition or_else :: "nat option \<Rightarrow> nat \<Rightarrow> nat" where
  "or_else x d = (case x of None \<Rightarrow> d | Some n \<Rightarrow> if n = 0 then d else n)"

definition new_worker_config ::
  "nat option \<Rightarrow> nat option \<Rightarrow> nat option \<Rightarrow> nat option \<Rightarrow> nat option \<Rightarrow> nat option \<Rightarrow> worker_config" where
  "new_worker_config poll jobs retries initial longest multiplier =
     \<lparr>wc_pollIntervalMs = or_else poll 5000, wc_maxConcurrentJobs = or_else jobs 10,
      wc_maxRetryAttempts = or_else retries 5, wc_initialRetryDelayMs = or_else initial 1000,
      wc_maxRetryDelayMs = or_else longest 60000, wc_retryBackoffMultiplier = or_else multiplier 2\<rparr>"

text \<open>\<open>wk_message\<close> is the message of an error, a parameter.\<close>

record 's ingest_worker =
  wk_isRunning :: bool
  wk_handlers :: "(string \<times> 's event_handler) list"
  wk_config :: worker_config
  wk_message :: "error \<Rightarrow> string"

definition registerHandler :: "string \<Rightarrow> 's event_handler \<Rightarrow> 's ingest_worker \<Rightarrow> 's ingest_worker" where
  "registerHandler eventTypeOrScope handler wk =
     wk\<lparr>wk_handlers := AList.update eventTypeOrScope handler (wk_handlers wk)\<rparr>"

text \<open>The worker with its flag, and whether a poll loop is started.\<close>

definition start :: "'s ingest_worker \<Rightarrow> 's ingest_worker \<times> bool" where
  "start wk = (if wk_isRunning wk then (wk, False) else (wk\<lparr>wk_isRunning := True\<rparr>, True))"

definition stop :: "'s ingest_worker \<Rightarrow> 's ingest_worker" where
  "stop wk = wk\<lparr>wk_isRunning := False\<rparr>"

definition getStatus :: "'s ingest_worker \<Rightarrow> bool \<times> nat" where
  "getStatus wk = (wk_isRunning wk, length (wk_handlers wk))"

definition defaultHandler :: "'s event_handler" where
  "defaultHandler ctxt = pure \<lparr>rsp_result = SUCCESS, rsp_errorCode = None, rsp_errorMessage = None\<rparr>"

definition getHandler :: "'s ingest_worker \<Rightarrow> string option \<Rightarrow> 's event_handler" where
  "getHandler wk eventType =
     (case eventType of
        None \<Rightarrow> defaultHandler
      | Some t \<Rightarrow> if t = [] then defaultHandler
          else (case map_of (wk_handlers wk) t of None \<Rightarrow> defaultHandler | Some h \<Rightarrow> h))"

definition retry_delay :: "worker_config \<Rightarrow> nat \<Rightarrow> nat" where
  "retry_delay cfg attempts =
     min (if attempts = 0 then wc_initialRetryDelayMs cfg div wc_retryBackoffMultiplier cfg
          else wc_initialRetryDelayMs cfg * wc_retryBackoffMultiplier cfg ^ (attempts - 1))
       (wc_maxRetryDelayMs cfg)"

definition calculateNextAttempt :: "worker_config \<Rightarrow> nat \<Rightarrow> ('s, int) ingest" where
  "calculateNextAttempt cfg attempts =
     await ingest_now (\<lambda>now. pure (now + int (retry_delay cfg attempts)))"

definition worker_checkIdempotency :: "string \<Rightarrow> ('s, bool) ingest" where
  "worker_checkIdempotency eventId =
     await (ingest_record_find eventId ''ingest_event'') (\<lambda>found. pure (found \<noteq> None))"

definition ignore_duplicate :: "('s, unit) ingest \<Rightarrow> ('s, unit) ingest" where
  "ignore_duplicate p =
     try_catch p (\<lambda>error. case error of DuplicateKeyError _ \<Rightarrow> pure () | _ \<Rightarrow> throw error)"

definition worker_storeIdempotency :: "string \<Rightarrow> ('s, unit) ingest" where
  "worker_storeIdempotency eventId =
     await ingest_now (\<lambda>now.
     ignore_duplicate (ingest_record_create
       \<lparr>i_pointsIdempotencyKey = eventId, i_eventScope = ''ingest_event'', i_resultHash = ''processed'',
        i_storedResult = Some (JObj [(''processed'', JBool True), (''timestamp'', JNum (of_int now))]),
        i_retentionUntil = None, i_expiresAt = None, i_tenant_id = None\<rparr>))"

definition moveToDLQ :: "ingest_event \<Rightarrow> string \<Rightarrow> string \<Rightarrow> ('s, unit) ingest" where
  "moveToDLQ event errorCode errorMessage =
     await ingest_now (\<lambda>now.
     await (dlq_create
       \<lparr>dq_eventId = ie_eventId event, dq_eventType = ie_eventType event,
        dq_originalReceivedAt = ie_receivedAt event, dq_movedToDLQAt = now,
        dq_attempts = ie_attempts event, dq_lastErrorCode = Some errorCode,
        dq_lastErrorMessage = Some errorMessage, dq_lastErrorAt = Some now,
        dq_payloadSnapshot = ie_payloadSnapshot event, dq_replayable = ie_replayable event\<rparr>) (\<lambda>_.
     await ingest_now (\<lambda>now'.
     event_updateOne (ie_eventId event)
       (\<lambda>e. e\<lparr>ie_status := DLQ, ie_lastErrorCode := Some errorCode, ie_lastErrorAt := Some now'\<rparr>))))"

definition or_text :: "string option \<Rightarrow> string \<Rightarrow> string" where
  "or_text x d = (case x of None \<Rightarrow> d | Some t \<Rightarrow> if t = [] then d else t)"

definition handleProcessingResult ::
  "worker_config \<Rightarrow> ingest_event \<Rightarrow> processing_response \<Rightarrow> ('s, unit) ingest" where
  "handleProcessingResult cfg event response =
     (case rsp_result response of
        SUCCESS \<Rightarrow>
          await (event_updateOne (ie_eventId event) (\<lambda>e. e\<lparr>ie_status := PROCESSED\<rparr>)) (\<lambda>_.
          worker_storeIdempotency (ie_eventId event))
      | RETRYABLE_FAILURE \<Rightarrow>
          if wc_maxRetryAttempts cfg \<le> ie_attempts event then
            moveToDLQ event (or_text (rsp_errorCode response) ''MAX_RETRIES_EXCEEDED'')
              (or_text (rsp_errorMessage response) ''Maximum retry attempts exceeded'')
          else
            await (calculateNextAttempt cfg (ie_attempts event)) (\<lambda>nextAttemptAt.
            await ingest_now (\<lambda>now.
            event_updateOne (ie_eventId event)
              (\<lambda>e. e\<lparr>ie_status := QUEUED, ie_nextAttemptAt := Some nextAttemptAt,
                     ie_lastErrorCode := rsp_errorCode response, ie_lastErrorAt := Some now\<rparr>)))
      | NON_RETRYABLE_FAILURE \<Rightarrow>
          moveToDLQ event (or_text (rsp_errorCode response) ''NON_RETRYABLE_ERROR'')
            (or_text (rsp_errorMessage response) ''Non-retryable failure''))"

text \<open>Processing one event: the claim, then the body, then the handler of what they throw.\<close>

definition claim_event :: "string \<Rightarrow> ('s, ingest_event option) ingest" where
  "claim_event eventMongoId =
     event_findOneAndUpdate eventMongoId (\<lambda>e. ie_status e = QUEUED \<or> ie_status e = PROCESSING)
       (\<lambda>e. e\<lparr>ie_status := PROCESSING, ie_attempts := ie_attempts e + 1\<rparr>)"

definition process_claimed :: "'s ingest_worker \<Rightarrow> ingest_event \<Rightarrow> ('s, unit) ingest" where
  "process_claimed wk event =
     (if ie_eventId event = [] then moveToDLQ event ''MISSING_EVENT_ID'' ''Event ID is required''
      else
        await (worker_checkIdempotency (ie_eventId event)) (\<lambda>isProcessed.
        if isProcessed then event_updateOne (ie_eventId event) (\<lambda>e. e\<lparr>ie_status := PROCESSED\<rparr>)
        else
          await (getHandler wk (ie_eventType event)
            \<lparr>pc_eventId = ie_eventId event, pc_eventType = ie_eventType event,
             pc_payload = ie_payloadSnapshot event, pc_attempts = ie_attempts event\<rparr>) (\<lambda>response.
          handleProcessingResult (wk_config wk) event response)))"

definition processing_error :: "'s ingest_worker \<Rightarrow> string \<Rightarrow> error \<Rightarrow> ('s, unit) ingest" where
  "processing_error wk eventMongoId error =
     await (event_findOne eventMongoId) (\<lambda>errorEvent.
     case errorEvent of
       None \<Rightarrow> pure ()
     | Some event \<Rightarrow>
         handleProcessingResult (wk_config wk) event
           \<lparr>rsp_result = RETRYABLE_FAILURE, rsp_errorCode = Some ''PROCESSING_ERROR'',
            rsp_errorMessage = Some (wk_message wk error)\<rparr>)"

definition processEvent :: "'s ingest_worker \<Rightarrow> string \<Rightarrow> ('s, unit) ingest" where
  "processEvent wk eventMongoId =
     try_catch
       (await (claim_event eventMongoId) (\<lambda>event.
        case event of None \<Rightarrow> pure () | Some e \<Rightarrow> process_claimed wk e))
       (processing_error wk eventMongoId)"

definition selectable :: "int \<Rightarrow> ingest_event \<Rightarrow> bool" where
  "selectable now e \<longleftrightarrow>
     ie_status e = QUEUED \<or>
     (ie_status e = PROCESSING \<and> (case ie_nextAttemptAt e of None \<Rightarrow> False | Some t \<Rightarrow> t \<le> now))"

text \<open>The events of a batch are processed concurrently; their rejections are dropped.\<close>

definition processNextBatch :: "'s ingest_worker \<Rightarrow> nat list \<Rightarrow> ('s, unit) ingest" where
  "processNextBatch wk sched =
     await ingest_now (\<lambda>now.
     await (query (\<lambda>s. take (wc_maxConcurrentJobs (wk_config wk))
         (filter (\<lambda>(_, e). selectable now e) (ingest_events s)))) (\<lambda>events.
     pbind (promise_all sched (map (\<lambda>(i, _). processEvent wk i) events)) (\<lambda>_. pure ())))"

text \<open>The rounds of the poll loop until the worker is stopped; errors of a round are dropped.\<close>

primrec pollLoop :: "'s ingest_worker \<Rightarrow> (nat \<Rightarrow> nat list) \<Rightarrow> nat \<Rightarrow> ('s, unit) ingest" where
  "pollLoop wk scheds 0 = pure ()"
| "pollLoop wk scheds (Suc rounds) =
     await (try_catch (processNextBatch wk (scheds rounds)) (\<lambda>_. pure ())) (\<lambda>_. pollLoop wk scheds rounds)"

section \<open>Replay\<close>

record replay_options =
  ro_eventId :: "string option"
  ro_eventType :: "string option"
  ro_startDate :: "int option"
  ro_endDate :: "int option"
  ro_maxEvents :: "nat option"

record replay_result =
  rr_totalReplayed :: nat
  rr_successful :: nat
  rr_failed :: nat
  rr_skipped :: nat

definition text_given :: "string option \<Rightarrow> bool" where
  "text_given x \<longleftrightarrow> (case x of None \<Rightarrow> False | Some s \<Rightarrow> s \<noteq> [])"

definition replay_matches :: "replay_options \<Rightarrow> dlq_event \<Rightarrow> bool" where
  "replay_matches options d \<longleftrightarrow>
     (if text_given (ro_eventId options) then ro_eventId options = Some (dq_eventId d) else True) \<and>
     (if text_given (ro_eventType options) then ro_eventType options = dq_eventType d else True) \<and>
     (case ro_startDate options of None \<Rightarrow> True | Some t \<Rightarrow> t \<le> dq_movedToDLQAt d) \<and>
     (case ro_endDate options of None \<Rightarrow> True | Some t \<Rightarrow> dq_movedToDLQAt d \<le> t)"

definition replay_query :: "replay_options \<Rightarrow> ('s, dlq_event list) ingest" where
  "replay_query options = query (\<lambda>s.
     let found = sort_key dq_movedToDLQAt (filter (replay_matches options) (map snd (dlq_events s))) in
     case ro_maxEvents options of None \<Rightarrow> found | Some n \<Rightarrow> if n = 0 then found else take n found)"

text \<open>One event of a replay: \<open>False\<close> when it is skipped.\<close>

definition replay_one :: "dlq_event \<Rightarrow> ('s, bool) ingest" where
  "replay_one dlqEvent =
     await (worker_checkIdempotency (dq_eventId dlqEvent)) (\<lambda>isProcessed.
     if isProcessed then pure False
     else
       await (event_findOne (dq_eventId dlqEvent)) (\<lambda>existingEvent.
       await ingest_now (\<lambda>now.
       await (case existingEvent of
           Some _ \<Rightarrow> event_updateOne (dq_eventId dlqEvent)
             (\<lambda>e. e\<lparr>ie_status := QUEUED, ie_attempts := 0, ie_nextAttemptAt := Some now,
                    ie_lastErrorCode := None, ie_lastErrorAt := None\<rparr>)
         | None \<Rightarrow> await (event_create
             \<lparr>ie_eventId = dq_eventId dlqEvent, ie_eventType = dq_eventType dlqEvent,
              ie_receivedAt = now, ie_status = QUEUED, ie_attempts = 0, ie_lastErrorCode = None,
              ie_lastErrorAt = None, ie_payloadSnapshot = dq_payloadSnapshot dlqEvent,
              ie_replayable = dq_replayable dlqEvent, ie_nextAttemptAt = None,
              ie_correlationId = None, ie_merchantId = None, ie_idempotencyKey = None,
              ie_processedAt = None, ie_accepted = None, ie_replayed = Some False,
              ie_postedTransactions = Some 0\<rparr>) (\<lambda>_. pure ())) (\<lambda>_.
       pure True))))"

primrec replay_events :: "dlq_event list \<Rightarrow> replay_result \<Rightarrow> ('s, replay_result) ingest" where
  "replay_events [] result = pure result"
| "replay_events (d # ds) result =
     await (try_catch (await (replay_one d) (\<lambda>replayed.
         pure (if replayed
           then result\<lparr>rr_successful := rr_successful result + 1, rr_totalReplayed := rr_totalReplayed result + 1\<rparr>
           else result\<lparr>rr_skipped := rr_skipped result + 1\<rparr>)))
       (\<lambda>_. pure (result\<lparr>rr_failed := rr_failed result + 1, rr_totalReplayed := rr_totalReplayed result + 1\<rparr>)))
       (replay_events ds)"

definition replay :: "replay_options \<Rightarrow> ('s, replay_result) ingest" where
  "replay options =
     await (replay_query options) (\<lambda>dlqEvents.
     replay_events dlqEvents \<lparr>rr_totalReplayed = 0, rr_successful = 0, rr_failed = 0, rr_skipped = 0\<rparr>)"

definition all_events :: replay_options where
  "all_events =
     \<lparr>ro_eventId = None, ro_eventType = None, ro_startDate = None, ro_endDate = None, ro_maxEvents = None\<rparr>"

definition replayById :: "string \<Rightarrow> ('s, bool) ingest" where
  "replayById eventId =
     await (replay (all_events\<lparr>ro_eventId := Some eventId, ro_maxEvents := Some 1\<rparr>)) (\<lambda>result.
     pure (0 < rr_successful result))"

definition replayByEventType :: "string \<Rightarrow> nat option \<Rightarrow> ('s, replay_result) ingest" where
  "replayByEventType eventType maxEvents =
     replay (all_events\<lparr>ro_eventType := Some eventType, ro_maxEvents := maxEvents\<rparr>)"

definition replayByDateRange :: "int \<Rightarrow> int \<Rightarrow> nat option \<Rightarrow> ('s, replay_result) ingest" where
  "replayByDateRange startDate endDate maxEvents =
     replay (all_events\<lparr>ro_startDate := Some startDate, ro_endDate := Some endDate, ro_maxEvents := maxEvents\<rparr>)"

record dlq_stats =
  ds_totalEvents :: nat
  ds_replayableEvents :: nat
  ds_eventsByType :: "(string \<times> nat) list"

definition count_group :: "(string option \<times> nat) list \<Rightarrow> dlq_event \<Rightarrow> (string option \<times> nat) list" where
  "count_group groups d =
     AList.update (dq_eventType d) ((case map_of groups (dq_eventType d) of None \<Rightarrow> 0 | Some n \<Rightarrow> n) + 1) groups"

text \<open>Groups without a type are all entered as \<open>unknown\<close>; the last one wins.\<close>

definition events_by_type :: "(string option \<times> nat) list \<Rightarrow> (string \<times> nat) list" where
  "events_by_type groups = foldl (\<lambda>m (t, n). AList.update (or_text t ''unknown'') n m) [] groups"

definition dlq_getStats :: "('s, dlq_stats) ingest" where
  "dlq_getStats =
     await (query (\<lambda>s. length (dlq_events s))) (\<lambda>totalEvents.
     await (query (\<lambda>s. length (filter (\<lambda>(_, d). dq_replayable d) (dlq_events s)))) (\<lambda>replayableEvents.
     await (query (\<lambda>s. events_by_type (foldl count_group [] (map snd (dlq_events s))))) (\<lambda>eventsByType.
     pure \<lparr>ds_totalEvents = totalEvents, ds_replayableEvents = replayableEvents,
           ds_eventsByType = eventsByType\<rparr>)))"

section \<open>Execution\<close>

lemma run_ingest_calls [run_simps]:
  "run ingest_now s = (Inr (ingest_clock s), s)"
  "run (event_findOne i) s = (Inr (event_of s i), s)"
  "run (ingest_record_find k sc) s = (Inr (map_of (ingest_records s) (k, sc)), s)"
  "run ingest_uuid s = (Inr (ingest_uuids s (ingest_uuid_count s)), s\<lparr>ingest_uuid_count := Suc (ingest_uuid_count s)\<rparr>)"
  by (simp_all add: ingest_now_def ingest_uuid_def event_findOne_def ingest_record_find_def run_simps)

lemma run_event_updateOne [run_simps]:
  "run (event_updateOne i f) s =
     (case event_of s i of None \<Rightarrow> (Inr (), s)
      | Some e \<Rightarrow> (Inr (), s\<lparr>ingest_events := AList.update i (f e) (ingest_events s)\<rparr>))"
  by (simp add: event_updateOne_def run_simps split: option.split)

definition put_event :: "string \<Rightarrow> ingest_event \<Rightarrow> 's ingest_store \<Rightarrow> 's ingest_store" where
  "put_event i e s = s\<lparr>ingest_events := AList.update i e (ingest_events s)\<rparr>"

lemma put_event_simps [simp]:
  "event_of (put_event i e s) i' = (if i' = i then Some e else event_of s i')"
  "dlq_events (put_event i e s) = dlq_events s"
  "ingest_records (put_event i e s) = ingest_records s"
  "ingest_clock (put_event i e s) = ingest_clock s"
  "handled (put_event i e s) = handled s"
  by (simp_all add: put_event_def)

definition claimed :: "ingest_event \<Rightarrow> ingest_event" where
  "claimed e = e\<lparr>ie_status := PROCESSING, ie_attempts := ie_attempts e + 1\<rparr>"

lemma claimed_simps [simp]:
  "ie_eventId (claimed e) = ie_eventId e" "ie_eventType (claimed e) = ie_eventType e"
  "ie_attempts (claimed e) = Suc (ie_attempts e)" "ie_status (claimed e) = PROCESSING"
  "ie_nextAttemptAt (claimed e) = ie_nextAttemptAt e"
  by (simp_all add: claimed_def)

definition claimable :: "ingest_event \<Rightarrow> bool" where
  "claimable e \<longleftrightarrow> ie_status e = QUEUED \<or> ie_status e = PROCESSING"

lemma run_claim_event [run_simps]:
  "run (claim_event i) s =
     (case event_of s i of
        None \<Rightarrow> (Inr None, s)
      | Some e \<Rightarrow> if claimable e then (Inr (Some (claimed e)), put_event i (claimed e) s) else (Inr None, s))"
  by (simp add: claim_event_def event_findOneAndUpdate_def run_simps claimable_def claimed_def put_event_def
      split: option.split)

lemma run_worker_check [run_simps]:
  "run (worker_checkIdempotency i) s = (Inr (map_of (ingest_records s) (i, ''ingest_event'') \<noteq> None), s)"
  by (simp add: worker_checkIdempotency_def run_simps)

definition processed_record :: "string \<Rightarrow> int \<Rightarrow> idempotency_record" where
  "processed_record i now =
     \<lparr>i_pointsIdempotencyKey = i, i_eventScope = ''ingest_event'', i_resultHash = ''processed'',
      i_storedResult = Some (JObj [(''processed'', JBool True), (''timestamp'', JNum (of_int now))]),
      i_retentionUntil = None, i_expiresAt = None, i_tenant_id = None\<rparr>"

lemma run_worker_store:
  assumes "required_string 256 i"
  shows "run (worker_storeIdempotency i) s =
    (Inr (), if map_of (ingest_records s) (i, ''ingest_event'') = None
      then s\<lparr>ingest_records := AList.update (i, ''ingest_event'') (processed_record i (ingest_clock s)) (ingest_records s)\<rparr>
      else s)"
  using assms
  by (simp add: worker_storeIdempotency_def ignore_duplicate_def ingest_record_create_def run_simps
      valid_idempotency_record_def required_string_def optional_string_def processed_record_def)

section \<open>Properties of the worker\<close>

text \<open>An event whose processing was recorded is not given to a handler any more.\<close>

lemma run_process_recorded:
  assumes "map_of (ingest_records s) (i, ''ingest_event'') \<noteq> None" and "i \<noteq> []"
    and "\<And>e. event_of s i = Some e \<Longrightarrow> ie_eventId e = i"
  shows "\<exists>s'. run (processEvent wk i) s = (Inr (), s') \<and> handled s' = handled s"
  using assms
  by (auto simp: processEvent_def run_simps process_claimed_def put_event_def
      split: option.split)

lemma update_twice: "AList.update i x (AList.update i y l) = AList.update i x l"
  by (induction l) auto

lemma run_process_success:
  assumes "event_of s i = Some e" and "ie_eventId e = i" and "claimable e" and "required_string 256 i"
    and "map_of (ingest_records s) (i, ''ingest_event'') = None"
    and "run (getHandler wk (ie_eventType e)
          \<lparr>pc_eventId = i, pc_eventType = ie_eventType e, pc_payload = ie_payloadSnapshot e,
           pc_attempts = ie_attempts e + 1\<rparr>) (put_event i (claimed e) s) =
        (Inr resp, (put_event i (claimed e) s)\<lparr>handled := w\<rparr>)"
    and "rsp_result resp = SUCCESS"
  shows "\<exists>s1. run (processEvent wk i) s = (Inr (), s1) \<and> handled s1 = w \<and>
    ingest_events s1 = AList.update i ((claimed e)\<lparr>ie_status := PROCESSED\<rparr>) (ingest_events s) \<and>
    map_option ie_status (event_of s1 i) = Some PROCESSED \<and>
    map_of (ingest_records s1) (i, ''ingest_event'') \<noteq> None"
proof -
  have i: "i \<noteq> []" using assms(4) by (auto simp: required_string_def)
  let ?s = "(put_event i (claimed e) s)\<lparr>handled := w\<rparr>"
  have "run (processEvent wk i) s = run (worker_storeIdempotency i)
      (?s\<lparr>ingest_events := AList.update i ((claimed e)\<lparr>ie_status := PROCESSED\<rparr>) (ingest_events ?s)\<rparr>)"
    using assms(1-3,5-7) i
    by (simp add: processEvent_def run_simps process_claimed_def handleProcessingResult_def
        claimed_def [of e] put_event_def run_worker_store [OF assms(4)])
  moreover have "ingest_events ?s = AList.update i (claimed e) (ingest_events s)"
    by (simp add: put_event_def)
  ultimately show ?thesis using assms(5) by (simp add: run_worker_store [OF assms(4)] update_twice)
qed


text \<open>
  The delay before the next attempt grows with the number of attempts, starts at the
  configured initial delay and never exceeds the configured maximum.
\<close>

theorem retry_delay_bounds:
  assumes "1 \<le> wc_retryBackoffMultiplier cfg" and "1 \<le> n" and "n \<le> m"
  shows "retry_delay cfg 1 = min (wc_initialRetryDelayMs cfg) (wc_maxRetryDelayMs cfg) \<and>
    retry_delay cfg n \<le> retry_delay cfg m \<and> retry_delay cfg m \<le> wc_maxRetryDelayMs cfg"
proof -
  have "wc_retryBackoffMultiplier cfg ^ (n - 1) \<le> wc_retryBackoffMultiplier cfg ^ (m - 1)"
    using assms by (intro power_increasing) auto
  then have "wc_initialRetryDelayMs cfg * wc_retryBackoffMultiplier cfg ^ (n - 1) \<le>
      wc_initialRetryDelayMs cfg * wc_retryBackoffMultiplier cfg ^ (m - 1)" by (rule mult_le_mono2)
  from min.mono [OF this order_refl] show ?thesis using assms(2,3) by (simp add: retry_delay_def)
qed

text \<open>
  The delay is not observed.  After a retryable failure with attempts left the event is queued
  again with the moment of its next attempt, and the very next poll selects it, at whatever
  moment that is, because queued events are selected without a look at it.
\<close>

theorem retry_not_delayed:
  assumes "event_of s i = Some e" and "ie_eventId e = i" and "ie_attempts e < wc_maxRetryAttempts cfg"
    and "rsp_result resp = RETRYABLE_FAILURE"
  shows "\<exists>s' e'. run (handleProcessingResult cfg e resp) s = (Inr (), s') \<and> event_of s' i = Some e' \<and>
    ie_status e' = QUEUED \<and>
    ie_nextAttemptAt e' = Some (ingest_clock s + int (retry_delay cfg (ie_attempts e))) \<and>
    selectable now e'"
  using assms
  by (simp add: handleProcessingResult_def run_simps calculateNextAttempt_def selectable_def)

lemma run_moveToDLQ_again:
  assumes "dlq_of s (ie_eventId e) \<noteq> None"
  shows "\<exists>err. run (moveToDLQ e code msg) s = (Inl err, s)"
  using assms by (simp add: moveToDLQ_def run_simps dlq_create_def)

text \<open>
  An event that was replayed from the dead letter queue keeps its entry there, and the queue
  takes an event once.  When its handler fails for good again, the move fails with a duplicate
  key, and the event never reaches the state \<open>DLQ\<close>: while attempts are left it is queued again,
  and afterwards it stays in processing with its old moment of the next attempt, so that every
  poll hands it to the handler again, without end.
\<close>

theorem replayed_failure_never_settles:
  assumes "event_of s i = Some e" and "ie_eventId e = i" and "i \<noteq> []" and "claimable e"
    and "map_of (ingest_records s) (i, ''ingest_event'') = None" and "dlq_of s i \<noteq> None"
    and "run (getHandler wk (ie_eventType e)
          \<lparr>pc_eventId = i, pc_eventType = ie_eventType e, pc_payload = ie_payloadSnapshot e,
           pc_attempts = ie_attempts e + 1\<rparr>) (put_event i (claimed e) s) =
        (Inr resp, (put_event i (claimed e) s)\<lparr>handled := w\<rparr>)"
    and "rsp_result resp = NON_RETRYABLE_FAILURE"
  shows "\<exists>r s' e'. run (processEvent wk i) s = (r, s') \<and> dlq_events s' = dlq_events s \<and> handled s' = w \<and>
    ingest_records s' = ingest_records s \<and>
    event_of s' i = Some e' \<and> ie_attempts e' = ie_attempts e + 1 \<and> claimable e' \<and>
    (if ie_attempts e + 1 < wc_maxRetryAttempts (wk_config wk) then ie_status e' = QUEUED
     else isl r \<and> ie_status e' = PROCESSING \<and> ie_nextAttemptAt e' = ie_nextAttemptAt e)"
proof -
  let ?s = "(put_event i (claimed e) s)\<lparr>handled := w\<rparr>"
  have id: "ie_eventId (claimed e) = i" using assms(2) by simp
  have "dlq_of ?s (ie_eventId (claimed e)) \<noteq> None" using assms(6) id by simp
  then have fails: "\<exists>err. run (moveToDLQ (claimed e) code msg) ?s = (Inl err, ?s)" for code msg
    by (rule run_moveToDLQ_again)
  obtain err where err: "run (handleProcessingResult (wk_config wk) (claimed e) resp) ?s = (Inl err, ?s)"
    using fails assms(8) by (auto simp: handleProcessingResult_def)
  have pc: "ie_payloadSnapshot (claimed e) = ie_payloadSnapshot e" by (simp add: claimed_def)
  have step: "run (processEvent wk i) s = run (processing_error wk i err) ?s"
    using assms(1-5,7) err by (simp add: processEvent_def run_simps process_claimed_def pc)
  have found: "event_of ?s i = Some (claimed e)" by simp
  show ?thesis
  proof (cases "ie_attempts e + 1 < wc_maxRetryAttempts (wk_config wk)")
    case True
    then show ?thesis
      unfolding step using id found
      by (simp add: processing_error_def run_simps handleProcessingResult_def calculateNextAttempt_def
          claimable_def)
  next
    case False
    obtain err2 where "run (processing_error wk i err) ?s = (Inl err2, ?s)"
      using fails False found by (auto simp: processing_error_def run_simps handleProcessingResult_def)
    then show ?thesis unfolding step using False by (simp add: claimable_def)
  qed
qed

section \<open>Two workers, and witnesses\<close>

text \<open>A world that counts the calls of its handlers.\<close>

definition counting :: "processing_result \<Rightarrow> nat event_handler" where
  "counting res ctxt = atomically (\<lambda>s. (s\<lparr>handled := Suc (handled s)\<rparr>,
     Inr \<lparr>rsp_result = res, rsp_errorCode = None, rsp_errorMessage = None\<rparr>))"

definition demo_worker :: "nat ingest_worker" where
  "demo_worker =
     \<lparr>wk_isRunning = True, wk_handlers = [(''award'', counting SUCCESS), (''broken'', counting NON_RETRYABLE_FAILURE)],
      wk_config = new_worker_config None None None None None None, wk_message = (\<lambda>_. ''failed'')\<rparr>"

definition queued_event :: "string \<Rightarrow> string \<Rightarrow> nat \<Rightarrow> ingest_event" where
  "queued_event i t n =
     \<lparr>ie_eventId = i, ie_eventType = Some t, ie_receivedAt = 10, ie_status = QUEUED, ie_attempts = n,
      ie_lastErrorCode = None, ie_lastErrorAt = None, ie_payloadSnapshot = None, ie_replayable = True,
      ie_nextAttemptAt = Some 20, ie_correlationId = None, ie_merchantId = None, ie_idempotencyKey = None,
      ie_processedAt = None, ie_accepted = None, ie_replayed = Some False, ie_postedTransactions = Some 0\<rparr>"

definition dead_event :: "string \<Rightarrow> string \<Rightarrow> dlq_event" where
  "dead_event i t =
     \<lparr>dq_eventId = i, dq_eventType = Some t, dq_originalReceivedAt = 5, dq_movedToDLQAt = 8,
      dq_attempts = 5, dq_lastErrorCode = None, dq_lastErrorMessage = None, dq_lastErrorAt = None,
      dq_payloadSnapshot = None, dq_replayable = True\<rparr>"

definition demo_ingest :: "nat ingest_store" where
  "demo_ingest =
     \<lparr>ingest_events = [(''e1'', queued_event ''e1'' ''award'' 0), (''e2'', queued_event ''e2'' ''broken'' 4)],
      dlq_events = [(''e2'', dead_event ''e2'' ''broken'')], ingest_records = [], ingest_clock = 100,
      ingest_uuids = (\<lambda>n. ''uuid-'' @ show_nat n), ingest_uuid_count = 0, handled = 0\<rparr>"

lemma demo_handler:
  "getHandler demo_worker (Some ''award'') = counting SUCCESS"
  "getHandler demo_worker (Some ''broken'') = counting NON_RETRYABLE_FAILURE"
  by (simp_all add: getHandler_def demo_worker_def)

definition disturbed :: "('s \<Rightarrow> 's) list \<Rightarrow> 's \<Rightarrow> 's" where
  "disturbed es s = (case es of [] \<Rightarrow> s | e # _ \<Rightarrow> e s)"

lemma run_env_atomically:
  "run_env (atomically f) es s =
     (fst (run (atomically f) (disturbed es s)), tl es, snd (run (atomically f) (disturbed es s)))"
  by (simp add: atomically_def disturbed_def prod.case_eq_if)

lemma run_env_claim_event:
  "run_env (claim_event i) es s =
     (fst (run (claim_event i) (disturbed es s)), tl es, snd (run (claim_event i) (disturbed es s)))"
  unfolding claim_event_def event_findOneAndUpdate_def by (rule run_env_atomically)

lemma run_env_worker_check:
  "run_env (worker_checkIdempotency i) es s =
     (Inr (map_of (ingest_records (disturbed es s)) (i, ''ingest_event'') \<noteq> None), tl es, disturbed es s)"
  unfolding worker_checkIdempotency_def ingest_record_find_def query_def run_env_await run_env_atomically
  by (simp add: run_simps pure_def)

lemma run_env_try_catch:
  "run_env (try_catch m h) es s =
     (case run_env m es s of (r, es', s') \<Rightarrow>
        (case r of Inl e \<Rightarrow> run_env (h e) es' s' | Inr a \<Rightarrow> (Inr a, es', s')))"
  by (auto simp: try_catch_def run_env_pbind split: prod.splits sum.splits)

text \<open>
  The claim of an event does not exclude a second worker, because an event in processing can be
  claimed again: when a second worker processes the event between the first one's check and its
  handler, the handler has run twice in the end, although the event is recorded once.
\<close>

theorem claim_not_exclusive:
  "case run_env (processEvent demo_worker ''e1'') [id, id, \<lambda>s. snd (run (processEvent demo_worker ''e1'') s)]
      demo_ingest of
     (r, _, s') \<Rightarrow> r = Inr () \<and> handled s' = 2 \<and> length (ingest_records s') = 1"
proof -
  let ?e = "queued_event ''e1'' ''award'' 0" and ?w = demo_worker
  let ?s1 = "put_event ''e1'' (claimed ?e) demo_ingest"
  have e: "event_of demo_ingest ''e1'' = Some ?e" "claimable ?e" "claimable (claimed ?e)" "ie_eventId ?e = ''e1''"
    "ie_eventType ?e = Some ''award''" "required_string 256 ''e1''" "ingest_records demo_ingest = []" "handled demo_ingest = 0"
    by (simp_all add: demo_ingest_def queued_event_def claimable_def required_string_def)
  define other where "other = (\<lambda>s. snd (run (processEvent ?w ''e1'') s))"
  have s2: "handled (other ?s1) = 1" "\<exists>r. ingest_records (other ?s1) = [((''e1'', ''ingest_event''), r)]"
    using e by (simp_all add: other_def processEvent_def run_simps process_claimed_def demo_handler counting_def
        handleProcessingResult_def run_worker_store put_event_def)
  from s2(2) obtain r where r: "ingest_records (other ?s1) = [((''e1'', ''ingest_event''), r)]" by blast
  show ?thesis
    unfolding other_def [symmetric]
    unfolding processEvent_def run_env_try_catch run_env_await run_env_claim_event
    using e s2(1) r
    by (simp add: run_claim_event disturbed_def process_claimed_def run_env_await run_env_worker_check demo_handler
        counting_def run_env_atomically run_atomically run_env_idle handleProcessingResult_def run_await
        run_event_updateOne run_worker_store split: option.split)
qed


theorem retry_delay_bounds_witness:
  "retry_delay (wk_config demo_worker) 2 \<le> retry_delay (wk_config demo_worker) 9 \<and>
   retry_delay (wk_config demo_worker) 9 = 60000"
proof -
  have "1 \<le> wc_retryBackoffMultiplier (wk_config demo_worker)"
    and "retry_delay (wk_config demo_worker) 9 = 60000"
    by (simp_all add: retry_delay_def demo_worker_def new_worker_config_def or_else_def)
  then show ?thesis using retry_delay_bounds [of "wk_config demo_worker" 2 9] by simp
qed

theorem retry_not_delayed_witness:
  "\<exists>s' e'. run (handleProcessingResult (wk_config demo_worker) (queued_event ''e1'' ''award'' 1)
       \<lparr>rsp_result = RETRYABLE_FAILURE, rsp_errorCode = None, rsp_errorMessage = None\<rparr>)
       (demo_ingest\<lparr>ingest_events := [(''e1'', queued_event ''e1'' ''award'' 1)]\<rparr>) = (Inr (), s') \<and>
     event_of s' ''e1'' = Some e' \<and> selectable 100 e' \<and> ie_nextAttemptAt e' = Some 1100"
proof -
  have facts1: "ie_attempts (queued_event ''e1'' ''award'' 1) < wc_maxRetryAttempts (wk_config demo_worker)"
    and facts2: "100 + int (retry_delay (wk_config demo_worker) (ie_attempts (queued_event ''e1'' ''award'' 1))) = 1100"
    and facts3: "ie_eventId (queued_event ''e1'' ''award'' 1) = ''e1''"
    by (simp_all add: retry_delay_def demo_worker_def new_worker_config_def or_else_def queued_event_def)
  let ?s = "demo_ingest\<lparr>ingest_events := [(''e1'', queued_event ''e1'' ''award'' 1)]\<rparr>"
  have s: "event_of ?s ''e1'' = Some (queued_event ''e1'' ''award'' 1)" "ingest_clock ?s = 100"
    by (simp_all add: demo_ingest_def)
  from retry_not_delayed [OF s(1) facts3 facts1, where now = 100
      and resp = "\<lparr>rsp_result = RETRYABLE_FAILURE, rsp_errorCode = None, rsp_errorMessage = None\<rparr>"]
  show ?thesis unfolding s(2) facts2 by (simp only: processing_response.simps simp_thms) blast
qed

theorem replayed_failure_never_settles_witness:
  "\<exists>r s' e'. run (processEvent demo_worker ''e2'') demo_ingest = (r, s') \<and> isl r \<and> event_of s' ''e2'' = Some e' \<and>
     ie_status e' = PROCESSING \<and> selectable 100 e' \<and> handled s' = 1"
proof -
  let ?e = "queued_event ''e2'' ''broken'' 4"
  have e: "event_of demo_ingest ''e2'' = Some ?e" "ie_eventId ?e = ''e2''" "''e2'' \<noteq> []" "claimable ?e"
    "map_of (ingest_records demo_ingest) (''e2'', ''ingest_event'') = None" "dlq_of demo_ingest ''e2'' \<noteq> None"
    by (simp_all add: demo_ingest_def queued_event_def claimable_def)
  let ?resp = "\<lparr>rsp_result = NON_RETRYABLE_FAILURE, rsp_errorCode = None, rsp_errorMessage = None\<rparr> :: processing_response"
  have h: "run (getHandler demo_worker (ie_eventType ?e)
      \<lparr>pc_eventId = ''e2'', pc_eventType = ie_eventType ?e, pc_payload = ie_payloadSnapshot ?e,
       pc_attempts = ie_attempts ?e + 1\<rparr>) (put_event ''e2'' (claimed ?e) demo_ingest) =
    (Inr ?resp, (put_event ''e2'' (claimed ?e) demo_ingest)\<lparr>handled := 1\<rparr>)"
    by (simp add: queued_event_def demo_handler counting_def run_simps demo_ingest_def put_event_def)
  have last: "\<not> ie_attempts ?e + 1 < wc_maxRetryAttempts (wk_config demo_worker)"
    and time: "ie_nextAttemptAt ?e = Some 20"
    by (simp_all add: demo_worker_def new_worker_config_def or_else_def queued_event_def)
  have "rsp_result ?resp = NON_RETRYABLE_FAILURE" by simp
  from replayed_failure_never_settles [OF e h this] obtain r s' e' where
    "run (processEvent demo_worker ''e2'') demo_ingest = (r, s')" and "handled s' = 1"
    and "event_of s' ''e2'' = Some e'" and "isl r" and "ie_status e' = PROCESSING"
    and "ie_nextAttemptAt e' = Some 20"
    unfolding if_not_P [OF last] time by blast
  moreover from this have "selectable 100 e'" by (simp add: selectable_def)
  ultimately show ?thesis by blast
qed

end
