(* ===== verification/Events_Controller.thy ===== *)
theory Events_Controller
  imports Ingest_Worker Admin_Ops
begin

text \<open>
  The controller of event ingestion (\<open>src/api/events.controller.ts\<close>): validation of a request whose
  fields may have any type, idempotency, the queued event, and the receipt for support.  The
  \<open>merchantId\<close> of a payload is taken when it is a string; metrics and logs are not modelled.
\<close>

section \<open>Requests and responses\<close>

text \<open>Fields that are checked at run time are values of any type.\<close>

record post_event_request =
  pe_eventId :: json
  pe_eventType :: json
  pe_payload :: json
  pe_idempotencyKey :: json
  pe_requestId :: "string option"
  pe_replayable :: json
  pe_correlationId :: "string option"

datatype event_response_status = Queued | Duplicate

record event_response =
  ers_eventId :: string
  ers_status :: event_response_status
  ers_message :: string
  ers_queuePosition :: "nat option"
  ers_requestId :: string
  ers_correlationId :: string

record event_receipt =
  ec_correlationId :: "string option"
  ec_merchantId :: "string option"
  ec_eventId :: string
  ec_idempotencyKey :: "string option"
  ec_processedAt :: "int option"
  ec_status :: ingest_event_status
  ec_accepted :: "bool option"
  ec_replayed :: "bool option"
  ec_postedTransactions :: "nat option"
  ec_errorCode :: "string option"

record validation_error =
  ve_field :: string
  ve_message :: string
  ve_code :: string

section \<open>Validation\<close>

definition invalid :: "string \<Rightarrow> string \<Rightarrow> string \<Rightarrow> validation_error list" where
  "invalid field message code = [\<lparr>ve_field = field, ve_message = message, ve_code = code\<rparr>]"

definition check_idempotencyKey :: "json \<Rightarrow> validation_error list" where
  "check_idempotencyKey v =
     (if \<not> json_truthy v then invalid ''idempotencyKey'' ''Idempotency key is required'' ''REQUIRED_FIELD_MISSING''
      else case v of
        JStr s \<Rightarrow>
          if length s < 1 \<or> 256 < length s
          then invalid ''idempotencyKey'' ''Idempotency key must be between 1 and 256 characters'' ''INVALID_LENGTH''
          else []
      | _ \<Rightarrow> invalid ''idempotencyKey'' ''Idempotency key must be a string'' ''INVALID_TYPE'')"

definition check_eventType :: "json \<Rightarrow> validation_error list" where
  "check_eventType v =
     (if \<not> json_truthy v then invalid ''eventType'' ''Event type is required'' ''REQUIRED_FIELD_MISSING''
      else case v of
        JStr s \<Rightarrow>
          if 128 < length s then invalid ''eventType'' ''Event type must be 128 characters or less'' ''INVALID_LENGTH''
          else []
      | _ \<Rightarrow> invalid ''eventType'' ''Event type must be a string'' ''INVALID_TYPE'')"

definition check_payload :: "json \<Rightarrow> validation_error list" where
  "check_payload v =
     (if \<not> json_truthy v then invalid ''payload'' ''Payload is required'' ''REQUIRED_FIELD_MISSING''
      else case v of JObj _ \<Rightarrow> [] | _ \<Rightarrow> invalid ''payload'' ''Payload must be an object'' ''INVALID_TYPE'')"

definition check_eventId :: "json \<Rightarrow> validation_error list" where
  "check_eventId v =
     (case v of
        JUndefined \<Rightarrow> []
      | JStr s \<Rightarrow>
          if 256 < length s then invalid ''eventId'' ''Event ID must be 256 characters or less'' ''INVALID_LENGTH''
          else []
      | _ \<Rightarrow> invalid ''eventId'' ''Event ID must be a string'' ''INVALID_TYPE'')"

definition check_replayable :: "json \<Rightarrow> validation_error list" where
  "check_replayable v =
     (case v of JUndefined \<Rightarrow> [] | JBool _ \<Rightarrow> []
      | _ \<Rightarrow> invalid ''replayable'' ''Replayable must be a boolean'' ''INVALID_TYPE'')"

definition validation_errors :: "post_event_request \<Rightarrow> validation_error list" where
  "validation_errors request =
     check_idempotencyKey (pe_idempotencyKey request) @ check_eventType (pe_eventType request) @
     check_payload (pe_payload request) @ check_eventId (pe_eventId request) @
     check_replayable (pe_replayable request)"

definition validateRequest :: "post_event_request \<Rightarrow> error + unit" where
  "validateRequest request =
     (if validation_errors request \<noteq> [] then Inl (Plain ''Validation failed'') else Inr ())"

section \<open>Posting an event\<close>

definition text_of :: "json \<Rightarrow> string" where
  "text_of v = (case v of JStr s \<Rightarrow> s | _ \<Rightarrow> [])"

definition fields_of :: "json \<Rightarrow> metadata option" where
  "fields_of v = (case v of JObj m \<Rightarrow> Some m | _ \<Rightarrow> None)"

definition merchant_of :: "json \<Rightarrow> string option" where
  "merchant_of payload = (case property (fields_of payload) ''merchantId'' of JStr s \<Rightarrow> Some s | _ \<Rightarrow> None)"

text \<open>The first of the given texts that is not empty, or a generated one.\<close>

definition given_or_new :: "string option list \<Rightarrow> string \<Rightarrow> ('s, string) ingest" where
  "given_or_new given prefix =
     (case filter text_given given of
        Some t # _ \<Rightarrow> pure t
      | _ \<Rightarrow> await ingest_uuid (\<lambda>u. pure (prefix @ u)))"

definition controller_checkIdempotency :: "string \<Rightarrow> ('s, bool) ingest" where
  "controller_checkIdempotency idempotencyKey =
     await (ingest_record_find idempotencyKey ''event_ingestion'') (\<lambda>found. pure (found \<noteq> None))"

definition controller_storeIdempotency :: "string \<Rightarrow> string \<Rightarrow> ('s, unit) ingest" where
  "controller_storeIdempotency idempotencyKey eventId =
     await ingest_now (\<lambda>now.
     ignore_duplicate (ingest_record_create
       \<lparr>i_pointsIdempotencyKey = idempotencyKey, i_eventScope = ''event_ingestion'', i_resultHash = eventId,
        i_storedResult = Some (JObj [(''eventId'', JStr eventId), (''queued'', JBool True),
          (''timestamp'', JNum (of_int now))]),
        i_retentionUntil = None, i_expiresAt = None, i_tenant_id = None\<rparr>))"

definition accepted_event ::
  "post_event_request \<Rightarrow> string \<Rightarrow> string \<Rightarrow> int \<Rightarrow> ingest_event" where
  "accepted_event request eventId correlationId now =
     \<lparr>ie_eventId = eventId, ie_eventType = Some (text_of (pe_eventType request)), ie_receivedAt = now,
      ie_status = QUEUED, ie_attempts = 0, ie_lastErrorCode = None, ie_lastErrorAt = None,
      ie_payloadSnapshot = fields_of (pe_payload request),
      ie_replayable = (pe_replayable request \<noteq> JBool False), ie_nextAttemptAt = None,
      ie_correlationId = Some correlationId, ie_merchantId = merchant_of (pe_payload request),
      ie_idempotencyKey = Some (text_of (pe_idempotencyKey request)), ie_processedAt = None,
      ie_accepted = Some True, ie_replayed = Some False, ie_postedTransactions = Some 0\<rparr>"

definition queue_event ::
  "post_event_request \<Rightarrow> string \<Rightarrow> string \<Rightarrow> string \<Rightarrow> ('s, event_response) ingest" where
  "queue_event request eventId requestId correlationId =
     await (controller_storeIdempotency (text_of (pe_idempotencyKey request)) eventId) (\<lambda>_.
     await ingest_now (\<lambda>now.
     await (event_create (accepted_event request eventId correlationId now)) (\<lambda>ingestEvent.
     await (query (\<lambda>s. length (filter (\<lambda>(_, e). ie_status e = QUEUED \<and> ie_receivedAt e < ie_receivedAt ingestEvent)
         (ingest_events s)))) (\<lambda>queuePosition.
     pure \<lparr>ers_eventId = eventId, ers_status = Queued, ers_message = ''Event queued for processing'',
           ers_queuePosition = Some (queuePosition + 1), ers_requestId = requestId,
           ers_correlationId = correlationId\<rparr>))))"

definition postEvent :: "post_event_request \<Rightarrow> ('s, event_response) ingest" where
  "postEvent request =
     await (given_or_new [pe_correlationId request, pe_requestId request] []) (\<lambda>correlationId.
     await (lift_result (validateRequest request)) (\<lambda>_.
     await (given_or_new [Some (text_of (pe_eventId request))] ''evt_'') (\<lambda>eventId.
     await (given_or_new [pe_requestId request] ''req_'') (\<lambda>requestId.
     await (controller_checkIdempotency (text_of (pe_idempotencyKey request))) (\<lambda>isDuplicate.
     if isDuplicate then
       pure \<lparr>ers_eventId = eventId, ers_status = Duplicate,
             ers_message = ''Event already processed or queued'', ers_queuePosition = None,
             ers_requestId = requestId, ers_correlationId = correlationId\<rparr>
     else queue_event request eventId requestId correlationId)))))"

section \<open>The receipt\<close>

definition getEventReceipt :: "string \<Rightarrow> string \<Rightarrow> ('s, event_receipt option) ingest" where
  "getEventReceipt merchantId idempotencyKey =
     await (query (\<lambda>s. find (\<lambda>(_, e). ie_merchantId e = Some merchantId \<and> ie_idempotencyKey e = Some idempotencyKey)
       (ingest_events s))) (\<lambda>event.
     pure (case event of
       None \<Rightarrow> None
     | Some (_, e) \<Rightarrow> Some
         \<lparr>ec_correlationId = ie_correlationId e, ec_merchantId = ie_merchantId e, ec_eventId = ie_eventId e,
          ec_idempotencyKey = ie_idempotencyKey e, ec_processedAt = ie_processedAt e, ec_status = ie_status e,
          ec_accepted = ie_accepted e, ec_replayed = ie_replayed e,
          ec_postedTransactions = ie_postedTransactions e, ec_errorCode = ie_lastErrorCode e\<rparr>))"

section \<open>Validation decided\<close>

text \<open>
  C31: A request passes validation exactly when its key is a text of 1 to 256 characters, its event
  type a text of 1 to 128, its payload an object, its event id absent or a text of at most 256
  characters, and its flag \<open>replayable\<close> absent or a boolean.
\<close>

theorem validateRequest_sound:
  "validateRequest q = Inr () \<longleftrightarrow>
     (\<exists>k t m. pe_idempotencyKey q = JStr k \<and> 0 < length k \<and> length k \<le> 256 \<and>
        pe_eventType q = JStr t \<and> 0 < length t \<and> length t \<le> 128 \<and> pe_payload q = JObj m) \<and>
     pe_eventId q \<in> {JUndefined} \<union> JStr ` {i. length i \<le> 256} \<and>
     pe_replayable q \<in> {JUndefined, JBool True, JBool False}"
proof -
  have key: "check_idempotencyKey v = [] \<longleftrightarrow> (\<exists>k. v = JStr k \<and> 0 < length k \<and> length k \<le> 256)" for v
    by (cases v) (auto simp: check_idempotencyKey_def invalid_def json_truthy_def)
  have type: "check_eventType v = [] \<longleftrightarrow> (\<exists>t. v = JStr t \<and> 0 < length t \<and> length t \<le> 128)" for v
    by (cases v) (auto simp: check_eventType_def invalid_def json_truthy_def)
  have payload: "check_payload v = [] \<longleftrightarrow> (\<exists>m. v = JObj m)" for v
    by (cases v) (auto simp: check_payload_def invalid_def json_truthy_def)
  have id: "check_eventId v = [] \<longleftrightarrow> v \<in> {JUndefined} \<union> JStr ` {i. length i \<le> 256}" for v
    by (cases v) (auto simp: check_eventId_def invalid_def)
  have flag: "check_replayable v = [] \<longleftrightarrow> v \<in> {JUndefined, JBool True, JBool False}" for v
    by (cases v) (auto simp: check_replayable_def invalid_def)
  have "validateRequest q = Inr () \<longleftrightarrow> validation_errors q = []"
    by (simp add: validateRequest_def)
  then show ?thesis
    unfolding validation_errors_def append_is_Nil_conv key type payload id flag by blast
qed

section \<open>Posting, again and again\<close>

lemma run_given_or_new:
  "\<exists>t n. run (given_or_new g p) s = (Inr t, s\<lparr>ingest_uuid_count := n\<rparr>) \<and>
     (t = p @ ingest_uuids s (ingest_uuid_count s) \<or> Some t \<in> set (filter text_given g))"
proof -
  have same: "\<exists>n. s = s\<lparr>ingest_uuid_count := n\<rparr>" by (rule exI [of _ "ingest_uuid_count s"]) simp
  show ?thesis
  proof (cases "filter text_given g")
    case Nil
    then show ?thesis
      by (intro exI [of _ "p @ ingest_uuids s (ingest_uuid_count s)"] exI [of _ "Suc (ingest_uuid_count s)"])
        (simp add: given_or_new_def run_simps)
  next
    case (Cons t ts)
    then have t: "t \<in> set (filter text_given g)" by simp
    then have "text_given t" by (simp only: set_filter) blast
    then obtain x where "t = Some x" by (cases t) (simp_all add: text_given_def)
    with t show ?thesis using same Cons by (simp add: given_or_new_def run_simps)
  qed
qed

lemma run_controller_check [run_simps]:
  "run (controller_checkIdempotency k) s = (Inr (map_of (ingest_records s) (k, ''event_ingestion'') \<noteq> None), s)"
  by (simp add: controller_checkIdempotency_def run_simps)

definition duplicate_response :: "string \<Rightarrow> string \<Rightarrow> string \<Rightarrow> event_response" where
  "duplicate_response eventId requestId correlationId =
     \<lparr>ers_eventId = eventId, ers_status = Duplicate,
      ers_message = ''Event already processed or queued'', ers_queuePosition = None,
      ers_requestId = requestId, ers_correlationId = correlationId\<rparr>"

text \<open>The ids of a request: what it gives, or generated.\<close>

lemma run_postEvent:
  assumes "validateRequest q = Inr ()"
  shows "\<exists>c i r n. run (postEvent q) s =
      (if map_of (ingest_records s) (text_of (pe_idempotencyKey q), ''event_ingestion'') \<noteq> None
       then (Inr (duplicate_response i r c), s\<lparr>ingest_uuid_count := n\<rparr>)
       else run (queue_event q i r c) (s\<lparr>ingest_uuid_count := n\<rparr>)) \<and>
    (\<exists>m. i = ''evt_'' @ ingest_uuids s m \<or> i = text_of (pe_eventId q) \<and> i \<noteq> [])"
proof -
  obtain c n1 where c: "run (given_or_new [pe_correlationId q, pe_requestId q] []) s =
      (Inr c, s\<lparr>ingest_uuid_count := n1\<rparr>)"
    using run_given_or_new by blast
  obtain i n2 where i: "run (given_or_new [Some (text_of (pe_eventId q))] ''evt_'') (s\<lparr>ingest_uuid_count := n1\<rparr>) =
      (Inr i, s\<lparr>ingest_uuid_count := n2\<rparr>)"
    and i': "i = ''evt_'' @ ingest_uuids s n1 \<or> i = text_of (pe_eventId q) \<and> i \<noteq> []"
    using run_given_or_new [of "[Some (text_of (pe_eventId q))]" "''evt_''" "s\<lparr>ingest_uuid_count := n1\<rparr>"]
    by (auto simp: text_given_def split: if_splits)
  obtain r n3 where r: "run (given_or_new [pe_requestId q] ''req_'') (s\<lparr>ingest_uuid_count := n2\<rparr>) =
      (Inr r, s\<lparr>ingest_uuid_count := n3\<rparr>)"
    using run_given_or_new [of "[pe_requestId q]" "''req_''" "s\<lparr>ingest_uuid_count := n2\<rparr>"] by auto
  show ?thesis
    by (intro exI [of _ c] exI [of _ i] exI [of _ r] exI [of _ n3] conjI exI [of _ n1] i')
      (simp add: postEvent_def run_await c i r assms run_simps duplicate_response_def)
qed

text \<open>The record of a key and what queueing does with it.\<close>

definition short_uuids :: "'s ingest_store \<Rightarrow> bool" where
  "short_uuids s \<longleftrightarrow> (\<forall>n. length (ingest_uuids s n) \<le> 36)"

definition ingestion_record :: "string \<Rightarrow> string \<Rightarrow> int \<Rightarrow> idempotency_record" where
  "ingestion_record key eventId now =
     \<lparr>i_pointsIdempotencyKey = key, i_eventScope = ''event_ingestion'', i_resultHash = eventId,
      i_storedResult = Some (JObj [(''eventId'', JStr eventId), (''queued'', JBool True),
        (''timestamp'', JNum (of_int now))]),
      i_retentionUntil = None, i_expiresAt = None, i_tenant_id = None\<rparr>"

definition with_key :: "string \<Rightarrow> string \<Rightarrow> 's ingest_store \<Rightarrow> 's ingest_store" where
  "with_key key eventId s = s\<lparr>ingest_records :=
     AList.update (key, ''event_ingestion'') (ingestion_record key eventId (ingest_clock s)) (ingest_records s)\<rparr>"

lemma run_controller_store:
  assumes "required_string 256 key" and "required_string 512 eventId"
    and "map_of (ingest_records s) (key, ''event_ingestion'') = None"
  shows "run (controller_storeIdempotency key eventId) s = (Inr (), with_key key eventId s)"
  using assms
  by (simp add: controller_storeIdempotency_def ignore_duplicate_def ingest_record_create_def run_simps
      valid_idempotency_record_def required_string_def optional_string_def ingestion_record_def with_key_def)

lemma run_queue_event:
  assumes "required_string 256 (text_of (pe_idempotencyKey q))" and "required_string 512 i"
    and "map_of (ingest_records s) (text_of (pe_idempotencyKey q), ''event_ingestion'') = None"
  shows "run (queue_event q i r c) s =
    (let s1 = with_key (text_of (pe_idempotencyKey q)) i s; e = accepted_event q i c (ingest_clock s) in
     if \<not> valid_ingest_event e then (Inl (ValidationError ''IngestEvent''), s1)
     else if event_of s i \<noteq> None then (Inl (DuplicateKeyError ''eventId''), s1)
     else (Inr \<lparr>ers_eventId = i, ers_status = Queued, ers_message = ''Event queued for processing'',
             ers_queuePosition = Some (length (filter (\<lambda>(_, x). ie_status x = QUEUED \<and> ie_receivedAt x < ingest_clock s)
               (ingest_events s)) + 1),
             ers_requestId = r, ers_correlationId = c\<rparr>,
           s1\<lparr>ingest_events := ingest_events s @ [(i, e)]\<rparr>))"
proof -
  have "ie_eventId (accepted_event q i c now) = i" "ie_receivedAt (accepted_event q i c now) = now" for now
    by (simp_all add: accepted_event_def)
  then show ?thesis
    by (simp add: queue_event_def run_simps run_controller_store [OF assms] event_create_def Let_def with_key_def
        del: not_None_eq)
qed

lemma valid_request_key: "validateRequest q = Inr () \<Longrightarrow> required_string 256 (text_of (pe_idempotencyKey q))"
  unfolding validateRequest_sound by (auto simp: text_of_def required_string_def)

lemma valid_request_id:
  assumes "validateRequest q = Inr ()" and "short_uuids s"
    and "(\<exists>m. i = ''evt_'' @ ingest_uuids s m) \<or> i = text_of (pe_eventId q) \<and> i \<noteq> []"
  shows "required_string 256 i"
proof -
  have "length (text_of (pe_eventId q)) \<le> 256"
    using assms(1) unfolding validateRequest_sound by (auto simp: text_of_def)
  moreover have "length (ingest_uuids s m) \<le> 36" for m using assms(2) by (simp add: short_uuids_def)
  ultimately show ?thesis using assms(3) by (fastforce simp: required_string_def intro: order.trans)
qed

text \<open>What one request does when its key is fresh, whether it is accepted or not.\<close>

lemma run_postEvent_fresh:
  assumes "validateRequest q = Inr ()" and "short_uuids s"
    and "map_of (ingest_records s) (text_of (pe_idempotencyKey q), ''event_ingestion'') = None"
    and "run (postEvent q) s = (r, s1)"
  shows "\<exists>i c. required_string 256 i \<and>
    map_of (ingest_records s1) (text_of (pe_idempotencyKey q), ''event_ingestion'') =
      Some (ingestion_record (text_of (pe_idempotencyKey q)) i (ingest_clock s)) \<and>
    ingest_clock s1 = ingest_clock s \<and> dlq_events s1 = dlq_events s \<and> handled s1 = handled s \<and>
    (\<forall>k. k \<noteq> (text_of (pe_idempotencyKey q), ''event_ingestion'') \<longrightarrow>
       map_of (ingest_records s1) k = map_of (ingest_records s) k) \<and>
    (case r of
       Inl err \<Rightarrow> ingest_events s1 = ingest_events s \<and>
         (\<not> valid_ingest_event (accepted_event q i c (ingest_clock s)) \<or> event_of s i \<noteq> None)
     | Inr rsp \<Rightarrow> ers_status rsp = Queued \<and> ers_eventId rsp = i \<and> event_of s i = None \<and>
         valid_ingest_event (accepted_event q i c (ingest_clock s)) \<and>
         ingest_events s1 = ingest_events s @ [(i, accepted_event q i c (ingest_clock s))])"
proof -
  let ?k = "text_of (pe_idempotencyKey q)"
  obtain c i rq n where run: "run (postEvent q) s = run (queue_event q i rq c) (s\<lparr>ingest_uuid_count := n\<rparr>)"
    and i: "(\<exists>m. i = ''evt_'' @ ingest_uuids s m) \<or> i = text_of (pe_eventId q) \<and> i \<noteq> []"
    using run_postEvent [OF assms(1), of s] assms(3) by (simp del: not_None_eq) blast
  have id: "required_string 256 i" by (rule valid_request_id [OF assms(1,2) i])
  then have id': "required_string 512 i" by (simp add: required_string_def)
  have fresh: "map_of (ingest_records (s\<lparr>ingest_uuid_count := n\<rparr>)) (?k, ''event_ingestion'') = None"
    using assms(3) by simp
  note q = run_queue_event [OF valid_request_key [OF assms(1)] id' fresh, of rq c]
  let ?e = "accepted_event q i c (ingest_clock s)"
  consider (bad) "\<not> valid_ingest_event ?e \<or> event_of s i \<noteq> None" "\<exists>err. r = Inl err"
      "s1 = with_key ?k i (s\<lparr>ingest_uuid_count := n\<rparr>)"
    | (good) rsp where "event_of s i = None" "valid_ingest_event ?e" "r = Inr rsp" "ers_status rsp = Queued" "ers_eventId rsp = i"
      "s1 = (with_key ?k i (s\<lparr>ingest_uuid_count := n\<rparr>))\<lparr>ingest_events := ingest_events s @ [(i, ?e)]\<rparr>"
    using q run assms(4) by (auto simp: Let_def split: if_splits)
  then show ?thesis
  proof cases
    case bad
    then show ?thesis
      by (intro exI [of _ i] exI [of _ c]) (auto simp: id with_key_def)
  next
    case good
    then show ?thesis
      by (intro exI [of _ i] exI [of _ c]) (auto simp: id with_key_def)
  qed
qed

lemma run_postEvent_known:
  assumes "validateRequest q = Inr ()"
    and "map_of (ingest_records s) (text_of (pe_idempotencyKey q), ''event_ingestion'') \<noteq> None"
  shows "\<exists>rsp s3. run (postEvent q) s = (Inr rsp, s3) \<and> ers_status rsp = Duplicate \<and>
    ingest_events s3 = ingest_events s \<and> ingest_records s3 = ingest_records s"
  using run_postEvent [OF assms(1), of s] assms(2) by (auto simp: duplicate_response_def)


text \<open>
  Validation does not look at the merchant in the payload, and the key is stored before the
  event.  When the merchant is longer than a document may hold, the request fails, no event is
  stored, and the key is used up all the same: the corrected request with this key is answered
  as \<open>already processed or queued\<close>, although there is no event with the key.
\<close>

theorem failed_post_burns_key:
  assumes "validateRequest q = Inr ()" and "short_uuids s"
    and "map_of (ingest_records s) (text_of (pe_idempotencyKey q), ''event_ingestion'') = None"
    and "merchant_of (pe_payload q) = Some m" and "256 < length m"
    and "validateRequest q' = Inr ()" and "pe_idempotencyKey q' = pe_idempotencyKey q"
  shows "\<exists>err s1 rsp s2. run (postEvent q) s = (Inl err, s1) \<and> run (postEvent q') s1 = (Inr rsp, s2) \<and>
    ers_status rsp = Duplicate \<and> ingest_events s2 = ingest_events s"
proof -
  obtain r s1 where run: "run (postEvent q) s = (r, s1)" by fastforce
  have bad: "\<not> valid_ingest_event (accepted_event q i c now)" for i c now
    using assms(4,5) by (simp add: valid_ingest_event_def accepted_event_def optional_string_def)
  show ?thesis
  proof (cases r)
    case (Inl err)
    from run_postEvent_fresh [OF assms(1-3) run]
    have rec: "map_of (ingest_records s1) (text_of (pe_idempotencyKey q'), ''event_ingestion'') \<noteq> None"
      and ev: "ingest_events s1 = ingest_events s"
      using Inl assms(7) by auto
    from run_postEvent_known [OF assms(6) rec] show ?thesis using run Inl ev by metis
  next
    case (Inr rsp)
    then show ?thesis using run_postEvent_fresh [OF assms(1-3) run] bad by auto
  qed
qed

section \<open>From the request to the receipt\<close>

lemma run_getEventReceipt [run_simps]:
  "run (getEventReceipt m k) s =
     (Inr (map_option (\<lambda>(_, e).
         \<lparr>ec_correlationId = ie_correlationId e, ec_merchantId = ie_merchantId e, ec_eventId = ie_eventId e,
          ec_idempotencyKey = ie_idempotencyKey e, ec_processedAt = ie_processedAt e, ec_status = ie_status e,
          ec_accepted = ie_accepted e, ec_replayed = ie_replayed e,
          ec_postedTransactions = ie_postedTransactions e, ec_errorCode = ie_lastErrorCode e\<rparr>)
       (find (\<lambda>(_, e). ie_merchantId e = Some m \<and> ie_idempotencyKey e = Some k) (ingest_events s))), s)"
  by (simp add: getEventReceipt_def run_simps split: option.split)

lemma update_at_end: "map_of l i = None \<Longrightarrow> AList.update i y (l @ [(i, x)]) = l @ [(i, y)]"
  by (induction l) (auto split: if_splits)

text \<open>
  C30: The life of an event from its request to its receipt.  When a valid request of a merchant
  with a fresh key is queued, and a worker whose handler reports success processes the event, the
  handler has run once, on the payload of the request, and the receipt of the merchant and key
  shows the event as processed, under the id of the response.  The receipt has no moment of
  processing and no posted transactions, because the worker never sets them.
\<close>

theorem posted_event_processed:
  assumes "validateRequest q = Inr ()" and "short_uuids s"
    and "map_of (ingest_records s) (text_of (pe_idempotencyKey q), ''event_ingestion'') = None"
    and "merchant_of (pe_payload q) = Some m"
    and "\<forall>(i, e)\<in>set (ingest_events s). ie_idempotencyKey e \<noteq> Some (text_of (pe_idempotencyKey q))"
    and "run (postEvent q) s = (Inr rsp, s1)"
    and "map_of (ingest_records s) (ers_eventId rsp, ''ingest_event'') = None"
    and "\<And>s'. run (getHandler wk (Some (text_of (pe_eventType q)))
          \<lparr>pc_eventId = ers_eventId rsp, pc_eventType = Some (text_of (pe_eventType q)),
           pc_payload = fields_of (pe_payload q), pc_attempts = 1\<rparr>) s' =
        (Inr resp, s'\<lparr>handled := f (handled s')\<rparr>)"
    and "rsp_result resp = SUCCESS"
  shows "\<exists>s2 receipt. run (processEvent wk (ers_eventId rsp)) s1 = (Inr (), s2) \<and> handled s2 = f (handled s) \<and>
    run (getEventReceipt m (text_of (pe_idempotencyKey q))) s2 = (Inr (Some receipt), s2) \<and>
    ec_eventId receipt = ers_eventId rsp \<and> ec_status receipt = PROCESSED \<and> ec_accepted receipt = Some True \<and>
    ec_processedAt receipt = None \<and> ec_postedTransactions receipt = Some 0"
proof -
  let ?k = "text_of (pe_idempotencyKey q)"
  from run_postEvent_fresh [OF assms(1-3,6)] obtain i c where i: "required_string 256 i" "ers_eventId rsp = i"
      "event_of s i = None"
    and ev: "ingest_events s1 = ingest_events s @ [(i, accepted_event q i c (ingest_clock s))]"
    and rec: "\<And>k. k \<noteq> (?k, ''event_ingestion'') \<Longrightarrow> map_of (ingest_records s1) k = map_of (ingest_records s) k"
    and h: "handled s1 = handled s"
    by auto
  let ?e = "accepted_event q i c (ingest_clock s)"
  have e: "event_of s1 i = Some ?e" using ev i(3) by (simp add: map_add_def)
  have fields: "ie_eventId ?e = i" "claimable ?e" "ie_eventType ?e = Some (text_of (pe_eventType q))"
    "ie_payloadSnapshot ?e = fields_of (pe_payload q)" "ie_attempts ?e + 1 = 1"
    by (simp_all add: accepted_event_def claimable_def)
  have new: "map_of (ingest_records s1) (i, ''ingest_event'') = None"
    using rec [of "(i, ''ingest_event'')"] assms(7) i(2) by simp
  have handler: "run (getHandler wk (ie_eventType ?e)
        \<lparr>pc_eventId = i, pc_eventType = ie_eventType ?e, pc_payload = ie_payloadSnapshot ?e,
         pc_attempts = ie_attempts ?e + 1\<rparr>) (put_event i (claimed ?e) s1) =
      (Inr resp, (put_event i (claimed ?e) s1)\<lparr>handled := f (handled s)\<rparr>)"
    unfolding fields(3-5) using assms(8) [of "put_event i (claimed ?e) s1"] i(2) h by simp
  from run_process_success [OF e fields(1,2) i(1) new handler assms(9)] obtain s2 where
    run: "run (processEvent wk i) s1 = (Inr (), s2)" and w: "handled s2 = f (handled s)"
    and ev2: "ingest_events s2 = AList.update i ((claimed ?e)\<lparr>ie_status := PROCESSED\<rparr>) (ingest_events s1)"
    by blast
  have none: "find (\<lambda>(_, x). ie_merchantId x = Some m \<and> ie_idempotencyKey x = Some ?k) (ingest_events s) = None"
    using assms(5) by (auto simp: find_None_iff)
  have skip: "find P l = None \<Longrightarrow> find P (l @ [y]) = (if P y then Some y else None)"
    for P and l :: "(string \<times> ingest_event) list" and y by (induction l) (auto split: if_splits)
  show ?thesis
    using run w assms(4) i(2)
    by (simp add: run_simps ev2 ev update_at_end [OF i(3)] skip [OF none])
      (simp add: accepted_event_def claimed_def)
qed

section \<open>Witnesses\<close>

definition demo_request :: "string \<Rightarrow> post_event_request" where
  "demo_request merchant =
     \<lparr>pe_eventId = JStr ''e9'', pe_eventType = JStr ''award'',
      pe_payload = JObj [(''merchantId'', JStr merchant)], pe_idempotencyKey = JStr ''k1'',
      pe_requestId = Some ''r1'', pe_replayable = JUndefined, pe_correlationId = Some ''c1''\<rparr>"

definition posting_ingest :: "nat ingest_store" where
  "posting_ingest = demo_ingest\<lparr>ingest_uuids := (\<lambda>_. ''u'')\<rparr>"

lemma demo_request_facts:
  "validateRequest (demo_request m) = Inr ()" "text_of (pe_idempotencyKey (demo_request m)) = ''k1''"
  "merchant_of (pe_payload (demo_request m)) = Some m" "pe_idempotencyKey (demo_request m) = JStr ''k1''"
  "text_of (pe_eventType (demo_request m)) = ''award''"
  by (simp_all add: validateRequest_def validation_errors_def demo_request_def check_idempotencyKey_def
      check_eventType_def check_payload_def check_eventId_def check_replayable_def json_truthy_def text_of_def
      merchant_of_def fields_of_def property_def spread_def)

lemma posting_ingest_facts:
  "short_uuids posting_ingest" "map_of (ingest_records posting_ingest) k = None"
  "\<forall>(i, e)\<in>set (ingest_events posting_ingest). ie_idempotencyKey e \<noteq> Some k'"
  "handled posting_ingest = 0"
  by (simp_all add: short_uuids_def posting_ingest_def demo_ingest_def queued_event_def)

lemma run_demo_post:
  assumes "length m \<le> 256"
  shows "\<exists>rsp s1. run (postEvent (demo_request m)) posting_ingest = (Inr rsp, s1)"
proof -
  have e: "event_of posting_ingest ''e9'' = None" by (simp add: posting_ingest_def demo_ingest_def)
  have given: "run (given_or_new [Some t, x] p) s = (Inr t, s)" "run (given_or_new [Some t] p) s = (Inr t, s)"
    if "t \<noteq> []" for t x p and s :: "nat ingest_store"
    using that by (simp_all add: given_or_new_def text_given_def run_simps)
  have ids: "pe_correlationId (demo_request m) = Some ''c1''" "pe_requestId (demo_request m) = Some ''r1''"
    "text_of (pe_eventId (demo_request m)) = ''e9''" "text_of (JStr x) = x" for x
    by (simp_all add: demo_request_def text_of_def)
  have "valid_ingest_event (accepted_event (demo_request m) ''e9'' ''c1'' now)" for now
    using assms
    by (simp add: valid_ingest_event_def accepted_event_def demo_request_def text_of_def required_string_def
        optional_string_def merchant_of_def fields_of_def property_def spread_def)
  then show ?thesis
    using e run_queue_event [of "demo_request m" "''e9''" posting_ingest "''r1''" "''c1''"]
    by (simp add: postEvent_def run_await given ids run_simps demo_request_facts posting_ingest_facts
        required_string_def)
qed


theorem failed_post_burns_key_witness:
  "\<exists>err s1 rsp s2. run (postEvent (demo_request (replicate 300 CHR ''m''))) posting_ingest = (Inl err, s1) \<and>
     run (postEvent (demo_request ''m1'')) s1 = (Inr rsp, s2) \<and> ers_status rsp = Duplicate \<and>
     length (ingest_events s2) = 2"
proof -
  have key: "pe_idempotencyKey (demo_request ''m1'') = pe_idempotencyKey (demo_request (replicate 300 CHR ''m''))"
    and long: "256 < length (replicate 300 CHR ''m'')"
    by (simp_all add: demo_request_facts)
  have two: "length (ingest_events posting_ingest) = 2" by (simp add: posting_ingest_def demo_ingest_def)
  from failed_post_burns_key [OF demo_request_facts(1) posting_ingest_facts(1,2) demo_request_facts(3) long
      demo_request_facts(1) key] two
  show ?thesis by metis
qed

theorem posted_event_processed_witness:
  "\<exists>rsp s1 s2 receipt. run (postEvent (demo_request ''m1'')) posting_ingest = (Inr rsp, s1) \<and>
     run (processEvent demo_worker (ers_eventId rsp)) s1 = (Inr (), s2) \<and> handled s2 = 1 \<and>
     run (getEventReceipt ''m1'' ''k1'') s2 = (Inr (Some receipt), s2) \<and> ec_status receipt = PROCESSED"
proof -
  obtain rsp s1 where run: "run (postEvent (demo_request ''m1'')) posting_ingest = (Inr rsp, s1)"
    using run_demo_post [of "''m1''"] by auto
  let ?resp = "\<lparr>rsp_result = SUCCESS, rsp_errorCode = None, rsp_errorMessage = None\<rparr> :: processing_response"
  have handler: "run (getHandler demo_worker (Some (text_of (pe_eventType (demo_request ''m1'')))) ctxt) s' =
      (Inr ?resp, s'\<lparr>handled := Suc (handled s')\<rparr>)" for ctxt s'
    by (simp add: demo_request_facts demo_handler counting_def run_simps)
  have ok: "rsp_result ?resp = SUCCESS" by simp
  from posted_event_processed [OF demo_request_facts(1) posting_ingest_facts(1,2) demo_request_facts(3)
      posting_ingest_facts(3) run posting_ingest_facts(2) handler ok]
  show ?thesis using run unfolding posting_ingest_facts(4) demo_request_facts(2) One_nat_def by blast
qed

end
