(* ===== verification/Auth_Service.thy ===== *)
theory Auth_Service
  imports Wallet_Service
begin

text \<open>
  The authorization of queue operations (\<open>src/services/auth.service.ts\<close>): tokens for settlement,
  refund and partial settlement, their validation, and the roles.

  The library \<open>jsonwebtoken\<close> is a parameter: \<open>jw_sign\<close> signs a payload with a secret and an
  algorithm, \<open>jw_verify\<close> returns the payload of a token that is genuine and not expired at the
  given moment, and otherwise one of its errors.  Moments are milliseconds.
\<close>

section \<open>Configuration, roles and payloads\<close>

datatype jwt_algorithm = HS256 | HS384 | HS512

record auth_service =
  as_jwtSecret :: string
  as_tokenExpirySeconds :: int
  as_algorithm :: jwt_algorithm

datatype user_role = ADMIN | USER | MODEL | QUEUE_SERVICE | SYSTEM

text \<open>The payload of the three kinds of token, with the fields of \<open>JWTPayload\<close> first.\<close>

record jwt_payload =
  jp_sub :: string
  jp_role :: user_role
  jp_iat :: int
  jp_exp :: int
  jp_type :: string

record queue_authorization_payload = jwt_payload +
  jp_queueItemId :: string
  jp_escrowId :: string
  jp_userId :: "string option"
  jp_modelId :: "string option"
  jp_amount :: rat
  jp_refundAmount :: "rat option"
  jp_settleAmount :: "rat option"
  jp_reason :: transaction_reason

datatype jwt_error = TokenExpiredError | JsonWebTokenError | OtherJwtError error

record jwt_library =
  jw_sign :: "string \<Rightarrow> jwt_algorithm \<Rightarrow> queue_authorization_payload \<Rightarrow> string"
  jw_verify :: "int \<Rightarrow> string \<Rightarrow> jwt_algorithm \<Rightarrow> string \<Rightarrow> jwt_error + queue_authorization_payload"

section \<open>Tokens\<close>

definition token_expiry :: "auth_service \<Rightarrow> int \<Rightarrow> int" where
  "token_expiry au issuedAt = issuedAt + as_tokenExpirySeconds au * 1000"

definition settlement_payload ::
  "auth_service \<Rightarrow> int \<Rightarrow> string \<Rightarrow> string \<Rightarrow> string \<Rightarrow> rat \<Rightarrow> transaction_reason \<Rightarrow> queue_authorization_payload" where
  "settlement_payload au issuedAt queueItemId escrowId modelId amount reason =
     \<lparr>jp_sub = ''queue_service'', jp_role = QUEUE_SERVICE, jp_iat = issuedAt div 1000,
      jp_exp = token_expiry au issuedAt div 1000, jp_type = ''queue_settlement'',
      jp_queueItemId = queueItemId, jp_escrowId = escrowId, jp_userId = None, jp_modelId = Some modelId,
      jp_amount = amount, jp_refundAmount = None, jp_settleAmount = None, jp_reason = reason\<rparr>"

definition generateSettlementAuthorization ::
  "jwt_library \<Rightarrow> auth_service \<Rightarrow> int \<Rightarrow> string \<Rightarrow> string \<Rightarrow> string \<Rightarrow> rat \<Rightarrow> transaction_reason \<Rightarrow>
   queue_settlement_authorization" where
  "generateSettlementAuthorization jw au issuedAt queueItemId escrowId modelId amount reason =
     \<lparr>qs_queueItemId = queueItemId,
      qs_token = jw_sign jw (as_jwtSecret au) (as_algorithm au)
        (settlement_payload au issuedAt queueItemId escrowId modelId amount reason),
      qs_escrowId = escrowId, qs_modelId = modelId, qs_amount = amount, qs_reason = reason,
      qs_issuedAt = issuedAt, qs_expiresAt = token_expiry au issuedAt\<rparr>"

definition refund_payload ::
  "auth_service \<Rightarrow> int \<Rightarrow> string \<Rightarrow> string \<Rightarrow> string \<Rightarrow> rat \<Rightarrow> transaction_reason \<Rightarrow> queue_authorization_payload" where
  "refund_payload au issuedAt queueItemId escrowId userId amount reason =
     \<lparr>jp_sub = ''queue_service'', jp_role = QUEUE_SERVICE, jp_iat = issuedAt div 1000,
      jp_exp = token_expiry au issuedAt div 1000, jp_type = ''queue_refund'',
      jp_queueItemId = queueItemId, jp_escrowId = escrowId, jp_userId = Some userId, jp_modelId = None,
      jp_amount = amount, jp_refundAmount = None, jp_settleAmount = None, jp_reason = reason\<rparr>"

definition generateRefundAuthorization ::
  "jwt_library \<Rightarrow> auth_service \<Rightarrow> int \<Rightarrow> string \<Rightarrow> string \<Rightarrow> string \<Rightarrow> rat \<Rightarrow> transaction_reason \<Rightarrow>
   queue_refund_authorization" where
  "generateRefundAuthorization jw au issuedAt queueItemId escrowId userId amount reason =
     \<lparr>qr_queueItemId = queueItemId,
      qr_token = jw_sign jw (as_jwtSecret au) (as_algorithm au)
        (refund_payload au issuedAt queueItemId escrowId userId amount reason),
      qr_escrowId = escrowId, qr_userId = userId, qr_amount = amount, qr_reason = reason,
      qr_issuedAt = issuedAt, qr_expiresAt = token_expiry au issuedAt\<rparr>"

definition partial_payload ::
  "auth_service \<Rightarrow> int \<Rightarrow> string \<Rightarrow> string \<Rightarrow> string \<Rightarrow> string \<Rightarrow> rat \<Rightarrow> rat \<Rightarrow> transaction_reason \<Rightarrow>
   queue_authorization_payload" where
  "partial_payload au issuedAt queueItemId escrowId userId modelId refundAmount settleAmount reason =
     \<lparr>jp_sub = ''queue_service'', jp_role = QUEUE_SERVICE, jp_iat = issuedAt div 1000,
      jp_exp = token_expiry au issuedAt div 1000, jp_type = ''queue_partial_settlement'',
      jp_queueItemId = queueItemId, jp_escrowId = escrowId, jp_userId = Some userId, jp_modelId = Some modelId,
      jp_amount = refundAmount + settleAmount, jp_refundAmount = Some refundAmount,
      jp_settleAmount = Some settleAmount, jp_reason = reason\<rparr>"

definition generatePartialSettlementAuthorization ::
  "jwt_library \<Rightarrow> auth_service \<Rightarrow> int \<Rightarrow> string \<Rightarrow> string \<Rightarrow> string \<Rightarrow> string \<Rightarrow> rat \<Rightarrow> rat \<Rightarrow> transaction_reason \<Rightarrow>
   queue_partial_settlement_authorization" where
  "generatePartialSettlementAuthorization jw au issuedAt queueItemId escrowId userId modelId refundAmount
       settleAmount reason =
     \<lparr>qp_queueItemId = queueItemId,
      qp_token = jw_sign jw (as_jwtSecret au) (as_algorithm au)
        (partial_payload au issuedAt queueItemId escrowId userId modelId refundAmount settleAmount reason),
      qp_escrowId = escrowId, qp_userId = userId, qp_modelId = modelId, qp_refundAmount = refundAmount,
      qp_settleAmount = settleAmount, qp_reason = reason,
      qp_issuedAt = issuedAt, qp_expiresAt = token_expiry au issuedAt\<rparr>"

section \<open>Validation\<close>

definition verifyAuthorizationToken ::
  "jwt_library \<Rightarrow> auth_service \<Rightarrow> int \<Rightarrow> string \<Rightarrow> error + queue_authorization_payload" where
  "verifyAuthorizationToken jw au now token =
     (case jw_verify jw now (as_jwtSecret au) (as_algorithm au) token of
        Inr decoded \<Rightarrow> Inr decoded
      | Inl TokenExpiredError \<Rightarrow> Inl (Plain ''Authorization token expired'')
      | Inl JsonWebTokenError \<Rightarrow> Inl (Plain ''Invalid authorization token'')
      | Inl (OtherJwtError error) \<Rightarrow> Inl error)"

text \<open>
  The checks that the three validations have in common, in their order: first the payload of the
  token, then the authorization that carries it.
\<close>

definition check_claims ::
  "string \<Rightarrow> string \<Rightarrow> string \<Rightarrow> string \<Rightarrow> string \<Rightarrow> queue_authorization_payload \<Rightarrow> error + unit" where
  "check_claims type queueItemId escrowId expectedQueueItemId expectedEscrowId payload =
     (if jp_type payload \<noteq> type then Inl (Plain ''Invalid authorization type'')
      else if jp_role payload \<noteq> QUEUE_SERVICE then Inl (Plain ''Invalid authorization role'')
      else if jp_queueItemId payload \<noteq> expectedQueueItemId then Inl (Plain ''Queue item ID mismatch'')
      else if jp_escrowId payload \<noteq> expectedEscrowId then Inl (Plain ''Escrow ID mismatch'')
      else if queueItemId \<noteq> expectedQueueItemId then Inl (Plain ''Authorization queue item ID mismatch'')
      else if escrowId \<noteq> expectedEscrowId then Inl (Plain ''Authorization escrow ID mismatch'')
      else Inr ())"

definition validateSettlementAuthorization ::
  "jwt_library \<Rightarrow> auth_service \<Rightarrow> int \<Rightarrow> queue_settlement_authorization \<Rightarrow> string \<Rightarrow> string \<Rightarrow> error + unit" where
  "validateSettlementAuthorization jw au now authorization expectedQueueItemId expectedEscrowId =
     (case verifyAuthorizationToken jw au now (qs_token authorization) of
        Inl error \<Rightarrow> Inl error
      | Inr payload \<Rightarrow> check_claims ''queue_settlement'' (qs_queueItemId authorization) (qs_escrowId authorization)
          expectedQueueItemId expectedEscrowId payload)"

definition validateRefundAuthorization ::
  "jwt_library \<Rightarrow> auth_service \<Rightarrow> int \<Rightarrow> queue_refund_authorization \<Rightarrow> string \<Rightarrow> string \<Rightarrow> error + unit" where
  "validateRefundAuthorization jw au now authorization expectedQueueItemId expectedEscrowId =
     (case verifyAuthorizationToken jw au now (qr_token authorization) of
        Inl error \<Rightarrow> Inl error
      | Inr payload \<Rightarrow> check_claims ''queue_refund'' (qr_queueItemId authorization) (qr_escrowId authorization)
          expectedQueueItemId expectedEscrowId payload)"

definition validatePartialSettlementAuthorization ::
  "jwt_library \<Rightarrow> auth_service \<Rightarrow> int \<Rightarrow> queue_partial_settlement_authorization \<Rightarrow> string \<Rightarrow> string \<Rightarrow> error + unit" where
  "validatePartialSettlementAuthorization jw au now authorization expectedQueueItemId expectedEscrowId =
     (case verifyAuthorizationToken jw au now (qp_token authorization) of
        Inl error \<Rightarrow> Inl error
      | Inr payload \<Rightarrow> check_claims ''queue_partial_settlement'' (qp_queueItemId authorization)
          (qp_escrowId authorization) expectedQueueItemId expectedEscrowId payload)"

section \<open>Roles\<close>

definition hasRole :: "'a jwt_payload_scheme \<Rightarrow> user_role \<Rightarrow> bool" where
  "hasRole payload requiredRole = (if jp_role payload = ADMIN then True else jp_role payload = requiredRole)"

definition hasAnyRole :: "'a jwt_payload_scheme \<Rightarrow> user_role list \<Rightarrow> bool" where
  "hasAnyRole payload requiredRoles =
     (if jp_role payload = ADMIN then True else jp_role payload \<in> set requiredRoles)"

lemma hasAnyRole_hasRole: "roles \<noteq> [] \<Longrightarrow> hasAnyRole p roles \<longleftrightarrow> (\<exists>r\<in>set roles. hasRole p r)"
  by (cases roles) (auto simp: hasAnyRole_def hasRole_def)

section \<open>Properties\<close>

lemma check_claims_ok:
  "check_claims type q e q' e' p = Inr () \<longleftrightarrow>
     jp_type p = type \<and> jp_role p = QUEUE_SERVICE \<and> jp_queueItemId p = q' \<and> jp_escrowId p = e' \<and> q = q' \<and> e = e'"
  by (simp add: check_claims_def)

lemma payload_claims:
  "jp_type (settlement_payload au n q e m a r) = ''queue_settlement''" "jp_role (settlement_payload au n q e m a r) = QUEUE_SERVICE"
  "jp_queueItemId (settlement_payload au n q e m a r) = q" "jp_escrowId (settlement_payload au n q e m a r) = e"
  "jp_type (refund_payload au n q e u a r) = ''queue_refund''" "jp_role (refund_payload au n q e u a r) = QUEUE_SERVICE"
  "jp_queueItemId (refund_payload au n q e u a r) = q" "jp_escrowId (refund_payload au n q e u a r) = e"
  "jp_type (partial_payload au n q e u m a b r) = ''queue_partial_settlement''"
  "jp_role (partial_payload au n q e u m a b r) = QUEUE_SERVICE"
  "jp_queueItemId (partial_payload au n q e u m a b r) = q" "jp_escrowId (partial_payload au n q e u m a b r) = e"
  by (simp_all add: settlement_payload_def refund_payload_def partial_payload_def)

lemma generated_fields:
  "qs_queueItemId (generateSettlementAuthorization jw au n q e m a r) = q"
  "qs_escrowId (generateSettlementAuthorization jw au n q e m a r) = e"
  "qs_token (generateSettlementAuthorization jw au n q e m a r) =
     jw_sign jw (as_jwtSecret au) (as_algorithm au) (settlement_payload au n q e m a r)"
  "qr_queueItemId (generateRefundAuthorization jw au n q e u a r) = q"
  "qr_escrowId (generateRefundAuthorization jw au n q e u a r) = e"
  "qr_token (generateRefundAuthorization jw au n q e u a r) =
     jw_sign jw (as_jwtSecret au) (as_algorithm au) (refund_payload au n q e u a r)"
  "qp_queueItemId (generatePartialSettlementAuthorization jw au n q e u m a b r) = q"
  "qp_escrowId (generatePartialSettlementAuthorization jw au n q e u m a b r) = e"
  "qp_token (generatePartialSettlementAuthorization jw au n q e u m a b r) =
     jw_sign jw (as_jwtSecret au) (as_algorithm au) (partial_payload au n q e u m a b r)"
  by (simp_all add: generateSettlementAuthorization_def generateRefundAuthorization_def
      generatePartialSettlementAuthorization_def)

text \<open>
  C26: A generated authorization passes the validation of its kind for its own queue item and escrow
  and for no other, as long as the library verifies its token; and its token does not pass the
  two other validations, in whatever authorization it is carried.  The hypotheses say that the
  library returns the signed payload of the three tokens.
\<close>

theorem authorization_roundtrip:
  assumes "jw_verify jw now (as_jwtSecret au) (as_algorithm au) (jw_sign jw (as_jwtSecret au) (as_algorithm au)
      (settlement_payload au n q e m a r)) = Inr (settlement_payload au n q e m a r)"
    and "jw_verify jw now (as_jwtSecret au) (as_algorithm au) (jw_sign jw (as_jwtSecret au) (as_algorithm au)
      (refund_payload au n q e u a2 r2)) = Inr (refund_payload au n q e u a2 r2)"
    and "jw_verify jw now (as_jwtSecret au) (as_algorithm au) (jw_sign jw (as_jwtSecret au) (as_algorithm au)
      (partial_payload au n q e u m c d r3)) = Inr (partial_payload au n q e u m c d r3)"
  shows "(let auth = generateSettlementAuthorization jw au n q e m a r in
      (validateSettlementAuthorization jw au now auth q' e' = Inr () \<longleftrightarrow> q' = q \<and> e' = e) \<and>
      isl (validateRefundAuthorization jw au now (x\<lparr>qr_token := qs_token auth\<rparr>) q' e') \<and>
      isl (validatePartialSettlementAuthorization jw au now (y\<lparr>qp_token := qs_token auth\<rparr>) q' e')) \<and>
    (let auth = generateRefundAuthorization jw au n q e u a2 r2 in
      (validateRefundAuthorization jw au now auth q' e' = Inr () \<longleftrightarrow> q' = q \<and> e' = e) \<and>
      isl (validateSettlementAuthorization jw au now (z\<lparr>qs_token := qr_token auth\<rparr>) q' e') \<and>
      isl (validatePartialSettlementAuthorization jw au now (y\<lparr>qp_token := qr_token auth\<rparr>) q' e')) \<and>
    (let auth = generatePartialSettlementAuthorization jw au n q e u m c d r3 in
      (validatePartialSettlementAuthorization jw au now auth q' e' = Inr () \<longleftrightarrow> q' = q \<and> e' = e) \<and>
      isl (validateSettlementAuthorization jw au now (z\<lparr>qs_token := qp_token auth\<rparr>) q' e') \<and>
      isl (validateRefundAuthorization jw au now (x\<lparr>qr_token := qp_token auth\<rparr>) q' e'))"
proof -
  have other: "jp_type p \<noteq> type \<Longrightarrow> isl (check_claims type q1 e1 q2 e2 p)" for type p q1 e1 q2 e2
    by (simp add: check_claims_def)
  note defs = validateSettlementAuthorization_def validateRefundAuthorization_def
    validatePartialSettlementAuthorization_def verifyAuthorizationToken_def generated_fields assms
  show ?thesis
    unfolding Let_def by (auto simp: defs check_claims_ok payload_claims intro!: other)
qed

text \<open>
  The amount, the beneficiary and the reason of an authorization are not compared with its token,
  so that an authorization in which they were changed validates as before; and the wallet service
  asks for a token without verifying it, so that its operations treat all authorizations with a
  token alike.
\<close>

theorem authorization_amount_unchecked:
  "validateSettlementAuthorization jw au now (a\<lparr>qs_amount := x, qs_modelId := m, qs_reason := r\<rparr>) q e =
     validateSettlementAuthorization jw au now a q e \<and>
   validateRefundAuthorization jw au now (b\<lparr>qr_amount := x, qr_userId := u, qr_reason := r\<rparr>) q e =
     validateRefundAuthorization jw au now b q e \<and>
   validatePartialSettlementAuthorization jw au now
       (c\<lparr>qp_refundAmount := x, qp_settleAmount := y, qp_modelId := m, qp_userId := u, qp_reason := r\<rparr>) q e =
     validatePartialSettlementAuthorization jw au now c q e \<and>
   settleEscrow ws sr (Some (a\<lparr>qs_token := t # tk\<rparr>)) = settleEscrow ws sr (Some (a'\<lparr>qs_token := t' # tk'\<rparr>)) \<and>
   refundEscrow ws rr (Some (b\<lparr>qr_token := t # tk\<rparr>)) = refundEscrow ws rr (Some (b'\<lparr>qr_token := t' # tk'\<rparr>)) \<and>
   partialSettleEscrow ws pr (Some (c\<lparr>qp_token := t # tk\<rparr>)) = partialSettleEscrow ws pr (Some (c'\<lparr>qp_token := t' # tk'\<rparr>))"
  by (simp add: validateSettlementAuthorization_def validateRefundAuthorization_def
      validatePartialSettlementAuthorization_def settleEscrow_def refundEscrow_def partialSettleEscrow_def truthy_def
      cong: sum.case_cong)

section \<open>Witness\<close>

text \<open>A library whose tokens are the types of their payloads.\<close>

definition demo_auth :: auth_service where
  "demo_auth = \<lparr>as_jwtSecret = ''secret'', as_tokenExpirySeconds = 300, as_algorithm = HS256\<rparr>"

definition demo_payloads :: "(string \<times> queue_authorization_payload) list" where
  "demo_payloads =
     [(''queue_settlement'', settlement_payload demo_auth 5000 ''q1'' ''e1'' ''m1'' 10 PERFORMANCE_COMPLETED),
      (''queue_refund'', refund_payload demo_auth 5000 ''q1'' ''e1'' ''u1'' 10 USER_DISCONNECTED),
      (''queue_partial_settlement'', partial_payload demo_auth 5000 ''q1'' ''e1'' ''u1'' ''m1'' 4 6 PERFORMANCE_COMPLETED)]"

definition demo_jwt :: jwt_library where
  "demo_jwt = \<lparr>jw_sign = (\<lambda>_ _ p. jp_type p),
     jw_verify = (\<lambda>now _ _ token. case map_of demo_payloads token of
        None \<Rightarrow> Inl JsonWebTokenError
      | Some p \<Rightarrow> if jp_exp p * 1000 \<le> now then Inl TokenExpiredError else Inr p)\<rparr>"

theorem authorization_roundtrip_witness:
  "validateSettlementAuthorization demo_jwt demo_auth 9000
     (generateSettlementAuthorization demo_jwt demo_auth 5000 ''q1'' ''e1'' ''m1'' 10 PERFORMANCE_COMPLETED) ''q1'' ''e1'' = Inr () \<and>
   validateSettlementAuthorization demo_jwt demo_auth 9000
     (generateSettlementAuthorization demo_jwt demo_auth 5000 ''q1'' ''e1'' ''m1'' 10 PERFORMANCE_COMPLETED) ''q1'' ''e2'' \<noteq> Inr ()"
proof -
  have exp: "jp_exp (settlement_payload demo_auth 5000 q e m a r) = 305" "jp_exp (refund_payload demo_auth 5000 q e u a r) = 305"
    "jp_exp (partial_payload demo_auth 5000 q e u m a b r) = 305" for q e m a r u b
    by (simp_all add: settlement_payload_def refund_payload_def partial_payload_def token_expiry_def demo_auth_def)
  let ?s = "settlement_payload demo_auth 5000 ''q1'' ''e1'' ''m1'' 10 PERFORMANCE_COMPLETED"
  let ?r = "refund_payload demo_auth 5000 ''q1'' ''e1'' ''u1'' 10 USER_DISCONNECTED"
  let ?p = "partial_payload demo_auth 5000 ''q1'' ''e1'' ''u1'' ''m1'' 4 6 PERFORMANCE_COMPLETED"
  have verify: "jw_verify demo_jwt 9000 k g (jw_sign demo_jwt k g ?s) = Inr ?s"
    "jw_verify demo_jwt 9000 k g (jw_sign demo_jwt k g ?r) = Inr ?r"
    "jw_verify demo_jwt 9000 k g (jw_sign demo_jwt k g ?p) = Inr ?p" for k g
    by (simp_all add: demo_jwt_def demo_payloads_def payload_claims exp)
  from authorization_roundtrip [OF verify] show ?thesis by (simp add: Let_def)
qed

end
