(* ===== verification/Idempotency_Service.thy ===== *)
theory Idempotency_Service
  imports Store_Rely "HOL-Library.List_Lexorder" "HOL-Library.Char_ord" "HOL-Library.Multiset"
begin

text \<open>
  The idempotency cache of the API (\<open>src/services/idempotency.service.ts\<close>), on the collection
  \<open>idempotency_records\<close> it shares with the ledger service.  The digest of a value,
  \<open>SHA256(JSON.stringify(value))\<close> in hexadecimal, is a parameter; the ordering of the keys that
  is put before it is modelled.  Keys of objects are taken not to be array indices, which a
  JavaScript object enumerates first.
\<close>

section \<open>Operations\<close>

datatype idempotency_operation =
    WALLET_CREDIT
  | WALLET_DEDUCT
  | POINT_REDEMPTION
  | POINT_EXPIRATION
  | ESCROW_HOLD
  | ESCROW_RELEASE
  | ESCROW_SETTLE
  | ESCROW_REFUND

fun operation_name :: "idempotency_operation \<Rightarrow> string" where
  "operation_name WALLET_CREDIT = ''wallet_credit''"
| "operation_name WALLET_DEDUCT = ''wallet_deduct''"
| "operation_name POINT_REDEMPTION = ''point_redemption''"
| "operation_name POINT_EXPIRATION = ''point_expiration''"
| "operation_name ESCROW_HOLD = ''escrow_hold''"
| "operation_name ESCROW_RELEASE = ''escrow_release''"
| "operation_name ESCROW_SETTLE = ''escrow_settle''"
| "operation_name ESCROW_REFUND = ''escrow_refund''"

definition buildScope :: "string \<Rightarrow> string \<Rightarrow> string" where
  "buildScope tenantId operation = tenantId @ '':'' @ operation"

text \<open>The replacer of \<open>hashResult\<close>: every object with its keys in order.\<close>

fun sort_keys :: "json \<Rightarrow> json" where
  "sort_keys (JObj ms) = JObj (sort_key fst (map (\<lambda>(k, v). (k, sort_keys v)) ms))"
| "sort_keys (JArr vs) = JArr (map sort_keys vs)"
| "sort_keys v = v"

definition hashResult :: "(json \<Rightarrow> string) \<Rightarrow> json \<Rightarrow> string" where
  "hashResult digest result = digest (sort_keys result)"

definition checkKey :: "string \<Rightarrow> string \<Rightarrow> string \<Rightarrow> json option svc" where
  "checkKey key tenantId operation =
     await (idempotency_findOne (\<lambda>i. i_pointsIdempotencyKey i = key \<and>
              i_eventScope i = buildScope tenantId operation)) (\<lambda>found.
     pure (case found of None \<Rightarrow> None | Some i \<Rightarrow> i_storedResult i))"

definition recordKey :: "(json \<Rightarrow> string) \<Rightarrow> string \<Rightarrow> string \<Rightarrow> string \<Rightarrow> json \<Rightarrow> unit svc" where
  "recordKey digest key tenantId operation result =
     idempotency_create
       \<lparr>i_pointsIdempotencyKey = key, i_eventScope = buildScope tenantId operation,
        i_resultHash = hashResult digest result, i_storedResult = Some result,
        i_retentionUntil = None, i_expiresAt = None, i_tenant_id = None\<rparr>"

section \<open>The hash\<close>

text \<open>
  Values that differ in the order of the keys of their objects only, at whatever depth.
\<close>

inductive reordered :: "json \<Rightarrow> json \<Rightarrow> bool" where
  reorder_keys: "mset ms = mset ms' \<Longrightarrow> distinct (map fst ms) \<Longrightarrow> reordered (JObj ms) (JObj ms')"
| reorder_member: "reordered v v' \<Longrightarrow> reordered (JObj (ms @ (k, v) # ms')) (JObj (ms @ (k, v') # ms'))"
| reorder_element: "reordered v v' \<Longrightarrow> reordered (JArr (vs @ v # vs')) (JArr (vs @ v' # vs'))"
| reorder_again: "reordered u v \<Longrightarrow> reordered v w \<Longrightarrow> reordered u w"

lemma sort_keys_permuted:
  assumes "mset ms = mset ms'" and "distinct (map fst ms)"
  shows "sort_keys (JObj ms) = sort_keys (JObj ms')"
proof -
  let ?f = "\<lambda>(k, v). (k, sort_keys v)"
  have fst: "map fst (map ?f ms) = map fst ms" for ms :: "(string \<times> json) list"
    by (induction ms) auto
  have "mset (map ?f ms) = mset (sort_key fst (map ?f ms'))" using assms(1) by simp
  moreover have "distinct (map fst (map ?f ms))" unfolding fst by (rule assms(2))
  then have "inj_on fst (set (map ?f ms))" by (simp only: distinct_map)
  ultimately have "sort_key fst (map ?f ms) = sort_key fst (map ?f ms')"
    by (rule sort_key_inj_key_eq) simp
  then show ?thesis by simp
qed

text \<open>
  The hash of a result does not depend on the order in which its keys were inserted.
\<close>

theorem hashResult_order_independent:
  assumes "reordered v v'"
  shows "hashResult digest v = hashResult digest v'"
proof -
  have "sort_keys v = sort_keys v'"
    using assms
  proof (induction rule: reordered.induct)
    case (reorder_keys ms ms')
    then show ?case by (rule sort_keys_permuted)
  qed simp_all
  then show ?thesis by (simp add: hashResult_def)
qed

theorem hashResult_order_independent_witness:
  "hashResult digest (JObj [(''b'', JArr [JObj [(''y'', JNum 1), (''x'', JNull)]]), (''a'', JBool True)]) =
   hashResult digest (JObj [(''a'', JBool True), (''b'', JArr [JObj [(''x'', JNull), (''y'', JNum 1)]])])"
proof -
  have inner: "reordered (JObj [(''y'', JNum 1), (''x'', JNull)]) (JObj [(''x'', JNull), (''y'', JNum 1)])"
    by (rule reorder_keys) simp_all
  have "reordered (JArr ([] @ JObj [(''y'', JNum 1), (''x'', JNull)] # []))
      (JArr ([] @ JObj [(''x'', JNull), (''y'', JNum 1)] # []))"
    by (rule reorder_element [OF inner])
  from reorder_member [OF this, of "[]" "''b''" "[(''a'', JBool True)]"]
  have "reordered (JObj [(''b'', JArr [JObj [(''y'', JNum 1), (''x'', JNull)]]), (''a'', JBool True)])
      (JObj [(''b'', JArr [JObj [(''x'', JNull), (''y'', JNum 1)]]), (''a'', JBool True)])" by simp
  moreover have "reordered (JObj [(''b'', JArr [JObj [(''x'', JNull), (''y'', JNum 1)]]), (''a'', JBool True)])
      (JObj [(''a'', JBool True), (''b'', JArr [JObj [(''x'', JNull), (''y'', JNum 1)]])])"
    by (rule reorder_keys) simp_all
  ultimately have "reordered (JObj [(''b'', JArr [JObj [(''y'', JNum 1), (''x'', JNull)]]), (''a'', JBool True)])
      (JObj [(''a'', JBool True), (''b'', JArr [JObj [(''x'', JNull), (''y'', JNum 1)]])])"
    by (rule reorder_again)
  then show ?thesis by (rule hashResult_order_independent)
qed

section \<open>Execution\<close>

lemma run_checkKey [run_simps]:
  "run (checkKey key tenant op) s =
     (Inr (case find (\<lambda>i. i_pointsIdempotencyKey i = key \<and> i_eventScope i = buildScope tenant op)
         (map snd (idempotency_records s)) of None \<Rightarrow> None | Some i \<Rightarrow> i_storedResult i), s)"
  by (simp add: checkKey_def run_simps)

text \<open>The record of a result, and a store in which records stand under their own key and scope.\<close>

definition cached_record :: "(json \<Rightarrow> string) \<Rightarrow> string \<Rightarrow> string \<Rightarrow> string \<Rightarrow> json \<Rightarrow> idempotency_record" where
  "cached_record digest key tenant op result =
     \<lparr>i_pointsIdempotencyKey = key, i_eventScope = buildScope tenant op,
      i_resultHash = hashResult digest result, i_storedResult = Some result,
      i_retentionUntil = None, i_expiresAt = None, i_tenant_id = None\<rparr>"

definition records_keyed :: "store \<Rightarrow> bool" where
  "records_keyed s \<longleftrightarrow> list_all (\<lambda>(k, i). k = (i_pointsIdempotencyKey i, i_eventScope i)) (idempotency_records s)"

lemma find_record:
  assumes "list_all (\<lambda>(k, i). k = (i_pointsIdempotencyKey i, i_eventScope i)) rs"
  shows "find (\<lambda>i. i_pointsIdempotencyKey i = key \<and> i_eventScope i = scope) (map snd rs) = map_of rs (key, scope)"
  using assms by (induction rs) auto

lemma run_recordKey:
  assumes "required_string 256 key" and "required_string 128 (buildScope tenant op)"
    and "required_string 512 (hashResult digest result)"
    and "map_of (idempotency_records s) (key, buildScope tenant op) = None"
  shows "run (recordKey digest key tenant op result) s =
    (Inr (), s\<lparr>idempotency_records := AList.update (key, buildScope tenant op)
      (cached_record digest key tenant op result) (idempotency_records s)\<rparr>)"
  using assms
  by (simp add: recordKey_def run_simps valid_idempotency_record_def optional_string_def cached_record_def)

lemma run_recordKey_long:
  assumes "128 < length (buildScope tenant op)"
  shows "run (recordKey digest key tenant op result) s = (Inl (ValidationError ''IdempotencyRecord''), s)"
  using assms by (simp add: recordKey_def run_simps valid_idempotency_record_def required_string_def)

end
