(* ===== verification/Wallet_Controller.thy ===== *)
theory Wallet_Controller
  imports Wallet_Service Point_Accrual Idempotency_Service
begin

text \<open>
  The REST controller of the wallets (\<open>src/api/wallet.controller.ts\<close>): the wallet of a user, and
  the credit and the debit of points, which put the idempotency cache of the API in front of the
  point accrual service.
\<close>

section \<open>Requests and responses\<close>

text \<open>The key of a request may be absent at run time; amounts may be any number.\<close>

record points_request =
  pq_amount :: js_number
  pq_reason :: string
  pq_metadata :: "metadata option"
  pq_idempotencyKey :: "string option"
  pq_requestId :: string
  pq_tenantId :: string

record wallet_response =
  wr_userId :: string
  wr_availableBalance :: rat
  wr_escrowBalance :: rat
  wr_totalBalance :: rat
  wr_currency :: string
  wr_version :: nat
  wr_createdAt :: string
  wr_lastUpdated :: string

record transaction_response =
  tr_id :: string
  tr_userId :: string
  tr_amount :: rat
  tr_type :: transaction_type
  tr_reason :: string
  tr_timestamp :: string
  tr_idempotencyKey :: string
  tr_previousBalance :: rat
  tr_newBalance :: rat
  tr_requestId :: string
  tr_wallet :: wallet_response

text \<open>The response as it is stored, and the result of an operation: new, or taken from the cache.\<close>

definition wallet_json :: "wallet_response \<Rightarrow> json" where
  "wallet_json w = JObj
     [(''userId'', JStr (wr_userId w)), (''availableBalance'', JNum (wr_availableBalance w)),
      (''escrowBalance'', JNum (wr_escrowBalance w)), (''totalBalance'', JNum (wr_totalBalance w)),
      (''currency'', JStr (wr_currency w)), (''version'', JNum (of_nat (wr_version w))),
      (''createdAt'', JStr (wr_createdAt w)), (''lastUpdated'', JStr (wr_lastUpdated w))]"

definition transaction_json :: "transaction_response \<Rightarrow> json" where
  "transaction_json t = JObj
     [(''transaction'', JObj
        [(''id'', JStr (tr_id t)), (''userId'', JStr (tr_userId t)), (''amount'', JNum (tr_amount t)),
         (''type'', JStr (case tr_type t of CREDIT \<Rightarrow> ''credit'' | DEBIT \<Rightarrow> ''debit'')),
         (''reason'', JStr (tr_reason t)), (''timestamp'', JStr (tr_timestamp t)),
         (''idempotencyKey'', JStr (tr_idempotencyKey t)), (''previousBalance'', JNum (tr_previousBalance t)),
         (''newBalance'', JNum (tr_newBalance t)), (''requestId'', JStr (tr_requestId t))]),
      (''wallet'', wallet_json (tr_wallet t))]"

datatype transaction_result = Fresh transaction_response | Cached json

text \<open>The services the controller is constructed with, and the digest of the idempotency cache.\<close>

record wallet_controller =
  wc_accrual :: point_accrual_service
  wc_digest :: "json \<Rightarrow> string"

section \<open>Operations\<close>

definition getWallet :: "string \<Rightarrow> wallet_response svc" where
  "getWallet userId =
     await (getUserBalance userId) (\<lambda>balance.
     await new_date (\<lambda>created.
     await new_date (\<lambda>updated.
     pure \<lparr>wr_userId = userId, wr_availableBalance = ub_available balance,
           wr_escrowBalance = ub_escrow balance, wr_totalBalance = ub_total balance,
           wr_currency = ''points'', wr_version = 0, wr_createdAt = toISOString created,
           wr_lastUpdated = toISOString updated\<rparr>)))"

definition coerceDebitReason :: "string \<Rightarrow> transaction_reason" where
  "coerceDebitReason reason = (if reason = reason_string POINT_EXPIRY then POINT_EXPIRY else ADMIN_DEBIT)"

definition coerceCreditReason :: "string \<Rightarrow> transaction_reason" where
  "coerceCreditReason reason =
     (if reason = reason_string USER_SIGNUP_BONUS then USER_SIGNUP_BONUS
      else if reason = reason_string REFERRAL_BONUS then REFERRAL_BONUS
      else if reason = reason_string PROMOTIONAL_AWARD then PROMOTIONAL_AWARD
      else ADMIN_CREDIT)"

definition blank_key :: "string option \<Rightarrow> bool" where
  "blank_key key \<longleftrightarrow> (case key of None \<Rightarrow> True | Some k \<Rightarrow> trim k = [])"

definition accrual_request :: "string \<Rightarrow> points_request \<Rightarrow> transaction_reason \<Rightarrow> string \<Rightarrow> award_points_request" where
  "accrual_request userId request reason key =
     \<lparr>aw_userId = userId, aw_amount = pq_amount request, aw_reason = reason, aw_idempotencyKey = key,
      aw_requestId = pq_requestId request, aw_tenantId = pq_tenantId request,
      aw_metadata = pq_metadata request, aw_expiresAt = None\<rparr>"

definition rat_of :: "js_number \<Rightarrow> rat" where
  "rat_of n = (case n of Finite a \<Rightarrow> a | _ \<Rightarrow> 0)"

definition points_response ::
  "transaction_type \<Rightarrow> string \<Rightarrow> points_request \<Rightarrow> string \<Rightarrow> award_points_response \<Rightarrow> user_balance \<Rightarrow>
   wallet_response \<Rightarrow> transaction_response" where
  "points_response type userId request key award previous wallet =
     \<lparr>tr_id = ar_transactionId award, tr_userId = userId,
      tr_amount = (if type = CREDIT then rat_of (pq_amount request) else - rat_of (pq_amount request)),
      tr_type = type, tr_reason = pq_reason request, tr_timestamp = toISOString (ar_timestamp award),
      tr_idempotencyKey = key, tr_previousBalance = ub_available previous,
      tr_newBalance = ar_newBalance award, tr_requestId = pq_requestId request, tr_wallet = wallet\<rparr>"

text \<open>
  The two operations differ in the name of the operation, the call of the accrual service, the
  type and the sign of the amount.  The services refuse amounts that are not finite, so that the
  amount of a response is that of a number.
\<close>

definition points_operation ::
  "wallet_controller \<Rightarrow> idempotency_operation \<Rightarrow> transaction_type \<Rightarrow> (string \<Rightarrow> award_points_response svc) \<Rightarrow>
   string \<Rightarrow> points_request \<Rightarrow> transaction_result svc" where
  "points_operation wc operation type accrue userId request =
     (if blank_key (pq_idempotencyKey request) then throw (Plain ''idempotencyKey is required'')
      else if js_le (pq_amount request) (Finite 0) then throw (Plain ''Amount must be positive'')
      else
        let key = the (pq_idempotencyKey request) in
        await (checkKey key userId (operation_name operation)) (\<lambda>cached.
        case cached of
          Some result \<Rightarrow> pure (Cached result)
        | None \<Rightarrow>
            await (getUserBalance userId) (\<lambda>previous.
            await (accrue key) (\<lambda>award.
            await (getWallet userId) (\<lambda>wallet.
            let result = points_response type userId request key award previous wallet in
            await (recordKey (wc_digest wc) key userId (operation_name operation) (transaction_json result)) (\<lambda>_.
            pure (Fresh result)))))))"

definition controller_deductPoints :: "wallet_controller \<Rightarrow> string \<Rightarrow> points_request \<Rightarrow> transaction_result svc" where
  "controller_deductPoints wc userId request =
     points_operation wc WALLET_DEDUCT DEBIT
       (\<lambda>key. deductFromAvailable (wc_accrual wc)
          (accrual_request userId request (coerceDebitReason (pq_reason request)) key) 0) userId request"

definition controller_creditPoints :: "wallet_controller \<Rightarrow> string \<Rightarrow> points_request \<Rightarrow> transaction_result svc" where
  "controller_creditPoints wc userId request =
     points_operation wc WALLET_CREDIT CREDIT
       (\<lambda>key. awardPoints (wc_accrual wc)
          (accrual_request userId request (coerceCreditReason (pq_reason request)) key) 0) userId request"

section \<open>A repeated request\<close>

abbreviation operation_scope :: "string \<Rightarrow> idempotency_operation \<Rightarrow> string" where
  "operation_scope u op \<equiv> buildScope u (operation_name op)"

lemma run_await_Inr:
  "run (await m k) s = (Inr b, s2) \<longleftrightarrow> (\<exists>a s1. run m s = (Inr a, s1) \<and> run (k a) s1 = (Inr b, s2))"
  by (auto simp: run_await split: prod.splits sum.splits)

text \<open>A request that passes the first checks of an operation.\<close>

definition well_posed :: "string \<Rightarrow> points_request \<Rightarrow> bool" where
  "well_posed k q \<longleftrightarrow> pq_idempotencyKey q = Some k \<and> trim k \<noteq> [] \<and> \<not> js_le (pq_amount q) (Finite 0)"

lemma run_points_cached:
  assumes "well_posed k q" and "records_keyed s"
    and "map_of (idempotency_records s) (k, operation_scope u op) = Some i" and "i_storedResult i = Some v"
  shows "run (points_operation wc op ty accrue u q) s = (Inr (Cached v), s)"
  using assms find_record [of "idempotency_records s" k "operation_scope u op"]
  by (simp add: points_operation_def well_posed_def blank_key_def run_simps records_keyed_def)

lemma points_response_simps:
  "tr_previousBalance (points_response ty u q k award b w) = ub_available b"
  "tr_newBalance (points_response ty u q k award b w) = ar_newBalance award"
  "tr_idempotencyKey (points_response ty u q k award b w) = k"
  "tr_wallet (points_response ty u q k award b w) = w"
  by (simp_all add: points_response_def)

lemma run_points_fresh:
  assumes "well_posed k q" and "records_keyed s"
    and "map_of (idempotency_records s) (k, operation_scope u op) = None"
    and "run (accrue k) s = (Inr award, s1)"
  shows "\<exists>t. run (points_operation wc op ty accrue u q) s =
      (case run (recordKey (wc_digest wc) k u (operation_name op) (transaction_json t)) s1 of
         (Inl e, s2) \<Rightarrow> (Inl e, s2) | (Inr _, s2) \<Rightarrow> (Inr (Fresh t), s2)) \<and>
    tr_previousBalance t = available_of s u \<and> tr_newBalance t = ar_newBalance award \<and>
    tr_idempotencyKey t = k \<and> wr_availableBalance (tr_wallet t) = available_of s1 u"
proof -
  have balance: "\<exists>b. run (getUserBalance u) s = (Inr b, s) \<and> ub_available b = available_of s u" for s
    by (simp add: getUserBalance_def run_simps available_of_def split: option.split)
  obtain b where b: "run (getUserBalance u) s = (Inr b, s)" "ub_available b = available_of s u"
    using balance by blast
  obtain w where w: "run (getWallet u) s1 = (Inr w, s1)" "wr_availableBalance w = available_of s1 u"
    using balance [of s1] by (auto simp: getWallet_def run_await run_new_date run_pure)
  show ?thesis
    using assms b w find_record [of "idempotency_records s" k "operation_scope u op"]
    by (intro exI [of _ "points_response ty u q k award b w"])
      (simp add: points_operation_def well_posed_def blank_key_def run_await run_checkKey records_keyed_def
        run_pure Let_def points_response_simps cong: sum.case_cong)
qed

lemma well_posed_amount: "well_posed k q \<Longrightarrow> pq_idempotencyKey q = Some k"
  by (simp add: well_posed_def)

text \<open>What the accrual service does for a credit whose request is ready.\<close>

definition credit_ready :: "wallet_controller \<Rightarrow> string \<Rightarrow> points_request \<Rightarrow> string \<Rightarrow> store \<Rightarrow> bool" where
  "credit_ready wc u q k s \<longleftrightarrow>
     well_posed k q \<and> records_keyed s \<and>
     map_of (idempotency_records s) (k, operation_scope u WALLET_CREDIT) = None \<and>
     request_ready (wc_accrual wc) (accrual_request u q (coerceCreditReason (pq_reason q)) k) ''award_points'' s"

lemma coerced_reason: "coerceCreditReason r \<in> set earningReasons"
  by (simp add: coerceCreditReason_def earningReasons_def)

lemma credit_awarded:
  assumes "credit_ready wc u q k s" and "validateAmount (wc_accrual wc) (pq_amount q) = Inr a"
  shows "\<exists>award s1. run (awardPoints (wc_accrual wc) (accrual_request u q (coerceCreditReason (pq_reason q)) k) 0) s =
      (Inr award, s1) \<and> ar_newBalance award = available_of s u + a \<and> available_of s1 u = available_of s u + a \<and>
    idempotency_records s1 = idempotency_records s"
  using award_outcome [of "wc_accrual wc" "accrual_request u q (coerceCreditReason (pq_reason q)) k" s a]
    assms coerced_reason by (auto simp: credit_ready_def accrual_request_def)

lemma available_records [simp]: "available_of (s\<lparr>idempotency_records := rs\<rparr>) u = available_of s u"
  by (simp add: available_of_def)


text \<open>
  When the name of the user is longer than 114 characters, which a wallet allows, the record of
  the key is too long for its scope.  The credit is made, the request is answered with an error,
  the key is not recorded, and the same request credits the wallet again.
\<close>

theorem long_user_credited_again:
  assumes "credit_ready wc u q k s" and "validateAmount (wc_accrual wc) (pq_amount q) = Inr a"
    and "114 < length u" and "run (controller_creditPoints wc u q) s = (r, s1)" and "fresh_ids 3 s1"
  shows "isl r \<and> available_of s1 u = available_of s u + a \<and>
    (\<exists>e s2. run (controller_creditPoints wc u q) s1 = (Inl e, s2) \<and> available_of s2 u = available_of s u + 2 * a)"
proof -
  let ?sc = "operation_scope u WALLET_CREDIT"
  have long: "128 < length ?sc" using assms(3) by (simp add: buildScope_def)
  have once: "\<exists>s1. run (controller_creditPoints wc u q) s = (Inl (ValidationError ''IdempotencyRecord''), s1) \<and>
      available_of s1 u = available_of s u + a \<and> idempotency_records s1 = idempotency_records s"
    if ready: "credit_ready wc u q k s" for s
  proof -
    from credit_awarded [OF ready assms(2)] obtain award s1 where award:
        "run (awardPoints (wc_accrual wc) (accrual_request u q (coerceCreditReason (pq_reason q)) k) 0) s = (Inr award, s1)"
        "available_of s1 u = available_of s u + a" "idempotency_records s1 = idempotency_records s"
      by blast
    have pre: "well_posed k q" "records_keyed s" "map_of (idempotency_records s) (k, ?sc) = None"
      using ready by (simp_all add: credit_ready_def)
    show ?thesis
      unfolding controller_creditPoints_def
      using run_points_fresh [OF pre, of "\<lambda>key. awardPoints (wc_accrual wc)
          (accrual_request u q (coerceCreditReason (pq_reason q)) key) 0", OF award(1), where wc = wc and ty = CREDIT]
        award(2,3) run_recordKey_long [OF long] by auto
  qed
  from once [OF assms(1)] assms(4) have r: "isl r" "available_of s1 u = available_of s u + a"
      "idempotency_records s1 = idempotency_records s" by auto
  have "credit_ready wc u q k s1"
    using assms(1,5) r(3) by (simp add: credit_ready_def request_ready_def records_keyed_def)
  from once [OF this] obtain s2 where "run (controller_creditPoints wc u q) s1 = (Inl (ValidationError ''IdempotencyRecord''), s2)"
    "available_of s2 u = available_of s1 u + a" by blast
  with r show ?thesis by auto
qed

section \<open>Witnesses\<close>

definition demo_controller :: wallet_controller where
  "demo_controller = \<lparr>wc_accrual = default_point_accrual, wc_digest = (\<lambda>_. replicate 64 CHR ''a'')\<rparr>"

definition demo_points :: points_request where
  "demo_points =
     \<lparr>pq_amount = Finite 250, pq_reason = ''referral'', pq_metadata = None, pq_idempotencyKey = Some ''k1'',
      pq_requestId = ''req-1'', pq_tenantId = ''acme''\<rparr>"

lemma demo_credit_facts:
  "credit_ready demo_controller ''alice'' demo_points ''k1'' empty_store"
  "credit_ready demo_controller (replicate 120 CHR ''u'') demo_points ''k1'' empty_store"
  "validateAmount (wc_accrual demo_controller) (pq_amount demo_points) = Inr 250"
  "well_posed ''k1'' demo_points"
  "available_of empty_store ''alice'' = 0" "available_of empty_store (replicate 120 CHR ''u'') = 0"
  by code_simp+


theorem long_user_credited_again_witness:
  "\<exists>r s1 e s2. run (controller_creditPoints demo_controller (replicate 120 CHR ''u'') demo_points) empty_store = (r, s1) \<and>
     isl r \<and> run (controller_creditPoints demo_controller (replicate 120 CHR ''u'') demo_points) s1 = (Inl e, s2) \<and>
     available_of s2 (replicate 120 CHR ''u'') = 500"
proof -
  let ?u = "replicate 120 CHR ''u''"
  let ?p = "run (controller_creditPoints demo_controller ?u demo_points) empty_store"
  have p: "?p = (fst ?p, snd ?p)" by simp
  have long: "114 < length ?u" by simp
  have fresh: "fresh_ids 3 (snd ?p)" by code_simp
  from long_user_credited_again [OF demo_credit_facts(2,3) long p fresh] obtain e s2 where
      "isl (fst ?p)" and "run (controller_creditPoints demo_controller ?u demo_points) (snd ?p) = (Inl e, s2)"
      and "available_of s2 ?u = 500"
    unfolding demo_credit_facts(6) by auto
  then show ?thesis
    by (intro exI [of _ "fst ?p"] exI [of _ "snd ?p"] exI [of _ e] exI [of _ s2] conjI p)
qed

end
