(* ===== verification/Reservation_Service.thy ===== *)
theory Reservation_Service
  imports Promise_All Doc_Store
begin

text \<open>
  Reservations of points (\<open>src/reservations/service.ts\<close>, \<open>types.ts\<close>, and the documents of
  \<open>src/db/models/reservation.model.ts\<close>).

  The collection has an index that removes a reservation some time after its \<open>expiresAt\<close>; the
  removal is done by the database, an action of the environment here (\<open>ttl_sweep\<close>).  An update of
  many documents changes them one after another, and has no limit, so that the argument of
  \<open>markExpiredReservations\<close> has no effect.  Metrics are not modelled.
\<close>

section \<open>Documents and requests\<close>

datatype reservation_status = Active | Committed | Released | Expired

record reservation =
  rv_reservationId :: string
  rv_userId :: string
  rv_amount :: rat
  rv_status :: reservation_status
  rv_createdAt :: int
  rv_updatedAt :: int
  rv_expiresAt :: int
  rv_sourceCorrelationId :: "string option"

definition valid_reservation :: "reservation \<Rightarrow> bool" where
  "valid_reservation r \<longleftrightarrow>
     required_string 128 (rv_reservationId r) \<and> required_string 128 (rv_userId r) \<and>
     0 \<le> rv_amount r \<and> optional_string 256 (rv_sourceCorrelationId r)"

record create_reservation_request =
  crr_reservationId :: string
  crr_userId :: string
  crr_amount :: rat
  crr_expiresAt :: int
  crr_sourceCorrelationId :: "string option"

record reservation_stats =
  rst_totalActive :: nat
  rst_totalCommitted :: nat
  rst_totalReleased :: nat
  rst_totalExpired :: nat

record reservation_store =
  reservations :: "(string \<times> reservation) list"
  rv_clock :: int

type_synonym 'a reserve = "(reservation_store, error, 'a) io"

abbreviation reservation_of :: "reservation_store \<Rightarrow> string \<Rightarrow> reservation option" where
  "reservation_of s i \<equiv> map_of (reservations s) i"

section \<open>Operations\<close>

definition rv_now :: "int reserve" where
  "rv_now = query rv_clock"

text \<open>The collection sets \<open>createdAt\<close> and \<open>updatedAt\<close> itself.\<close>

definition createReservation :: "create_reservation_request \<Rightarrow> reservation reserve" where
  "createReservation request = atomically (\<lambda>s.
     let r = \<lparr>rv_reservationId = crr_reservationId request, rv_userId = crr_userId request,
       rv_amount = crr_amount request, rv_status = Active, rv_createdAt = rv_clock s,
       rv_updatedAt = rv_clock s, rv_expiresAt = crr_expiresAt request,
       rv_sourceCorrelationId = crr_sourceCorrelationId request\<rparr> in
     if \<not> valid_reservation r then (s, Inl (ValidationError ''Reservation''))
     else if reservation_of s (rv_reservationId r) \<noteq> None then (s, Inl (DuplicateKeyError ''reservationId''))
     else (s\<lparr>reservations := reservations s @ [(rv_reservationId r, r)]\<rparr>, Inr r))"

definition update_active ::
  "(reservation \<Rightarrow> bool) \<Rightarrow> reservation_status \<Rightarrow> int \<Rightarrow> string \<Rightarrow> reservation option reserve" where
  "update_active filt status now i = atomically (\<lambda>s.
     case reservation_of s i of
       None \<Rightarrow> (s, Inr None)
     | Some r \<Rightarrow>
         if rv_status r = Active \<and> filt r then
           (let r' = r\<lparr>rv_status := status, rv_updatedAt := now\<rparr> in
            (s\<lparr>reservations := AList.update i r' (reservations s)\<rparr>, Inr (Some r')))
         else (s, Inr None))"

definition commitReservation :: "string \<Rightarrow> reservation option reserve" where
  "commitReservation reservationId =
     await rv_now (\<lambda>now. update_active (\<lambda>_. True) Committed now reservationId)"

definition releaseReservation :: "string \<Rightarrow> reservation option reserve" where
  "releaseReservation reservationId =
     await rv_now (\<lambda>now. update_active (\<lambda>_. True) Released now reservationId)"

primrec expire_each :: "int \<Rightarrow> string list \<Rightarrow> nat \<Rightarrow> nat reserve" where
  "expire_each now [] modified = pure modified"
| "expire_each now (i # is) modified =
     await (update_active (\<lambda>r. rv_expiresAt r \<le> now) Expired now i) (\<lambda>updated.
     expire_each now is (if updated = None then modified else modified + 1))"

definition markExpiredReservations :: "nat \<Rightarrow> nat reserve" where
  "markExpiredReservations batchSize =
     await rv_now (\<lambda>now.
     await (query (\<lambda>s. map fst (filter (\<lambda>(_, r). rv_status r = Active \<and> rv_expiresAt r \<le> now)
         (reservations s)))) (\<lambda>found.
     expire_each now found 0))"

definition count_status :: "reservation_status \<Rightarrow> (reservation_store, nat) proc" where
  "count_status status = Act (\<lambda>s. (s, Ret (length (filter (\<lambda>(_, r). rv_status r = status) (reservations s)))))"

definition reservation_getStats :: "nat list \<Rightarrow> reservation_stats reserve" where
  "reservation_getStats sched =
     pbind (promise_all sched (map count_status [Active, Committed, Released, Expired])) (\<lambda>counts.
     pure \<lparr>rst_totalActive = counts ! 0, rst_totalCommitted = counts ! 1,
           rst_totalReleased = counts ! 2, rst_totalExpired = counts ! 3\<rparr>)"

definition getReservation :: "string \<Rightarrow> reservation option reserve" where
  "getReservation reservationId = query (\<lambda>s. reservation_of s reservationId)"

definition getUserReservations :: "string \<Rightarrow> reservation list reserve" where
  "getUserReservations userId = query (\<lambda>s.
     sort_key (\<lambda>r. - rv_createdAt r)
       (filter (\<lambda>r. rv_userId r = userId \<and> rv_status r = Active) (map snd (reservations s))))"

section \<open>The removal of old reservations\<close>

definition ttl_sweep :: "string \<Rightarrow> reservation_store \<Rightarrow> reservation_store" where
  "ttl_sweep i s =
     (case reservation_of s i of
        None \<Rightarrow> s
      | Some r \<Rightarrow> if rv_expiresAt r \<le> rv_clock s then s\<lparr>reservations := AList.delete i (reservations s)\<rparr> else s)"

definition advance :: "int \<Rightarrow> reservation_store \<Rightarrow> reservation_store" where
  "advance t s = s\<lparr>rv_clock := max t (rv_clock s)\<rparr>"

section \<open>What every action keeps\<close>

text \<open>
  A reservation that has not reached its expiry is still there, for the same user and amount,
  and when it was settled it is settled in the same way.
\<close>

definition same_reservation :: "reservation \<Rightarrow> reservation \<Rightarrow> bool" where
  "same_reservation r r' \<longleftrightarrow>
     rv_userId r' = rv_userId r \<and> rv_amount r' = rv_amount r \<and> rv_createdAt r' = rv_createdAt r \<and>
     rv_expiresAt r' = rv_expiresAt r \<and> (rv_status r = Active \<or> rv_status r' = rv_status r)"

definition rv_rely :: "reservation_store \<Rightarrow> reservation_store \<Rightarrow> bool" where
  "rv_rely s s' \<longleftrightarrow> rv_clock s \<le> rv_clock s' \<and>
     (\<forall>i r. reservation_of s i = Some r \<longrightarrow> rv_clock s' < rv_expiresAt r \<longrightarrow>
        (\<exists>r'. reservation_of s' i = Some r' \<and> same_reservation r r'))"

lemma same_reservation_trans: "same_reservation r r' \<Longrightarrow> same_reservation r' r'' \<Longrightarrow> same_reservation r r''"
  by (auto simp: same_reservation_def)

interpretation reserving: rely rv_rely
proof
  show "rv_rely s s" for s by (auto simp: rv_rely_def same_reservation_def)
  show "rv_rely s1 s3" if a: "rv_rely s1 s2" and b: "rv_rely s2 s3" for s1 s2 s3
  proof -
    have "\<exists>r'. reservation_of s3 i = Some r' \<and> same_reservation r r'"
      if r: "reservation_of s1 i = Some r" "rv_clock s3 < rv_expiresAt r" for i r
    proof -
      have "rv_clock s2 < rv_expiresAt r" using r(2) b by (simp add: rv_rely_def)
      then obtain r2 where r2: "reservation_of s2 i = Some r2" "same_reservation r r2"
        using a r(1) unfolding rv_rely_def by blast
      then have "rv_clock s3 < rv_expiresAt r2" using r(2) by (simp add: same_reservation_def)
      then show ?thesis using b r2 same_reservation_trans unfolding rv_rely_def by blast
    qed
    then show ?thesis using a b by (auto simp: rv_rely_def)
  qed
qed

lemma rv_rely_change:
  assumes "\<And>r. reservation_of s i = Some r \<Longrightarrow> \<exists>r'. x = r' \<and> same_reservation r r'"
  shows "rv_rely s (s\<lparr>reservations := AList.update i x (reservations s)\<rparr>)"
  using assms by (auto simp: rv_rely_def same_reservation_def update_conv')

lemma rv_rely_append: "reservation_of s i = None \<Longrightarrow> rv_rely s (s\<lparr>reservations := reservations s @ [(i, x)]\<rparr>)"
  by (auto simp: rv_rely_def same_reservation_def map_add_def)

lemma rv_rely_environment: "rv_rely s (ttl_sweep i s)" "rv_rely s (advance t s)"
  by (auto simp: rv_rely_def ttl_sweep_def advance_def same_reservation_def delete_conv' split: option.split)

lemma keeps_update_active: "keeps rv_rely (update_active filt st now i)"
  unfolding update_active_def
  by (rule keeps_atomically)
    (auto simp: Let_def same_reservation_def reserving.rely_refl intro!: rv_rely_change split: option.split)

lemma keeps_reservation_query: "keeps rv_rely (query f)" "keeps rv_rely rv_now"
  unfolding rv_now_def by (rule keeps_query [OF reserving.reflp_R])+

lemma keeps_expire_each: "keeps rv_rely (expire_each now is n)"
  by (induction "is" arbitrary: n) (auto intro!: keeps_intros keeps_update_active)

lemma keeps_createReservation: "keeps rv_rely (createReservation q)"
  unfolding createReservation_def
  by (rule keeps_atomically) (auto simp: Let_def reserving.rely_refl intro: rv_rely_append)

text \<open>The requests of the service, answered without a result here.\<close>

datatype reservation_call =
    Create_call create_reservation_request
  | Commit_call string
  | Release_call string
  | Mark_call nat
  | Stats_call "nat list"

fun handle_reservation :: "reservation_call \<Rightarrow> unit reserve" where
  "handle_reservation (Create_call q) = await (createReservation q) (\<lambda>_. pure ())"
| "handle_reservation (Commit_call i) = await (commitReservation i) (\<lambda>_. pure ())"
| "handle_reservation (Release_call i) = await (releaseReservation i) (\<lambda>_. pure ())"
| "handle_reservation (Mark_call n) = await (markExpiredReservations n) (\<lambda>_. pure ())"
| "handle_reservation (Stats_call sched) = await (reservation_getStats sched) (\<lambda>_. pure ())"

text \<open>The clock advances, and the database removes what has expired.\<close>

inductive reservation_env :: "reservation_store \<Rightarrow> reservation_store \<Rightarrow> bool" where
  env_clock: "reservation_env s (advance t s)"
| env_sweep: "reservation_env s (ttl_sweep i s)"

lemma keeps_handle_reservation: "keeps rv_rely (handle_reservation c)"
proof (cases c)
  case (Stats_call sched)
  have "keeps rv_rely (count_status st)" for st
    unfolding keeps_def count_status_def wp_Act by (simp add: reserving.rely_refl)
  then have "keeps rv_rely (promise_all sched (map count_status [Active, Committed, Released, Expired]))"
    by (intro rely.keeps_promise_all [OF reserving.rely_axioms]) auto
  then show ?thesis
    using Stats_call by (auto simp: reservation_getStats_def intro!: keeps_intros keeps_pbind)
qed (auto simp: commitReservation_def releaseReservation_def markExpiredReservations_def
  intro!: keeps_intros keeps_createReservation keeps_update_active keeps_expire_each keeps_reservation_query)

section \<open>Properties\<close>

text \<open>
  C27: However the requests of the service interleave, with each other, with the clock and with the
  removal of old reservations, a reservation that has not reached its expiry stays, for the same
  user and amount, and once it is committed, released or expired it remains so.
\<close>

theorem reservations_settle_once:
  assumes "pool_reach reservation_env (\<lambda>i. handle_reservation (calls i)) s pl' s'"
    and "reservation_of s i = Some r" and "rv_clock s' < rv_expiresAt r"
  shows "\<exists>r'. reservation_of s' i = Some r' \<and> rv_userId r' = rv_userId r \<and> rv_amount r' = rv_amount r \<and>
    (rv_status r = Active \<or> rv_status r' = rv_status r)"
proof -
  have "wp rv_rely (\<lambda>_ _. True) (handle_reservation (calls i)) s" for i
    by (rule keeps_wp) (rule keeps_handle_reservation)
  moreover have "rv_rely s s'" if "reservation_env s s'" for s s'
    using that by cases (simp_all add: rv_rely_environment)
  ultimately have "rv_rely s s'"
    using reserving.pool_sound [OF assms(1), where Q = "\<lambda>_ _ _. True"] by blast
  then show ?thesis using assms(2,3) unfolding rv_rely_def same_reservation_def by blast
qed

lemma run_update_active [run_simps]:
  "run (update_active filt st now i) s =
     (case reservation_of s i of
        None \<Rightarrow> (Inr None, s)
      | Some r \<Rightarrow>
          if rv_status r = Active \<and> filt r
          then (Inr (Some (r\<lparr>rv_status := st, rv_updatedAt := now\<rparr>)),
            s\<lparr>reservations := AList.update i (r\<lparr>rv_status := st, rv_updatedAt := now\<rparr>) (reservations s)\<rparr>)
          else (Inr None, s))"
  by (simp add: update_active_def run_simps Let_def split: option.split)

lemma run_settle [run_simps]:
  "run (commitReservation i) s = run (update_active (\<lambda>_. True) Committed (rv_clock s) i) s"
  "run (releaseReservation i) s = run (update_active (\<lambda>_. True) Released (rv_clock s) i) s"
  by (simp_all add: commitReservation_def releaseReservation_def rv_now_def run_await run_query)

text \<open>
  A commit and a release of the same reservation exclude each other: when the commit has returned
  the reservation, neither a release nor a second commit finds it in any later state before its
  expiry, whatever happened in between.
\<close>

theorem commit_excludes_release:
  assumes "run (commitReservation i) s = (Inr (Some r), s1)" and "rv_rely s1 s2"
    and "rv_clock s2 < rv_expiresAt r"
  shows "run (releaseReservation i) s2 = (Inr None, s2) \<and> run (commitReservation i) s2 = (Inr None, s2)"
proof -
  have "rv_status r = Committed" and "reservation_of s1 i = Some r"
    using assms(1) by (auto simp: run_simps split: option.splits if_splits)
  then obtain r2 where "reservation_of s2 i = Some r2" and "rv_status r2 = Committed"
    using assms(2,3) unfolding rv_rely_def same_reservation_def by force
  then show ?thesis by (simp add: run_simps)
qed

text \<open>
  The commit does not look at the expiry: a reservation that is past it is committed all the same
  as long as the scheduled job has not marked it and the database has not removed it.
\<close>

theorem overdue_reservation_commits:
  assumes "reservation_of s i = Some r" and "rv_status r = Active" and "rv_expiresAt r \<le> rv_clock s"
  shows "\<exists>r' s'. run (commitReservation i) s = (Inr (Some r'), s') \<and> rv_status r' = Committed \<and>
    rv_expiresAt r' \<le> rv_updatedAt r'"
  using assms by (simp add: run_simps)

lemma run_expire_each:
  assumes "distinct is"
  shows "\<exists>s'. run (expire_each now is n) s =
      (Inr (n + length (filter (\<lambda>i. \<exists>r. reservation_of s i = Some r \<and> rv_status r = Active \<and> rv_expiresAt r \<le> now) is)), s') \<and>
    (\<forall>i. reservation_of s' i = (case reservation_of s i of None \<Rightarrow> None
       | Some r \<Rightarrow> Some (if i \<in> set is \<and> rv_status r = Active \<and> rv_expiresAt r \<le> now
           then r\<lparr>rv_status := Expired, rv_updatedAt := now\<rparr> else r)))"
  using assms
proof (induction "is" arbitrary: n s)
  case Nil
  then show ?case by (simp add: run_pure split: option.split)
next
  case (Cons j js)
  let ?due = "\<lambda>s i. \<exists>r. reservation_of s i = Some r \<and> rv_status r = Active \<and> rv_expiresAt r \<le> now"
  obtain u s1 where step: "run (update_active (\<lambda>r. rv_expiresAt r \<le> now) Expired now j) s = (Inr u, s1)"
    and u: "u = None \<longleftrightarrow> \<not> ?due s j"
    and s1: "\<And>i. reservation_of s1 i = (if i = j \<and> ?due s j
        then Some ((the (reservation_of s j))\<lparr>rv_status := Expired, rv_updatedAt := now\<rparr>) else reservation_of s i)"
  proof (cases "?due s j")
    case True
    then obtain r where r: "reservation_of s j = Some r" "rv_status r = Active \<and> rv_expiresAt r \<le> now" by blast
    let ?r = "r\<lparr>rv_status := Expired, rv_updatedAt := now\<rparr>"
    show thesis
      by (rule that [of "Some ?r" "s\<lparr>reservations := AList.update j ?r (reservations s)\<rparr>"])
        (use r in \<open>simp_all add: run_update_active update_conv'\<close>)
  next
    case False
    then show thesis
      by (intro that [of None s]) (auto simp: run_update_active split: option.split)
  qed
  have same: "filter (?due s1) js = filter (?due s) js"
    using Cons.prems s1 by (intro filter_cong) auto
  have j: "j \<notin> set js" using Cons.prems by simp
  from Cons.IH [where s = s1 and n = "if u = None then n else n + 1"] Cons.prems obtain s' where
    run: "run (expire_each now js (if u = None then n else n + 1)) s1 =
      (Inr ((if u = None then n else n + 1) + length (filter (?due s1) js)), s')"
    and s': "\<And>i. reservation_of s' i = (case reservation_of s1 i of None \<Rightarrow> None
       | Some r \<Rightarrow> Some (if i \<in> set js \<and> rv_status r = Active \<and> rv_expiresAt r \<le> now
           then r\<lparr>rv_status := Expired, rv_updatedAt := now\<rparr> else r))"
    by auto
  have "reservation_of s' i = (case reservation_of s i of None \<Rightarrow> None
       | Some r \<Rightarrow> Some (if i \<in> set (j # js) \<and> rv_status r = Active \<and> rv_expiresAt r \<le> now
           then r\<lparr>rv_status := Expired, rv_updatedAt := now\<rparr> else r))" for i
    using s' [of i] s1 [of i] j by (cases "reservation_of s i") (auto split: if_splits)
  then show ?case
    using run step u by (intro exI [of _ s'] conjI) (auto simp: run_await same)
qed

text \<open>
  The job that marks expired reservations, run alone, marks all of them, whatever limit it is
  given, and no others, and returns their number.
\<close>

theorem markExpired_ignores_limit:
  assumes "distinct (map fst (reservations s))"
  shows "\<exists>s'. run (markExpiredReservations batchSize) s =
      (Inr (length (filter (\<lambda>(_, r). rv_status r = Active \<and> rv_expiresAt r \<le> rv_clock s) (reservations s))), s') \<and>
    (\<forall>i. reservation_of s' i = map_option (\<lambda>r.
       if rv_status r = Active \<and> rv_expiresAt r \<le> rv_clock s
       then r\<lparr>rv_status := Expired, rv_updatedAt := rv_clock s\<rparr> else r) (reservation_of s i))"
proof -
  let ?due = "\<lambda>r. rv_status r = Active \<and> rv_expiresAt r \<le> rv_clock s"
  let ?is = "map fst (filter (\<lambda>(_, r). ?due r) (reservations s))"
  have "distinct ?is" using assms by (simp add: distinct_map_filter)
  from run_expire_each [OF this, of "rv_clock s" 0 s] obtain s' where
    run: "run (expire_each (rv_clock s) ?is 0) s =
      (Inr (length (filter (\<lambda>i. \<exists>r. reservation_of s i = Some r \<and> ?due r) ?is)), s')"
    and s': "\<And>i. reservation_of s' i = (case reservation_of s i of None \<Rightarrow> None
       | Some r \<Rightarrow> Some (if i \<in> set ?is \<and> ?due r then r\<lparr>rv_status := Expired, rv_updatedAt := rv_clock s\<rparr> else r))"
    by auto
  have found: "(i, r) \<in> set (reservations s) \<longleftrightarrow> reservation_of s i = Some r" for i r
    using assms by (simp add: map_of_eq_Some_iff)
  have "filter (\<lambda>i. \<exists>r. reservation_of s i = Some r \<and> ?due r) ?is = ?is"
    by (rule filter_True) (auto simp: found)
  moreover have "i \<in> set ?is \<longleftrightarrow> (\<exists>r. reservation_of s i = Some r \<and> ?due r)" for i
    by (force simp: found [symmetric])
  ultimately show ?thesis
    using run s'
    by (intro exI [of _ s'] conjI)
      (auto simp: markExpiredReservations_def run_await rv_now_def run_query split: option.split)
qed

section \<open>Witnesses\<close>

definition demo_reservation :: "string \<Rightarrow> int \<Rightarrow> reservation" where
  "demo_reservation i t =
     \<lparr>rv_reservationId = i, rv_userId = ''u1'', rv_amount = 30, rv_status = Active, rv_createdAt = 10,
      rv_updatedAt = 10, rv_expiresAt = t, rv_sourceCorrelationId = None\<rparr>"

definition demo_reservations :: reservation_store where
  "demo_reservations =
     \<lparr>reservations = [(''r1'', demo_reservation ''r1'' 90), (''r2'', demo_reservation ''r2'' 20)], rv_clock = 50\<rparr>"

lemma demo_reservation_facts:
  "reservation_of demo_reservations ''r1'' = Some (demo_reservation ''r1'' 90)" "rv_clock demo_reservations = 50"
  "rv_status (demo_reservation i t) = Active" "rv_expiresAt (demo_reservation i t) = t"
  by (simp_all add: demo_reservations_def demo_reservation_def)

theorem reservations_settle_once_witness:
  "\<exists>pl' s'. pool_reach reservation_env (\<lambda>i. handle_reservation (Commit_call ''r1'')) demo_reservations pl' s' \<and>
     (\<exists>r'. reservation_of s' ''r1'' = Some r' \<and> rv_userId r' = ''u1'' \<and> rv_amount r' = 30 \<and> rv_status r' = Committed)"
proof -
  let ?pl = "\<lambda>i :: nat. handle_reservation (Commit_call ''r1'')"
  let ?s' = "snd (run (?pl 0) demo_reservations)"
  have reach: "pool_reach reservation_env ?pl demo_reservations (?pl(0 := Ret (fst (run (?pl 0) demo_reservations)))) ?s'"
    by (rule pool_reach_run) (rule pool_start)
  have fin: "rv_clock ?s' = 50" "\<exists>r. reservation_of ?s' ''r1'' = Some r \<and> rv_status r = Committed"
    by (simp_all add: run_simps demo_reservation_facts)
  have "rv_clock ?s' < rv_expiresAt (demo_reservation ''r1'' 90)"
    unfolding fin(1) by (simp add: demo_reservation_facts)
  from reservations_settle_once [OF reach demo_reservation_facts(1) this] fin(2)
  have "\<exists>r'. reservation_of ?s' ''r1'' = Some r' \<and> rv_userId r' = ''u1'' \<and> rv_amount r' = 30 \<and> rv_status r' = Committed"
    by (auto simp: demo_reservation_def)
  with reach show ?thesis by blast
qed

theorem commit_excludes_release_witness:
  "\<exists>r s1. run (commitReservation ''r1'') demo_reservations = (Inr (Some r), s1) \<and>
     run (releaseReservation ''r1'') (advance 80 s1) = (Inr None, advance 80 s1)"
proof -
  obtain r s1 where c: "run (commitReservation ''r1'') demo_reservations = (Inr (Some r), s1)" "rv_clock s1 = 50"
    "rv_expiresAt r = 90"
    by (simp add: run_simps demo_reservation_facts)
  have "rv_clock (advance 80 s1) < rv_expiresAt r" using c by (simp add: advance_def)
  from commit_excludes_release [OF c(1) rv_rely_environment(2) this] c(1) show ?thesis by blast
qed

theorem overdue_reservation_commits_witness:
  "\<exists>r' s'. run (commitReservation ''r2'') demo_reservations = (Inr (Some r'), s') \<and> rv_status r' = Committed"
proof -
  have "reservation_of demo_reservations ''r2'' = Some (demo_reservation ''r2'' 20)"
    and "rv_status (demo_reservation ''r2'' 20) = Active"
    and "rv_expiresAt (demo_reservation ''r2'' 20) \<le> rv_clock demo_reservations"
    by (simp_all add: demo_reservations_def demo_reservation_def)
  from overdue_reservation_commits [OF this] show ?thesis by blast
qed

end
