(* ===== verification/Loyalty_Services.thy ===== *)
theory Loyalty_Services
  imports Ledger_Properties
begin

text \<open>
  The loyalty services on top of the ledger: the welfare guardian score
  (\<open>src/services/welfare-guardian-score.service.ts\<close>), the tier engine (\<open>tier-engine.service.ts\<close>),
  the compliant award (\<open>redroom-ledger.service.ts\<close>), the burn catalog (\<open>burn-catalog.service.ts\<close>),
  the signup of members (\<open>member.service.ts\<close>), the upload of awards (\<open>awarding-wallet.service.ts\<close>),
  creator promotions (\<open>creator-gifting.service.ts\<close>) and age verification
  (\<open>gateguard-av.service.ts\<close>).  The data is that of \<open>src/interfaces/redroom-rewards.ts\<close>.

  The check of an e-mail address against its pattern is a parameter of the signup; the thresholds
  of the score, which the environment may set, are a record.
\<close>

section \<open>Data\<close>

datatype redroom_tier = RED_DESIRE | RED_PASSION | RED_OBSESSION | RED_REIGN

record gate_guard_result =
  gg_verified :: bool
  gg_verifiedAt :: int
  gg_method :: string
  gg_confidenceScore :: nat

datatype wgs_action = PASS | REVIEW | SOFT_DECLINE | HARD_DECLINE
datatype wgs_welfare_tier = LOW | MEDIUM | HIGH | CRITICAL

record wgs_score =
  wg_fraudRisk :: nat
  wg_welfareRisk :: nat
  wg_welfareTier :: wgs_welfare_tier
  wg_action :: wgs_action

record tier_progress =
  tp_currentTier :: redroom_tier
  tp_pointsToNextTier :: rat
  tp_vibeDescription :: string

record member_signup_request =
  ms_email :: string

record member_profile =
  mp_memberId :: string
  mp_tier :: redroom_tier
  mp_totalPoints :: rat
  mp_promotionalBalance :: rat
  mp_verifiedAt :: int

record burn_redemption =
  bn_memberId :: string
  bn_itemId :: string
  bn_pointsSpent :: js_number
  bn_reason :: string

record upload_row =
  up_creatorId :: string
  up_points :: rat
  up_reason :: string
  up_expiryDays :: "int option"

record upload_result =
  ur_successCount :: nat
  ur_failedCount :: nat
  ur_errors :: "(nat \<times> error) list"

record gifting_promotion =
  gp_creatorId :: string
  gp_title :: string
  gp_pointsAwarded :: rat
  gp_condition :: string

section \<open>Score and tiers\<close>

record wgs_thresholds =
  wt_medium :: rat
  wt_high :: rat
  wt_critical :: rat

definition default_thresholds :: wgs_thresholds where
  "default_thresholds = \<lparr>wt_medium = 5000, wt_high = 10000, wt_critical = 25000\<rparr>"

definition scoreTransaction :: "wgs_thresholds \<Rightarrow> rat \<Rightarrow> wgs_score" where
  "scoreTransaction th amount =
     (if wt_critical th \<le> amount then
        \<lparr>wg_fraudRisk = 80, wg_welfareRisk = 90, wg_welfareTier = CRITICAL, wg_action = HARD_DECLINE\<rparr>
      else if wt_high th \<le> amount then
        \<lparr>wg_fraudRisk = 55, wg_welfareRisk = 65, wg_welfareTier = HIGH, wg_action = SOFT_DECLINE\<rparr>
      else if wt_medium th \<le> amount then
        \<lparr>wg_fraudRisk = 30, wg_welfareRisk = 40, wg_welfareTier = MEDIUM, wg_action = REVIEW\<rparr>
      else if 1000 \<le> amount then
        \<lparr>wg_fraudRisk = 15, wg_welfareRisk = 22, wg_welfareTier = LOW, wg_action = PASS\<rparr>
      else \<lparr>wg_fraudRisk = 5, wg_welfareRisk = 10, wg_welfareTier = LOW, wg_action = PASS\<rparr>)"

fun tierThresholds :: "redroom_tier \<Rightarrow> rat" where
  "tierThresholds RED_DESIRE = 0"
| "tierThresholds RED_PASSION = 5000"
| "tierThresholds RED_OBSESSION = 25000"
| "tierThresholds RED_REIGN = 100000"

fun vibeDescriptions :: "redroom_tier \<Rightarrow> string" where
  "vibeDescriptions RED_DESIRE = ''Heartbeat - alive in the program''"
| "vibeDescriptions RED_PASSION = ''Emotionally invested''"
| "vibeDescriptions RED_OBSESSION = ''Deep craving, committed''"
| "vibeDescriptions RED_REIGN = ''All-in - the most devoted members''"

definition orderedTiers :: "redroom_tier list" where
  "orderedTiers = [RED_DESIRE, RED_PASSION, RED_OBSESSION, RED_REIGN]"

text \<open>The loop over the tiers, which stops at the first one that is not reached.\<close>

fun climb_tiers :: "rat \<Rightarrow> redroom_tier list \<Rightarrow> redroom_tier \<times> rat \<Rightarrow> redroom_tier \<times> rat" where
  "climb_tiers effective [] progress = progress"
| "climb_tiers effective (tier # tiers) progress =
     (if tierThresholds tier \<le> effective then
        climb_tiers effective tiers
          (tier, case tiers of [] \<Rightarrow> 0 | nextTier # _ \<Rightarrow> tierThresholds nextTier - effective)
      else progress)"

definition calculateTier :: "rat \<Rightarrow> tier_progress" where
  "calculateTier totalPoints =
     (let (currentTier, pointsToNextTier) = climb_tiers (max 0 totalPoints) orderedTiers (RED_DESIRE, 0) in
      \<lparr>tp_currentTier = currentTier, tp_pointsToNextTier = pointsToNextTier,
       tp_vibeDescription = vibeDescriptions currentTier\<rparr>)"

section \<open>Awards and burns\<close>

definition verifyAccount :: "string \<Rightarrow> gate_guard_result svc" where
  "verifyAccount guestId =
     await new_date (\<lambda>now.
     pure \<lparr>gg_verified = True, gg_verifiedAt = now, gg_method = ''GATEGUARD'', gg_confidenceScore = 98\<rparr>)"

definition awardPointsWithCompliance ::
  "string \<Rightarrow> wgs_thresholds \<Rightarrow> string \<Rightarrow> rat \<Rightarrow> string \<Rightarrow> bool svc" where
  "awardPointsWithCompliance currency th guestId points reason =
     await (verifyAccount guestId) (\<lambda>avResult.
     if \<not> gg_verified avResult then throw (Plain ''18+ verification required - blocked'')
     else if 1000 < points \<and> wg_action (scoreTransaction th points) = HARD_DECLINE
       then throw (Plain ''Transaction blocked by Welfare Guardian Score'')
     else creditPoints currency guestId points ''REDROOM_REWARDS'' reason None)"

definition is_positive_integer :: "js_number \<Rightarrow> bool" where
  "is_positive_integer n \<longleftrightarrow> (case n of Finite a \<Rightarrow> a = of_int \<lfloor>a\<rfloor> \<and> 0 < a | _ \<Rightarrow> False)"

definition burn_points :: "js_number \<Rightarrow> rat" where
  "burn_points n = (case n of Finite a \<Rightarrow> a | _ \<Rightarrow> 0)"

definition burn_redeemPoints :: "string \<Rightarrow> wgs_thresholds \<Rightarrow> burn_redemption \<Rightarrow> bool svc" where
  "burn_redeemPoints currency th redemption =
     (if bn_memberId redemption = [] then throw (Plain ''memberId is required for redemption'')
      else if \<not> is_positive_integer (bn_pointsSpent redemption)
        then throw (Plain ''pointsSpent must be a positive integer'')
      else if bn_itemId redemption = [] then throw (Plain ''itemId is required for redemption'')
      else awardPointsWithCompliance currency th (bn_memberId redemption)
        (- burn_points (bn_pointsSpent redemption))
        (''BURN_'' @ bn_itemId redemption @ ''_'' @ bn_reason redemption))"

section \<open>Members, uploads and promotions\<close>

definition welcome_bonus_points :: rat where
  "welcome_bonus_points = 1000"

definition signup ::
  "(string \<Rightarrow> bool) \<Rightarrow> string \<Rightarrow> wgs_thresholds \<Rightarrow> member_signup_request \<Rightarrow> member_profile svc" where
  "signup email_ok currency th request =
     (if ms_email request = [] \<or> \<not> email_ok (ms_email request)
        then throw (Plain ''Valid email is required for signup'')
      else
        await (verifyAccount (ms_email request)) (\<lambda>avResult.
        if \<not> gg_verified avResult then throw (Plain ''18+ verification required - account creation blocked'')
        else
          await uuidv4 (\<lambda>u.
          let memberId = ''rr-'' @ u in
          await (awardPointsWithCompliance currency th memberId welcome_bonus_points ''WELCOME_BONUS'') (\<lambda>_.
          pure \<lparr>mp_memberId = memberId, mp_tier = tp_currentTier (calculateTier welcome_bonus_points),
                mp_totalPoints = welcome_bonus_points, mp_promotionalBalance = welcome_bonus_points,
                mp_verifiedAt = gg_verifiedAt avResult\<rparr>))))"

primrec upload_rows :: "string \<Rightarrow> string \<Rightarrow> upload_row list \<Rightarrow> nat \<Rightarrow> upload_result \<Rightarrow> upload_result svc" where
  "upload_rows currency merchantId [] i result = pure result"
| "upload_rows currency merchantId (row # rows) i result =
     await (try_catch
       (await (awardPromotionalPoints currency (up_creatorId row) (up_points row)
           (''MERCHANT_AWARD_'' @ merchantId) (up_reason row) (up_expiryDays row)) (\<lambda>_.
        pure (result\<lparr>ur_successCount := ur_successCount result + 1\<rparr>)))
       (\<lambda>e. pure (result\<lparr>ur_failedCount := ur_failedCount result + 1,
                         ur_errors := ur_errors result @ [(i + 1, e)]\<rparr>)))
     (upload_rows currency merchantId rows (i + 1))"

definition uploadCSV :: "string \<Rightarrow> upload_row list \<Rightarrow> string \<Rightarrow> upload_result svc" where
  "uploadCSV currency rows merchantId =
     upload_rows currency merchantId rows 0 \<lparr>ur_successCount = 0, ur_failedCount = 0, ur_errors = []\<rparr>"

definition createPromotion :: "string \<Rightarrow> gifting_promotion \<Rightarrow> bool svc" where
  "createPromotion creatorId promotion =
     createGiftingPromotion creatorId (gp_pointsAwarded promotion) (gp_title promotion) (gp_condition promotion)"

section \<open>Properties\<close>

text \<open>
  The tier of a member is the last one whose threshold is reached, with negative totals counted as
  zero, and the points to the next tier are the distance to the first threshold that is not
  reached, or zero when there is none.
\<close>

theorem calculateTier_is_last_reached:
  "tp_currentTier (calculateTier p) = last (filter (\<lambda>t. tierThresholds t \<le> max 0 p) orderedTiers) \<and>
   tp_pointsToNextTier (calculateTier p) =
     (case filter (\<lambda>t. max 0 p < tierThresholds t) orderedTiers of
        [] \<Rightarrow> 0 | t # _ \<Rightarrow> tierThresholds t - max 0 p)"
proof -
  consider "max 0 p < 5000" | "5000 \<le> max 0 p \<and> max 0 p < 25000" | "25000 \<le> max 0 p \<and> max 0 p < 100000"
    | "100000 \<le> max 0 p" by linarith
  moreover have "0 \<le> max 0 p" by simp
  ultimately show ?thesis
    by cases (simp_all add: calculateTier_def orderedTiers_def Let_def split_beta del: max_less_iff_conj le_max_iff_disj)
qed

lemma run_verifyAccount [run_simps]:
  "run (verifyAccount g) s = (Inr \<lparr>gg_verified = True, gg_verifiedAt = clock s, gg_method = ''GATEGUARD'',
     gg_confidenceScore = 98\<rparr>, s)"
  by (simp add: verifyAccount_def run_simps)

text \<open>
  A compliant award above 1000 points that scores as a hard decline is refused, and so is one of
  no points; nothing is written.  Every other award is that of the ledger.
\<close>

theorem compliance_decides:
  "run (awardPointsWithCompliance currency th g points reason) s =
     (if 1000 < points \<and> wt_critical th \<le> points
      then (Inl (Plain ''Transaction blocked by Welfare Guardian Score''), s)
      else if points \<le> 0 then (Inl (CreditNotPositive points), s)
      else run (creditPoints currency g points ''REDROOM_REWARDS'' reason None) s)"
proof -
  have "wg_action (scoreTransaction th points) = HARD_DECLINE \<longleftrightarrow> wt_critical th \<le> points"
    by (simp add: scoreTransaction_def)
  then show ?thesis
    by (simp add: awardPointsWithCompliance_def run_simps creditPoints_def)
qed

text \<open>
  A redemption from the burn catalog never succeeds: a positive number of points is passed on as a
  negative award, which the ledger refuses, and every other redemption is refused before.  The
  store is left as it was.
\<close>

theorem burn_never_succeeds:
  "\<exists>e. run (burn_redeemPoints currency th redemption) s = (Inl e, s)"
proof (cases "is_positive_integer (bn_pointsSpent redemption)")
  case True
  then have neg: "- burn_points (bn_pointsSpent redemption) < 0"
    by (auto simp: is_positive_integer_def burn_points_def split: js_number.splits)
  have "run (awardPointsWithCompliance currency th g (- burn_points (bn_pointsSpent redemption)) r) s =
      (Inl (CreditNotPositive (- burn_points (bn_pointsSpent redemption))), s)" for g r
    unfolding awardPointsWithCompliance_def using neg by (simp add: run_simps creditPoints_def)
  then show ?thesis using True by (simp add: burn_redeemPoints_def run_simps)
qed (simp add: burn_redeemPoints_def run_simps)

lemma run_upload_rows:
  "\<exists>result' s'. run (upload_rows currency m rows i result) s = (Inr result', s') \<and>
     ur_successCount result' + ur_failedCount result' =
       ur_successCount result + ur_failedCount result + length rows \<and>
     (\<exists>new. ur_errors result' = ur_errors result @ new \<and>
        ur_failedCount result' = ur_failedCount result + length new \<and>
        sorted_wrt (<) (map fst new) \<and> set (map fst new) \<subseteq> {i + 1 .. i + length rows})"
proof (induction rows arbitrary: i result s)
  case Nil
  then show ?case by (simp add: run_pure)
next
  case (Cons row rows)
  obtain r s1 where award: "run (awardPromotionalPoints currency (up_creatorId row) (up_points row)
      (''MERCHANT_AWARD_'' @ m) (up_reason row) (up_expiryDays row)) s = (r, s1)" by fastforce
  show ?case
  proof (cases r)
    case (Inl e)
    let ?result = "result\<lparr>ur_failedCount := ur_failedCount result + 1, ur_errors := ur_errors result @ [(i + 1, e)]\<rparr>"
    from Cons.IH [of "i + 1" ?result s1] obtain result' s' new where
      "run (upload_rows currency m rows (i + 1) ?result) s1 = (Inr result', s')"
      and "ur_successCount result' + ur_failedCount result' = ur_successCount ?result + ur_failedCount ?result + length rows"
      and "ur_errors result' = ur_errors ?result @ new" and "ur_failedCount result' = ur_failedCount ?result + length new"
      and "sorted_wrt (<) (map fst new)" and "set (map fst new) \<subseteq> {i + 2 .. i + 1 + length rows}"
      by auto
    then show ?thesis using award Inl
      by (intro exI [of _ result'] exI [of _ s'] conjI exI [of _ "(i + 1, e) # new"])
        (auto simp: run_await run_try_catch run_pure)
  next
    case (Inr b)
    let ?result = "result\<lparr>ur_successCount := ur_successCount result + 1\<rparr>"
    from Cons.IH [of "i + 1" ?result s1] obtain result' s' new where
      "run (upload_rows currency m rows (i + 1) ?result) s1 = (Inr result', s')"
      and "ur_successCount result' + ur_failedCount result' = ur_successCount ?result + ur_failedCount ?result + length rows"
      and "ur_errors result' = ur_errors ?result @ new" and "ur_failedCount result' = ur_failedCount ?result + length new"
      and "sorted_wrt (<) (map fst new)" and "set (map fst new) \<subseteq> {i + 2 .. i + 1 + length rows}"
      by auto
    then show ?thesis using award Inr
      by (intro exI [of _ result'] exI [of _ s'] conjI exI [of _ new])
        (auto simp: run_await run_try_catch run_pure)
  qed
qed

text \<open>
  An upload answers for every row: it returns, the rows that succeeded and failed add up to all of
  them, and the errors name the failed rows by their numbers, each once and in order.
\<close>

theorem upload_accounts_for_rows:
  "\<exists>result s'. run (uploadCSV currency rows m) s = (Inr result, s') \<and>
     ur_successCount result + ur_failedCount result = length rows \<and>
     length (ur_errors result) = ur_failedCount result \<and>
     sorted_wrt (<) (map fst (ur_errors result)) \<and> set (map fst (ur_errors result)) \<subseteq> {1 .. length rows}"
  using run_upload_rows [of currency m rows 0 "\<lparr>ur_successCount = 0, ur_failedCount = 0, ur_errors = []\<rparr>" s]
  by (auto simp: uploadCSV_def)

end
