(* ===== verification/Text_Codecs.thy ===== *)
theory Text_Codecs
  imports RRR_Prelude
begin

text \<open>
  Conversions of text the services use: hexadecimal, the decimal text of an integer, \<open>Number\<close> of
  a text, and \<open>split\<close>.  Bytes are characters.
\<close>

section \<open>Text, bytes and numbers\<close>

type_synonym bytes = string

text \<open>The digests \<open>SHA256\<close> and \<open>HMAC-SHA256\<close>, a parameter of the theories that use them.\<close>

record digests =
  dg_sha256 :: "bytes \<Rightarrow> bytes"
  dg_hmac :: "bytes \<Rightarrow> bytes \<Rightarrow> bytes"

definition hex_digit :: "nat \<Rightarrow> char" where
  "hex_digit n = char_of (if n < 10 then 48 + n else 87 + n)"

definition to_hex :: "bytes \<Rightarrow> string" where
  "to_hex bs = concat (map (\<lambda>c. let n = (of_char c :: nat) in [hex_digit (n div 16), hex_digit (n mod 16)]) bs)"

definition hex_value :: "char \<Rightarrow> nat option" where
  "hex_value c =
     (let n = (of_char c :: nat) in
      if 48 \<le> n \<and> n \<le> 57 then Some (n - 48)
      else if 97 \<le> n \<and> n \<le> 102 then Some (n - 87)
      else if 65 \<le> n \<and> n \<le> 70 then Some (n - 55) else None)"

text \<open>\<open>Buffer.from(s, 'hex')\<close>: what follows the first pair that is not hexadecimal is dropped.\<close>

fun from_hex :: "string \<Rightarrow> bytes" where
  "from_hex (a # b # s) =
     (case (hex_value a, hex_value b) of
        (Some m, Some n) \<Rightarrow> char_of (16 * m + n) # from_hex s
      | _ \<Rightarrow> [])"
| "from_hex _ = []"

definition show_int :: "int \<Rightarrow> string" where
  "show_int n = (if n < 0 then CHR ''-'' # show_nat (nat (- n)) else show_nat (nat n))"

text \<open>
  \<open>Number(s)\<close> without rounding: an integer with a base, or a decimal number with a sign, a
  fraction and an exponent.  \<open>None\<close> stands for \<open>NaN\<close> and the infinities, none of which is equal
  to a threshold.
\<close>

definition digits_in :: "nat \<Rightarrow> string \<Rightarrow> nat option" where
  "digits_in b s =
     (if s = [] then None
      else foldl (\<lambda>acc c. case acc of None \<Rightarrow> None | Some a \<Rightarrow>
             (case hex_value c of None \<Rightarrow> None | Some d \<Rightarrow> if d < b then Some (b * a + d) else None)) (Some 0) s)"

fun signed :: "string \<Rightarrow> rat \<times> string" where
  "signed (c # s) = (if c = CHR ''-'' then (-1, s) else if c = CHR ''+'' then (1, s) else (1, c # s))"
| "signed [] = (1, [])"

definition cut :: "(char \<Rightarrow> bool) \<Rightarrow> string \<Rightarrow> string \<times> string option" where
  "cut P s = (takeWhile (\<lambda>c. \<not> P c) s,
     (case dropWhile (\<lambda>c. \<not> P c) s of [] \<Rightarrow> None | _ # rest \<Rightarrow> Some rest))"

definition exponent_value :: "string option \<Rightarrow> rat option" where
  "exponent_value e =
     (case e of None \<Rightarrow> Some 1
      | Some t \<Rightarrow> (case signed t of (sign, ds) \<Rightarrow>
          (case digits_in 10 ds of None \<Rightarrow> None
           | Some n \<Rightarrow> Some (if sign < 0 then 1 / 10 ^ n else 10 ^ n))))"

definition mantissa_value :: "string \<Rightarrow> rat option" where
  "mantissa_value s =
     (case cut (\<lambda>c. c = CHR ''.'') s of
        (whole, None) \<Rightarrow> map_option of_nat (digits_in 10 whole)
      | (whole, Some fraction) \<Rightarrow>
          (case digits_in 10 (whole @ fraction) of None \<Rightarrow> None
           | Some n \<Rightarrow> Some (of_nat n / 10 ^ length fraction)))"

definition decimal_value :: "string \<Rightarrow> rat option" where
  "decimal_value s =
     (case signed s of (sign, unsigned) \<Rightarrow>
      (case cut (\<lambda>c. c = CHR ''e'' \<or> c = CHR ''E'') unsigned of (mantissa, e) \<Rightarrow>
       (case (mantissa_value mantissa, exponent_value e) of
          (Some m, Some p) \<Rightarrow> Some (sign * m * p)
        | _ \<Rightarrow> None)))"

definition js_Number :: "string \<Rightarrow> rat option" where
  "js_Number s =
     (let t = trim s; base = take 2 t in
      if t = [] then Some 0
      else if base = ''0x'' \<or> base = ''0X'' then map_option of_nat (digits_in 16 (drop 2 t))
      else if base = ''0o'' \<or> base = ''0O'' then map_option of_nat (digits_in 8 (drop 2 t))
      else if base = ''0b'' \<or> base = ''0B'' then map_option of_nat (digits_in 2 (drop 2 t))
      else decimal_value t)"

text \<open>\<open>s.split(c)\<close> for a single character.\<close>

fun split_at :: "char \<Rightarrow> string \<Rightarrow> string list" where
  "split_at c [] = [[]]"
| "split_at c (x # s) =
     (if x = c then [] # split_at c s
      else (case split_at c s of [] \<Rightarrow> [[x]] | p # ps \<Rightarrow> (x # p) # ps))"

section \<open>What is printed is read\<close>

lemma hex_digit_value: "n < 16 \<Longrightarrow> hex_value (hex_digit n) = Some n"
  by (auto simp: hex_digit_def hex_value_def Let_def of_char_of)

lemma hex_digit_no_colon: "n < 16 \<Longrightarrow> hex_digit n \<noteq> CHR '':''"
  using hex_digit_value [of n] by (auto simp: hex_value_def)

lemma char_parts: "(of_char c :: nat) div 16 < 16" "(of_char c :: nat) mod 16 < 16"
  using nat_of_char_less_256 [of c] by (auto simp: div_less_iff_less_mult)

lemma from_hex_to_hex [simp]: "from_hex (to_hex bs) = bs"
  by (induction bs) (simp_all add: to_hex_def Let_def hex_digit_value char_parts)

lemma to_hex_inject: "to_hex a = to_hex b \<longleftrightarrow> a = b"
  by (metis from_hex_to_hex)

lemma to_hex_no_colon: "CHR '':'' \<notin> set (to_hex bs)"
  by (induction bs) (use hex_digit_no_colon char_parts in \<open>auto simp: to_hex_def Let_def dest: sym\<close>)

lemma to_hex_Nil [simp]: "to_hex bs = [] \<longleftrightarrow> bs = []"
  by (cases bs) (simp_all add: to_hex_def Let_def)


lemma digit_char_value: "hex_value (digit_char n) = Some (n mod 10)"
proof -
  have "(of_char (digit_char n) :: nat) = 48 + n mod 10" by (simp add: of_char_of)
  then show ?thesis by (simp add: hex_value_def Let_def)
qed

lemma digits_in_snoc:
  assumes "digits_in b s = Some a" and "hex_value c = Some d" and "d < b"
  shows "digits_in b (s @ [c]) = Some (b * a + d)"
  using assms by (auto simp: digits_in_def split: if_splits)

lemma digits_in_show_nat: "digits_in 10 (show_nat n) = Some n"
proof (induction n rule: show_nat.induct)
  case (1 n)
  show ?case
  proof (cases "n < 10")
    case True
    then show ?thesis by (simp add: show_nat.simps [of n] digits_in_def digit_char_value del: digit_char.simps)
  next
    case False
    then have "digits_in 10 (show_nat (n div 10)) = Some (n div 10)" by (rule 1)
    then have "digits_in 10 (show_nat (n div 10) @ [digit_char n]) = Some (10 * (n div 10) + n mod 10)"
      by (rule digits_in_snoc [OF _ digit_char_value]) simp
    then show ?thesis using False by (simp add: show_nat.simps [of n] del: digit_char.simps)
  qed
qed

lemma show_nat_chars: "c \<in> set (show_nat n) \<Longrightarrow> c \<in> set (map digit_char [0..<10])"
proof (induction n rule: show_nat.induct)
  case (1 n)
  have "digit_char n = digit_char (n mod 10)" by simp
  moreover have "digit_char (n mod 10) \<in> set (map digit_char [0..<10])" by (simp del: digit_char.simps)
  ultimately have "digit_char n \<in> set (map digit_char [0..<10])" by (simp only:)
  with 1 show ?case by (auto simp: show_nat.simps [of n] simp del: digit_char.simps split: if_splits)
qed

lemma show_nat_plain: "c \<in> set (show_nat n) \<Longrightarrow> c \<notin> set ''-+.:eExXoObB'' \<and> \<not> is_space c"
proof -
  assume "c \<in> set (show_nat n)"
  then have "c \<in> set (map digit_char [0..<10])" by (rule show_nat_chars)
  moreover have "\<forall>c\<in>set (map digit_char [0..<10]). c \<notin> set ''-+.:eExXoObB'' \<and> \<not> is_space c"
    by code_simp
  ultimately show ?thesis by blast
qed

lemma show_nat_not_Nil [simp]: "show_nat n \<noteq> []"
  by (subst show_nat.simps) simp

lemma show_int_chars:
  assumes "c \<in> set (show_int n)"
  shows "c \<notin> set ''+.:eExXoObB'' \<and> \<not> is_space c"
proof (cases "c = CHR ''-''")
  case True
  have "CHR ''-'' \<notin> set ''+.:eExXoObB'' \<and> \<not> is_space CHR ''-''" by code_simp
  with True show ?thesis by metis
next
  case False
  then obtain m where "c \<in> set (show_nat m)" using assms by (simp add: show_int_def split: if_splits)
  then show ?thesis using show_nat_plain [of c m] by simp
qed

lemma trim_id:
  assumes "\<And>c. c \<in> set s \<Longrightarrow> \<not> is_space c"
  shows "trim s = s"
proof -
  have drop: "dropWhile is_space t = t" if "set t \<subseteq> set s" for t
    using that assms by (cases t) simp_all
  show ?thesis by (simp add: trim_def drop)
qed

lemma cut_none: "(\<And>c. c \<in> set s \<Longrightarrow> \<not> P c) \<Longrightarrow> cut P s = (s, None)"
proof -
  assume "\<And>c. c \<in> set s \<Longrightarrow> \<not> P c"
  then have "takeWhile (\<lambda>c. \<not> P c) s = s" "dropWhile (\<lambda>c. \<not> P c) s = []" by simp_all
  then show ?thesis by (simp only: cut_def list.case)
qed

lemma decimal_value_show_nat: "signed s = (sign, show_nat n) \<Longrightarrow> decimal_value s = Some (sign * of_nat n)"
proof -
  have "cut (\<lambda>c. c = CHR ''e'' \<or> c = CHR ''E'') (show_nat n) = (show_nat n, None)"
    "cut (\<lambda>c. c = CHR ''.'') (show_nat n) = (show_nat n, None)"
    by (rule cut_none; use show_nat_plain in fastforce)+
  moreover assume "signed s = (sign, show_nat n)"
  ultimately show ?thesis
    by (simp add: decimal_value_def mantissa_value_def digits_in_show_nat exponent_value_def)
qed

lemma signed_show_int:
  "signed (show_int n) = (if n < 0 then (-1, show_nat (nat (- n))) else (1, show_nat (nat n)))"
proof -
  have "signed (show_nat m) = (1, show_nat m)" for m
    using show_nat_plain [of "hd (show_nat m)" m] by (cases "show_nat m") auto
  then show ?thesis by (simp add: show_int_def)
qed

text \<open>\<open>Number(String(n))\<close> is \<open>n\<close>.\<close>

lemma js_Number_show_int: "js_Number (show_int n) = Some (of_int n)"
proof -
  have trim: "trim (show_int n) = show_int n" by (rule trim_id) (use show_int_chars in blast)
  have base: "take 2 (show_int n) \<noteq> [z, c]" if "c \<in> set ''xXoObB''" for z c
  proof
    assume "take 2 (show_int n) = [z, c]"
    then have "c \<in> set (show_int n)" by (metis in_set_takeD list.set_intros(1,2))
    then show False using show_int_chars [of c n] that by auto
  qed
  have "decimal_value (show_int n) = Some (of_int n)"
  proof (cases "n < 0")
    case True
    then show ?thesis by (simp add: decimal_value_show_nat signed_show_int of_nat_nat)
  next
    case False
    then show ?thesis by (simp add: decimal_value_show_nat signed_show_int of_nat_nat)
  qed
  moreover have "show_int n \<noteq> []" by (simp add: show_int_def)
  ultimately show ?thesis by (simp add: js_Number_def trim Let_def base)
qed

lemma show_int_inject: "show_int m = show_int n \<longleftrightarrow> m = n"
  by (metis js_Number_show_int of_int_eq_iff option.inject)

lemma split_at_not_Nil [simp]: "split_at c s \<noteq> []"
  by (induction s) (auto split: list.splits)

lemma split_at_plain: "c \<notin> set s \<Longrightarrow> split_at c s = [s]"
  by (induction s) auto

lemma split_at_append: "c \<notin> set s \<Longrightarrow> split_at c (s @ c # t) = s # split_at c t"
  by (induction s) auto

end
