(* ===== verification/Balance_Oracle.thy ===== *)
theory Balance_Oracle
  imports JS_Date Domain_Types Text_Codecs
begin

unbundle bit_operations_syntax

text \<open>
  The balance range oracle (\<open>src/zk-oracle\<close>): a commitment to a balance, an attestation that the
  balance reaches a threshold, its verification, and the service with its audit log.

  The digests \<open>SHA256\<close> and \<open>HMAC-SHA256\<close> are parameters on bytes, which are characters; a random
  nonce is the next of a sequence.  Balances and thresholds are safe integers, whose text is
  decimal.  A proof to verify may come from anywhere, so that its parts may be absent.
\<close>

section \<open>Types (zk-oracle.types.ts)\<close>

datatype commitment_algorithm = Sha256 | Poseidon

record zk_commitment =
  zc_value :: string
  zc_nonce :: string
  zc_algorithm :: commitment_algorithm

datatype zk_circuit_id = BALANCE_RANGE | TIER_MEMBERSHIP | WGS_PASS_GATE

fun circuit_name :: "zk_circuit_id \<Rightarrow> string" where
  "circuit_name BALANCE_RANGE = ''balance_range_v1''"
| "circuit_name TIER_MEMBERSHIP = ''tier_membership_v1''"
| "circuit_name WGS_PASS_GATE = ''wgs_pass_gate_v1''"

text \<open>The commitment and the proof of a range proof that is received may be \<open>undefined\<close>.\<close>

record zk_range_proof =
  zp_commitment :: "zk_commitment option"
  zp_threshold :: int
  zp_proof :: "string option"
  zp_circuitId :: zk_circuit_id
  zp_proofId :: string
  zp_generatedAt :: string

record zk_verify_result =
  zv_valid :: bool
  zv_circuitId :: zk_circuit_id
  zv_claimedThreshold :: int
  zv_verifiedAt :: int
  zv_error :: "string option"

record zk_audit_record =
  za_proofId :: string
  za_circuitId :: zk_circuit_id
  za_threshold :: int
  za_commitment :: string
  za_generatedAt :: string
  za_correlationId :: "string option"

section \<open>The circuit (circuits/balance-range.ts)\<close>

definition generateCommitment :: "digests \<Rightarrow> bytes \<Rightarrow> int \<Rightarrow> zk_commitment" where
  "generateCommitment dg random v =
     (let nonce = to_hex random in
      \<lparr>zc_value = to_hex (dg_sha256 dg (show_int v @ from_hex nonce)), zc_nonce = nonce, zc_algorithm = Sha256\<rparr>)"

definition attestation_key :: "digests \<Rightarrow> zk_commitment \<Rightarrow> bytes" where
  "attestation_key dg c = dg_sha256 dg (from_hex (zc_value c) @ from_hex (zc_nonce c))"

definition attestation_message :: "int \<Rightarrow> string" where
  "attestation_message threshold = circuit_name BALANCE_RANGE @ '':'' @ ''1'' @ '':'' @ show_int threshold"

definition attestation_mac :: "digests \<Rightarrow> zk_commitment \<Rightarrow> int \<Rightarrow> string" where
  "attestation_mac dg c threshold =
     to_hex (dg_hmac dg (attestation_key dg c) (attestation_message threshold))"

definition generateRangeAttestation :: "digests \<Rightarrow> zk_commitment \<Rightarrow> int \<Rightarrow> int \<Rightarrow> error + string" where
  "generateRangeAttestation dg c privateValue threshold =
     (if privateValue < threshold then
        Inl (Plain (''ZK circuit constraint violated: value ('' @ show_int privateValue @
          '') < threshold ('' @ show_int threshold @ '')''))
      else if privateValue < 0 then
        Inl (Plain ''ZK circuit constraint violated: value must be non-negative'')
      else Inr (attestation_mac dg c threshold @ '':'' @ show_int threshold))"

text \<open>The comparison of two texts in a time that depends on their length only.\<close>

definition mismatch :: "string \<Rightarrow> string \<Rightarrow> nat" where
  "mismatch expected mac =
     foldl (\<lambda>m (a, b). m OR ((of_char a :: nat) XOR of_char b)) 0 (zip expected mac)"

definition same_text :: "string \<Rightarrow> string \<Rightarrow> bool" where
  "same_text expected mac \<longleftrightarrow> length expected = length mac \<and> mismatch expected mac = 0"

text \<open>
  An access to a property of \<open>undefined\<close> throws an error with the message \<open>Inl\<close>; the commitment is first read after the checks of
  the text.
\<close>

definition verifyRangeAttestation ::
  "digests \<Rightarrow> zk_commitment option \<Rightarrow> string option \<Rightarrow> int \<Rightarrow> string + bool" where
  "verifyRangeAttestation dg commitment proof threshold =
     (case proof of
        None \<Rightarrow> Inl ''Cannot read properties of undefined (reading 'split')''
      | Some blob \<Rightarrow>
          (case split_at CHR '':'' blob of
             mac # proofThreshold # _ \<Rightarrow>
               (if mac = [] then Inr False
                else if js_Number proofThreshold \<noteq> Some (of_int threshold) then Inr False
                else (case commitment of
                    None \<Rightarrow> Inl ''Cannot read properties of undefined (reading 'value')''
                  | Some c \<Rightarrow> Inr (same_text (attestation_mac dg c threshold) mac)))
           | _ \<Rightarrow> Inr False))"

definition proveBalanceRange ::
  "digests \<Rightarrow> bytes \<Rightarrow> int \<Rightarrow> int \<Rightarrow> int \<Rightarrow> string \<Rightarrow> error + zk_range_proof" where
  "proveBalanceRange dg random now privateBalance threshold proofId =
     (let commitment = generateCommitment dg random privateBalance in
      case generateRangeAttestation dg commitment privateBalance threshold of
        Inl e \<Rightarrow> Inl e
      | Inr proof \<Rightarrow> Inr
          \<lparr>zp_commitment = Some commitment, zp_threshold = threshold, zp_proof = Some proof,
           zp_circuitId = BALANCE_RANGE, zp_proofId = proofId, zp_generatedAt = toISOString now\<rparr>)"

definition verify_result :: "int \<Rightarrow> zk_range_proof \<Rightarrow> string option \<Rightarrow> zk_verify_result" where
  "verify_result now p e =
     \<lparr>zv_valid = (e = None), zv_circuitId = zp_circuitId p, zv_claimedThreshold = zp_threshold p,
      zv_verifiedAt = now, zv_error = e\<rparr>"

definition verifyBalanceRange :: "digests \<Rightarrow> int \<Rightarrow> zk_range_proof \<Rightarrow> string + zk_verify_result" where
  "verifyBalanceRange dg now p =
     (if zp_circuitId p \<noteq> BALANCE_RANGE then
        Inr (verify_result now p (Some (''Circuit mismatch: expected '' @ circuit_name BALANCE_RANGE @
          '', got '' @ circuit_name (zp_circuitId p))))
      else (case verifyRangeAttestation dg (zp_commitment p) (zp_proof p) (zp_threshold p) of
          Inl e \<Rightarrow> Inl e
        | Inr ok \<Rightarrow> Inr (verify_result now p (if ok then None else Some ''Proof verification failed''))))"

section \<open>The service (zk-oracle.service.ts)\<close>

text \<open>The service with the sources of randomness, identifiers and time it calls.\<close>

record zk_oracle =
  zo_auditLog :: "zk_audit_record list"
  zo_nonces :: "nat \<Rightarrow> bytes"
  zo_nonce_count :: nat
  zo_uuids :: "nat \<Rightarrow> string"
  zo_uuid_count :: nat
  zo_clock :: int

definition audit_of :: "zk_range_proof \<Rightarrow> string option \<Rightarrow> zk_audit_record" where
  "audit_of p correlationId =
     \<lparr>za_proofId = zp_proofId p, za_circuitId = BALANCE_RANGE, za_threshold = zp_threshold p,
      za_commitment = (case zp_commitment p of None \<Rightarrow> [] | Some c \<Rightarrow> zc_value c),
      za_generatedAt = zp_generatedAt p,
      za_correlationId = (if correlationId = Some [] then None else correlationId)\<rparr>"

definition generateBalanceProof ::
  "digests \<Rightarrow> int \<Rightarrow> int \<Rightarrow> string option \<Rightarrow> zk_oracle \<Rightarrow> (error + zk_range_proof) \<times> zk_oracle" where
  "generateBalanceProof dg privateBalance threshold correlationId s =
     (if threshold < 0 then (Inl (Plain ''Threshold must be non-negative''), s)
      else
        let proofId = zo_uuids s (zo_uuid_count s);
            random = zo_nonces s (zo_nonce_count s);
            s1 = s\<lparr>zo_uuid_count := Suc (zo_uuid_count s), zo_nonce_count := Suc (zo_nonce_count s)\<rparr> in
        (case proveBalanceRange dg random (zo_clock s) privateBalance threshold proofId of
           Inl e \<Rightarrow> (Inl e, s1)
         | Inr p \<Rightarrow> (Inr p, s1\<lparr>zo_auditLog := zo_auditLog s1 @ [audit_of p correlationId]\<rparr>)))"

text \<open>
  The proof may be \<open>null\<close>; then the handler of the exception reads its circuit and throws again.
\<close>

definition verifyBalanceProof :: "digests \<Rightarrow> int \<Rightarrow> zk_range_proof option \<Rightarrow> string + zk_verify_result" where
  "verifyBalanceProof dg now rangeProof =
     (case rangeProof of
        None \<Rightarrow> Inl ''Cannot read properties of null (reading 'circuitId')''
      | Some p \<Rightarrow>
          (case verifyBalanceRange dg now p of
             Inr r \<Rightarrow> Inr r
           | Inl e \<Rightarrow> Inr (verify_result now p (Some e))))"

definition getAuditRecords :: "string option \<Rightarrow> zk_oracle \<Rightarrow> zk_audit_record list" where
  "getAuditRecords proofId s =
     (case proofId of
        None \<Rightarrow> zo_auditLog s
      | Some i \<Rightarrow> if i = [] then zo_auditLog s else filter (\<lambda>r. za_proofId r = i) (zo_auditLog s))"


section \<open>The comparison\<close>

lemma xor_zero_iff: "a XOR b = 0 \<longleftrightarrow> a = (b :: nat)"
  by (metis xor.assoc xor.left_neutral xor.right_neutral xor_self_eq)

lemma mismatch_zero_fold:
  "foldl (\<lambda>m (a, b). m OR ((of_char a :: nat) XOR of_char b)) m ps = 0 \<longleftrightarrow>
     m = 0 \<and> (\<forall>(a, b)\<in>set ps. a = b)"
  by (induction ps arbitrary: m) (auto simp: or_eq_0_iff xor_zero_iff)

text \<open>The comparison in constant time decides equality.\<close>

lemma same_text_iff [simp]: "same_text a b \<longleftrightarrow> a = b"
  unfolding same_text_def mismatch_def mismatch_zero_fold
  by (auto simp: list_eq_iff_zip_eq in_set_zip)


section \<open>What a proof says\<close>

text \<open>What the length of a digest gives.\<close>

definition digests_ok :: "digests \<Rightarrow> bool" where
  "digests_ok dg \<longleftrightarrow> (\<forall>k m. length (dg_hmac dg k m) = 32) \<and> (\<forall>m. length (dg_sha256 dg m) = 32)"

lemma attestation_mac_text: "digests_ok dg \<Longrightarrow> attestation_mac dg c t \<noteq> [] \<and> CHR '':'' \<notin> set (attestation_mac dg c t)"
  by (metis attestation_mac_def digests_ok_def length_0_conv to_hex_Nil to_hex_no_colon zero_neq_numeral)

lemma split_attestation:
  assumes "digests_ok dg"
  shows "split_at CHR '':'' (attestation_mac dg c t @ CHR '':'' # show_int t) = [attestation_mac dg c t, show_int t]"
proof -
  have "CHR '':'' \<notin> set (show_int t)" using show_int_chars [of "CHR '':''" t] by auto
  then show ?thesis
    using attestation_mac_text [OF assms] by (simp add: split_at_append split_at_plain)
qed

lemma attestation_verified:
  "digests_ok dg \<Longrightarrow>
     verifyRangeAttestation dg (Some c) (Some (attestation_mac dg c t @ CHR '':'' # show_int t)) t = Inr True"
  by (simp add: verifyRangeAttestation_def split_attestation attestation_mac_text js_Number_show_int)

text \<open>The proof anyone can write for a commitment that was disclosed, and any threshold.\<close>

definition forge :: "digests \<Rightarrow> zk_range_proof \<Rightarrow> int \<Rightarrow> zk_range_proof" where
  "forge dg p t =
     (case zp_commitment p of
        None \<Rightarrow> p
      | Some c \<Rightarrow> p\<lparr>zp_threshold := t, zp_proof := Some (attestation_mac dg c t @ CHR '':'' # show_int t)\<rparr>)"

text \<open>
  C36: A proof for a balance and a threshold that is not negative is generated exactly when the balance
  reaches the threshold; then it verifies, whenever and by whomever it is checked, and the audit
  log has one record more, which holds the threshold and the commitment.  Otherwise an error is
  returned and the log is unchanged.
\<close>

theorem range_proof_roundtrip:
  assumes "digests_ok dg"
  shows "(0 \<le> threshold \<and> threshold \<le> balance \<and>
      (\<exists>p s'. generateBalanceProof dg balance threshold corr s = (Inr p, s') \<and>
        verifyBalanceProof dg now (Some p) = Inr (verify_result now p None) \<and>
        zp_threshold p = threshold \<and> zo_auditLog s' = zo_auditLog s @ [audit_of p corr])) \<or>
    ((threshold < 0 \<or> balance < threshold) \<and>
      (\<exists>e s'. generateBalanceProof dg balance threshold corr s = (Inl e, s') \<and> zo_auditLog s' = zo_auditLog s))"
  by (auto simp: generateBalanceProof_def proveBalanceRange_def generateRangeAttestation_def Let_def
      verifyBalanceProof_def verifyBalanceRange_def attestation_verified [OF assms])

text \<open>
  What verification accepts: the circuit is that of balances, a commitment is there, and the proof
  has a first part that is the digest for this commitment and the threshold, and a second part
  that is a number equal to the threshold; further parts are ignored.  No balance occurs.
\<close>

theorem verify_accepts_iff:
  assumes "digests_ok dg"
  shows "verifyBalanceProof dg now (Some p) = Inr (verify_result now p None) \<longleftrightarrow>
    zp_circuitId p = BALANCE_RANGE \<and>
    (\<exists>c blob n rest. zp_commitment p = Some c \<and> zp_proof p = Some blob \<and>
      split_at CHR '':'' blob = attestation_mac dg c (zp_threshold p) # n # rest \<and>
      js_Number n = Some (of_int (zp_threshold p)))"
  using attestation_mac_text [OF assms]
  by (auto simp: verifyBalanceProof_def verifyBalanceRange_def verifyRangeAttestation_def verify_result_def
      split: option.splits list.splits if_splits)

text \<open>
  From one proof that was disclosed, whoever holds it writes a proof for any threshold, which
  verifies: the nonce, from which the key of the attestation is derived, is part of every proof.
\<close>

theorem range_proof_forgeable:
  assumes "digests_ok dg" and "generateBalanceProof dg balance threshold corr s = (Inr p, s')"
  shows "verifyBalanceProof dg now (Some (forge dg p claimed)) =
    Inr (verify_result now (forge dg p claimed) None) \<and>
    zv_claimedThreshold (verify_result now (forge dg p claimed) None) = claimed"
proof -
  obtain c where "zp_commitment p = Some c" "zp_circuitId p = BALANCE_RANGE"
    using assms(2)
    by (auto simp: generateBalanceProof_def proveBalanceRange_def Let_def split: if_splits sum.splits)
  then show ?thesis
    by (simp add: forge_def verifyBalanceProof_def verifyBalanceRange_def attestation_verified [OF assms(1)]
        verify_result_def)
qed

text \<open>
  A commitment binds its balance: two balances with the same commitment, under nonces of 32 bytes,
  are equal and so are the nonces, or two different texts with the same \<open>SHA256\<close> are known.
\<close>

theorem commitment_binding:
  assumes "zc_value (generateCommitment dg r v) = zc_value (generateCommitment dg r' v')"
    and "length r = 32" and "length r' = 32"
  shows "v = v' \<and> r = r' \<or>
    show_int v @ r \<noteq> show_int v' @ r' \<and> dg_sha256 dg (show_int v @ r) = dg_sha256 dg (show_int v' @ r')"
  using assms by (auto simp: generateCommitment_def Let_def to_hex_inject show_int_inject)

text \<open>
  The record of a proof is found under its id, when the ids do not repeat and are not empty.
\<close>

lemma getAuditRecords_of_proof:
  assumes "generateBalanceProof dg balance threshold corr s = (Inr p, s')"
    and "\<forall>r\<in>set (zo_auditLog s). za_proofId r \<noteq> zp_proofId p" and "zp_proofId p \<noteq> []"
  shows "getAuditRecords (Some (zp_proofId p)) s' = [audit_of p corr]"
proof -
  have "zo_auditLog s' = zo_auditLog s @ [audit_of p corr]"
    using assms(1) by (auto simp: generateBalanceProof_def Let_def split: if_splits sum.splits)
  moreover have "filter (\<lambda>r. za_proofId r = zp_proofId p) (zo_auditLog s) = []"
    by (rule filter_False) (use assms(2) in auto)
  ultimately show ?thesis using assms(3) by (simp add: getAuditRecords_def audit_of_def)
qed

text \<open>A proof without its parts is refused with a result; without any proof the call throws.\<close>

lemma verify_throws_iff:
  "verifyBalanceProof dg now p = Inl m \<longleftrightarrow> p = None \<and> m = ''Cannot read properties of null (reading 'circuitId')''"
  by (auto simp: verifyBalanceProof_def split: option.splits sum.splits)

section \<open>On concrete digests\<close>

definition demo_digests :: digests where
  "demo_digests = \<lparr>dg_sha256 = (\<lambda>m. take 32 (m @ replicate 32 CHR ''0'')),
     dg_hmac = (\<lambda>k m. take 32 (rev m @ k @ replicate 32 CHR ''1''))\<rparr>"

definition demo_oracle :: zk_oracle where
  "demo_oracle = \<lparr>zo_auditLog = [], zo_nonces = (\<lambda>n. replicate 32 CHR ''n''), zo_nonce_count = 0,
     zo_uuids = (\<lambda>n. ''proof-1''), zo_uuid_count = 0, zo_clock = 0\<rparr>"

definition bare_proof :: zk_range_proof where
  "bare_proof = \<lparr>zp_commitment = None, zp_threshold = 5, zp_proof = Some ''ab:5'', zp_circuitId = BALANCE_RANGE,
     zp_proofId = ''p'', zp_generatedAt = []\<rparr>"

lemma demo_digests_ok: "digests_ok demo_digests"
  by (auto simp: digests_ok_def demo_digests_def min_def)

theorem range_proof_roundtrip_witness:
  "\<exists>p s'. generateBalanceProof demo_digests 500 100 None demo_oracle = (Inr p, s') \<and>
     verifyBalanceProof demo_digests 7 (Some p) = Inr (verify_result 7 p None) \<and>
     zo_auditLog s' = [audit_of p None]"
  using range_proof_roundtrip [OF demo_digests_ok, of 100 500 None demo_oracle 7]
  by (auto simp: demo_oracle_def)

theorem verify_accepts_iff_witness:
  "verifyBalanceProof demo_digests 7 (Some bare_proof) \<noteq> Inr (verify_result 7 bare_proof None)"
  by (subst verify_accepts_iff [OF demo_digests_ok]) (simp add: bare_proof_def)

theorem range_proof_forgeable_witness:
  "\<exists>p s'. generateBalanceProof demo_digests 5 1 None demo_oracle = (Inr p, s') \<and>
     verifyBalanceProof demo_digests 7 (Some (forge demo_digests p 1000000)) =
       Inr (verify_result 7 (forge demo_digests p 1000000) None)"
proof -
  obtain p s' where p: "generateBalanceProof demo_digests 5 1 None demo_oracle = (Inr p, s')"
    by (simp add: generateBalanceProof_def proveBalanceRange_def generateRangeAttestation_def Let_def)
  then show ?thesis using range_proof_forgeable [OF demo_digests_ok p, of 7 1000000] by blast
qed

end
