(* ===== verification/Access_Guards.thy ===== *)
theory Access_Guards
  imports Auth_Service Events_Controller Text_Codecs
begin

text \<open>
  What stands in front of the services: the guard of the support endpoints
  (\<open>src/api/support-auth.guard.ts\<close>) with the endpoint of receipts that it protects
  (\<open>src/api/receipt-endpoint.example.ts\<close>), the middleware that reads the bearer token
  (\<open>src/middleware/auth.middleware.ts\<close>), and the one that scopes queries to the tenant
  (\<open>src/middleware/tenant-scope.middleware.ts\<close>).

  The verification of a token is that of the library \<open>jsonwebtoken\<close>, a parameter, and so is the
  message of its errors.
\<close>

section \<open>The guard of the support endpoints\<close>

record 'p auth_check_result =
  ac_authorized :: bool
  ac_reason :: "string option"
  ac_payload :: "'p option"

record auth_guard_config =
  ag_jwtSecret :: string
  ag_algorithm :: "jwt_algorithm option"

text \<open>The verification of a token at a moment, and the message of an error of the library.\<close>

record 'p token_verifier =
  tv_verify :: "int \<Rightarrow> string \<Rightarrow> jwt_algorithm \<Rightarrow> string \<Rightarrow> jwt_error + 'p"
  tv_message :: "jwt_error \<Rightarrow> string"

definition refused :: "string \<Rightarrow> 'p option \<Rightarrow> 'p auth_check_result" where
  "refused reason payload = \<lparr>ac_authorized = False, ac_reason = Some reason, ac_payload = payload\<rparr>"

definition checkAdminSupportAuth ::
  "'a jwt_payload_scheme token_verifier \<Rightarrow> int \<Rightarrow> string option \<Rightarrow> auth_guard_config \<Rightarrow>
   'a jwt_payload_scheme auth_check_result" where
  "checkAdminSupportAuth tv now authHeader config =
     (case authHeader of
        None \<Rightarrow> refused ''Missing authorization header'' None
      | Some header \<Rightarrow>
          if header = [] then refused ''Missing authorization header'' None
          else
            (let parts = split_at CHR '' '' header in
             if length parts \<noteq> 2 \<or> parts ! 0 \<noteq> ''Bearer'' then refused ''Invalid authorization header format'' None
             else (case tv_verify tv now (ag_jwtSecret config)
                     (case ag_algorithm config of None \<Rightarrow> HS256 | Some a \<Rightarrow> a) (parts ! 1) of
                 Inl e \<Rightarrow> refused (tv_message tv e) None
               | Inr payload \<Rightarrow>
                   if jp_role payload = ADMIN \<or> jp_role payload = SYSTEM
                   then \<lparr>ac_authorized = True, ac_reason = None, ac_payload = Some payload\<rparr>
                   else refused ''Insufficient permissions - admin or support role required'' (Some payload))))"

text \<open>The reason, or a default when it is absent or empty (\<open>||\<close>).\<close>

definition reason_or :: "'p auth_check_result \<Rightarrow> string \<Rightarrow> string" where
  "reason_or check fallback =
     (case ac_reason check of None \<Rightarrow> fallback | Some r \<Rightarrow> if r = [] then fallback else r)"

datatype 'd guarded = Authorized 'd | Unauthorized string

definition withAdminSupportAuth ::
  "'a jwt_payload_scheme token_verifier \<Rightarrow> int \<Rightarrow> string option \<Rightarrow> auth_guard_config \<Rightarrow> ('s, 'e, 'd) io \<Rightarrow>
   ('s, 'e, 'd guarded) io" where
  "withAdminSupportAuth tv now authHeader config handler =
     (let authCheck = checkAdminSupportAuth tv now authHeader config in
      if \<not> ac_authorized authCheck then pure (Unauthorized (reason_or authCheck ''Unauthorized''))
      else await handler (\<lambda>data. pure (Authorized data)))"

section \<open>The endpoint of receipts\<close>

record http_request =
  hq_authorization :: "string option"
  hq_merchantId :: "string option"
  hq_idempotencyKey :: "string option"

datatype http_body = Receipt_body event_receipt | Error_body string string

record http_response =
  hs_status :: nat
  hs_body :: http_body

definition failure :: "nat \<Rightarrow> string \<Rightarrow> string \<Rightarrow> http_response" where
  "failure status error message = \<lparr>hs_status = status, hs_body = Error_body error message\<rparr>"

definition bad_request :: http_response where
  "bad_request = failure 400 ''BAD_REQUEST'' ''Both merchantId and idempotencyKey query parameters are required''"

definition receipt_response :: "event_receipt option \<Rightarrow> http_response" where
  "receipt_response receipt =
     (case receipt of
        None \<Rightarrow> failure 404 ''NOT_FOUND'' ''Event receipt not found''
      | Some r \<Rightarrow> \<lparr>hs_status = 200, hs_body = Receipt_body r\<rparr>)"

definition handleReceiptRequest ::
  "'a jwt_payload_scheme token_verifier \<Rightarrow> int \<Rightarrow> auth_guard_config \<Rightarrow> http_request \<Rightarrow> ('s, http_response) ingest" where
  "handleReceiptRequest tv now config req =
     (if \<not> text_given (hq_merchantId req) \<or> \<not> text_given (hq_idempotencyKey req) then pure bad_request
      else
        (let authResult = checkAdminSupportAuth tv now (hq_authorization req) config in
         if \<not> ac_authorized authResult
         then pure (failure 401 ''UNAUTHORIZED'' (reason_or authResult ''Authentication required''))
         else try_catch
           (await (getEventReceipt (the (hq_merchantId req)) (the (hq_idempotencyKey req))) (\<lambda>receipt.
            pure (receipt_response receipt)))
           (\<lambda>_. pure (failure 500 ''INTERNAL_SERVER_ERROR'' ''Failed to retrieve receipt''))))"

definition handleReceiptRequestFunctional ::
  "'a jwt_payload_scheme token_verifier \<Rightarrow> int \<Rightarrow> auth_guard_config \<Rightarrow> http_request \<Rightarrow> ('s, http_response) ingest" where
  "handleReceiptRequestFunctional tv now config req =
     (if \<not> text_given (hq_merchantId req) \<or> \<not> text_given (hq_idempotencyKey req) then pure bad_request
      else
        await (withAdminSupportAuth tv now (hq_authorization req) config
                 (getEventReceipt (the (hq_merchantId req)) (the (hq_idempotencyKey req)))) (\<lambda>result.
        case result of
          Unauthorized error \<Rightarrow> pure (failure 401 ''UNAUTHORIZED'' error)
        | Authorized receipt \<Rightarrow> pure (receipt_response receipt)))"

section \<open>The middleware\<close>

text \<open>A request on its way through the middleware; the payload of its token has fields of any type.\<close>

record scoped_request =
  sr_authorization :: "string option"
  sr_tenantId :: "string option"
  sr_userId :: "string option"
  sr_queryOptions :: "metadata option"

definition bearer_token :: "string option \<Rightarrow> string option" where
  "bearer_token authHeader =
     (case authHeader of
        None \<Rightarrow> None
      | Some header \<Rightarrow> if take 7 header = ''Bearer '' then Some (drop 7 header) else None)"

definition text_property :: "metadata \<Rightarrow> string \<Rightarrow> string option" where
  "text_property payload key = (case property (Some payload) key of JStr t \<Rightarrow> Some t | _ \<Rightarrow> None)"

definition identify :: "metadata \<Rightarrow> scoped_request \<Rightarrow> scoped_request" where
  "identify payload req =
     (let req1 = (case text_property payload ''tenantId'' of None \<Rightarrow> req | Some t \<Rightarrow> req\<lparr>sr_tenantId := Some t\<rparr>) in
      case text_property payload ''userId'' of
        Some u \<Rightarrow> req1\<lparr>sr_userId := Some u\<rparr>
      | None \<Rightarrow> (case text_property payload ''sub'' of
            Some u \<Rightarrow> req1\<lparr>sr_userId := Some u\<rparr>
          | None \<Rightarrow> req1))"

text \<open>\<open>next\<close> is called in every case, with the request that is returned here.\<close>

definition auth_middleware ::
  "(string \<Rightarrow> string \<Rightarrow> metadata option) \<Rightarrow> string option \<Rightarrow> scoped_request \<Rightarrow> scoped_request" where
  "auth_middleware verify jwtSecret req =
     (case bearer_token (sr_authorization req) of
        None \<Rightarrow> req
      | Some token \<Rightarrow>
          if token = [] \<or> \<not> text_given jwtSecret then req
          else (case verify token (the jwtSecret) of None \<Rightarrow> req | Some payload \<Rightarrow> identify payload req))"

definition tenant_scope_middleware :: "scoped_request \<Rightarrow> scoped_request" where
  "tenant_scope_middleware req =
     (if text_given (sr_tenantId req) then
        req\<lparr>sr_queryOptions := Some (AList.update ''tenant_id'' (JStr (the (sr_tenantId req)))
          (case sr_queryOptions req of None \<Rightarrow> [] | Some options \<Rightarrow> options))\<rparr>
      else req)"

section \<open>Who is let through\<close>

text \<open>The token of a header: what follows \<open>Bearer\<close> and one space, and holds no space.\<close>

lemma split_at_two:
  "length (split_at c s) = 2 \<and> split_at c s ! 0 = a \<longleftrightarrow>
     (\<exists>b. s = a @ c # b \<and> c \<notin> set a \<and> c \<notin> set b \<and> split_at c s ! 1 = b)"
proof -
  have joined: "length (split_at c s) = Suc 0 \<longleftrightarrow> c \<notin> set s" for s
    by (induction s) (auto split: list.splits)
  have "s = split_at c s ! 0 @ c # split_at c s ! 1 \<and> c \<notin> set (split_at c s ! 0) \<and> c \<notin> set (split_at c s ! 1)"
    if "length (split_at c s) = 2"
    using that
  proof (induction s)
    case (Cons x s)
    show ?case
    proof (cases "x = c")
      case True
      then have "c \<notin> set s" using Cons.prems joined [of s] by simp
      then show ?thesis using True by (simp add: split_at_plain)
    next
      case False
      then show ?thesis using Cons by (auto split: list.splits)
    qed
  qed simp
  then show ?thesis by (fastforce simp: split_at_append split_at_plain)
qed

definition opens :: "'a jwt_payload_scheme token_verifier \<Rightarrow> int \<Rightarrow> string option \<Rightarrow> auth_guard_config \<Rightarrow> bool" where
  "opens tv now authHeader config \<longleftrightarrow>
     (\<exists>token payload. authHeader = Some (''Bearer '' @ token) \<and> CHR '' '' \<notin> set token \<and>
        tv_verify tv now (ag_jwtSecret config) (case ag_algorithm config of None \<Rightarrow> HS256 | Some a \<Rightarrow> a) token =
          Inr payload \<and> jp_role payload \<in> {ADMIN, SYSTEM})"

lemma split_bearer: "CHR '' '' \<notin> set token \<Longrightarrow> split_at CHR '' '' (''Bearer '' @ token) = [''Bearer'', token]"
  using split_at_append [of "CHR '' ''" "''Bearer''" token] by (simp add: split_at_plain)

text \<open>
  The guard of the support endpoints authorizes exactly the requests whose header is
  \<open>Bearer\<close>, one space and a token without spaces that the library verifies under the configured
  secret and algorithm (\<open>HS256\<close> unless another is given) and whose role is administrator or system.
\<close>

theorem support_guard_decides:
  "ac_authorized (checkAdminSupportAuth tv now authHeader config) \<longleftrightarrow> opens tv now authHeader config"
proof (cases "\<exists>token. authHeader = Some (''Bearer '' @ token) \<and> CHR '' '' \<notin> set token")
  case True
  then show ?thesis
    by (auto simp: checkAdminSupportAuth_def opens_def split_bearer [simplified] refused_def split: sum.splits if_splits)
next
  case False
  then have "\<not> (length (split_at CHR '' '' h) = 2 \<and> split_at CHR '' '' h ! 0 = ''Bearer'')" if "authHeader = Some h" for h
    using that by (simp add: split_at_two)
  then show ?thesis using False
    by (auto simp: checkAdminSupportAuth_def opens_def refused_def split: option.splits)
qed

lemma run_getEventReceipt_find:
  "\<exists>receipt. run (getEventReceipt m k) s = (Inr receipt, s) \<and>
     (receipt = None \<longleftrightarrow> \<not> (\<exists>(i, e)\<in>set (ingest_events s). ie_merchantId e = Some m \<and> ie_idempotencyKey e = Some k))"
proof (cases "find (\<lambda>(_, e). ie_merchantId e = Some m \<and> ie_idempotencyKey e = Some k) (ingest_events s)")
  case None
  then have "run (getEventReceipt m k) s = (Inr None, s)" by (simp add: getEventReceipt_def run_simps)
  moreover from None have "\<not> (\<exists>(i, e)\<in>set (ingest_events s). ie_merchantId e = Some m \<and> ie_idempotencyKey e = Some k)"
    by (auto simp: find_None_iff)
  ultimately show ?thesis by blast
next
  case (Some x)
  then obtain n where "n < length (ingest_events s)" "x = ingest_events s ! n"
    "ie_merchantId (snd x) = Some m" "ie_idempotencyKey (snd x) = Some k"
    by (auto simp: find_Some_iff)
  then have "\<exists>(i, e)\<in>set (ingest_events s). ie_merchantId e = Some m \<and> ie_idempotencyKey e = Some k"
    by (intro bexI [of _ x]) (auto simp: case_prod_unfold)
  with Some show ?thesis
    by (cases x) (simp add: getEventReceipt_def run_simps)
qed

lemma receipt_needs_support:
  "\<not> opens tv now (hq_authorization req) config \<Longrightarrow>
     \<exists>response. run (handleReceiptRequest tv now config req) s = (Inr response, s) \<and>
       \<not> (\<exists>receipt. hs_body response = Receipt_body receipt)"
  by (simp add: handleReceiptRequest_def bad_request_def failure_def support_guard_decides run_simps Let_def)

text \<open>
  C35: A receipt is disclosed (status 200) exactly when both parameters are given, the guard lets the
  request through and an event with this merchant and key is stored; every request is answered and
  none changes the store.
\<close>

theorem receipt_disclosed_to_support_only:
  "\<exists>response. run (handleReceiptRequest tv now config req) s = (Inr response, s) \<and>
     (hs_status response = 200 \<longleftrightarrow>
        text_given (hq_merchantId req) \<and> text_given (hq_idempotencyKey req) \<and>
        opens tv now (hq_authorization req) config \<and>
        (\<exists>(i, e)\<in>set (ingest_events s). ie_merchantId e = hq_merchantId req \<and>
           ie_idempotencyKey e = hq_idempotencyKey req)) \<and>
     ((\<exists>r. hs_body response = Receipt_body r) \<longleftrightarrow> hs_status response = 200)"
proof (cases "text_given (hq_merchantId req) \<and> text_given (hq_idempotencyKey req)")
  case True
  then obtain m k where mk: "hq_merchantId req = Some m" "hq_idempotencyKey req = Some k"
    by (auto simp: text_given_def split: option.splits)
  from run_getEventReceipt_find obtain receipt where r: "run (getEventReceipt m k) s = (Inr receipt, s)"
    "receipt = None \<longleftrightarrow> \<not> (\<exists>(i, e)\<in>set (ingest_events s). ie_merchantId e = Some m \<and> ie_idempotencyKey e = Some k)"
    by blast
  have "run (handleReceiptRequest tv now config req) s =
      (Inr (if opens tv now (hq_authorization req) config then receipt_response receipt
        else failure 401 ''UNAUTHORIZED''
          (reason_or (checkAdminSupportAuth tv now (hq_authorization req) config) ''Authentication required'')), s)"
    using True r(1) by (simp add: handleReceiptRequest_def mk support_guard_decides run_simps Let_def)
  then show ?thesis
    using True r(2) mk by (auto simp: receipt_response_def failure_def split: option.splits)
next
  case False
  then show ?thesis by (auto simp: handleReceiptRequest_def bad_request_def failure_def run_simps)
qed

text \<open>
  The two ways to write the endpoint, with the guard called in place and with the wrapper of the
  guard, answer every request in the same way, as long as the library gives its errors a message.
\<close>

theorem receipt_handlers_agree:
  assumes "\<And>e. tv_message tv e \<noteq> []"
  shows "run (handleReceiptRequest tv now config req) s = run (handleReceiptRequestFunctional tv now config req) s"
proof -
  let ?check = "checkAdminSupportAuth tv now (hq_authorization req) config"
  have reason: "\<not> ac_authorized ?check \<Longrightarrow> reason_or ?check d = reason_or ?check d'" for d d'
    using assms
    by (auto simp: checkAdminSupportAuth_def refused_def reason_or_def Let_def split: option.splits if_splits sum.splits)
  obtain receipt where "run (getEventReceipt (the (hq_merchantId req)) (the (hq_idempotencyKey req))) s = (Inr receipt, s)"
    using run_getEventReceipt_find by blast
  then show ?thesis
    using reason [of "''Authentication required''" "''Unauthorized''"]
    by (simp add: handleReceiptRequest_def handleReceiptRequestFunctional_def withAdminSupportAuth_def run_simps Let_def)
qed

text \<open>
  A token that the authorization service issues to the queue opens no receipt, although it is
  signed with the same secret: its role is neither administrator nor system.
\<close>

theorem queue_token_opens_no_receipt:
  assumes "tv_verify tv now (ag_jwtSecret config) (case ag_algorithm config of None \<Rightarrow> HS256 | Some a \<Rightarrow> a)
      (qs_token (generateSettlementAuthorization jw au issued q e m a r)) = Inr (settlement_payload au issued q e m a r)"
    and "hq_authorization req = Some (''Bearer '' @ qs_token (generateSettlementAuthorization jw au issued q e m a r))"
  shows "\<exists>response. run (handleReceiptRequest tv now config req) s = (Inr response, s) \<and>
     \<not> (\<exists>receipt. hs_body response = Receipt_body receipt)"
proof -
  have "\<not> opens tv now (hq_authorization req) config"
    using assms by (auto simp: opens_def payload_claims)
  then show ?thesis by (rule receipt_needs_support)
qed

section \<open>The tenant of a request\<close>

lemma bearer_token_iff: "bearer_token h = Some token \<longleftrightarrow> h = Some (''Bearer '' @ token)"
proof -
  have "take 7 header = ''Bearer '' \<and> drop 7 header = token \<longleftrightarrow> header = ''Bearer '' @ token" for header
    using append_eq_conv_conj [of "''Bearer ''" token header] by (auto simp: numeral_eq_Suc)
  then show ?thesis by (auto simp: bearer_token_def split: option.splits if_splits)
qed

text \<open>What the middleware takes from a request: the payload of a verified token.\<close>

definition verified_payload ::
  "(string \<Rightarrow> string \<Rightarrow> metadata option) \<Rightarrow> string option \<Rightarrow> scoped_request \<Rightarrow> metadata option" where
  "verified_payload verify jwtSecret req =
     (case (bearer_token (sr_authorization req), jwtSecret) of
        (Some token, Some secret) \<Rightarrow> if token \<noteq> [] \<and> secret \<noteq> [] then verify token secret else None
      | _ \<Rightarrow> None)"

lemma auth_middleware_payload:
  "auth_middleware verify jwtSecret req =
     (case verified_payload verify jwtSecret req of None \<Rightarrow> req | Some payload \<Rightarrow> identify payload req)"
  by (auto simp: auth_middleware_def verified_payload_def text_given_def split: option.splits)

lemma identify_fields:
  "sr_tenantId (identify payload req) =
     (case text_property payload ''tenantId'' of None \<Rightarrow> sr_tenantId req | Some t \<Rightarrow> Some t)"
  "sr_userId (identify payload req) =
     (case text_property payload ''userId'' of Some u \<Rightarrow> Some u
      | None \<Rightarrow> (case text_property payload ''sub'' of Some u \<Rightarrow> Some u | None \<Rightarrow> sr_userId req))"
  "sr_queryOptions (identify payload req) = sr_queryOptions req"
  by (auto simp: identify_def Let_def split: option.splits)

text \<open>
  C34: A request that arrives without a tenant and without query options leaves the two middlewares, in
  their order, with the query restricted to a tenant exactly when its bearer token is verified under
  a configured secret and its payload names a tenant that is not empty; then it is that tenant,
  and nothing else is among the options.
\<close>

theorem queries_scoped_to_verified_tenant:
  assumes "sr_tenantId req = None" and "sr_queryOptions req = None"
  shows "sr_queryOptions (tenant_scope_middleware (auth_middleware verify jwtSecret req)) = Some options \<longleftrightarrow>
    (\<exists>token secret payload t. sr_authorization req = Some (''Bearer '' @ token) \<and> token \<noteq> [] \<and>
       jwtSecret = Some secret \<and> secret \<noteq> [] \<and> verify token secret = Some payload \<and>
       text_property payload ''tenantId'' = Some t \<and> t \<noteq> [] \<and> options = [(''tenant_id'', JStr t)])"
proof -
  have "sr_queryOptions (tenant_scope_middleware (auth_middleware verify jwtSecret req)) = Some options \<longleftrightarrow>
      (\<exists>payload t. verified_payload verify jwtSecret req = Some payload \<and>
        text_property payload ''tenantId'' = Some t \<and> t \<noteq> [] \<and> options = [(''tenant_id'', JStr t)])"
    using assms
    by (auto simp: auth_middleware_payload tenant_scope_middleware_def identify_fields text_given_def split: option.splits)
  moreover have "verified_payload verify jwtSecret req = Some payload \<longleftrightarrow>
      (\<exists>token secret. sr_authorization req = Some (''Bearer '' @ token) \<and> token \<noteq> [] \<and>
       jwtSecret = Some secret \<and> secret \<noteq> [] \<and> verify token secret = Some payload)" for payload
  proof -
    have "verified_payload verify jwtSecret req = Some payload \<longleftrightarrow>
        (\<exists>token secret. bearer_token (sr_authorization req) = Some token \<and> token \<noteq> [] \<and>
          jwtSecret = Some secret \<and> secret \<noteq> [] \<and> verify token secret = Some payload)"
      by (auto simp: verified_payload_def split: option.splits if_splits)
    then show ?thesis unfolding bearer_token_iff .
  qed
  ultimately show ?thesis by blast
qed

section \<open>On concrete requests\<close>

definition queue_verifier :: "queue_authorization_payload token_verifier" where
  "queue_verifier = \<lparr>tv_verify = jw_verify demo_jwt, tv_message = (\<lambda>_. ''invalid token'')\<rparr>"

definition demo_guard :: auth_guard_config where
  "demo_guard = \<lparr>ag_jwtSecret = ''secret'', ag_algorithm = None\<rparr>"

definition receipt_request :: "string \<Rightarrow> http_request" where
  "receipt_request header =
     \<lparr>hq_authorization = Some header, hq_merchantId = Some ''shop'', hq_idempotencyKey = Some ''key-1''\<rparr>"

definition token_request :: "string \<Rightarrow> scoped_request" where
  "token_request header =
     \<lparr>sr_authorization = Some header, sr_tenantId = None, sr_userId = None, sr_queryOptions = None\<rparr>"

theorem receipt_handlers_agree_witness:
  "run (handleReceiptRequest queue_verifier 9000 demo_guard (receipt_request ''Bearer x'')) s =
   run (handleReceiptRequestFunctional queue_verifier 9000 demo_guard (receipt_request ''Bearer x'')) s"
  by (rule receipt_handlers_agree) (simp add: queue_verifier_def)

theorem queue_token_opens_no_receipt_witness:
  "\<exists>response. run (handleReceiptRequest queue_verifier 9000 demo_guard (receipt_request ''Bearer queue_settlement'')) posting_ingest =
       (Inr response, posting_ingest) \<and> \<not> (\<exists>receipt. hs_body response = Receipt_body receipt)"
proof (rule queue_token_opens_no_receipt)
  let ?s = "settlement_payload demo_auth 5000 ''q1'' ''e1'' ''m1'' 10 PERFORMANCE_COMPLETED"
  let ?a = "generateSettlementAuthorization demo_jwt demo_auth 5000 ''q1'' ''e1'' ''m1'' 10 PERFORMANCE_COMPLETED"
  have token: "qs_token ?a = ''queue_settlement''" by (simp add: generated_fields demo_jwt_def payload_claims)
  have "jp_exp ?s = 305" by (simp add: settlement_payload_def token_expiry_def demo_auth_def)
  then show "tv_verify queue_verifier 9000 (ag_jwtSecret demo_guard)
      (case ag_algorithm demo_guard of None \<Rightarrow> HS256 | Some a \<Rightarrow> a) (qs_token ?a) = Inr ?s"
    unfolding token by (simp add: queue_verifier_def demo_jwt_def demo_payloads_def)
  show "hq_authorization (receipt_request ''Bearer queue_settlement'') = Some (''Bearer '' @ qs_token ?a)"
    unfolding token by (simp add: receipt_request_def)
qed

theorem queries_scoped_to_verified_tenant_witness:
  "sr_queryOptions (tenant_scope_middleware (auth_middleware
       (\<lambda>token secret. if token = ''genuine'' then Some [(''tenantId'', JStr ''acme'')] else None) (Some ''secret'')
       (token_request ''Bearer genuine''))) = Some [(''tenant_id'', JStr ''acme'')]"
  by (subst queries_scoped_to_verified_tenant)
    (auto simp: token_request_def text_property_def property_def spread_def)

end
