(* ===== verification/Result_Cache.thy ===== *)
theory Result_Cache
  imports Idempotency_Service
begin

text \<open>
  The interface of a cache of results: a lookup after a result was remembered finds it.  What a
  client does with it (\<open>through_cache\<close>: look up, compute, remember) then answers once: the first
  request computes, and every later one under the same key gets the first result and changes
  nothing.  The idempotency service provides it, for every tenant and operation.
\<close>

definition through_cache ::
  "('k \<Rightarrow> ('s, 'e, 'v option) io) \<Rightarrow> ('k \<Rightarrow> 'v \<Rightarrow> ('s, 'e, unit) io) \<Rightarrow> 'k \<Rightarrow> ('s, 'e, 'v) io \<Rightarrow> ('s, 'e, 'v) io" where
  "through_cache lookup remember k compute =
     await (lookup k) (\<lambda>existing.
     case existing of
       Some v \<Rightarrow> pure v
     | None \<Rightarrow> await compute (\<lambda>v. await (remember k v) (\<lambda>_. pure v)))"

locale result_cache =
  fixes lookup :: "'k \<Rightarrow> ('s, 'e, 'v option) io"
    and remember :: "'k \<Rightarrow> 'v \<Rightarrow> ('s, 'e, unit) io"
    and cached :: "'s \<Rightarrow> 'k \<Rightarrow> 'v option"
    and ready :: "'s \<Rightarrow> bool"
    and storable :: "'k \<Rightarrow> 'v \<Rightarrow> bool"
  assumes run_lookup: "ready s \<Longrightarrow> run (lookup k) s = (Inr (cached s k), s)"
    and run_remember: "ready s \<Longrightarrow> storable k v \<Longrightarrow> cached s k = None \<Longrightarrow>
      \<exists>s'. run (remember k v) s = (Inr (), s') \<and> ready s' \<and> cached s' k = Some v \<and>
        (\<forall>k'. k' \<noteq> k \<longrightarrow> cached s' k' = cached s k')"
begin

lemma cached_answer:
  "ready s \<Longrightarrow> cached s k = Some v \<Longrightarrow> run (through_cache lookup remember k compute) s = (Inr v, s)"
  by (simp add: through_cache_def run_simps run_lookup)

lemma computed_answer:
  assumes "ready s" and "cached s k = None" and "run compute s = (Inr v, s1)"
    and "ready s1" and "cached s1 k = None" and "storable k v"
  shows "\<exists>s'. run (through_cache lookup remember k compute) s = (Inr v, s') \<and> ready s' \<and> cached s' k = Some v \<and>
    (\<forall>k'. k' \<noteq> k \<longrightarrow> cached s' k' = cached s1 k')"
proof -
  obtain s' where "run (remember k v) s1 = (Inr (), s')" "ready s'" "cached s' k = Some v"
    "\<forall>k'. k' \<noteq> k \<longrightarrow> cached s' k' = cached s1 k'"
    using run_remember [OF assms(4,6,5)] by blast
  then show ?thesis using assms by (simp add: through_cache_def run_simps run_lookup)
qed

text \<open>Whoever asks again gets the first answer, whatever it would have computed.\<close>

lemma answered_once:
  assumes "ready s" and "cached s k = None" and "run compute s = (Inr v, s1)"
    and "ready s1" and "cached s1 k = None" and "storable k v"
  shows "\<exists>s'. run (through_cache lookup remember k compute) s = (Inr v, s') \<and>
    (\<forall>compute'. run (through_cache lookup remember k compute') s' = (Inr v, s'))"
  using computed_answer [OF assms] cached_answer by blast

end

section \<open>The idempotency service as such a cache\<close>

definition stored_result :: "string \<Rightarrow> string \<Rightarrow> store \<Rightarrow> string \<Rightarrow> json option" where
  "stored_result tenant op s key =
     (case map_of (idempotency_records s) (key, buildScope tenant op) of
        None \<Rightarrow> None | Some i \<Rightarrow> i_storedResult i)"

definition results_stored :: "store \<Rightarrow> bool" where
  "results_stored s \<longleftrightarrow> records_keyed s \<and> list_all (\<lambda>(k, i). i_storedResult i \<noteq> None) (idempotency_records s)"

definition storable_result :: "(json \<Rightarrow> string) \<Rightarrow> string \<Rightarrow> string \<Rightarrow> string \<Rightarrow> json \<Rightarrow> bool" where
  "storable_result digest tenant op key result \<longleftrightarrow>
     required_string 256 key \<and> required_string 128 (buildScope tenant op) \<and>
     required_string 512 (hashResult digest result)"

lemma list_all_update:
  "list_all P xs \<Longrightarrow> P (k, v) \<Longrightarrow> list_all P (AList.update k v xs)"
  by (induction xs) auto

lemma no_result_no_record:
  assumes "results_stored s" and "stored_result tenant op s key = None"
  shows "map_of (idempotency_records s) (key, buildScope tenant op) = None"
proof (rule ccontr)
  assume "map_of (idempotency_records s) (key, buildScope tenant op) \<noteq> None"
  then obtain i where "map_of (idempotency_records s) (key, buildScope tenant op) = Some i" by blast
  moreover from this have "((key, buildScope tenant op), i) \<in> set (idempotency_records s)" by (rule map_of_SomeD)
  ultimately show False using assms by (auto simp: results_stored_def stored_result_def list_all_iff)
qed

interpretation idempotency_cache: result_cache
  "\<lambda>key. checkKey key tenant (op :: string)" "\<lambda>key. recordKey digest key tenant op"
  "stored_result tenant op" results_stored "storable_result digest tenant op"
  for digest tenant op
proof (unfold_locales, goal_cases)
  case (1 s k)
  then show ?case
    by (simp add: run_checkKey stored_result_def results_stored_def records_keyed_def find_record)
next
  case (2 s k v)
  then have none: "map_of (idempotency_records s) (k, buildScope tenant op) = None"
    by (intro no_result_no_record)
  let ?s = "s\<lparr>idempotency_records := AList.update (k, buildScope tenant op)
      (cached_record digest k tenant op v) (idempotency_records s)\<rparr>"
  have "run (recordKey digest k tenant op v) s = (Inr (), ?s)"
    using 2(2) none by (intro run_recordKey) (simp_all add: storable_result_def)
  moreover have "results_stored ?s"
    using 2(1) by (simp add: results_stored_def records_keyed_def list_all_update cached_record_def)
  moreover have "stored_result tenant op ?s k = Some v"
    "\<forall>k'. k' \<noteq> k \<longrightarrow> stored_result tenant op ?s k' = stored_result tenant op s k'"
    by (simp_all add: stored_result_def update_conv' cached_record_def)
  ultimately show ?case by blast
qed

end
