(* ===== verification/Webhooks.thy ===== *)
theory Webhooks
  imports Result_Cache Admin_Ops Text_Codecs
begin

text \<open>
  The reception of webhooks (\<open>src/webhooks/webhook-receive.service.ts\<close>): the check of the
  signature and the deduplication by the cache of results; their emission, which is a log so far
  (\<open>webhook-emit.service.ts\<close>), and the detection of fraud that would emit
  (\<open>src/services/fraud-signal.service.ts\<close>).  \<open>JSON.stringify\<close> and the digests are
  parameters, and so is the secret, an environment variable.  An event id that is not a text is
  taken as absent.
\<close>

record webhook_receiver =
  wh_digests :: digests
  wh_stringify :: "metadata \<Rightarrow> string"
  wh_result_digest :: "json \<Rightarrow> string"
  wh_secret :: "string option"

definition webhook_signature :: "webhook_receiver \<Rightarrow> string \<Rightarrow> metadata \<Rightarrow> string \<Rightarrow> string" where
  "webhook_signature wh secret payload timestamp =
     to_hex (dg_hmac (wh_digests wh) secret (timestamp @ ''.'' @ wh_stringify wh payload))"

text \<open>
  The comparison throws, and the signature is refused, when the lengths differ; otherwise it
  compares byte by byte.
\<close>

definition verifySignature :: "webhook_receiver \<Rightarrow> metadata \<Rightarrow> string \<Rightarrow> string \<Rightarrow> bool" where
  "verifySignature wh payload signature timestamp =
     (case wh_secret wh of
        None \<Rightarrow> True
      | Some secret \<Rightarrow>
          if secret = [] then True
          else
            (let expected = webhook_signature wh secret payload timestamp in
             if length signature \<noteq> length expected then False
             else list_all2 (=) signature expected))"

definition text_field :: "metadata \<Rightarrow> string \<Rightarrow> string" where
  "text_field payload key = (case property (Some payload) key of JStr t \<Rightarrow> t | _ \<Rightarrow> [])"

definition webhook_event_id :: "metadata \<Rightarrow> string" where
  "webhook_event_id payload =
     (if text_field payload ''eventId'' \<noteq> [] then text_field payload ''eventId'' else text_field payload ''id'')"

definition webhook_accepted :: "string \<Rightarrow> json" where
  "webhook_accepted eventId = JObj [(''status'', JStr ''accepted''), (''eventId'', JStr eventId)]"

definition handleIncoming :: "webhook_receiver \<Rightarrow> metadata \<Rightarrow> string \<Rightarrow> string \<Rightarrow> json svc" where
  "handleIncoming wh payload signature timestamp =
     (if \<not> verifySignature wh payload signature timestamp then throw (Plain ''Invalid webhook signature'')
      else
        let eventId = webhook_event_id payload in
        if eventId = [] then throw (Plain ''Missing eventId in webhook payload'')
        else through_cache (\<lambda>key. checkKey key ''system'' ''webhook_receive'')
          (\<lambda>key. recordKey (wh_result_digest wh) key ''system'' ''webhook_receive'')
          eventId (pure (webhook_accepted eventId)))"

section \<open>Who is heard, and how often\<close>

definition signed_by_holder :: "webhook_receiver \<Rightarrow> metadata \<Rightarrow> string \<Rightarrow> string \<Rightarrow> bool" where
  "signed_by_holder wh payload signature timestamp \<longleftrightarrow>
     (\<forall>secret. wh_secret wh = Some secret \<and> secret \<noteq> [] \<longrightarrow> signature = webhook_signature wh secret payload timestamp)"

lemma verifySignature_iff:
  "verifySignature wh payload signature timestamp \<longleftrightarrow> signed_by_holder wh payload signature timestamp"
  by (auto simp: verifySignature_def signed_by_holder_def Let_def list.rel_eq split: option.splits)

lemma run_handleIncoming:
  "run (handleIncoming wh payload signature timestamp) s =
     (if \<not> signed_by_holder wh payload signature timestamp then (Inl (Plain ''Invalid webhook signature''), s)
      else if webhook_event_id payload = [] then (Inl (Plain ''Missing eventId in webhook payload''), s)
      else run (through_cache (\<lambda>key. checkKey key ''system'' ''webhook_receive'')
          (\<lambda>key. recordKey (wh_result_digest wh) key ''system'' ''webhook_receive'')
          (webhook_event_id payload) (pure (webhook_accepted (webhook_event_id payload)))) s)"
  by (simp add: handleIncoming_def verifySignature_iff run_simps Let_def)

lemma webhook_storable:
  "required_string 512 (hashResult digest (webhook_accepted i)) \<Longrightarrow> i \<noteq> [] \<Longrightarrow> length i \<le> 256 \<Longrightarrow>
     storable_result digest ''system'' ''webhook_receive'' i (webhook_accepted i)"
  by (simp add: storable_result_def required_string_def buildScope_def)


section \<open>On concrete webhooks\<close>

definition demo_receiver :: webhook_receiver where
  "demo_receiver =
     \<lparr>wh_digests = \<lparr>dg_sha256 = (\<lambda>m. m), dg_hmac = (\<lambda>k m. k @ m)\<rparr>, wh_stringify = (\<lambda>_. ''{}''),
      wh_result_digest = (\<lambda>_. ''digest''), wh_secret = Some ''k''\<rparr>"


section \<open>Emission and the detection of fraud\<close>

record webhook_payload =
  wp_event :: string
  wp_emittedAt :: int
  wp_data :: metadata

record emission =
  emission_log :: "webhook_payload list"
  emission_clock :: int

definition emit :: "string \<Rightarrow> metadata \<Rightarrow> emission \<Rightarrow> emission" where
  "emit event data s =
     s\<lparr>emission_log := emission_log s @ [\<lparr>wp_event = event, wp_emittedAt = emission_clock s, wp_data = data\<rparr>]\<rparr>"

datatype fraud_pattern_type = VELOCITY | IMMEDIATE_REDEMPTION | IDEMPOTENCY_REUSE

definition pattern_name :: "fraud_pattern_type \<Rightarrow> string" where
  "pattern_name p =
     (case p of VELOCITY \<Rightarrow> ''VELOCITY'' | IMMEDIATE_REDEMPTION \<Rightarrow> ''IMMEDIATE_REDEMPTION''
      | IDEMPOTENCY_REUSE \<Rightarrow> ''IDEMPOTENCY_REUSE'')"

record fraud_pattern =
  fp_type :: fraud_pattern_type
  fp_description :: string

record fraud_check_event =
  fe_userId :: string
  fe_fields :: metadata

text \<open>The three checks are stubs of the source.\<close>

definition isVelocityAnomaly :: "fraud_check_event \<Rightarrow> bool" where
  "isVelocityAnomaly event = False"

definition isImmediateRedemption :: "fraud_check_event \<Rightarrow> bool" where
  "isImmediateRedemption event = False"

definition isIdempotencyReuse :: "fraud_check_event \<Rightarrow> bool" where
  "isIdempotencyReuse event = False"

definition checkPatterns :: "fraud_check_event \<Rightarrow> fraud_pattern list" where
  "checkPatterns event =
     (if isVelocityAnomaly event
      then [\<lparr>fp_type = VELOCITY, fp_description = ''Abnormally high point-earn rate detected within window''\<rparr>] else []) @
     (if isImmediateRedemption event
      then [\<lparr>fp_type = IMMEDIATE_REDEMPTION,
             fp_description = ''Redemption detected immediately after a large earn event''\<rparr>] else []) @
     (if isIdempotencyReuse event
      then [\<lparr>fp_type = IDEMPOTENCY_REUSE,
             fp_description = ''Idempotency key reused across distinct operation types''\<rparr>] else [])"

definition pattern_json :: "fraud_pattern \<Rightarrow> json" where
  "pattern_json p = JObj [(''type'', JStr (pattern_name (fp_type p))), (''description'', JStr (fp_description p))]"

definition detectFraud :: "fraud_check_event \<Rightarrow> emission \<Rightarrow> fraud_pattern list \<times> emission" where
  "detectFraud event s =
     (let patterns = checkPatterns event in
      (patterns,
       if patterns \<noteq> []
       then emit ''fraud.signal''
         [(''patterns'', JArr (map pattern_json patterns)), (''userId'', JStr (fe_userId event)),
          (''evidence'', JObj ((''userId'', JStr (fe_userId event)) # fe_fields event)), (''detectedAt'', JNum (of_int (emission_clock s)))] s
       else s))"

text \<open>With these stubs no event is ever signalled.\<close>

lemma no_fraud_signalled: "detectFraud event s = ([], s)"
  by (simp add: detectFraud_def checkPatterns_def isVelocityAnomaly_def isImmediateRedemption_def
      isIdempotencyReuse_def)

end
