(* ===== verification/Ledger_Api.thy ===== *)
theory Ledger_Api
  imports Ledger_Properties JS_Date
begin

text \<open>
  The interfaces to the ledger: the REST controller that lists transactions and shows a balance
  (\<open>src/api/ledger.controller.ts\<close>), the controller that credits and deducts promotional points
  (\<open>src/controllers/wallet.controller.ts\<close>), and the reconciliation of an account's full history
  (\<open>src/services/reconciliation.service.ts\<close>).

  How the text of a date is parsed is left to the implementation of JavaScript for most formats,
  and is a parameter here; a text that is no date is refused by the query.  The log of a mismatch
  is not modelled.
\<close>

section \<open>The ledger controller\<close>

datatype type_parameter = Credit_only | Debit_only | All_types

record list_transactions_request =
  lt_userId :: "string option"
  lt_type :: "type_parameter option"
  lt_startDate :: "string option"
  lt_endDate :: "string option"
  lt_limit :: "nat option"
  lt_offset :: "nat option"

record listed_transaction =
  li_id :: string
  li_userId :: string
  li_amount :: rat
  li_type :: string
  li_reason :: string
  li_metadata :: "metadata option"
  li_timestamp :: string
  li_idempotencyKey :: string
  li_previousBalance :: rat
  li_newBalance :: rat
  li_requestId :: string

record transaction_list_response =
  ll_transactions :: "listed_transaction list"
  ll_limit :: nat
  ll_offset :: nat
  ll_total :: nat
  ll_hasMore :: bool

definition listed :: "ledger_entry \<Rightarrow> listed_transaction" where
  "listed entry =
     \<lparr>li_id = l_transactionId entry, li_userId = l_accountId entry, li_amount = l_amount entry,
      li_type = (case l_type entry of CREDIT \<Rightarrow> ''credit'' | DEBIT \<Rightarrow> ''debit''),
      li_reason = reason_string (l_reason entry), li_metadata = l_metadata entry,
      li_timestamp = toISOString (l_timestamp entry), li_idempotencyKey = l_idempotencyKey entry,
      li_previousBalance = l_balanceBefore entry, li_newBalance = l_balanceAfter entry,
      li_requestId = l_requestId entry\<rparr>"

text \<open>A date that is given and not empty; \<open>Inl\<close> when it is no date.\<close>

definition date_parameter :: "(string \<Rightarrow> int option) \<Rightarrow> string option \<Rightarrow> error + int option" where
  "date_parameter parse text =
     (if \<not> truthy text then Inr None
      else (case parse (the text) of
          None \<Rightarrow> Inl (Plain ''Cast to date failed'')
        | Some t \<Rightarrow> Inr (Some t)))"

definition type_filter :: "type_parameter option \<Rightarrow> transaction_type option" where
  "type_filter t = (case t of Some Credit_only \<Rightarrow> Some CREDIT | Some Debit_only \<Rightarrow> Some DEBIT | _ \<Rightarrow> None)"

definition listing_filter :: "list_transactions_request \<Rightarrow> int option \<Rightarrow> int option \<Rightarrow> ledger_query_filter" where
  "listing_filter request startDate endDate =
     \<lparr>f_accountId = lt_userId request,
      f_accountType = (if truthy (lt_userId request) then Some User else None),
      f_type = type_filter (lt_type request), f_reason = None, f_balanceState = None, f_escrowId = None,
      f_queueItemId = None, f_featureType = None, f_startDate = startDate, f_endDate = endDate,
      f_offset = Some (case lt_offset request of None \<Rightarrow> 0 | Some n \<Rightarrow> n),
      f_limit = Some (min (case lt_limit request of None \<Rightarrow> 100 | Some n \<Rightarrow> if n = 0 then 100 else n) 1000),
      f_sortBy = Some By_timestamp, f_sortOrder = Some Desc, f_tenantId = None\<rparr>"

definition listTransactions ::
  "(string \<Rightarrow> int option) \<Rightarrow> list_transactions_request \<Rightarrow> transaction_list_response svc" where
  "listTransactions parse request =
     await (lift_result (date_parameter parse (lt_startDate request))) (\<lambda>startDate.
     await (lift_result (date_parameter parse (lt_endDate request))) (\<lambda>endDate.
     await (queryEntries (listing_filter request startDate endDate)) (\<lambda>result.
     pure \<lparr>ll_transactions = map listed (q_entries result), ll_limit = q_limit result,
           ll_offset = q_offset result, ll_total = q_totalCount result, ll_hasMore = q_hasMore result\<rparr>)))"

record balance_response =
  br_userId :: string
  br_available :: rat
  br_escrow :: "rat option"
  br_total :: rat
  br_asOf :: string

definition ledger_getBalance :: "string \<Rightarrow> string \<Rightarrow> balance_response svc" where
  "ledger_getBalance currency userId =
     await (getBalanceSnapshot currency userId User None None) (\<lambda>snapshot.
     pure \<lparr>br_userId = bs_accountId snapshot, br_available = bs_availableBalance snapshot,
           br_escrow = bs_escrowBalance snapshot,
           br_total = bs_availableBalance snapshot + or_zero (bs_escrowBalance snapshot),
           br_asOf = toISOString (bs_asOf snapshot)\<rparr>)"

section \<open>The controller of promotional credits and debits\<close>

record wallet_mutation_body =
  wm_accountId :: string
  wm_amount :: rat
  wm_reason :: string
  wm_idempotencyKey :: "string option"
  wm_source :: "string option"

definition mutation_source :: "wallet_mutation_body \<Rightarrow> string" where
  "mutation_source body = (case wm_source body of None \<Rightarrow> ''API'' | Some source \<Rightarrow> source)"

definition credit :: "string \<Rightarrow> wallet_mutation_body \<Rightarrow> bool svc" where
  "credit currency body =
     creditPoints currency (wm_accountId body) (wm_amount body) (mutation_source body) (wm_reason body)
       (wm_idempotencyKey body)"

definition deduct :: "string \<Rightarrow> wallet_mutation_body \<Rightarrow> bool svc" where
  "deduct currency body =
     deductPoints currency (wm_accountId body) (wm_amount body) (mutation_source body) (wm_reason body)
       (wm_idempotencyKey body)"

section \<open>The reconciliation service\<close>

record reconciliation_result =
  rr_balanced :: bool
  rr_details :: reconciliation_report

definition reconcileAccount :: "string \<Rightarrow> string \<Rightarrow> account_type \<Rightarrow> string \<Rightarrow> reconciliation_result svc" where
  "reconcileAccount currency accountId accountType tenantId =
     await new_date (\<lambda>now.
     await (generateReconciliationReport currency accountId accountType 0 now tenantId) (\<lambda>report.
     pure \<lparr>rr_balanced = rc_reconciled report, rr_details = report\<rparr>))"

definition reconcileUser :: "string \<Rightarrow> string \<Rightarrow> string \<Rightarrow> reconciliation_result svc" where
  "reconcileUser currency userId tenantId = reconcileAccount currency userId User tenantId"

definition reconcileModel :: "string \<Rightarrow> string \<Rightarrow> string \<Rightarrow> reconciliation_result svc" where
  "reconcileModel currency modelId tenantId = reconcileAccount currency modelId Model tenantId"

section \<open>What the interfaces show\<close>

lemma run_ledger_getBalance:
  "\<exists>r. run (ledger_getBalance currency a) s = (Inr r, s) \<and> br_userId r = a \<and> br_available r = ledger_available s a"
  by (simp add: ledger_getBalance_def run_simps run_getBalanceSnapshot Let_def ledger_available_def)

text \<open>
  What the interface of promotional points accepts is what the ledger's balance shows next: after
  a credit of a positive amount the available balance of the account is higher by the amount,
  after a deduction that is covered it is lower by it and not negative, and a deduction that is
  not covered is refused with the two amounts and changes nothing.
\<close>

theorem mutation_shows_in_balance:
  assumes "0 < wm_amount body" and "wm_idempotencyKey body = Some key"
    and "promo_ready currency (wm_accountId body) (mutation_source body) (wm_reason body) key s"
  shows "(\<exists>s' r. run (credit currency body) s = (Inr True, s') \<and>
      run (ledger_getBalance currency (wm_accountId body)) s' = (Inr r, s') \<and>
      br_available r = ledger_available s (wm_accountId body) + wm_amount body) \<and>
    (if wm_amount body \<le> ledger_available s (wm_accountId body)
     then \<exists>s' r. run (deduct currency body) s = (Inr True, s') \<and>
       run (ledger_getBalance currency (wm_accountId body)) s' = (Inr r, s') \<and>
       br_available r = ledger_available s (wm_accountId body) - wm_amount body \<and> 0 \<le> br_available r
     else run (deduct currency body) s =
       (Inl (DeductInsufficient (wm_accountId body) (ledger_available s (wm_accountId body)) (wm_amount body)), s))"
proof (intro conjI)
  obtain s' where "run (credit currency body) s = (Inr True, s')"
    "ledger_available s' (wm_accountId body) = ledger_available s (wm_accountId body) + wm_amount body"
    using creditPoints_moves_snapshot [OF assms(1,3)] assms(2) by (auto simp: credit_def)
  then show "\<exists>s' r. run (credit currency body) s = (Inr True, s') \<and>
      run (ledger_getBalance currency (wm_accountId body)) s' = (Inr r, s') \<and>
      br_available r = ledger_available s (wm_accountId body) + wm_amount body"
    using run_ledger_getBalance [of currency "wm_accountId body" s'] by metis
next
  show "if wm_amount body \<le> ledger_available s (wm_accountId body)
     then \<exists>s' r. run (deduct currency body) s = (Inr True, s') \<and>
       run (ledger_getBalance currency (wm_accountId body)) s' = (Inr r, s') \<and>
       br_available r = ledger_available s (wm_accountId body) - wm_amount body \<and> 0 \<le> br_available r
     else run (deduct currency body) s =
       (Inl (DeductInsufficient (wm_accountId body) (ledger_available s (wm_accountId body)) (wm_amount body)), s)"
    using deductPoints_moves_snapshot [OF assms(1,3)] assms(2) run_ledger_getBalance [of currency "wm_accountId body"]
    unfolding deduct_def by (simp split: if_splits) metis
qed

text \<open>
  A listing for a user holds transactions of that user only, from the newest to the oldest, as many
  as the page size allows (100 unless another is given, never more than 1000), and its total counts
  all that match.  Without a user, or with an empty one, there is no restriction to an account.
\<close>

definition listing_matches :: "list_transactions_request \<Rightarrow> ledger_entry \<Rightarrow> bool" where
  "listing_matches request e \<longleftrightarrow>
     (truthy (lt_userId request) \<longrightarrow> Some (l_accountId e) = lt_userId request \<and> l_accountType e = User) \<and>
     (case type_filter (lt_type request) of None \<Rightarrow> True | Some t \<Rightarrow> l_type e = t)"

theorem listing_of_user:
  assumes "lt_startDate request = None" and "lt_endDate request = None"
  shows "\<exists>response entries. run (listTransactions parse request) s = (Inr response, s) \<and>
    ll_transactions response = map listed (map mapToDomain entries) \<and>
    set entries \<subseteq> {e\<in>set (ledger_entries s). listing_matches request e} \<and>
    sorted (map (\<lambda>e. - l_timestamp e) entries) \<and>
    length entries \<le> ll_limit response \<and> ll_limit response \<le> 1000 \<and>
    ll_total response = length (filter (listing_matches request) (ledger_entries s)) \<and>
    (ll_offset response = 0 \<and> ll_total response \<le> ll_limit response \<longrightarrow>
       mset entries = mset (filter (listing_matches request) (ledger_entries s)))"
proof -
  let ?f = "listing_filter request None None"
  let ?m = "query_sorted ?f (filter (query_matches ?f) (ledger_entries s))"
  let ?entries = "take (query_limit ?f) (drop (query_offset ?f) ?m)"
  have matches: "query_matches ?f = listing_matches request"
    by (auto simp: fun_eq_iff query_matches_def listing_matches_def listing_filter_def str_match_def opt_match_def
        truthy_def split: option.splits)
  have sorted: "sorted (map (\<lambda>e. - l_timestamp e) ?m)"
  proof -
    have "sorted (map (\<lambda>e. - of_int (l_timestamp e) :: rat) ?m)"
      by (simp add: query_sorted_def listing_filter_def sort_entries_def sort_value_def)
    then show ?thesis by (simp add: sorted_iff_nth_mono)
  qed
  have set: "set ?entries \<subseteq> set ?m" by (meson order_trans set_drop_subset set_take_subset)
  have "set ?m = {e\<in>set (ledger_entries s). listing_matches request e}"
    by (auto simp: query_sorted_def matches)
  moreover have "mset ?entries = mset (filter (listing_matches request) (ledger_entries s))"
    if "query_offset ?f = 0" "length ?m \<le> query_limit ?f"
    using that by (simp add: query_sorted_def sort_entries_def matches)
  moreover have len: "length ?m = length (filter (listing_matches request) (ledger_entries s))"
    by (simp add: query_sorted_def matches)
  moreover have "query_limit ?f \<le> 1000" by (simp add: query_limit_def)
  moreover have "sorted (map (\<lambda>e. - l_timestamp e) ?entries)"
    unfolding take_map [symmetric] drop_map [symmetric] by (intro sorted_wrt_take sorted_wrt_drop sorted)
  ultimately show ?thesis
    using assms set
    by (intro exI [of _ "\<lparr>ll_transactions = map listed (map mapToDomain ?entries), ll_limit = query_limit ?f,
          ll_offset = query_offset ?f, ll_total = length ?m,
          ll_hasMore = (query_offset ?f + length ?entries < length ?m)\<rparr>"] exI [of _ ?entries])
      (simp add: listTransactions_def date_parameter_def truthy_def run_simps run_queryEntries Let_def)
qed

text \<open>
  On a ledger that the services have written, with no entry from before the epoch or from the
  future, the reconciliation of an account reports a match exactly when the account holds nothing
  (less than one cent): as no entry carries a tenant, the history it adds up is empty, so every
  account with points is reported as a mismatch.
\<close>

theorem reconcile_flags_every_balance:
  assumes "ledger_wf s" and "\<forall>e\<in>set (ledger_entries s). 0 < l_timestamp e \<and> l_timestamp e \<le> clock s"
  shows "\<exists>r. run (reconcileUser currency userId tenantId) s = (Inr r, s) \<and>
    rc_totalCredits (rr_details r) = 0 \<and> rc_totalDebits (rr_details r) = 0 \<and>
    (rr_balanced r \<longleftrightarrow> \<bar>holdings User (fold_balances (account_entries s userId User))\<bar> < 1 / 100)"
proof -
  have before: "filter (\<lambda>e. l_timestamp e \<le> 0) (account_entries s userId User) = []"
    by (rule filter_False) (use assms(2) in \<open>fastforce simp: account_entries_def\<close>)
  have now: "filter (\<lambda>e. l_timestamp e \<le> clock s) (account_entries s userId User) = account_entries s userId User"
    by (rule filter_True) (use assms(2) in \<open>simp add: account_entries_def\<close>)
  have zero: "snapshot_total s userId User 0 = 0"
    unfolding snapshot_total_def before by (simp add: holdings_def fold_balances_def)
  have total: "snapshot_total s userId User (clock s) = holdings User (fold_balances (account_entries s userId User))"
    unfolding snapshot_total_def now ..
  from reconciliation_blind [OF assms(1)] obtain r where
    "run (generateReconciliationReport currency userId User 0 (clock s) tenantId) s = (Inr r, s)"
    "rc_totalCredits r = 0" "rc_totalDebits r = 0"
    "rc_reconciled r = (\<bar>snapshot_total s userId User (clock s) - snapshot_total s userId User 0\<bar> < 1 / 100)"
    by blast
  then show ?thesis
    by (simp add: reconcileUser_def reconcileAccount_def run_simps zero total)
qed

section \<open>On concrete ledgers\<close>

definition demo_mutation :: wallet_mutation_body where
  "demo_mutation = \<lparr>wm_accountId = ''alice'', wm_amount = 80, wm_reason = ''hat'',
     wm_idempotencyKey = Some ''d1'', wm_source = None\<rparr>"

definition everything :: list_transactions_request where
  "everything = \<lparr>lt_userId = None, lt_type = Some All_types, lt_startDate = None, lt_endDate = None,
     lt_limit = None, lt_offset = None\<rparr>"

theorem mutation_shows_in_balance_witness:
  "\<exists>s' r. run (deduct ''points'' demo_mutation) one_credit = (Inr True, s') \<and>
     run (ledger_getBalance ''points'' ''alice'') s' = (Inr r, s') \<and> br_available r = 20"
proof -
  have "promo_ready ''points'' (wm_accountId demo_mutation) (mutation_source demo_mutation)
      (wm_reason demo_mutation) ''d1'' one_credit" by code_simp
  moreover have "ledger_available one_credit ''alice'' = 100" by code_simp
  ultimately show ?thesis
    using mutation_shows_in_balance [of demo_mutation "''d1''" "''points''" one_credit]
    by (auto simp: demo_mutation_def)
qed

theorem listing_of_user_witness:
  "\<exists>response entries. run (listTransactions date_of_string (everything\<lparr>lt_userId := Some ''bob''\<rparr>)) two_entries =
       (Inr response, two_entries) \<and>
     ll_transactions response = map listed (map mapToDomain entries) \<and> entries = []"
proof -
  have none: "{e \<in> set (ledger_entries two_entries). listing_matches (everything\<lparr>lt_userId := Some ''bob''\<rparr>) e} = {}"
  proof -
    have "list_all (\<lambda>e. \<not> listing_matches (everything\<lparr>lt_userId := Some ''bob''\<rparr>) e) (ledger_entries two_entries)"
      by code_simp
    then show ?thesis by (auto simp: list_all_iff)
  qed
  show ?thesis
    using listing_of_user [of "everything\<lparr>lt_userId := Some ''bob''\<rparr>" date_of_string two_entries]
    unfolding none by (auto simp: everything_def)
qed

theorem reconcile_flags_every_balance_witness:
  "\<exists>r. run (reconcileUser ''points'' ''alice'' ''acme'') two_entries = (Inr r, two_entries) \<and> \<not> rr_balanced r"
proof -
  have wf: "ledger_wf two_entries" by code_simp
  have "\<forall>e\<in>set (ledger_entries two_entries). 0 < l_timestamp e \<and> l_timestamp e \<le> clock two_entries" by code_simp
  moreover have "\<not> \<bar>holdings User (fold_balances (account_entries two_entries ''alice'' User))\<bar> < 1 / 100" by code_simp
  ultimately show ?thesis
    using reconcile_flags_every_balance [OF wf, of "''points''" "''alice''" "''acme''"] by blast
qed

end
