(* ===== verification/Merchant_Services.thy ===== *)
theory Merchant_Services
  imports Doc_Store Text_Codecs
begin

text \<open>
  The services around merchants: settlement records (\<open>src/services/settlement.service.ts\<close>), the
  exchange rate between two merchants (\<open>src/services/cross-merchant-exchange.service.ts\<close>), white
  label configurations (\<open>src/services/white-label.service.ts\<close>) and the report of liabilities, whose
  figures are constants of the source (\<open>src/services/reporting.service.ts\<close>); with the documents of
  \<open>src/db/models/settlement-record.model.ts\<close> and \<open>merchant-pair-config.model.ts\<close>.
\<close>

section \<open>Documents\<close>

datatype settlement_status = Pending | Processing | Completed | Failed

record settlement_record =
  st_settlement_id :: string
  st_tenant_id :: string
  st_period_start :: int
  st_period_end :: int
  st_total_redeemed :: rat
  st_status :: settlement_status
  st_correlation_id :: string

definition valid_settlement_record :: "settlement_record \<Rightarrow> bool" where
  "valid_settlement_record r \<longleftrightarrow>
     required_string 128 (st_settlement_id r) \<and> required_string 128 (st_tenant_id r) \<and>
     0 \<le> st_total_redeemed r \<and> required_string 128 (st_correlation_id r)"

record merchant_pair_config =
  mp_config_id :: string
  mp_tenant_id :: string
  mp_from_merchant_id :: string
  mp_to_merchant_id :: string
  mp_exchange_rate :: rat
  mp_effective_at :: int
  mp_superseded_at :: "int option"
  mp_correlation_id :: string
  mp_reason_code :: string
  mp_created_by :: string
  mp_notes :: "string option"

definition valid_merchant_pair_config :: "merchant_pair_config \<Rightarrow> bool" where
  "valid_merchant_pair_config c \<longleftrightarrow>
     required_string 128 (mp_config_id c) \<and> required_string 128 (mp_tenant_id c) \<and>
     required_string 128 (mp_from_merchant_id c) \<and> required_string 128 (mp_to_merchant_id c) \<and>
     0 \<le> mp_exchange_rate c \<and> required_string 128 (mp_correlation_id c) \<and>
     required_string 128 (mp_reason_code c) \<and> required_string 128 (mp_created_by c) \<and>
     optional_string 2048 (mp_notes c)"

text \<open>The two collections, with their unique indexes.\<close>

record merchant_store =
  settlements :: "settlement_record list"
  pair_configs :: "merchant_pair_config list"
  merchant_uuids :: "nat \<Rightarrow> string"
  merchant_uuid_count :: nat
  merchant_clock :: int

type_synonym 'a merchant = "(merchant_store, error, 'a) io"

definition same_period :: "settlement_record \<Rightarrow> settlement_record \<Rightarrow> bool" where
  "same_period a b \<longleftrightarrow> st_tenant_id a = st_tenant_id b \<and> st_period_start a = st_period_start b \<and>
     st_period_end a = st_period_end b"

definition settlement_save :: "settlement_record \<Rightarrow> unit merchant" where
  "settlement_save r = atomically (\<lambda>s.
     if \<not> valid_settlement_record r then (s, Inl (ValidationError ''SettlementRecord''))
     else if list_ex (\<lambda>x. st_settlement_id x = st_settlement_id r) (settlements s)
       then (s, Inl (DuplicateKeyError ''settlement_id''))
     else if list_ex (same_period r) (settlements s)
       then (s, Inl (DuplicateKeyError ''tenant_id, period_start, period_end''))
     else (s\<lparr>settlements := settlements s @ [r]\<rparr>, Inr ()))"

definition same_pair :: "merchant_pair_config \<Rightarrow> merchant_pair_config \<Rightarrow> bool" where
  "same_pair a b \<longleftrightarrow> mp_tenant_id a = mp_tenant_id b \<and> mp_from_merchant_id a = mp_from_merchant_id b \<and>
     mp_to_merchant_id a = mp_to_merchant_id b"

definition pair_config_create :: "merchant_pair_config \<Rightarrow> unit merchant" where
  "pair_config_create c = atomically (\<lambda>s.
     if \<not> valid_merchant_pair_config c then (s, Inl (ValidationError ''MerchantPairConfig''))
     else if list_ex (\<lambda>x. mp_config_id x = mp_config_id c) (pair_configs s)
       then (s, Inl (DuplicateKeyError ''config_id''))
     else if mp_superseded_at c = None \<and> list_ex (\<lambda>x. mp_superseded_at x = None \<and> same_pair x c) (pair_configs s)
       then (s, Inl (DuplicateKeyError ''tenant_id, from_merchant_id, to_merchant_id''))
     else (s\<lparr>pair_configs := pair_configs s @ [c]\<rparr>, Inr ()))"

definition merchant_uuid :: "string merchant" where
  "merchant_uuid = atomically (\<lambda>s. (s\<lparr>merchant_uuid_count := Suc (merchant_uuid_count s)\<rparr>,
     Inr (merchant_uuids s (merchant_uuid_count s))))"

section \<open>Settlement\<close>

definition settlePeriod :: "string \<Rightarrow> int \<Rightarrow> int \<Rightarrow> string option \<Rightarrow> settlement_record merchant" where
  "settlePeriod tenantId periodStart periodEnd correlationId =
     await merchant_uuid (\<lambda>settlementId.
     await (case correlationId of Some c \<Rightarrow> pure c | None \<Rightarrow> merchant_uuid) (\<lambda>correlation.
     let r = \<lparr>st_settlement_id = settlementId, st_tenant_id = tenantId, st_period_start = periodStart,
       st_period_end = periodEnd, st_total_redeemed = 0, st_status = Pending, st_correlation_id = correlation\<rparr> in
     await (settlement_save r) (\<lambda>_. pure r)))"

section \<open>Exchange between merchants\<close>

definition getDefaultExchangeRate :: rat where
  "getDefaultExchangeRate = 1"

definition getExchangeRate :: "string \<Rightarrow> string \<Rightarrow> string \<Rightarrow> rat merchant" where
  "getExchangeRate tenantId fromMerchantId toMerchantId =
     await (query merchant_clock) (\<lambda>now.
     await (query (\<lambda>s. find (\<lambda>c. mp_tenant_id c = tenantId \<and> mp_from_merchant_id c = fromMerchantId \<and>
         mp_to_merchant_id c = toMerchantId \<and> mp_effective_at c \<le> now \<and> mp_superseded_at c = None)
       (pair_configs s))) (\<lambda>config.
     pure (case config of None \<Rightarrow> getDefaultExchangeRate | Some c \<Rightarrow> mp_exchange_rate c)))"

section \<open>White label\<close>

record white_label_config =
  wl_merchantId :: string
  wl_brandName :: string
  wl_logoUrl :: "string option"
  wl_primaryColor :: string
  wl_serviceBureauMode :: bool

type_synonym white_label_store = "(string \<times> white_label_config) list"

definition hex_color :: "string \<Rightarrow> bool" where
  "hex_color s =
     (case s of
        [] \<Rightarrow> False
      | c # ds \<Rightarrow> c = CHR ''#'' \<and> (length ds = 3 \<or> length ds = 6) \<and> list_all (\<lambda>d. hex_value d \<noteq> None) ds)"

definition default_white_label :: "string \<Rightarrow> white_label_config" where
  "default_white_label merchantId =
     \<lparr>wl_merchantId = merchantId, wl_brandName = ''Default Merchant'', wl_logoUrl = None,
      wl_primaryColor = ''#4c1d95'', wl_serviceBureauMode = True\<rparr>"

definition getConfig :: "string \<Rightarrow> white_label_store \<Rightarrow> white_label_config" where
  "getConfig merchantId configs =
     (case map_of configs merchantId of None \<Rightarrow> default_white_label merchantId | Some c \<Rightarrow> c)"

definition saveConfig :: "white_label_config \<Rightarrow> white_label_store \<Rightarrow> (error + unit) \<times> white_label_store" where
  "saveConfig config configs =
     (if wl_merchantId config = [] then (Inl (Plain ''merchantId is required''), configs)
      else if wl_brandName config = [] \<or> trim (wl_brandName config) = []
        then (Inl (Plain ''brandName is required''), configs)
      else if wl_primaryColor config = [] \<or> \<not> hex_color (wl_primaryColor config)
        then (Inl (Plain ''primaryColor must be a valid hex colour (e.g. #4c1d95)''), configs)
      else (Inr (), AList.update (wl_merchantId config) config configs))"

section \<open>Reports\<close>

record liability_report =
  lb_totalPromotionalIssued :: rat
  lb_totalBurned :: rat
  lb_outstandingLiability :: rat
  lb_asOf :: int

definition getLiabilityReport :: "liability_report merchant" where
  "getLiabilityReport =
     (let totalPromotionalIssued = 245000; totalBurned = 87000 in
      await (query merchant_clock) (\<lambda>now.
      pure \<lparr>lb_totalPromotionalIssued = totalPromotionalIssued, lb_totalBurned = totalBurned,
            lb_outstandingLiability = totalPromotionalIssued - totalBurned, lb_asOf = now\<rparr>))"

section \<open>A period is settled once\<close>

definition settlements_unique :: "merchant_store \<Rightarrow> bool" where
  "settlements_unique s \<longleftrightarrow>
     distinct (map (\<lambda>r. (st_tenant_id r, st_period_start r, st_period_end r)) (settlements s)) \<and>
     distinct (map st_settlement_id (settlements s)) \<and> list_all valid_settlement_record (settlements s)"

lemma run_settlement_save [run_simps]:
  "run (settlement_save r) s =
     (if \<not> valid_settlement_record r then (Inl (ValidationError ''SettlementRecord''), s)
      else if list_ex (\<lambda>x. st_settlement_id x = st_settlement_id r) (settlements s)
        then (Inl (DuplicateKeyError ''settlement_id''), s)
      else if list_ex (same_period r) (settlements s)
        then (Inl (DuplicateKeyError ''tenant_id, period_start, period_end''), s)
      else (Inr (), s\<lparr>settlements := settlements s @ [r]\<rparr>))"
  by (simp add: settlement_save_def run_simps)

lemma run_merchant_uuid [run_simps]:
  "run merchant_uuid s = (Inr (merchant_uuids s (merchant_uuid_count s)), s\<lparr>merchant_uuid_count := Suc (merchant_uuid_count s)\<rparr>)"
  by (simp add: merchant_uuid_def run_simps)

text \<open>Saving keeps the indexes.\<close>

lemma settlement_save_cases:
  assumes "run (settlement_save r) s = (x, s')"
  obtains (refused) e where "x = Inl e" "s' = s"
  | (saved) "x = Inr ()" "s' = s\<lparr>settlements := settlements s @ [r]\<rparr>" "valid_settlement_record r"
      "\<forall>y\<in>set (settlements s). st_settlement_id y \<noteq> st_settlement_id r \<and> \<not> same_period r y"
  using assms by (auto simp: run_settlement_save list_ex_iff split: if_splits)

lemma settlement_save_unique:
  assumes "settlements_unique s" and "run (settlement_save r) s = (x, s')"
  shows "settlements_unique s'"
  using assms(2)
proof (cases rule: settlement_save_cases)
  case refused
  then show ?thesis using assms(1) by simp
next
  case saved
  have "st_settlement_id r \<notin> st_settlement_id ` set (settlements s)" using saved(4) by fastforce
  moreover have "(st_tenant_id r, st_period_start r, st_period_end r) \<notin>
      (\<lambda>r. (st_tenant_id r, st_period_start r, st_period_end r)) ` set (settlements s)"
    using saved(4) by (fastforce simp: same_period_def)
  ultimately show ?thesis using assms(1) saved(2,3) by (simp add: settlements_unique_def)
qed

lemma settlePeriod_outcome:
  obtains r n where "st_status r = Pending" "st_total_redeemed r = 0" "st_tenant_id r = tenant"
      "st_period_start r = start" "st_period_end r = until"
    "run (settlePeriod tenant start until corr) s =
       (case run (settlement_save r) (s\<lparr>merchant_uuid_count := n\<rparr>) of
          (Inl e, s') \<Rightarrow> (Inl e, s') | (Inr _, s') \<Rightarrow> (Inr r, s'))"
proof (cases corr)
  case None
  show thesis
    by (rule that [of "\<lparr>st_settlement_id = merchant_uuids s (merchant_uuid_count s), st_tenant_id = tenant,
          st_period_start = start, st_period_end = until, st_total_redeemed = 0, st_status = Pending,
          st_correlation_id = merchant_uuids s (Suc (merchant_uuid_count s))\<rparr>" "Suc (Suc (merchant_uuid_count s))"])
      (simp_all add: None settlePeriod_def run_await run_pure run_merchant_uuid Let_def split: prod.split sum.split)
next
  case (Some c)
  show thesis
    by (rule that [of "\<lparr>st_settlement_id = merchant_uuids s (merchant_uuid_count s), st_tenant_id = tenant,
          st_period_start = start, st_period_end = until, st_total_redeemed = 0, st_status = Pending,
          st_correlation_id = c\<rparr>" "Suc (merchant_uuid_count s)"])
      (simp_all add: Some settlePeriod_def run_await run_pure run_merchant_uuid Let_def split: prod.split sum.split)
qed

text \<open>
  Settling a period yields a pending record with a total of zero, or an error and no record; the
  records of a tenant and a period stay unique, and after a period was settled, settling it again
  is refused, whoever asks: with the error of the unique index when the new record is valid and
  its id is new.
\<close>

theorem period_settled_once:
  assumes "settlements_unique s" and "run (settlePeriod tenant start until corr) s = (Inr r, s1)"
  shows "st_status r = Pending \<and> st_total_redeemed r = 0 \<and> settlements s1 = settlements s @ [r] \<and>
    settlements_unique s1 \<and>
    (\<exists>e s2. run (settlePeriod tenant start until corr2) s1 = (Inl e, s2) \<and> settlements s2 = settlements s1)"
proof -
  obtain r0 n where r0: "st_status r0 = Pending" "st_total_redeemed r0 = 0" "st_tenant_id r0 = tenant"
      "st_period_start r0 = start" "st_period_end r0 = until"
    and out: "run (settlePeriod tenant start until corr) s =
       (case run (settlement_save r0) (s\<lparr>merchant_uuid_count := n\<rparr>) of
          (Inl e, s') \<Rightarrow> (Inl e, s') | (Inr _, s') \<Rightarrow> (Inr r0, s'))"
    by (rule settlePeriod_outcome)
  have r: "st_status r = Pending" "st_total_redeemed r = 0" "st_tenant_id r = tenant"
      "st_period_start r = start" "st_period_end r = until"
    and save: "run (settlement_save r) (s\<lparr>merchant_uuid_count := n\<rparr>) = (Inr (), s1)"
    using out assms(2) r0 by (auto split: prod.splits sum.splits)
  have stored: "settlements s1 = settlements s @ [r]"
    using save by (cases rule: settlement_save_cases) simp_all
  have unique: "settlements_unique s1"
    using settlement_save_unique [OF _ save] assms(1) by (simp add: settlements_unique_def)
  obtain r2 n2 where r2: "st_tenant_id r2 = tenant" "st_period_start r2 = start" "st_period_end r2 = until"
    and out2: "run (settlePeriod tenant start until corr2) s1 =
       (case run (settlement_save r2) (s1\<lparr>merchant_uuid_count := n2\<rparr>) of
          (Inl e, s') \<Rightarrow> (Inl e, s') | (Inr _, s') \<Rightarrow> (Inr r2, s'))"
    by (rule settlePeriod_outcome)
  have "list_ex (same_period r2) (settlements s1)" using r2 r stored by (simp add: same_period_def)
  then have "\<exists>e. run (settlement_save r2) (s1\<lparr>merchant_uuid_count := n2\<rparr>) = (Inl e, s1\<lparr>merchant_uuid_count := n2\<rparr>)"
    by (simp add: run_settlement_save)
  then obtain e where "run (settlement_save r2) (s1\<lparr>merchant_uuid_count := n2\<rparr>) = (Inl e, s1\<lparr>merchant_uuid_count := n2\<rparr>)" ..
  then show ?thesis using r stored unique out2 by simp
qed

section \<open>The rate in force\<close>

definition pairs_unique :: "merchant_store \<Rightarrow> bool" where
  "pairs_unique s \<longleftrightarrow>
     (\<forall>c\<in>set (pair_configs s). \<forall>d\<in>set (pair_configs s).
        mp_superseded_at c = None \<and> mp_superseded_at d = None \<and> same_pair c d \<longrightarrow> c = d)"

text \<open>The index of the collection keeps the active row of a pair unique.\<close>

lemma pair_config_create_unique:
  assumes "pairs_unique s"
  shows "pairs_unique (snd (run (pair_config_create c) s))"
proof (cases "mp_superseded_at c = None \<and> list_ex (\<lambda>x. mp_superseded_at x = None \<and> same_pair x c) (pair_configs s)")
  case True
  then show ?thesis using assms by (simp add: pair_config_create_def run_simps)
next
  case False
  then have other: "\<forall>x\<in>set (pair_configs s). \<not> (mp_superseded_at x = None \<and> mp_superseded_at c = None \<and>
      (same_pair x c \<or> same_pair c x))"
    by (auto simp: list_ex_iff same_pair_def)
  have "pairs_unique (s\<lparr>pair_configs := pair_configs s @ [c]\<rparr>)"
    unfolding pairs_unique_def
  proof (intro ballI impI)
    fix x y
    assume "x \<in> set (pair_configs (s\<lparr>pair_configs := pair_configs s @ [c]\<rparr>))"
      "y \<in> set (pair_configs (s\<lparr>pair_configs := pair_configs s @ [c]\<rparr>))"
      "mp_superseded_at x = None \<and> mp_superseded_at y = None \<and> same_pair x y"
    then show "x = y" using other assms by (auto simp: pairs_unique_def)
  qed
  then show ?thesis using assms by (simp add: pair_config_create_def run_simps)
qed

definition rate_applies :: "string \<Rightarrow> string \<Rightarrow> string \<Rightarrow> int \<Rightarrow> merchant_pair_config \<Rightarrow> bool" where
  "rate_applies tenant a b now c \<longleftrightarrow>
     mp_tenant_id c = tenant \<and> mp_from_merchant_id c = a \<and> mp_to_merchant_id c = b \<and>
     mp_effective_at c \<le> now \<and> mp_superseded_at c = None"

lemma run_getExchangeRate:
  "run (getExchangeRate tenant a b) s =
     (Inr (case find (rate_applies tenant a b (merchant_clock s)) (pair_configs s) of
        None \<Rightarrow> 1 | Some c \<Rightarrow> mp_exchange_rate c), s)"
proof -
  have "(\<lambda>c. mp_tenant_id c = tenant \<and> mp_from_merchant_id c = a \<and> mp_to_merchant_id c = b \<and>
      mp_effective_at c \<le> merchant_clock s \<and> mp_superseded_at c = None) = rate_applies tenant a b (merchant_clock s)"
    by (simp add: fun_eq_iff rate_applies_def)
  then show ?thesis by (simp add: getExchangeRate_def getDefaultExchangeRate_def run_simps cong: option.case_cong)
qed

text \<open>
  The exchange rate is that of the row for the pair that is active and already effective, of which
  there is at most one, and 1 when there is none; looking it up changes nothing.
\<close>

theorem exchange_rate_of_active_row:
  assumes "pairs_unique s"
  shows "\<exists>rate. run (getExchangeRate tenant a b) s = (Inr rate, s) \<and>
    (\<forall>c\<in>set (pair_configs s). rate_applies tenant a b (merchant_clock s) c \<longrightarrow> rate = mp_exchange_rate c) \<and>
    ((\<forall>c\<in>set (pair_configs s). \<not> rate_applies tenant a b (merchant_clock s) c) \<longrightarrow> rate = 1)"
proof (cases "find (rate_applies tenant a b (merchant_clock s)) (pair_configs s)")
  case None
  then have "run (getExchangeRate tenant a b) s = (Inr 1, s)" by (simp add: run_getExchangeRate)
  with None show ?thesis by (auto simp: find_None_iff)
next
  case (Some c)
  then have c: "c \<in> set (pair_configs s)" "rate_applies tenant a b (merchant_clock s) c"
    by (auto simp: find_Some_iff)
  have same: "d = c" if "d \<in> set (pair_configs s)" "rate_applies tenant a b (merchant_clock s) d" for d
  proof -
    have "mp_superseded_at d = None \<and> mp_superseded_at c = None \<and> same_pair d c"
      using that(2) c(2) by (simp add: rate_applies_def same_pair_def)
    with assms that(1) c(1) show ?thesis unfolding pairs_unique_def by blast
  qed
  have "run (getExchangeRate tenant a b) s = (Inr (mp_exchange_rate c), s)" using Some by (simp add: run_getExchangeRate)
  then show ?thesis using same c by blast
qed

text \<open>
  The collection documents that the row in force at a moment is the one that is effective and not
  yet superseded.  A row whose end is set in advance is in force until then, but the lookup passes
  over it: the rate falls back to 1 until the next row is effective.
\<close>

definition row_in_force :: "int \<Rightarrow> merchant_pair_config \<Rightarrow> bool" where
  "row_in_force now c \<longleftrightarrow> mp_effective_at c \<le> now \<and> (case mp_superseded_at c of None \<Rightarrow> True | Some t \<Rightarrow> now < t)"

theorem scheduled_end_suspends_rate:
  assumes "c \<in> set (pair_configs s)" and "row_in_force (merchant_clock s) c" and "mp_superseded_at c \<noteq> None"
    and "\<forall>d\<in>set (pair_configs s). same_pair c d \<and> mp_superseded_at d = None \<longrightarrow> merchant_clock s < mp_effective_at d"
  shows "run (getExchangeRate (mp_tenant_id c) (mp_from_merchant_id c) (mp_to_merchant_id c)) s = (Inr 1, s)"
proof -
  have "find (rate_applies (mp_tenant_id c) (mp_from_merchant_id c) (mp_to_merchant_id c) (merchant_clock s))
      (pair_configs s) = None"
    using assms(4) by (fastforce simp: find_None_iff rate_applies_def same_pair_def)
  then show ?thesis by (simp add: run_getExchangeRate)
qed

section \<open>White label configurations\<close>

text \<open>What a save accepts.\<close>

definition acceptable :: "white_label_config \<Rightarrow> bool" where
  "acceptable c \<longleftrightarrow> wl_merchantId c \<noteq> [] \<and> trim (wl_brandName c) \<noteq> [] \<and> hex_color (wl_primaryColor c)"

lemma saveConfig_accepts:
  "saveConfig c configs =
     (if acceptable c then (Inr (), AList.update (wl_merchantId c) c configs)
      else (fst (saveConfig c configs), configs))"
  "fst (saveConfig c configs) = Inr () \<longleftrightarrow> acceptable c"
proof -
  have "trim [] = []" "\<not> hex_color []" by (simp_all add: trim_def hex_color_def)
  then show "saveConfig c configs =
     (if acceptable c then (Inr (), AList.update (wl_merchantId c) c configs)
      else (fst (saveConfig c configs), configs))" "fst (saveConfig c configs) = Inr () \<longleftrightarrow> acceptable c"
    by (auto simp: saveConfig_def acceptable_def)
qed

definition after_saves :: "white_label_config list \<Rightarrow> white_label_store" where
  "after_saves cs = foldl (\<lambda>configs c. snd (saveConfig c configs)) [] cs"

lemma getConfig_after_save:
  "getConfig m (after_saves (cs @ [c])) =
     (if acceptable c \<and> wl_merchantId c = m then c else getConfig m (after_saves cs))"
proof -
  have "after_saves (cs @ [c]) = snd (saveConfig c (after_saves cs))" by (simp add: after_saves_def)
  moreover have "\<dots> = (if acceptable c then AList.update (wl_merchantId c) c (after_saves cs) else after_saves cs)"
    using saveConfig_accepts(1) [of c "after_saves cs"] by (cases "acceptable c") (metis snd_conv)+
  ultimately show ?thesis by (auto simp: getConfig_def update_conv')
qed

text \<open>
  Whatever configurations are saved, in whatever order, the configuration of a merchant is the last
  acceptable one that was saved for it, and the default of the service bureau when there is none: a
  save that is refused changes nothing, and one merchant's save does not touch another's.
\<close>

theorem white_label_last_accepted:
  "getConfig m (after_saves cs) =
     (case find (\<lambda>c. wl_merchantId c = m \<and> acceptable c) (rev cs) of
        None \<Rightarrow> default_white_label m | Some c \<Rightarrow> c)"
proof (induction cs rule: rev_induct)
  case Nil
  then show ?case by (simp add: getConfig_def after_saves_def)
next
  case (snoc c cs)
  then show ?case by (simp add: getConfig_after_save)
qed

text \<open>So every configuration that is shown has a colour and a brand.\<close>

lemma shown_config_acceptable:
  "m \<noteq> [] \<Longrightarrow> acceptable (getConfig m (after_saves cs)) \<and> wl_merchantId (getConfig m (after_saves cs)) = m"
proof (induction cs rule: rev_induct)
  case Nil
  moreover have "hex_color ''#4c1d95'' \<and> trim ''Default Merchant'' \<noteq> []" by code_simp
  ultimately show ?case by (simp add: getConfig_def after_saves_def acceptable_def default_white_label_def)
next
  case (snoc c cs)
  then show ?case by (simp add: getConfig_after_save)
qed

section \<open>On concrete merchants\<close>

definition demo_merchants :: merchant_store where
  "demo_merchants =
     \<lparr>settlements = [], pair_configs =
        [\<lparr>mp_config_id = ''c1'', mp_tenant_id = ''t'', mp_from_merchant_id = ''a'', mp_to_merchant_id = ''b'',
          mp_exchange_rate = 2, mp_effective_at = 0, mp_superseded_at = Some 100, mp_correlation_id = ''x'',
          mp_reason_code = ''r'', mp_created_by = ''ops'', mp_notes = None\<rparr>,
         \<lparr>mp_config_id = ''c2'', mp_tenant_id = ''t'', mp_from_merchant_id = ''a'', mp_to_merchant_id = ''b'',
          mp_exchange_rate = 3, mp_effective_at = 100, mp_superseded_at = None, mp_correlation_id = ''x'',
          mp_reason_code = ''r'', mp_created_by = ''ops'', mp_notes = None\<rparr>],
      merchant_uuids = (\<lambda>n. replicate (Suc n) CHR ''u''), merchant_uuid_count = 0, merchant_clock = 50\<rparr>"

lemma demo_merchants_unique: "pairs_unique demo_merchants" "settlements_unique demo_merchants"
  by (auto simp: pairs_unique_def settlements_unique_def demo_merchants_def same_pair_def)

theorem period_settled_once_witness:
  "\<exists>r s1 e s2. run (settlePeriod ''t'' 0 10 None) demo_merchants = (Inr r, s1) \<and>
     run (settlePeriod ''t'' 0 10 (Some ''again'')) s1 = (Inl e, s2) \<and> settlements s2 = settlements s1"
proof -
  obtain r s1 where "run (settlePeriod ''t'' 0 10 None) demo_merchants = (Inr r, s1)"
    by (simp add: settlePeriod_def run_simps Let_def demo_merchants_def valid_settlement_record_def required_string_def)
  then show ?thesis using period_settled_once [OF demo_merchants_unique(2)] by blast
qed

theorem exchange_rate_of_active_row_witness:
  "\<exists>rate. run (getExchangeRate ''t'' ''a'' ''b'') (demo_merchants\<lparr>merchant_clock := 200\<rparr>) =
     (Inr rate, demo_merchants\<lparr>merchant_clock := 200\<rparr>) \<and> rate = 3"
proof -
  have "pairs_unique (demo_merchants\<lparr>merchant_clock := 200\<rparr>)"
    using demo_merchants_unique(1) by (simp add: pairs_unique_def)
  from exchange_rate_of_active_row [OF this, of "''t''" "''a''" "''b''"] show ?thesis
    by (auto simp: demo_merchants_def rate_applies_def)
qed

theorem scheduled_end_suspends_rate_witness:
  "run (getExchangeRate ''t'' ''a'' ''b'') demo_merchants = (Inr 1, demo_merchants) \<and>
   row_in_force 50 (hd (pair_configs demo_merchants)) \<and> mp_exchange_rate (hd (pair_configs demo_merchants)) = 2"
  using scheduled_end_suspends_rate [of "hd (pair_configs demo_merchants)" demo_merchants]
  by (simp add: demo_merchants_def row_in_force_def)

end
