(* ===== verification/Env_Validation.thy ===== *)
theory Env_Validation
  imports RRR_Prelude
begin

text \<open>
  The validation of the environment at start-up (\<open>src/config/env-validator.ts\<close>).  The environment
  is a map; a pattern of a rule is a predicate on the value.  Messages are kept as data: what was
  found about which rule.
\<close>

section \<open>Rules and findings\<close>

record env_rule =
  er_name :: string
  er_required :: bool
  er_minLength :: "nat option"
  er_pattern :: "(string \<Rightarrow> bool) option"
  er_description :: string
  er_isSecret :: bool

datatype env_error =
    Not_set string string
  | Too_short string nat nat string
  | Pattern_mismatch string string

datatype env_warning = Insecure_value string string

record env_result =
  ev_valid :: bool
  ev_errors :: "env_error list"
  ev_warnings :: "env_warning list"

section \<open>Validation\<close>

definition starts_with :: "string \<Rightarrow> string \<Rightarrow> bool" where
  "starts_with s p \<longleftrightarrow> take (length p) s = p"

text \<open>The patterns ignore case; the last one matches whole values only.\<close>

definition isInsecureSecret :: "string \<Rightarrow> bool" where
  "isInsecureSecret v \<longleftrightarrow>
     list_ex (starts_with (to_lower v))
       [''changeme'', ''password'', ''secret'', ''test'', ''admin'', ''default'', ''demo''] \<or>
     list_ex (starts_with (to_lower v)) [''123'', ''abc'', ''qwerty''] \<or>
     to_lower v \<in> set [''key'', ''token'', ''pass'']"

text \<open>An empty value counts as not set.\<close>

definition env_value :: "(string \<rightharpoonup> string) \<Rightarrow> string \<Rightarrow> string option" where
  "env_value env name = (case env name of None \<Rightarrow> None | Some v \<Rightarrow> if v = [] then None else Some v)"

definition rule_errors :: "(string \<rightharpoonup> string) \<Rightarrow> env_rule \<Rightarrow> env_error list" where
  "rule_errors env r =
     (case env_value env (er_name r) of
        None \<Rightarrow> (if er_required r then [Not_set (er_name r) (er_description r)] else [])
      | Some v \<Rightarrow>
          (case er_minLength r of
             None \<Rightarrow> []
           | Some n \<Rightarrow> if n \<noteq> 0 \<and> length v < n then [Too_short (er_name r) n (length v) (er_description r)] else []) @
          (case er_pattern r of
             None \<Rightarrow> []
           | Some matches \<Rightarrow> if \<not> matches v then [Pattern_mismatch (er_name r) (er_description r)] else []))"

definition rule_warnings :: "(string \<rightharpoonup> string) \<Rightarrow> env_rule \<Rightarrow> env_warning list" where
  "rule_warnings env r =
     (case env_value env (er_name r) of
        None \<Rightarrow> []
      | Some v \<Rightarrow> if er_isSecret r \<and> isInsecureSecret v then [Insecure_value (er_name r) (er_description r)] else [])"

fun validate_rules ::
  "(string \<rightharpoonup> string) \<Rightarrow> env_rule list \<Rightarrow> env_error list \<Rightarrow> env_warning list \<Rightarrow> env_error list \<times> env_warning list" where
  "validate_rules env [] errors warnings = (errors, warnings)"
| "validate_rules env (r # rs) errors warnings =
     validate_rules env rs (errors @ rule_errors env r) (warnings @ rule_warnings env r)"

definition validateEnvironment :: "(string \<rightharpoonup> string) \<Rightarrow> env_rule list \<Rightarrow> env_result" where
  "validateEnvironment env rules =
     (case validate_rules env rules [] [] of (errors, warnings) \<Rightarrow>
        \<lparr>ev_valid = (length errors = 0), ev_errors = errors, ev_warnings = warnings\<rparr>)"

text \<open>What is written to the standard error stream, and the error that is thrown.\<close>

definition assertValidEnvironment ::
  "(string \<rightharpoonup> string) \<Rightarrow> env_rule list \<Rightarrow> env_warning list \<times> (env_error list + unit)" where
  "assertValidEnvironment env rules =
     (let result = validateEnvironment env rules in
      (ev_warnings result, if \<not> ev_valid result then Inl (ev_errors result) else Inr ()))"

definition common_env_rules :: "env_rule list" where
  "common_env_rules =
     [\<lparr>er_name = ''NODE_ENV'', er_required = True, er_minLength = None,
       er_pattern = Some (\<lambda>v. v \<in> set [''development'', ''test'', ''production'']),
       er_description = ''Application environment (development, test, or production)'', er_isSecret = False\<rparr>,
      \<lparr>er_name = ''MONGODB_URI'', er_required = True, er_minLength = Some 10, er_pattern = None,
       er_description = ''MongoDB connection string'', er_isSecret = True\<rparr>,
      \<lparr>er_name = ''JWT_SECRET'', er_required = True, er_minLength = Some 32, er_pattern = None,
       er_description = ''JWT signing secret (minimum 256 bits / 32 characters)'', er_isSecret = True\<rparr>,
      \<lparr>er_name = ''QUEUE_AUTH_SECRET'', er_required = True, er_minLength = Some 32, er_pattern = None,
       er_description = ''Queue authorization token secret (minimum 256 bits / 32 characters)'', er_isSecret = True\<rparr>]"

definition initEnvironmentValidation :: "(string \<rightharpoonup> string) \<Rightarrow> env_warning list \<times> (env_error list + unit)" where
  "initEnvironmentValidation env =
     (if env ''NODE_ENV'' = Some ''production'' then assertValidEnvironment env common_env_rules else ([], Inr ()))"

section \<open>What passes\<close>

lemma validate_rules_append:
  "validate_rules env rules errors warnings =
     (errors @ concat (map (rule_errors env) rules), warnings @ concat (map (rule_warnings env) rules))"
  by (induction rules arbitrary: errors warnings) simp_all

definition rule_holds :: "(string \<rightharpoonup> string) \<Rightarrow> env_rule \<Rightarrow> bool" where
  "rule_holds env r \<longleftrightarrow>
     (case env_value env (er_name r) of
        None \<Rightarrow> \<not> er_required r
      | Some v \<Rightarrow> (case er_minLength r of None \<Rightarrow> True | Some n \<Rightarrow> n \<le> length v) \<and>
          (case er_pattern r of None \<Rightarrow> True | Some matches \<Rightarrow> matches v))"

lemma rule_errors_Nil: "rule_errors env r = [] \<longleftrightarrow> rule_holds env r"
  by (auto simp: rule_errors_def rule_holds_def split: option.splits)

lemma validation_rules_hold:
  "snd (assertValidEnvironment env rules) = Inr () \<longleftrightarrow> (\<forall>r\<in>set rules. rule_holds env r)"
  by (simp add: assertValidEnvironment_def validateEnvironment_def validate_rules_append rule_errors_Nil Let_def)

text \<open>
  Validation succeeds exactly when every rule holds: a required variable is set, and a variable
  that is set has the minimal length and the pattern of its rule.  The errors are those of the
  rules that fail, in the order of the rules; no warning makes the validation fail.
\<close>

theorem validation_decides:
  "(snd (assertValidEnvironment env rules) = Inr () \<longleftrightarrow> (\<forall>r\<in>set rules. rule_holds env r)) \<and>
   ev_errors (validateEnvironment env rules) = concat (map (rule_errors env) (filter (\<lambda>r. \<not> rule_holds env r) rules))"
proof -
  have errors: "ev_errors (validateEnvironment env rules) = concat (map (rule_errors env) rules)"
    by (simp add: validateEnvironment_def validate_rules_append)
  have "concat (map (rule_errors env) rules) = concat (map (rule_errors env) (filter (\<lambda>r. \<not> rule_holds env r) rules))"
    by (induction rules) (simp_all add: rule_errors_Nil)
  then show ?thesis unfolding errors validation_rules_hold by simp
qed

lemma required_secret_holds:
  "0 < n \<Longrightarrow> rule_holds env \<lparr>er_name = name, er_required = True, er_minLength = Some n, er_pattern = None,
     er_description = d, er_isSecret = b\<rparr> \<longleftrightarrow> (\<exists>v. env name = Some v \<and> n \<le> length v)"
  by (auto simp: rule_holds_def env_value_def split: option.splits)

lemma node_env_holds:
  "env name = Some ''production'' \<Longrightarrow> rule_holds env \<lparr>er_name = name, er_required = True, er_minLength = None,
     er_pattern = Some (\<lambda>v. v \<in> set [''development'', ''test'', ''production'']), er_description = d, er_isSecret = b\<rparr>"
  by (simp add: rule_holds_def env_value_def)

text \<open>
  The application starts exactly when it is not in production, or the three secrets are long enough.
  In particular any other value of \<open>NODE_ENV\<close>, absent or mistyped, skips every check, and a
  default such as \<open>changeme\<close>, repeated to the required length, is accepted with a warning.
\<close>

theorem start_up_decides:
  "(snd (initEnvironmentValidation env) = Inr () \<longleftrightarrow>
     (env ''NODE_ENV'' = Some ''production'' \<longrightarrow>
       (\<exists>uri jwt queue. env ''MONGODB_URI'' = Some uri \<and> 10 \<le> length uri \<and>
          env ''JWT_SECRET'' = Some jwt \<and> 32 \<le> length jwt \<and>
          env ''QUEUE_AUTH_SECRET'' = Some queue \<and> 32 \<le> length queue))) \<and>
   (env ''NODE_ENV'' \<noteq> Some ''production'' \<longrightarrow> fst (initEnvironmentValidation env) = [])"
proof (cases "env ''NODE_ENV'' = Some ''production''")
  case True
  have "(\<forall>r\<in>set common_env_rules. rule_holds env r) \<longleftrightarrow>
      (\<exists>v. env ''MONGODB_URI'' = Some v \<and> 10 \<le> length v) \<and> (\<exists>v. env ''JWT_SECRET'' = Some v \<and> 32 \<le> length v) \<and>
      (\<exists>v. env ''QUEUE_AUTH_SECRET'' = Some v \<and> 32 \<le> length v)"
    unfolding common_env_rules_def
    using node_env_holds [of env, OF True] by (simp only: list.set ball_simps required_secret_holds) simp
  moreover have "snd (initEnvironmentValidation env) = Inr () \<longleftrightarrow> (\<forall>r\<in>set common_env_rules. rule_holds env r)"
    using True validation_rules_hold by (simp add: initEnvironmentValidation_def)
  ultimately show ?thesis using True by blast
next
  case False
  then show ?thesis by (simp add: initEnvironmentValidation_def)
qed

section \<open>On concrete environments\<close>

definition production_env :: "string \<rightharpoonup> string" where
  "production_env = map_of [(''NODE_ENV'', ''production''), (''MONGODB_URI'', ''mongodb://db''),
     (''JWT_SECRET'', ''changemechangemechangemechangeme''), (''QUEUE_AUTH_SECRET'', ''queuequeuequeuequeuequeuequeueque'')]"

theorem validation_decides_witness:
  "snd (assertValidEnvironment (production_env(''JWT_SECRET'' := Some ''short'')) common_env_rules) \<noteq> Inr ()"
proof -
  have "\<exists>r\<in>set common_env_rules. \<not> rule_holds (production_env(''JWT_SECRET'' := Some ''short'')) r"
    by (rule bexI [of _ "common_env_rules ! 2"])
      (simp_all add: common_env_rules_def rule_holds_def env_value_def)
  then show ?thesis
    using validation_decides [of "production_env(''JWT_SECRET'' := Some ''short'')" common_env_rules] by blast
qed

theorem start_up_decides_witness:
  "snd (initEnvironmentValidation production_env) = Inr () \<and>
   isInsecureSecret (the (production_env ''JWT_SECRET'')) \<and>
   snd (initEnvironmentValidation [''NODE_ENV'' \<mapsto> ''prod'']) = Inr ()"
proof (intro conjI)
  show "snd (initEnvironmentValidation production_env) = Inr ()"
    using start_up_decides [of production_env] by (simp add: production_env_def)
  show "isInsecureSecret (the (production_env ''JWT_SECRET''))" by code_simp
  show "snd (initEnvironmentValidation [''NODE_ENV'' \<mapsto> ''prod'']) = Inr ()"
    using start_up_decides [of "[''NODE_ENV'' \<mapsto> ''prod'']"] by simp
qed

end
