(* ===== verification/Source_Guards.thy ===== *)
theory Source_Guards
  imports Text_Codecs
begin

text \<open>
  The guards that the build runs: queries that are not scoped to a tenant
  (\<open>scripts/ci/tenant-id-scope-check.js\<close>), balances that are written into the code
  (\<open>scripts/ci/no-hardcoded-balance.js\<close>), and tasks of the schedule that are done without a merge
  (\<open>scripts/ci/charter-integrity-check.js\<close>).  The walk over the directories is not modelled: a guard
  gets the files it finds, a path and a text each.  The regular expressions of the scripts are
  written out as matchers; a word character is a letter, a digit or an underscore.
\<close>

section \<open>Characters and words\<close>

definition is_decimal :: "char \<Rightarrow> bool" where
  "is_decimal c \<longleftrightarrow> c \<in> set ''0123456789''"

definition is_upper :: "char \<Rightarrow> bool" where
  "is_upper c \<longleftrightarrow> (let n = (of_char c :: nat) in 65 \<le> n \<and> n \<le> 90)"

definition is_word_char :: "char \<Rightarrow> bool" where
  "is_word_char c \<longleftrightarrow> (let n = (of_char c :: nat) in
     48 \<le> n \<and> n \<le> 57 \<or> 65 \<le> n \<and> n \<le> 90 \<or> n = 95 \<or> 97 \<le> n \<and> n \<le> 122)"

definition newline :: char where
  "newline = char_of (10 :: nat)"

definition ends_with :: "string \<Rightarrow> string \<Rightarrow> bool" where
  "ends_with s t \<longleftrightarrow> length t \<le> length s \<and> drop (length s - length t) s = t"

fun contains :: "string \<Rightarrow> string \<Rightarrow> bool" where
  "contains t [] \<longleftrightarrow> t = []"
| "contains t (c # s) \<longleftrightarrow> take (length t) (c # s) = t \<or> contains t s"

text \<open>The maximal runs of word characters.\<close>

fun words_from :: "string \<Rightarrow> string \<Rightarrow> string list" where
  "words_from w [] = (if w = [] then [] else [rev w])"
| "words_from w (c # s) =
     (if is_word_char c then words_from (c # w) s else (if w = [] then [] else [rev w]) @ words_from [] s)"

definition isExcludedFile :: "string \<Rightarrow> bool" where
  "isExcludedFile rel \<longleftrightarrow> ends_with rel ''.spec.ts'' \<or> ends_with rel ''.test.ts'' \<or> contains ''/__tests__/'' rel"

section \<open>The closing parenthesis\<close>

record scanner =
  depthParen :: int
  depthBracket :: int
  depthBrace :: int
  inSingle :: bool
  inDouble :: bool
  inBacktick :: bool
  inLine :: bool
  inBlock :: bool

definition scanner_start :: scanner where
  "scanner_start = \<lparr>depthParen = 0, depthBracket = 0, depthBrace = 0, inSingle = False, inDouble = False,
     inBacktick = False, inLine = False, inBlock = False\<rparr>"

abbreviation next_is :: "string \<Rightarrow> char \<Rightarrow> bool" where
  "next_is rest c \<equiv> (case rest of [] \<Rightarrow> False | x # _ \<Rightarrow> x = c)"

text \<open>
  One round of the loop: the result when it returns, or the scanner and whether the next character
  is skipped.
\<close>

datatype scan_step = Closed | Go scanner bool

definition scan_char :: "scanner \<Rightarrow> char \<Rightarrow> string \<Rightarrow> scan_step" where
  "scan_char st ch rest =
     (if inLine st then Go (if ch = newline then st\<lparr>inLine := False\<rparr> else st) False
      else if inBlock st then
        (if ch = CHR ''*'' \<and> next_is rest CHR ''/'' then Go (st\<lparr>inBlock := False\<rparr>) True else Go st False)
      else if inSingle st then
        (if ch = CHR 0x5C then Go st True
         else Go (if ch = CHR 0x27 then st\<lparr>inSingle := False\<rparr> else st) False)
      else if inDouble st then
        (if ch = CHR 0x5C then Go st True
         else Go (if ch = CHR 0x22 then st\<lparr>inDouble := False\<rparr> else st) False)
      else if inBacktick st then
        (if ch = CHR 0x5C then Go st True
         else Go (if ch = CHR 0x60 then st\<lparr>inBacktick := False\<rparr> else st) False)
      else if ch = CHR ''/'' \<and> next_is rest CHR ''/'' then Go (st\<lparr>inLine := True\<rparr>) True
      else if ch = CHR ''/'' \<and> next_is rest CHR ''*'' then Go (st\<lparr>inBlock := True\<rparr>) True
      else if ch = CHR 0x27 then Go (st\<lparr>inSingle := True\<rparr>) False
      else if ch = CHR 0x22 then Go (st\<lparr>inDouble := True\<rparr>) False
      else if ch = CHR 0x60 then Go (st\<lparr>inBacktick := True\<rparr>) False
      else if ch = CHR ''('' then Go (st\<lparr>depthParen := depthParen st + 1\<rparr>) False
      else if ch = CHR '')'' then
        (if depthParen st - 1 = 0 then Closed else Go (st\<lparr>depthParen := depthParen st - 1\<rparr>) False)
      else if ch = CHR ''['' then Go (st\<lparr>depthBracket := depthBracket st + 1\<rparr>) False
      else if ch = CHR '']'' then Go (st\<lparr>depthBracket := depthBracket st - 1\<rparr>) False
      else if ch = CHR ''{'' then Go (st\<lparr>depthBrace := depthBrace st + 1\<rparr>) False
      else if ch = CHR ''}'' then Go (st\<lparr>depthBrace := depthBrace st - 1\<rparr>) False
      else Go st False)"

function scan_from :: "scanner \<Rightarrow> nat \<Rightarrow> string \<Rightarrow> nat option" where
  "scan_from st i [] = None"
| "scan_from st i (ch # rest) =
     (case scan_char st ch rest of
        Closed \<Rightarrow> Some i
      | Go st' skip \<Rightarrow> if skip then scan_from st' (i + 2) (tl rest) else scan_from st' (i + 1) rest)"
  by pat_completeness auto

termination
  by (relation "measure (\<lambda>(_, _, s). length s)") (auto simp: less_Suc_eq_le)

definition matchClosingParen :: "string \<Rightarrow> nat \<Rightarrow> nat option" where
  "matchClosingParen source opening = scan_from scanner_start opening (drop opening source)"

section \<open>Queries without a tenant\<close>

definition query_methods :: "string list" where
  "query_methods =
     [''find'', ''findOne'', ''findById'', ''findOneAndUpdate'', ''findOneAndDelete'', ''findOneAndReplace'',
      ''updateOne'', ''updateMany'', ''deleteOne'', ''deleteMany'', ''countDocuments'', ''distinct'']"

text \<open>
  A call at the start of a text: a name that begins with a capital and ends in \<open>Model\<close>, a dot, a
  method and a parenthesis.  What follows the name and the method is no word character, so that
  both are maximal runs; the number is the length up to and with the parenthesis.
\<close>

definition match_call :: "string \<Rightarrow> (string \<times> string \<times> nat) option" where
  "match_call s =
     (let name = takeWhile is_word_char s; after_name = drop (length name) s in
      if name \<noteq> [] \<and> is_upper (hd name) \<and> ends_with (tl name) ''Model'' \<and> next_is after_name CHR ''.'' then
        (let method = takeWhile is_word_char (tl after_name);
             after_method = drop (length method) (tl after_name);
             spaces = takeWhile is_space after_method in
         if method \<in> set query_methods \<and> next_is (drop (length spaces) after_method) CHR ''(''
         then Some (name, method, length name + 1 + length method + length spaces + 1) else None)
      else None)"

lemma match_call_positive: "match_call s = Some (n, m, k) \<Longrightarrow> 0 < k"
  by (auto simp: match_call_def Let_def split: if_splits)

text \<open>All calls of a text: offset, model, method and the offset of the parenthesis.\<close>

function find_calls :: "bool \<Rightarrow> nat \<Rightarrow> string \<Rightarrow> (nat \<times> string \<times> string \<times> nat) list" where
  "find_calls after_word i [] = []"
| "find_calls after_word i (c # s) =
     (case (if after_word then None else match_call (c # s)) of
        Some (model, method, k) \<Rightarrow> (i, model, method, i + k - 1) # find_calls False (i + k) (drop k (c # s))
      | None \<Rightarrow> find_calls (is_word_char c) (i + 1) s)"
  by pat_completeness auto

termination
  by (relation "measure (\<lambda>(_, _, s). length s)") (auto split: if_splits dest: match_call_positive)

record scope_violation =
  sv_file :: string
  sv_line :: nat
  sv_model :: string
  sv_method :: string

definition lineFor :: "string \<Rightarrow> nat \<Rightarrow> nat" where
  "lineFor source idx = 1 + length (filter (\<lambda>c. c = newline) (take idx source))"

definition call_violation :: "string \<Rightarrow> string \<Rightarrow> nat \<times> string \<times> string \<times> nat \<Rightarrow> scope_violation list" where
  "call_violation rel source call =
     (case call of (idx, model, method, callOpen) \<Rightarrow>
        (case matchClosingParen source callOpen of
           None \<Rightarrow> []
         | Some callClose \<Rightarrow>
             if ''tenant_id'' \<in> set (words_from [] (take (callClose - (callOpen + 1)) (drop (callOpen + 1) source)))
             then []
             else [\<lparr>sv_file = rel, sv_line = lineFor source idx, sv_model = model, sv_method = method\<rparr>]))"

definition scope_findViolations :: "(string \<times> string) list \<Rightarrow> scope_violation list" where
  "scope_findViolations files =
     concat (map (\<lambda>(rel, source).
       if isExcludedFile rel then []
       else concat (map (call_violation rel source) (find_calls False 0 source))) files)"

definition keyOf :: "scope_violation \<Rightarrow> string" where
  "keyOf v = sv_file v @ '':'' @ show_nat (sv_line v) @ '':'' @ sv_model v @ ''.'' @ sv_method v"

text \<open>The exit code of a run against a list of known violations.\<close>

definition new_violations :: "scope_violation list \<Rightarrow> (string \<times> string) list \<Rightarrow> scope_violation list" where
  "new_violations allowlist files =
     filter (\<lambda>v. keyOf v \<notin> set (map keyOf allowlist)) (scope_findViolations files)"

definition scope_main :: "scope_violation list \<Rightarrow> (string \<times> string) list \<Rightarrow> nat" where
  "scope_main allowlist files = (if new_violations allowlist files = [] then 0 else 1)"

text \<open>The list that \<open>--update-baseline\<close> writes, up to its order.\<close>

definition update_baseline :: "(string \<times> string) list \<Rightarrow> scope_violation list" where
  "update_baseline files = scope_findViolations files"

section \<open>Balances in the code\<close>

definition allow_comment :: string where
  "allow_comment = ''// ci-allow: balance-value''"

text \<open>A name with \<open>Balance\<close> or \<open>balance\<close> in it, but not at its start.\<close>

definition balance_name :: "string \<Rightarrow> bool" where
  "balance_name w \<longleftrightarrow> w \<noteq> [] \<and> \<not> is_decimal (hd w) \<and>
     (contains ''Balance'' (tl w) \<or> contains ''balance'' (tl w))"

text \<open>A number up to a word boundary; a fraction that does not end at one is left out.\<close>

definition at_boundary :: "string \<Rightarrow> bool" where
  "at_boundary rest \<longleftrightarrow> (case rest of [] \<Rightarrow> True | c # _ \<Rightarrow> \<not> is_word_char c)"

definition match_number :: "string \<Rightarrow> string option" where
  "match_number s =
     (let sign = (if next_is s CHR ''-'' then [CHR ''-''] else []);
          t = drop (length sign) s;
          digits = (if t \<noteq> [] \<and> is_decimal (hd t) then takeWhile (\<lambda>c. is_decimal c \<or> c = CHR ''_'') t else []);
          rest = drop (length digits) t;
          fraction = (if next_is rest CHR ''.'' then takeWhile is_decimal (tl rest) else []) in
      if digits = [] then None
      else if fraction \<noteq> [] \<and> at_boundary (drop (Suc (length fraction)) rest)
        then Some (sign @ digits @ [CHR ''.''] @ fraction)
      else if at_boundary rest then Some (sign @ digits)
      else None)"

definition match_assignment :: "string \<Rightarrow> (string \<times> string) option" where
  "match_assignment s =
     (let w = takeWhile is_word_char s; rest = dropWhile is_space (drop (length w) s) in
      if balance_name w \<and> (next_is rest CHR '':'' \<or> next_is rest CHR ''='')
      then map_option (\<lambda>v. (w, v)) (match_number (dropWhile is_space (tl rest))) else None)"

text \<open>The first assignment of a line.\<close>

fun first_assignment :: "bool \<Rightarrow> string \<Rightarrow> (string \<times> string) option" where
  "first_assignment after_word [] = None"
| "first_assignment after_word (c # s) =
     (case (if after_word then None else match_assignment (c # s)) of
        Some m \<Rightarrow> Some m
      | None \<Rightarrow> first_assignment (is_word_char c) s)"

definition zero_value :: "string \<Rightarrow> bool" where
  "zero_value v =
     (let u = (if next_is v CHR ''-'' then tl v else v) in
      u = ''0'' \<or> (take 2 u = ''0.'' \<and> drop 2 u \<noteq> [] \<and> list_all (\<lambda>c. c = CHR ''0'') (drop 2 u)))"

text \<open>A line with \<open>Schema.index\<close>, spaces and a parenthesis.\<close>

fun schema_index :: "string \<Rightarrow> bool" where
  "schema_index [] = False"
| "schema_index (c # s) \<longleftrightarrow>
     take 12 (c # s) = ''Schema.index'' \<and> next_is (dropWhile is_space (drop 12 (c # s))) CHR ''('' \<or> schema_index s"

definition line_violation :: "string \<Rightarrow> (string \<times> string) option" where
  "line_violation line =
     (if contains allow_comment line then None
      else if schema_index line then None
      else (case first_assignment False line of
          None \<Rightarrow> None
        | Some (field, v) \<Rightarrow> if zero_value v then None else Some (field, v)))"

record balance_violation =
  bv_file :: string
  bv_line :: nat
  bv_field :: string
  bv_value :: string

text \<open>The lines of a text, which end in a line feed or a carriage return and a line feed.\<close>

fun lines_from :: "string \<Rightarrow> string \<Rightarrow> string list" where
  "lines_from l [] = [rev l]"
| "lines_from l (c # s) =
     (if c = newline
      then rev (if next_is l (char_of (13 :: nat)) then tl l else l) # lines_from [] s
      else lines_from (c # l) s)"

definition balance_findViolations :: "(string \<times> string) list \<Rightarrow> balance_violation list" where
  "balance_findViolations files =
     concat (map (\<lambda>(rel, source).
       if isExcludedFile rel then []
       else concat (map (\<lambda>(i, line).
         (case line_violation line of
            None \<Rightarrow> []
          | Some (field, v) \<Rightarrow> [\<lparr>bv_file = rel, bv_line = i + 1, bv_field = field, bv_value = v\<rparr>]))
         (enumerate 0 (lines_from [] source)))) files)"

definition balance_main :: "(string \<times> string) list \<Rightarrow> nat" where
  "balance_main files = (if balance_findViolations files = [] then 0 else 1)"

section \<open>The schedule\<close>

text \<open>
  Texts are their bytes in UTF-8, in which the long dash has three.  The placeholders are compared
  without regard to the case of letters.
\<close>

definition to_upper :: "char \<Rightarrow> char" where
  "to_upper c = (let n = (of_char c :: nat) in if 97 \<le> n \<and> n \<le> 122 then char_of (n - 32) else c)"

definition placeholder :: "string \<Rightarrow> bool" where
  "placeholder sha \<longleftrightarrow> sha = map char_of [226 :: nat, 128, 148] \<or> sha \<in> {''-'', ''--'', ''---''} \<or>
     map to_upper sha = ''PENDING''"

definition line_failure :: "string \<Rightarrow> (string \<times> string) option" where
  "line_failure line =
     (if take 1 line \<noteq> ''|'' then None
      else
        (let cols = map trim (split_at CHR ''|'' line) in
         if length cols < 5 then None
         else if \<not> list_ex (\<lambda>c. is_word_char c \<and> c \<noteq> CHR ''_'') (cols ! 1) then None
         else if map to_upper (cols ! 3) \<noteq> ''DONE'' then None
         else if cols ! 4 = [] \<or> placeholder (cols ! 4) then Some (cols ! 1, cols ! 4)
         else None))"

definition charter_failures :: "string \<Rightarrow> (string \<times> string) list" where
  "charter_failures source = concat (map (\<lambda>line. case line_failure line of None \<Rightarrow> [] | Some f \<Rightarrow> [f]) (lines_from [] source))"

definition charter_main :: "string option \<Rightarrow> nat" where
  "charter_main schedule =
     (case schedule of None \<Rightarrow> 0 | Some source \<Rightarrow> if charter_failures source = [] then 0 else 1)"

section \<open>The scanner is a lexer and a counter\<close>

text \<open>
  A reference: first the text is read into its characters of code, with their offsets, leaving out
  comments and what is in quotes; then the parentheses among them are counted.
\<close>

datatype mode = Code | Quoted char | Line_comment | Block_comment

text \<open>Whether the character is code, the mode behind it, and whether the next one is skipped.\<close>

definition lex_char :: "mode \<Rightarrow> char \<Rightarrow> string \<Rightarrow> bool \<times> mode \<times> bool" where
  "lex_char m c rest =
     (case m of
        Line_comment \<Rightarrow> (False, if c = newline then Code else Line_comment, False)
      | Block_comment \<Rightarrow> if c = CHR ''*'' \<and> next_is rest CHR ''/'' then (False, Code, True) else (False, Block_comment, False)
      | Quoted q \<Rightarrow> if c = CHR 0x5C then (False, m, True) else (False, if c = q then Code else m, False)
      | Code \<Rightarrow>
          if c = CHR ''/'' \<and> next_is rest CHR ''/'' then (False, Line_comment, True)
          else if c = CHR ''/'' \<and> next_is rest CHR ''*'' then (False, Block_comment, True)
          else if c \<in> {CHR 0x27, CHR 0x22, CHR 0x60} then (False, Quoted c, False)
          else (True, Code, False))"

function code_chars :: "mode \<Rightarrow> nat \<Rightarrow> string \<Rightarrow> (nat \<times> char) list" where
  "code_chars m i [] = []"
| "code_chars m i (c # s) =
     (case lex_char m c s of
        (code, m', skip) \<Rightarrow> (if code then [(i, c)] else []) @
          (if skip then code_chars m' (i + 2) (tl s) else code_chars m' (i + 1) s))"
  by pat_completeness auto

termination
  by (relation "measure (\<lambda>(_, _, s). length s)") (auto simp: less_Suc_eq_le)

definition delta :: "char \<Rightarrow> int" where
  "delta c = (if c = CHR ''('' then 1 else if c = CHR '')'' then -1 else 0)"

fun closing :: "int \<Rightarrow> (nat \<times> char) list \<Rightarrow> nat option" where
  "closing d [] = None"
| "closing d ((i, c) # cs) = (if c = CHR '')'' \<and> d - 1 = 0 then Some i else closing (d + delta c) cs)"

text \<open>The flags of the scanner exclude each other and name a mode.\<close>

definition mode_of :: "scanner \<Rightarrow> mode" where
  "mode_of st =
     (if inLine st then Line_comment else if inBlock st then Block_comment
      else if inSingle st then Quoted CHR 0x27 else if inDouble st then Quoted CHR 0x22
      else if inBacktick st then Quoted CHR 0x60 else Code)"

definition exclusive :: "scanner \<Rightarrow> bool" where
  "exclusive st \<longleftrightarrow> length (filter id [inLine st, inBlock st, inSingle st, inDouble st, inBacktick st]) \<le> 1"

definition step_refines :: "scanner \<Rightarrow> char \<Rightarrow> string \<Rightarrow> bool" where
  "step_refines st c rest \<longleftrightarrow>
     (case lex_char (mode_of st) c rest of
        (code, m', skip) \<Rightarrow>
          (case scan_char st c rest of
             Closed \<Rightarrow> code \<and> c = CHR '')'' \<and> depthParen st = 1
           | Go st' skip' \<Rightarrow> skip' = skip \<and> mode_of st' = m' \<and> exclusive st' \<and>
               \<not> (code \<and> c = CHR '')'' \<and> depthParen st = 1) \<and>
               depthParen st' = depthParen st + (if code then delta c else 0)))"

lemma scan_char_refines:
  assumes "exclusive st"
  shows "step_refines st c rest"
proof (cases "mode_of st")
  case Code
  then have code: "\<not> inLine st" "\<not> inBlock st" "\<not> inSingle st" "\<not> inDouble st" "\<not> inBacktick st"
    by (auto simp: mode_of_def split: if_splits)
  consider "c = CHR ''/'' \<and> next_is rest CHR ''/''" | "c = CHR ''/'' \<and> next_is rest CHR ''*''"
    | "c \<in> {CHR 0x27, CHR 0x22, CHR 0x60}" | "c = CHR ''(''" | "c = CHR '')''"
    | "c \<notin> {CHR 0x27, CHR 0x22, CHR 0x60, CHR ''('', CHR '')''}"
      "\<not> (c = CHR ''/'' \<and> next_is rest CHR ''/'')" "\<not> (c = CHR ''/'' \<and> next_is rest CHR ''*'')" by blast
  then show ?thesis
    by cases (auto simp: Code code step_refines_def lex_char_def scan_char_def exclusive_def delta_def mode_of_def)
next
  case (Quoted q)
  then have quoted: "\<not> inLine st" "\<not> inBlock st"
    by (auto simp: mode_of_def split: if_splits)
  consider "inSingle st" "\<not> inDouble st" "\<not> inBacktick st" "q = CHR 0x27"
    | "\<not> inSingle st" "inDouble st" "\<not> inBacktick st" "q = CHR 0x22"
    | "\<not> inSingle st" "\<not> inDouble st" "inBacktick st" "q = CHR 0x60"
    using Quoted assms quoted by (auto simp: mode_of_def exclusive_def split: if_splits)
  then show ?thesis
    by cases (simp_all add: Quoted quoted step_refines_def lex_char_def scan_char_def exclusive_def mode_of_def)
next
  case Line_comment
  then have "inLine st" "\<not> inBlock st" "\<not> inSingle st" "\<not> inDouble st" "\<not> inBacktick st"
    using assms by (auto simp: mode_of_def exclusive_def split: if_splits)
  then show ?thesis
    by (simp add: Line_comment step_refines_def lex_char_def scan_char_def exclusive_def mode_of_def)
next
  case Block_comment
  then have "\<not> inLine st" "inBlock st" "\<not> inSingle st" "\<not> inDouble st" "\<not> inBacktick st"
    using assms by (auto simp: mode_of_def exclusive_def split: if_splits)
  then show ?thesis
    by (simp add: Block_comment step_refines_def lex_char_def scan_char_def exclusive_def mode_of_def)
qed

lemma scan_from_refines:
  "exclusive st \<Longrightarrow> scan_from st i s = closing (depthParen st) (code_chars (mode_of st) i s)"
proof (induction st i s rule: scan_from.induct)
  case (2 st i c rest)
  obtain code m' skip where lex: "lex_char (mode_of st) c rest = (code, m', skip)" by (metis prod_cases3)
  show ?case
  proof (cases "scan_char st c rest")
    case Closed
    then show ?thesis using scan_char_refines [OF 2(3), of c rest] lex by (simp add: step_refines_def)
  next
    case (Go st' skip')
    then have st': "skip' = skip" "mode_of st' = m'" "exclusive st'"
      "\<not> (code \<and> c = CHR '')'' \<and> depthParen st = 1)"
      "depthParen st' = depthParen st + (if code then delta c else 0)"
      using scan_char_refines [OF 2(3), of c rest] lex by (simp_all add: step_refines_def)
    then show ?thesis
      using 2(1,2) [OF Go] Go lex by (cases skip; cases code) auto
  qed
qed simp

lemma matchClosingParen_closing:
  "matchClosingParen source opening = closing 0 (code_chars Code opening (drop opening source))"
  using scan_from_refines [of scanner_start "opening" "drop opening source"]
  by (simp add: matchClosingParen_def scanner_start_def exclusive_def mode_of_def)

definition balance_of :: "(nat \<times> char) list \<Rightarrow> int" where
  "balance_of cs = sum_list (map (\<lambda>(_, c). delta c) cs)"

text \<open>The first place where the balance falls to zero.\<close>

lemma closing_Some_iff:
  "0 < d \<Longrightarrow> closing d cs = Some j \<longleftrightarrow>
     (\<exists>k<length cs. cs ! k = (j, CHR '')'') \<and> d + balance_of (take (Suc k) cs) = 0 \<and>
        (\<forall>m\<le>k. 0 < d + balance_of (take m cs)))"
proof (induction d cs rule: closing.induct)
  case (2 d i c cs)
  have pos: "0 < d + delta c" if "\<not> (c = CHR '')'' \<and> d = 1)" using that 2(2) by (auto simp: delta_def)
  show ?case
  proof (cases "c = CHR '')'' \<and> d = 1")
    case True
    have "k = 0" if "\<forall>m\<le>k. 0 < d + balance_of (take m ((i, c) # cs))" for k
    proof (rule ccontr)
      assume "k \<noteq> 0"
      with that have "0 < d + balance_of (take 1 ((i, c) # cs))" by (metis One_nat_def Suc_leI neq0_conv)
      then show False using True by (simp add: balance_of_def delta_def)
    qed
    note first = this
    have "closing d ((i, c) # cs) = Some i" using True by simp
    moreover have "d + balance_of (take (Suc 0) ((i, c) # cs)) = 0" "0 < d + balance_of (take 0 ((i, c) # cs))"
      using True by (simp_all add: balance_of_def delta_def)
    ultimately show ?thesis
    proof (intro iffI, goal_cases)
      case 1
      then show ?case using True by (intro exI [of _ 0]) simp
    next
      case 2
      then obtain k where k: "((i, c) # cs) ! k = (j, CHR '')'')" "\<forall>m\<le>k. 0 < d + balance_of (take m ((i, c) # cs))"
        by blast
      from first [OF k(2)] k(1) 2(1) show ?case by simp
    qed
  next
    case False
    have "(\<exists>k<length ((i, c) # cs). ((i, c) # cs) ! k = (j, CHR '')'') \<and>
          d + balance_of (take (Suc k) ((i, c) # cs)) = 0 \<and> (\<forall>m\<le>k. 0 < d + balance_of (take m ((i, c) # cs)))) \<longleftrightarrow>
        (\<exists>k<length cs. cs ! k = (j, CHR '')'') \<and> d + delta c + balance_of (take (Suc k) cs) = 0 \<and>
          (\<forall>m\<le>k. 0 < d + delta c + balance_of (take m cs)))" (is "?l \<longleftrightarrow> ?r")
    proof
      assume ?l
      then obtain k where k: "k < length ((i, c) # cs)" "((i, c) # cs) ! k = (j, CHR '')'')"
        "d + balance_of (take (Suc k) ((i, c) # cs)) = 0" "\<forall>m\<le>k. 0 < d + balance_of (take m ((i, c) # cs))" by blast
      from k pos [OF False] obtain k' where k': "k = Suc k'" by (cases k) (auto simp: balance_of_def)
      have "0 < d + delta c + balance_of (take m cs)" if "m \<le> k'" for m
        using k(4) [rule_format, of "Suc m"] that by (simp add: k' balance_of_def)
      with k k' show ?r by (intro exI [of _ k']) (auto simp: balance_of_def)
    next
      assume ?r
      then obtain k where k: "k < length cs" "cs ! k = (j, CHR '')'')" "d + delta c + balance_of (take (Suc k) cs) = 0"
        "\<forall>m\<le>k. 0 < d + delta c + balance_of (take m cs)" by blast
      have "0 < d + balance_of (take m ((i, c) # cs))" if "m \<le> Suc k" for m
        using that k(4) 2(2) by (cases m) (auto simp: balance_of_def)
      with k show ?l by (intro exI [of _ "Suc k"]) (auto simp: balance_of_def)
    qed
    then show ?thesis using 2(1) [OF _ pos [OF False]] False by auto
  qed
qed simp

text \<open>
  C38: The scan from an opening parenthesis returns an offset exactly when it is the first at which the
  parentheses of the code are balanced, where quotes of the three kinds, with their escapes, and
  comments of both kinds do not count; and it returns nothing when there is no such offset.
\<close>

theorem matchClosingParen_balanced:
  assumes "opening < length source" and "source ! opening = CHR ''(''"
  shows "matchClosingParen source opening = Some j \<longleftrightarrow>
    (let cs = code_chars Code opening (drop opening source) in
     \<exists>k<length cs. cs ! k = (j, CHR '')'') \<and> balance_of (take (Suc k) cs) = 0 \<and>
       (\<forall>m. 0 < m \<and> m \<le> k \<longrightarrow> 0 < balance_of (take m cs)))"
proof -
  define cs where "cs = code_chars Code (Suc opening) (drop (Suc opening) source)"
  have "drop opening source = CHR ''('' # drop (Suc opening) source"
    using assms by (metis Cons_nth_drop_Suc)
  then have all: "code_chars Code opening (drop opening source) = (opening, CHR ''('') # cs"
    by (simp add: lex_char_def cs_def)
  have "matchClosingParen source opening = closing 1 cs"
    by (simp add: matchClosingParen_closing all delta_def)
  then have match: "matchClosingParen source opening = Some j \<longleftrightarrow>
      (\<exists>k<length cs. cs ! k = (j, CHR '')'') \<and> 1 + balance_of (take (Suc k) cs) = 0 \<and>
        (\<forall>m\<le>k. 0 < 1 + balance_of (take m cs)))" (is "_ \<longleftrightarrow> ?r")
    by (simp add: closing_Some_iff)
  let ?all = "(opening, CHR ''('') # cs"
  have bal: "balance_of (take (Suc m) ?all) = 1 + balance_of (take m cs)" for m
    by (simp add: balance_of_def delta_def)
  have "?r \<longleftrightarrow> (\<exists>k<length ?all. ?all ! k = (j, CHR '')'') \<and> balance_of (take (Suc k) ?all) = 0 \<and>
       (\<forall>m. 0 < m \<and> m \<le> k \<longrightarrow> 0 < balance_of (take m ?all)))" (is "_ \<longleftrightarrow> ?l")
  proof
    assume ?r
    then obtain k where k: "k < length cs" "cs ! k = (j, CHR '')'')" "1 + balance_of (take (Suc k) cs) = 0"
      "\<forall>m\<le>k. 0 < 1 + balance_of (take m cs)" by blast
    have "0 < balance_of (take m ?all)" if "0 < m" "m \<le> Suc k" for m
      using that k(4) bal by (cases m) auto
    with k bal show ?l by (intro exI [of _ "Suc k"]) auto
  next
    assume ?l
    then obtain k where k: "k < length ?all" "?all ! k = (j, CHR '')'')" "balance_of (take (Suc k) ?all) = 0"
      "\<forall>m. 0 < m \<and> m \<le> k \<longrightarrow> 0 < balance_of (take m ?all)" by blast
    from k(2) obtain k' where k': "k = Suc k'" by (cases k) auto
    have "0 < 1 + balance_of (take m cs)" if "m \<le> k'" for m
      using k(4) [rule_format, of "Suc m"] that bal by (simp add: k')
    with k k' bal show ?r by (intro exI [of _ k']) auto
  qed
  with match show ?thesis by (simp add: all Let_def)
qed

section \<open>What the guards let through\<close>

definition call_passes :: "scope_violation list \<Rightarrow> string \<Rightarrow> string \<Rightarrow> nat \<times> string \<times> string \<times> nat \<Rightarrow> bool" where
  "call_passes allowlist rel source call \<longleftrightarrow>
     (case call of (idx, model, method, callOpen) \<Rightarrow>
        (case matchClosingParen source callOpen of
           None \<Rightarrow> True
         | Some callClose \<Rightarrow>
             ''tenant_id'' \<in> set (words_from [] (take (callClose - (callOpen + 1)) (drop (callOpen + 1) source))) \<or>
             keyOf \<lparr>sv_file = rel, sv_line = lineFor source idx, sv_model = model, sv_method = method\<rparr>
               \<in> keyOf ` set allowlist))"

lemma call_passes_violation:
  "call_passes allowlist rel source call \<longleftrightarrow>
     (\<forall>v\<in>set (call_violation rel source call). keyOf v \<in> keyOf ` set allowlist)"
  by (cases call) (auto simp: call_passes_def call_violation_def split: option.splits)

lemma in_scope_findViolations:
  "v \<in> set (scope_findViolations files) \<longleftrightarrow>
     (\<exists>(rel, source)\<in>set files. \<not> isExcludedFile rel \<and>
        (\<exists>call\<in>set (find_calls False 0 source). v \<in> set (call_violation rel source call)))"
  by (fastforce simp: scope_findViolations_def split: if_splits)

text \<open>
  A run succeeds exactly when every call of a query method on a model, in a file that is no test, is
  either without a closing parenthesis, or has the word \<open>tenant_id\<close> between its parentheses, or
  is on the list of known violations under its file, line, model and method; in particular after
  the list was written anew.
\<close>

theorem scope_guard_decides:
  "(scope_main allowlist files = 0 \<longleftrightarrow>
     (\<forall>(rel, source)\<in>set files. isExcludedFile rel \<or>
       (\<forall>call\<in>set (find_calls False 0 source). call_passes allowlist rel source call))) \<and>
   scope_main (update_baseline files) files = 0"
proof
  have "scope_main allowlist files = 0 \<longleftrightarrow>
      (\<forall>v\<in>set (scope_findViolations files). keyOf v \<in> keyOf ` set allowlist)"
    by (auto simp: scope_main_def new_violations_def filter_empty_conv)
  then show "scope_main allowlist files = 0 \<longleftrightarrow>
     (\<forall>(rel, source)\<in>set files. isExcludedFile rel \<or>
       (\<forall>call\<in>set (find_calls False 0 source). call_passes allowlist rel source call))"
    unfolding call_passes_violation by (fastforce simp: in_scope_findViolations)
  show "scope_main (update_baseline files) files = 0"
    by (simp add: scope_main_def new_violations_def update_baseline_def)
qed

section \<open>On concrete sources\<close>

definition demo_source :: string where
  "demo_source = ''f('' @ [CHR 0x27] @ '')'' @ [CHR 0x27] @ '', /* ) */ x) + g()''"

theorem matchClosingParen_balanced_witness:
  "\<exists>k<length (code_chars Code 1 (drop 1 demo_source)).
     code_chars Code 1 (drop 1 demo_source) ! k = (16, CHR '')'') \<and>
     balance_of (take (Suc k) (code_chars Code 1 (drop 1 demo_source))) = 0"
proof -
  have "matchClosingParen demo_source 1 = Some 16" "1 < length demo_source" "demo_source ! 1 = CHR ''(''"
    by code_simp+
  then show ?thesis using matchClosingParen_balanced [of 1 demo_source 16] by (auto simp: Let_def)
qed

text \<open>The self-test of the guard over balances, and lines that it does not see.\<close>

theorem balance_guard_self_test:
  "balance_findViolations
     [(''src/bad-fixture.ts'', ''export const wallet = {'' @ newline # ''  availableBalance: 12450,'' @
         newline # ''  escrowBalance: 0,'' @ newline # ''};''),
      (''src/clean-fixture.ts'', ''  availableBalance: 0,'' @ newline # ''  escrowBalance: 0,''),
      (''src/allowed-fixture.ts'', ''  availableBalance: 12450, '' @ allow_comment)] =
     [\<lparr>bv_file = ''src/bad-fixture.ts'', bv_line = 2, bv_field = ''availableBalance'', bv_value = ''12450''\<rparr>]"
  by code_simp

theorem balance_guard_blind_spots:
  "line_violation ''  balance: 500,'' = None \<and>
   line_violation ''  aBalance: 0, bBalance: 500,'' = None \<and>
   line_violation ''  bBalance: 500,'' = Some (''bBalance'', ''500'')"
  by code_simp

theorem scope_guard_blind_spots:
  "scope_findViolations
     [(''src/services/a.ts'', ''WalletModel.find({ userId }, { tenant_id: 1 })''),
      (''src/services/b.ts'', ''WalletModel.find({ userId /* no tenant_id */ })''),
      (''src/services/c.ts'', ''WalletModel'' @ newline # ''  .find({ userId })''),
      (''src/services/d.ts'', ''WalletModel.find({ userId })'')] =
     [\<lparr>sv_file = ''src/services/d.ts'', sv_line = 1, sv_model = ''WalletModel'', sv_method = ''find''\<rparr>]"
  by code_simp

text \<open>A file with one query that is scoped passes, and one with a query that is not fails.\<close>

theorem scope_guard_decides_witness:
  "scope_main [] [(''src/services/a.ts'', ''WalletModel.find({ tenant_id })'')] = 0 \<and>
   scope_main [] [(''src/services/d.ts'', ''WalletModel.find({ userId })'')] \<noteq> 0"
proof (intro conjI)
  have "call_passes [] ''src/services/a.ts'' ''WalletModel.find({ tenant_id })'' (0, ''WalletModel'', ''find'', 16)"
    "find_calls False 0 ''WalletModel.find({ tenant_id })'' = [(0, ''WalletModel'', ''find'', 16)]" by code_simp+
  then show "scope_main [] [(''src/services/a.ts'', ''WalletModel.find({ tenant_id })'')] = 0"
    using scope_guard_decides [of "[]" "[(''src/services/a.ts'', ''WalletModel.find({ tenant_id })'')]"] by simp
  have "\<not> call_passes [] ''src/services/d.ts'' ''WalletModel.find({ userId })'' (0, ''WalletModel'', ''find'', 16)"
    "find_calls False 0 ''WalletModel.find({ userId })'' = [(0, ''WalletModel'', ''find'', 16)]"
    "\<not> isExcludedFile ''src/services/d.ts''" by code_simp+
  then show "scope_main [] [(''src/services/d.ts'', ''WalletModel.find({ userId })'')] \<noteq> 0"
    using scope_guard_decides [of "[]" "[(''src/services/d.ts'', ''WalletModel.find({ userId })'')]"] by simp
qed

section \<open>Rows of the schedule\<close>

text \<open>A row of the table, as it is written, with its cells and what may follow them.\<close>

definition schedule_row :: "string \<Rightarrow> string \<Rightarrow> string \<Rightarrow> string \<Rightarrow> string \<Rightarrow> string" where
  "schedule_row i task status sha rest =
     ''|'' @ i @ ''|'' @ task @ ''|'' @ status @ ''|'' @ sha @ ''|'' @ rest"

text \<open>
  A row with plain cells fails exactly when its id has a letter or a digit, its status is done in
  any case of the letters, and its last cell is blank or a placeholder; the failure names the row.
\<close>

theorem schedule_row_checked:
  assumes "CHR ''|'' \<notin> set i" and "CHR ''|'' \<notin> set task" and "CHR ''|'' \<notin> set status" and "CHR ''|'' \<notin> set sha"
  shows "line_failure (schedule_row i task status sha rest) =
    (if (\<exists>c\<in>set (trim i). is_word_char c \<and> c \<noteq> CHR ''_'') \<and> map to_upper (trim status) = ''DONE'' \<and>
        (trim sha = [] \<or> placeholder (trim sha))
     then Some (trim i, trim sha) else None)"
proof -
  have nil: "split_at CHR ''|'' (CHR ''|'' # s) = [] # split_at CHR ''|'' s" for s by simp
  have cells: "split_at CHR ''|'' (schedule_row i task status sha rest) = [] # i # task # status # sha # split_at CHR ''|'' rest"
    unfolding schedule_row_def using assms by (simp add: split_at_append nil)
  have bar: "take 1 (schedule_row i task status sha rest) = ''|''" by (simp add: schedule_row_def)
  show ?thesis
    unfolding line_failure_def bar cells by (auto simp: Let_def list_ex_iff)
qed

theorem schedule_row_checked_witness:
  "line_failure (schedule_row '' A-003 '' ''Wallet'' '' Done '' '' pending '' []) = Some (''A-003'', ''pending'') \<and>
   line_failure (schedule_row '' A-003 '' ''Wallet'' '' Done '' '' ab12 '' []) = None"
proof -
  have "trim '' A-003 '' = ''A-003''" "trim '' Done '' = ''Done''" "trim '' pending '' = ''pending''"
    "trim '' ab12 '' = ''ab12''" "map to_upper ''Done'' = ''DONE''" "placeholder ''pending''" "\<not> placeholder ''ab12''"
    "is_word_char CHR ''A''" by code_simp+
  then show ?thesis
    using schedule_row_checked [of "'' A-003 ''" "''Wallet''" "'' Done ''" "'' pending ''" "[]"]
      schedule_row_checked [of "'' A-003 ''" "''Wallet''" "'' Done ''" "'' ab12 ''" "[]"]
    by simp
qed

end
