(* ===== verification/Program_Schemas.thy ===== *)
theory Program_Schemas
  imports Store_Rely
begin

text \<open>
  The collections of the loyalty program: tenants, merchants, loyalty accounts and their links,
  acknowledgments, sessions, lots of points, and the versioned configurations
  (\<open>src/db/models\<close>), and the hooks that keep ledger entries from being changed
  (\<open>ledger-entry.model.ts\<close>).  A schema gives a check of each document and unique indexes; what a
  collection promises then holds after any sequence of writes, and is proved once for all of them.
\<close>

section \<open>Collections\<close>

text \<open>
  A unique index is a name and the relation of two documents with the same key.  A document is
  checked and then compared with all others.  Documents of a collection with an index that removes
  them at a moment disappear in a sweep.
\<close>

type_synonym 'd indexes = "(string \<times> ('d \<Rightarrow> 'd \<Rightarrow> bool)) list"

definition clash :: "'d indexes \<Rightarrow> 'd \<Rightarrow> 'd list \<Rightarrow> string option" where
  "clash indexes d docs = map_option fst (find (\<lambda>(_, same). list_ex (same d) docs) indexes)"

datatype 'd doc_write = Create_doc 'd | Save_doc nat 'd | Sweep int

definition stored :: "('d \<Rightarrow> error option) \<Rightarrow> 'd indexes \<Rightarrow> 'd \<Rightarrow> 'd list \<Rightarrow> 'd list \<Rightarrow> error + 'd list" where
  "stored check indexes d others docs =
     (case check d of
        Some e \<Rightarrow> Inl e
      | None \<Rightarrow> (case clash indexes d others of Some i \<Rightarrow> Inl (DuplicateKeyError i) | None \<Rightarrow> Inr docs))"

definition write_doc ::
  "('d \<Rightarrow> error option) \<Rightarrow> 'd indexes \<Rightarrow> ('d \<Rightarrow> int option) \<Rightarrow> 'd doc_write \<Rightarrow> 'd list \<Rightarrow> error + 'd list" where
  "write_doc check indexes expiry w docs =
     (case w of
        Create_doc d \<Rightarrow> stored check indexes d docs (docs @ [d])
      | Save_doc i d \<Rightarrow>
          if length docs \<le> i then Inl (Plain ''No document found'')
          else stored check indexes d (take i docs @ drop (Suc i) docs) (docs[i := d])
      | Sweep now \<Rightarrow> Inr (filter (\<lambda>d. case expiry d of None \<Rightarrow> True | Some t \<Rightarrow> now < t) docs))"

text \<open>A write that is refused leaves the collection as it is.\<close>

definition after_write where
  "after_write check indexes expiry docs w =
     (case write_doc check indexes expiry w docs of Inl _ \<Rightarrow> docs | Inr docs' \<Rightarrow> docs')"

definition after_writes ::
  "('d \<Rightarrow> error option) \<Rightarrow> 'd indexes \<Rightarrow> ('d \<Rightarrow> int option) \<Rightarrow> 'd doc_write list \<Rightarrow> 'd list" where
  "after_writes check indexes expiry = foldl (after_write check indexes expiry) []"

definition checked :: "string \<Rightarrow> ('d \<Rightarrow> bool) \<Rightarrow> 'd \<Rightarrow> error option" where
  "checked schema valid d = (if valid d then None else Some (ValidationError schema))"

definition never_expires :: "'d \<Rightarrow> int option" where
  "never_expires d = None"

section \<open>Tenants, merchants and loyalty accounts\<close>

datatype tenant_phase = Phase_1 | Phase_2

datatype tenant_status = Tenant_active | Tenant_suspended | Tenant_archived

record tenant =
  tn_tenant_id :: string
  tn_name :: string
  tn_status :: tenant_status
  tn_phase :: tenant_phase
  tn_default_currency :: string
  tn_notes :: "string option"

definition valid_tenant :: "tenant \<Rightarrow> bool" where
  "valid_tenant t \<longleftrightarrow>
     required_string 128 (tn_tenant_id t) \<and> required_string 256 (tn_name t) \<and>
     required_string 16 (tn_default_currency t) \<and> optional_string 2048 (tn_notes t)"

definition tenant_indexes :: "tenant indexes" where
  "tenant_indexes = [(''tenant_id'', \<lambda>a b. tn_tenant_id a = tn_tenant_id b)]"

datatype merchant_tier = PLATINUM | GOLD | SILVER | MEMBER | GUEST

datatype merchant_status = Merchant_active | Merchant_suspended | Merchant_archived

record merchant_doc =
  mc_merchant_id :: string
  mc_tenant_id :: string
  mc_name :: string
  mc_status :: merchant_status
  mc_phase :: tenant_phase
  mc_merchant_tier :: merchant_tier
  mc_default_currency :: string
  mc_webhook_url :: "string option"
  mc_notes :: "string option"

definition valid_merchant_doc :: "merchant_doc \<Rightarrow> bool" where
  "valid_merchant_doc m \<longleftrightarrow>
     required_string 128 (mc_merchant_id m) \<and> required_string 128 (mc_tenant_id m) \<and>
     required_string 256 (mc_name m) \<and> required_string 16 (mc_default_currency m) \<and>
     optional_string 2048 (mc_webhook_url m) \<and> optional_string 2048 (mc_notes m)"

definition merchant_indexes :: "merchant_doc indexes" where
  "merchant_indexes = [(''merchant_id'', \<lambda>a b. mc_merchant_id a = mc_merchant_id b)]"

datatype loyalty_account_status = Account_active | Account_suspended | Account_closed

record loyalty_account =
  la_account_id :: string
  la_tenant_id :: string
  la_user_id :: string
  la_status :: loyalty_account_status
  la_rrr_member_tier :: "merchant_tier option"
  la_enrolled_at :: int
  la_closed_at :: "int option"
  la_default_currency :: string
  la_notes :: "string option"

definition valid_loyalty_account :: "loyalty_account \<Rightarrow> bool" where
  "valid_loyalty_account a \<longleftrightarrow>
     required_string 128 (la_account_id a) \<and> required_string 128 (la_tenant_id a) \<and>
     required_string 128 (la_user_id a) \<and> required_string 16 (la_default_currency a) \<and>
     optional_string 2048 (la_notes a)"

definition loyalty_account_indexes :: "loyalty_account indexes" where
  "loyalty_account_indexes =
     [(''tenant_id, account_id'', \<lambda>a b. la_tenant_id a = la_tenant_id b \<and> la_account_id a = la_account_id b),
      (''tenant_id, user_id'', \<lambda>a b. la_tenant_id a = la_tenant_id b \<and> la_user_id a = la_user_id b)]"

section \<open>Links, acknowledgments and sessions\<close>

datatype identity_link_status = Link_active | Link_revoked

datatype identity_link_provider = Sso | Webhook | Manual

record identity_link =
  il_link_id :: string
  il_tenant_id :: string
  il_merchant_id :: string
  il_account_id :: string
  il_external_id :: string
  il_provider :: identity_link_provider
  il_status :: identity_link_status
  il_bound_at :: int
  il_revoked_at :: "int option"
  il_metadata :: "metadata option"

definition valid_identity_link :: "identity_link \<Rightarrow> bool" where
  "valid_identity_link l \<longleftrightarrow>
     required_string 128 (il_link_id l) \<and> required_string 128 (il_tenant_id l) \<and>
     required_string 128 (il_merchant_id l) \<and> required_string 128 (il_account_id l) \<and>
     required_string 256 (il_external_id l)"

definition same_identity :: "identity_link \<Rightarrow> identity_link \<Rightarrow> bool" where
  "same_identity a b \<longleftrightarrow> il_tenant_id a = il_tenant_id b \<and> il_merchant_id a = il_merchant_id b \<and>
     il_external_id a = il_external_id b"

definition same_membership :: "identity_link \<Rightarrow> identity_link \<Rightarrow> bool" where
  "same_membership a b \<longleftrightarrow> il_tenant_id a = il_tenant_id b \<and> il_account_id a = il_account_id b \<and>
     il_merchant_id a = il_merchant_id b"

definition identity_link_indexes :: "identity_link indexes" where
  "identity_link_indexes =
     [(''link_id'', \<lambda>a b. il_link_id a = il_link_id b),
      (''tenant_id, merchant_id, external_id'', same_identity),
      (''tenant_id, account_id, merchant_id'', same_membership)]"

datatype account_link_status = LINK_PENDING | LINK_VERIFIED | LINK_REVOKED | LINK_EXPIRED

record account_link =
  al_linkId :: string
  al_userId :: string
  al_externalUserId :: string
  al_tokenHash :: string
  al_status :: account_link_status
  al_verifiedAt :: "int option"
  al_expiresAt :: "int option"

definition valid_account_link :: "account_link \<Rightarrow> bool" where
  "valid_account_link l \<longleftrightarrow>
     required_string 256 (al_linkId l) \<and> required_string 128 (al_userId l) \<and>
     required_string 256 (al_externalUserId l) \<and> required_string 512 (al_tokenHash l)"

definition account_link_indexes :: "account_link indexes" where
  "account_link_indexes =
     [(''linkId'', \<lambda>a b. al_linkId a = al_linkId b),
      (''externalUserId'', \<lambda>a b. al_externalUserId a = al_externalUserId b)]"

datatype ack_delivery_state = ACK_PENDING | DELIVERING | DELIVERED | ACK_FAILED | FAILED_PERMANENT

record ack_delivery =
  ak_ackId :: string
  ak_targetEndpoint :: string
  ak_eventId :: string
  ak_state :: ack_delivery_state
  ak_retries :: rat
  ak_nextAttemptAt :: "int option"
  ak_deliveredAt :: "int option"

definition valid_ack_delivery :: "ack_delivery \<Rightarrow> bool" where
  "valid_ack_delivery a \<longleftrightarrow>
     required_string 256 (ak_ackId a) \<and> required_string 512 (ak_targetEndpoint a) \<and>
     required_string 256 (ak_eventId a) \<and> 0 \<le> ak_retries a"

definition ack_delivery_indexes :: "ack_delivery indexes" where
  "ack_delivery_indexes = [(''ackId'', \<lambda>a b. ak_ackId a = ak_ackId b)]"

record sso_session =
  ss_sessionId :: string
  ss_userId :: string
  ss_tokenHash :: string
  ss_lastActivityAt :: int
  ss_expiresAt :: int

definition valid_sso_session :: "sso_session \<Rightarrow> bool" where
  "valid_sso_session s \<longleftrightarrow>
     required_string 256 (ss_sessionId s) \<and> required_string 128 (ss_userId s) \<and>
     required_string 512 (ss_tokenHash s)"

definition sso_session_indexes :: "sso_session indexes" where
  "sso_session_indexes =
     [(''sessionId'', \<lambda>a b. ss_sessionId a = ss_sessionId b),
      (''tokenHash'', \<lambda>a b. ss_tokenHash a = ss_tokenHash b)]"

definition sso_session_expiry :: "sso_session \<Rightarrow> int option" where
  "sso_session_expiry s = Some (ss_expiresAt s)"

section \<open>Lots of points\<close>

datatype point_type = Purchase | Promo | Gifted | Model_allocation

record point_lot =
  pl_lot_id :: string
  pl_wallet_id :: string
  pl_point_type :: point_type
  pl_points_awarded :: rat
  pl_points_remaining :: rat
  pl_awarded_at :: int
  pl_expires_at :: int
  pl_source_event_id :: string
  pl_promo_id :: "string option"
  pl_correlation_id :: string
  pl_reason_code :: string
  pl_tenant_id :: string

definition valid_point_lot :: "point_lot \<Rightarrow> bool" where
  "valid_point_lot l \<longleftrightarrow>
     required_string 128 (pl_lot_id l) \<and> required_string 128 (pl_wallet_id l) \<and>
     0 \<le> pl_points_awarded l \<and> 0 \<le> pl_points_remaining l \<and>
     required_string 128 (pl_source_event_id l) \<and> optional_string 128 (pl_promo_id l) \<and>
     required_string 128 (pl_correlation_id l) \<and> required_string 128 (pl_reason_code l) \<and>
     required_string 128 (pl_tenant_id l)"

text \<open>The validators, and then the hook before a save; its message without the two numbers.\<close>

definition check_point_lot :: "point_lot \<Rightarrow> error option" where
  "check_point_lot l =
     (if \<not> valid_point_lot l then Some (ValidationError ''PointLot'')
      else if pl_points_remaining l > pl_points_awarded l
        then Some (Plain ''points_remaining must not exceed points_awarded'')
      else None)"

definition point_lot_indexes :: "point_lot indexes" where
  "point_lot_indexes = [(''lot_id'', \<lambda>a b. pl_lot_id a = pl_lot_id b)]"

section \<open>Versioned configurations\<close>

text \<open>What the three configurations of a merchant have in common.\<close>

record versioned_config =
  vc_config_id :: string
  vc_tenant_id :: string
  vc_merchant_id :: string
  vc_effective_at :: int
  vc_superseded_at :: "int option"
  vc_correlation_id :: string
  vc_reason_code :: string
  vc_created_by :: string

definition valid_versioned_config :: "'a versioned_config_scheme \<Rightarrow> bool" where
  "valid_versioned_config c \<longleftrightarrow>
     required_string 128 (vc_config_id c) \<and> required_string 128 (vc_tenant_id c) \<and>
     required_string 128 (vc_merchant_id c) \<and> required_string 128 (vc_correlation_id c) \<and>
     required_string 128 (vc_reason_code c) \<and> required_string 128 (vc_created_by c)"

definition versioned_config_indexes :: "'a versioned_config_scheme indexes" where
  "versioned_config_indexes = [(''config_id'', \<lambda>a b. vc_config_id a = vc_config_id b)]"

record micro_topup_config = versioned_config +
  mt_threshold_points :: rat
  mt_topup_points :: rat
  mt_max_topups_per_period :: rat
  mt_period_seconds :: rat

definition valid_micro_topup_config :: "micro_topup_config \<Rightarrow> bool" where
  "valid_micro_topup_config c \<longleftrightarrow>
     valid_versioned_config c \<and> 0 \<le> mt_threshold_points c \<and> 0 \<le> mt_topup_points c \<and>
     0 \<le> mt_max_topups_per_period c \<and> 0 \<le> mt_period_seconds c"

datatype within_type_order = Fifo_by_expires_at | Fifo_by_awarded_at

record spend_order_config = versioned_config +
  so_point_type_priority :: "string list"
  so_within_type_order :: within_type_order

definition valid_spend_order_config :: "spend_order_config \<Rightarrow> bool" where
  "valid_spend_order_config c \<longleftrightarrow> valid_versioned_config c"

record valuation_config = versioned_config +
  vl_point_type :: point_type
  vl_cents_per_point :: rat
  vl_currency_code :: string

definition valid_valuation_config :: "valuation_config \<Rightarrow> bool" where
  "valid_valuation_config c \<longleftrightarrow>
     valid_versioned_config c \<and> 0 \<le> vl_cents_per_point c \<and> required_string 3 (vl_currency_code c)"

section \<open>The hooks of the ledger\<close>

text \<open>
  The calls of the driver that write ledger entries.  A \<open>save\<close> is of a new document or of one that
  was read; the hooks of the schema are on updates and saves, the other calls have none.
\<close>

datatype ledger_write =
    Save_new ledger_entry
  | Save_read string "ledger_entry \<Rightarrow> ledger_entry"
  | Update_one "ledger_entry \<Rightarrow> bool" "ledger_entry \<Rightarrow> ledger_entry"
  | Update_many "ledger_entry \<Rightarrow> bool" "ledger_entry \<Rightarrow> ledger_entry"
  | Find_one_and_update "ledger_entry \<Rightarrow> bool" "ledger_entry \<Rightarrow> ledger_entry"
  | Delete_many "ledger_entry \<Rightarrow> bool"

definition ledger_hook :: "ledger_write \<Rightarrow> string option" where
  "ledger_hook w =
     (case w of
        Save_new _ \<Rightarrow> None
      | Save_read _ _ \<Rightarrow>
          Some ''Ledger entries are immutable and cannot be modified. Create a new offsetting entry instead.''
      | Delete_many _ \<Rightarrow> None
      | _ \<Rightarrow> Some ''Ledger entries are immutable and cannot be updated. Create a new offsetting entry instead.'')"

primrec update_first :: "('d \<Rightarrow> bool) \<Rightarrow> ('d \<Rightarrow> 'd) \<Rightarrow> 'd list \<Rightarrow> 'd list" where
  "update_first p f [] = []"
| "update_first p f (d # ds) = (if p d then f d # ds else d # update_first p f ds)"

definition ledger_effect :: "ledger_write \<Rightarrow> unit svc" where
  "ledger_effect w =
     (case w of
        Save_new e \<Rightarrow> await (ledger_create e) (\<lambda>_. pure ())
      | Save_read i f \<Rightarrow> atomically (\<lambda>s.
          (s\<lparr>ledger_entries := update_first (\<lambda>e. l_entryId e = i) f (ledger_entries s)\<rparr>, Inr ()))
      | Update_one p f \<Rightarrow> atomically (\<lambda>s. (s\<lparr>ledger_entries := update_first p f (ledger_entries s)\<rparr>, Inr ()))
      | Update_many p f \<Rightarrow> atomically (\<lambda>s.
          (s\<lparr>ledger_entries := map (\<lambda>e. if p e then f e else e) (ledger_entries s)\<rparr>, Inr ()))
      | Find_one_and_update p f \<Rightarrow> atomically (\<lambda>s.
          (s\<lparr>ledger_entries := update_first p f (ledger_entries s)\<rparr>, Inr ()))
      | Delete_many p \<Rightarrow> atomically (\<lambda>s. (s\<lparr>ledger_entries := filter (\<lambda>e. \<not> p e) (ledger_entries s)\<rparr>, Inr ())))"

definition ledger_write_call :: "ledger_write \<Rightarrow> unit svc" where
  "ledger_write_call w =
     (case ledger_hook w of Some message \<Rightarrow> throw (Plain message) | None \<Rightarrow> ledger_effect w)"

section \<open>What every collection promises\<close>

definition collection_ok :: "('d \<Rightarrow> error option) \<Rightarrow> 'd indexes \<Rightarrow> 'd list \<Rightarrow> bool" where
  "collection_ok check indexes docs \<longleftrightarrow>
     list_all (\<lambda>d. check d = None) docs \<and>
     list_all (\<lambda>(_, same). sorted_wrt (\<lambda>a b. \<not> same a b) docs) indexes"

lemma clash_None: "clash indexes d docs = None \<longleftrightarrow> (\<forall>(n, same)\<in>set indexes. \<forall>x\<in>set docs. \<not> same d x)"
  by (auto simp: clash_def find_None_iff list_ex_iff)

lemma stored_Inr:
  "stored check indexes d others docs = Inr docs' \<longleftrightarrow> check d = None \<and> clash indexes d others = None \<and> docs' = docs"
  by (auto simp: stored_def split: option.splits)

locale document_collection =
  fixes check :: "'d \<Rightarrow> error option" and indexes :: "'d indexes" and expiry :: "'d \<Rightarrow> int option"
  assumes symmetric: "(n, same) \<in> set indexes \<Longrightarrow> same a b = same b a"
begin

lemma create_ok:
  assumes "collection_ok check indexes docs" and "check d = None" and "clash indexes d docs = None"
  shows "collection_ok check indexes (docs @ [d])"
  using assms symmetric unfolding collection_ok_def clash_None
  by (auto simp: list_all_iff sorted_wrt_append)

lemma save_ok:
  assumes "collection_ok check indexes docs" and "i < length docs" and "check d = None"
    and "clash indexes d (take i docs @ drop (Suc i) docs) = None"
  shows "collection_ok check indexes (docs[i := d])"
proof -
  have docs: "docs = take i docs @ docs ! i # drop (Suc i) docs" using assms(2) by (rule id_take_nth_drop)
  have upd: "docs[i := d] = take i docs @ d # drop (Suc i) docs" using assms(2) by (rule upd_conv_take_nth_drop)
  have sorted: "sorted_wrt (\<lambda>a b. \<not> same a b) (take i docs @ d # drop (Suc i) docs)" if ix: "(n, same) \<in> set indexes" for n same
  proof -
    have "sorted_wrt (\<lambda>a b. \<not> same a b) docs"
      using assms(1) ix by (auto simp: collection_ok_def list_all_iff)
    then have "sorted_wrt (\<lambda>a b. \<not> same a b) (take i docs @ docs ! i # drop (Suc i) docs)"
      unfolding docs [symmetric] .
    moreover have "\<not> same d x" "\<not> same x d" if "x \<in> set (take i docs) \<union> set (drop (Suc i) docs)" for x
    proof -
      have "\<forall>y\<in>set (take i docs @ drop (Suc i) docs). \<not> same d y"
        using assms(4) ix unfolding clash_None by blast
      with that show "\<not> same d x" by auto
      then show "\<not> same x d" using symmetric [OF ix, of x d] by simp
    qed
    ultimately show ?thesis by (simp add: sorted_wrt_append)
  qed
  moreover have "list_all (\<lambda>d. check d = None) (docs[i := d])"
  proof -
    have "set (docs[i := d]) \<subseteq> insert d (set docs)" by (rule set_update_subset_insert)
    with assms(1,3) show ?thesis by (auto simp: collection_ok_def list_all_iff)
  qed
  moreover have "list_all (\<lambda>(_, same). sorted_wrt (\<lambda>a b. \<not> same a b) (docs[i := d])) indexes"
    unfolding list_all_iff upd using sorted by blast
  ultimately show ?thesis by (simp add: collection_ok_def)
qed

lemma sweep_ok: "collection_ok check indexes docs \<Longrightarrow> collection_ok check indexes (filter p docs)"
  by (auto simp: collection_ok_def list_all_iff sorted_wrt_filter)

lemma write_ok:
  assumes "collection_ok check indexes docs"
  shows "collection_ok check indexes (after_write check indexes expiry docs w)"
proof (cases "write_doc check indexes expiry w docs")
  case (Inr docs')
  then have "collection_ok check indexes docs'"
    using assms create_ok save_ok sweep_ok
    by (auto simp: write_doc_def stored_Inr split: doc_write.splits if_splits)
  with Inr show ?thesis by (simp add: after_write_def)
qed (use assms in \<open>simp add: after_write_def\<close>)

lemma always_ok: "collection_ok check indexes (after_writes check indexes expiry ws)"
proof (induction ws rule: rev_induct)
  case Nil
  then show ?case by (simp add: after_writes_def collection_ok_def list_all_iff)
next
  case (snoc w ws)
  then show ?case using write_ok by (simp add: after_writes_def)
qed

lemma stored_checked: "d \<in> set (after_writes check indexes expiry ws) \<Longrightarrow> check d = None"
  using always_ok [of ws] by (simp add: collection_ok_def list_all_iff)

lemma key_unique:
  assumes "(n, same) \<in> set indexes" and "d \<in> set (after_writes check indexes expiry ws)"
    and "d' \<in> set (after_writes check indexes expiry ws)" and "same d d'"
  shows "d = d'"
proof -
  let ?docs = "after_writes check indexes expiry ws"
  have "sorted_wrt (\<lambda>a b. \<not> same a b) ?docs"
    using always_ok [of ws] assms(1) by (fastforce simp: collection_ok_def list_all_iff)
  moreover obtain i j where "i < length ?docs" "j < length ?docs" "d = ?docs ! i" "d' = ?docs ! j"
    using assms(2,3) by (metis in_set_conv_nth)
  ultimately show ?thesis
    using assms(4) symmetric [OF assms(1)] by (metis linorder_neqE_nat sorted_wrt_nth_less)
qed

lemma taken_key_refused:
  assumes "(n, same) \<in> set indexes" and "d' \<in> set docs" and "same d d'" and "check d = None"
  shows "\<exists>index. write_doc check indexes expiry (Create_doc d) docs = Inl (DuplicateKeyError index)"
proof -
  have "clash indexes d docs \<noteq> None" using assms unfolding clash_None by blast
  then show ?thesis using assms(4) by (auto simp: write_doc_def stored_def)
qed

end

interpretation tenants: document_collection "checked ''Tenant'' valid_tenant" tenant_indexes never_expires
  by unfold_locales (auto simp: tenant_indexes_def)

interpretation merchants: document_collection "checked ''Merchant'' valid_merchant_doc" merchant_indexes never_expires
  by unfold_locales (auto simp: merchant_indexes_def)

interpretation loyalty_accounts: document_collection "checked ''LoyaltyAccount'' valid_loyalty_account"
  loyalty_account_indexes never_expires
  by unfold_locales (auto simp: loyalty_account_indexes_def)

interpretation identity_links: document_collection "checked ''IdentityLink'' valid_identity_link"
  identity_link_indexes never_expires
  by unfold_locales (auto simp: identity_link_indexes_def same_identity_def same_membership_def)

interpretation account_links: document_collection "checked ''AccountLink'' valid_account_link"
  account_link_indexes al_expiresAt
  by unfold_locales (auto simp: account_link_indexes_def)

interpretation ack_deliveries: document_collection "checked ''AckDelivery'' valid_ack_delivery"
  ack_delivery_indexes never_expires
  by unfold_locales (auto simp: ack_delivery_indexes_def)

interpretation sso_sessions: document_collection "checked ''SSOSession'' valid_sso_session"
  sso_session_indexes sso_session_expiry
  by unfold_locales (auto simp: sso_session_indexes_def)

interpretation point_lots: document_collection check_point_lot point_lot_indexes never_expires
  by unfold_locales (auto simp: point_lot_indexes_def)

interpretation micro_topup_configs: document_collection "checked ''MicroTopupConfig'' valid_micro_topup_config"
  versioned_config_indexes never_expires
  by unfold_locales (auto simp: versioned_config_indexes_def)

interpretation spend_order_configs: document_collection "checked ''SpendOrderConfig'' valid_spend_order_config"
  versioned_config_indexes never_expires
  by unfold_locales (auto simp: versioned_config_indexes_def)

interpretation valuation_configs: document_collection "checked ''ValuationConfig'' valid_valuation_config"
  versioned_config_indexes never_expires
  by unfold_locales (auto simp: versioned_config_indexes_def)

section \<open>What the collections of the program promise\<close>

lemma identity_link_index:
  "(''tenant_id, merchant_id, external_id'', same_identity) \<in> set identity_link_indexes"
  "(''tenant_id, account_id, merchant_id'', same_membership) \<in> set identity_link_indexes"
  by (simp_all add: identity_link_indexes_def)

text \<open>
  Whatever is written to the identity links, at a merchant of a tenant the external identities and
  the loyalty accounts that are linked correspond one to one.
\<close>

theorem identities_match_accounts:
  assumes "links = after_writes (checked ''IdentityLink'' valid_identity_link) identity_link_indexes never_expires ws"
    and "l \<in> set links" and "l' \<in> set links"
    and "il_tenant_id l = il_tenant_id l'" and "il_merchant_id l = il_merchant_id l'"
  shows "il_external_id l = il_external_id l' \<longleftrightarrow> il_account_id l = il_account_id l'"
proof
  assume "il_external_id l = il_external_id l'"
  then have "same_identity l l'" using assms by (simp add: same_identity_def)
  then show "il_account_id l = il_account_id l'"
    using identity_links.key_unique [OF identity_link_index(1)] assms by blast
next
  assume "il_account_id l = il_account_id l'"
  then have "same_membership l l'" using assms by (simp add: same_membership_def)
  then show "il_external_id l = il_external_id l'"
    using identity_links.key_unique [OF identity_link_index(2)] assms by blast
qed

text \<open>
  A link that is revoked keeps its place in the indexes: the identity cannot be linked again, to
  the same account or to another one.
\<close>

theorem revoked_link_still_binds:
  assumes "l \<in> set links" and "il_status l = Link_revoked" and "same_identity new l" and "valid_identity_link new"
  shows "\<exists>index. write_doc (checked ''IdentityLink'' valid_identity_link) identity_link_indexes never_expires
     (Create_doc new) links = Inl (DuplicateKeyError index)"
  using identity_links.taken_key_refused [OF identity_link_index(1) assms(1,3)] assms(4)
  by (simp add: checked_def)

text \<open>
  Whatever is saved, every stored lot has a remainder between zero and what was awarded, and its id
  belongs to no other lot.
\<close>

theorem lots_within_award:
  assumes "lots = after_writes check_point_lot point_lot_indexes never_expires ws" and "lot \<in> set lots"
  shows "0 \<le> pl_points_remaining lot \<and> pl_points_remaining lot \<le> pl_points_awarded lot \<and>
    (\<forall>lot'\<in>set lots. pl_lot_id lot' = pl_lot_id lot \<longrightarrow> lot' = lot)"
proof -
  have "check_point_lot lot = None" using point_lots.stored_checked assms by simp
  then show ?thesis
    using assms point_lots.key_unique [of _ "\<lambda>a b. pl_lot_id a = pl_lot_id b" _ ws lot]
    by (auto simp: check_point_lot_def valid_point_lot_def point_lot_indexes_def split: if_splits)
qed

text \<open>
  A member is enrolled once in a tenant: the accounts of a tenant are determined by their user.
\<close>

theorem one_account_per_user:
  assumes "accounts = after_writes (checked ''LoyaltyAccount'' valid_loyalty_account) loyalty_account_indexes never_expires ws"
    and "a \<in> set accounts" and "b \<in> set accounts" and "la_tenant_id a = la_tenant_id b"
  shows "la_user_id a = la_user_id b \<longleftrightarrow> la_account_id a = la_account_id b"
  using assms loyalty_accounts.key_unique [of _ "\<lambda>a b. la_tenant_id a = la_tenant_id b \<and> la_account_id a = la_account_id b" a ws b]
    loyalty_accounts.key_unique [of _ "\<lambda>a b. la_tenant_id a = la_tenant_id b \<and> la_user_id a = la_user_id b" a ws b]
  by (auto simp: loyalty_account_indexes_def)

text \<open>
  A configuration is to be replaced by a new row and a moment at which the old one ends; but two
  rows of a merchant that have no end are both stored.
\<close>

theorem active_rows_not_unique:
  assumes "valid_micro_topup_config c" and "vc_superseded_at c = None"
    and "required_string 128 i" and "i \<noteq> vc_config_id c"
  shows "after_writes (checked ''MicroTopupConfig'' valid_micro_topup_config) versioned_config_indexes never_expires
     [Create_doc c, Create_doc (c\<lparr>vc_config_id := i\<rparr>)] = [c, c\<lparr>vc_config_id := i\<rparr>]"
  using assms
  by (simp add: after_writes_def after_write_def write_doc_def stored_def clash_def checked_def
      versioned_config_indexes_def valid_micro_topup_config_def valid_versioned_config_def)

section \<open>The ledger is append-only for the calls with hooks\<close>

definition after_ledger_writes :: "ledger_write list \<Rightarrow> store \<Rightarrow> store" where
  "after_ledger_writes ws s = foldl (\<lambda>s w. snd (run (ledger_write_call w) s)) s ws"

lemma run_ledger_write_call:
  "\<not> (\<exists>p. w = Delete_many p) \<Longrightarrow>
     ledger_entries (snd (run (ledger_write_call w) s)) = ledger_entries s \<or>
     (\<exists>e. w = Save_new e \<and> ledger_entries (snd (run (ledger_write_call w) s)) = ledger_entries s @ [e])"
  by (cases w) (auto simp: ledger_write_call_def ledger_hook_def ledger_effect_def run_simps split: if_splits)


text \<open>No hook is on a deletion, so that it is carried out.\<close>

theorem ledger_deletes_pass:
  "run (ledger_write_call (Delete_many p)) s =
     (Inr (), s\<lparr>ledger_entries := filter (\<lambda>e. \<not> p e) (ledger_entries s)\<rparr>)"
  by (simp add: ledger_write_call_def ledger_hook_def ledger_effect_def run_simps)

section \<open>On concrete documents\<close>

definition demo_link :: identity_link where
  "demo_link = \<lparr>il_link_id = ''l1'', il_tenant_id = ''acme'', il_merchant_id = ''shop'', il_account_id = ''a1'',
     il_external_id = ''alice'', il_provider = Sso, il_status = Link_active, il_bound_at = 1,
     il_revoked_at = None, il_metadata = None\<rparr>"

definition other_link :: identity_link where
  "other_link = demo_link\<lparr>il_link_id := ''l2'', il_account_id := ''a2'', il_external_id := ''bob''\<rparr>"

lemma demo_links_stored:
  "after_writes (checked ''IdentityLink'' valid_identity_link) identity_link_indexes never_expires
     [Create_doc demo_link, Create_doc (demo_link\<lparr>il_link_id := ''l3''\<rparr>), Create_doc other_link] = [demo_link, other_link]"
  by code_simp

theorem identities_match_accounts_witness:
  "il_external_id demo_link = il_external_id other_link \<longleftrightarrow> il_account_id demo_link = il_account_id other_link"
proof -
  have "il_tenant_id demo_link = il_tenant_id other_link" "il_merchant_id demo_link = il_merchant_id other_link"
    by (simp_all add: other_link_def)
  then show ?thesis
    using identities_match_accounts [OF demo_links_stored [symmetric], of demo_link other_link] by simp
qed

theorem revoked_link_still_binds_witness:
  "\<exists>index. write_doc (checked ''IdentityLink'' valid_identity_link) identity_link_indexes never_expires
     (Create_doc (demo_link\<lparr>il_link_id := ''l4'', il_account_id := ''a3''\<rparr>)) [demo_link\<lparr>il_status := Link_revoked\<rparr>] =
     Inl (DuplicateKeyError index)"
proof (rule revoked_link_still_binds)
  show "demo_link\<lparr>il_status := Link_revoked\<rparr> \<in> set [demo_link\<lparr>il_status := Link_revoked\<rparr>]" by simp
  show "valid_identity_link (demo_link\<lparr>il_link_id := ''l4'', il_account_id := ''a3''\<rparr>)" by code_simp
qed (simp_all add: same_identity_def)

definition demo_lot :: point_lot where
  "demo_lot = \<lparr>pl_lot_id = ''p1'', pl_wallet_id = ''w'', pl_point_type = Promo, pl_points_awarded = 10,
     pl_points_remaining = 4, pl_awarded_at = 1, pl_expires_at = 9, pl_source_event_id = ''e'', pl_promo_id = None,
     pl_correlation_id = ''c'', pl_reason_code = ''r'', pl_tenant_id = ''acme''\<rparr>"

lemma demo_lot_stored:
  "after_writes check_point_lot point_lot_indexes never_expires
     [Create_doc demo_lot, Save_doc 0 (demo_lot\<lparr>pl_points_remaining := 11\<rparr>), Create_doc demo_lot] = [demo_lot]"
  by code_simp

theorem lots_within_award_witness:
  "0 \<le> pl_points_remaining demo_lot \<and> pl_points_remaining demo_lot \<le> pl_points_awarded demo_lot"
  using lots_within_award [OF demo_lot_stored [symmetric], of demo_lot] by simp

definition demo_account :: loyalty_account where
  "demo_account = \<lparr>la_account_id = ''a1'', la_tenant_id = ''acme'', la_user_id = ''alice'', la_status = Account_active,
     la_rrr_member_tier = None, la_enrolled_at = 1, la_closed_at = None, la_default_currency = ''points'',
     la_notes = None\<rparr>"

lemma demo_accounts_stored:
  "after_writes (checked ''LoyaltyAccount'' valid_loyalty_account) loyalty_account_indexes never_expires
     [Create_doc demo_account, Create_doc (demo_account\<lparr>la_account_id := ''a2'', la_user_id := ''bob''\<rparr>),
      Create_doc (demo_account\<lparr>la_account_id := ''a3''\<rparr>)] =
   [demo_account, demo_account\<lparr>la_account_id := ''a2'', la_user_id := ''bob''\<rparr>]"
  by code_simp

theorem one_account_per_user_witness:
  "la_user_id demo_account = ''bob'' \<longleftrightarrow> la_account_id demo_account = ''a2''"
  using one_account_per_user [OF demo_accounts_stored [symmetric], of demo_account
      "demo_account\<lparr>la_account_id := ''a2'', la_user_id := ''bob''\<rparr>"] by simp

definition demo_topup :: micro_topup_config where
  "demo_topup = \<lparr>vc_config_id = ''c1'', vc_tenant_id = ''acme'', vc_merchant_id = ''shop'', vc_effective_at = 1,
     vc_superseded_at = None, vc_correlation_id = ''x'', vc_reason_code = ''r'', vc_created_by = ''ops'',
     mt_threshold_points = 5, mt_topup_points = 1, mt_max_topups_per_period = 1, mt_period_seconds = 60\<rparr>"

theorem active_rows_not_unique_witness:
  "after_writes (checked ''MicroTopupConfig'' valid_micro_topup_config) versioned_config_indexes never_expires
     [Create_doc demo_topup, Create_doc (demo_topup\<lparr>vc_config_id := ''c2''\<rparr>)] =
     [demo_topup, demo_topup\<lparr>vc_config_id := ''c2''\<rparr>]"
proof (rule active_rows_not_unique)
  show "valid_micro_topup_config demo_topup" by code_simp
  show "required_string 128 ''c2''" by code_simp
qed (simp_all add: demo_topup_def)

definition demo_row :: ledger_entry where
  "demo_row = \<lparr>l_entryId = ''e1'', l_transactionId = ''t1'', l_accountId = ''alice'', l_accountType = User,
     l_amount = 5, l_type = CREDIT, l_balanceState = Available, l_stateTransition = ''none->available'',
     l_reason = PROMOTIONAL_AWARD, l_idempotencyKey = ''k1'', l_requestId = ''r1'', l_balanceBefore = 0,
     l_balanceAfter = 5, l_timestamp = 1, l_currency = ''points'', l_metadata = None, l_escrowId = None,
     l_queueItemId = None, l_featureType = None, l_correlationId = None, l_tenant_id = None\<rparr>"

definition empty_rows :: store where
  "empty_rows = \<lparr>wallets = [], model_wallets = [], escrow_items = [], ledger_entries = [], idempotency_records = [],
     published = [], clock = 0, uuids = (\<lambda>_. ''u''), uuid_count = 0\<rparr>"


end
