(* ===== verification/Wallet_Books.thy ===== *)
theory Wallet_Books
  imports Point_Accrual Wallet_Properties Ledger_Api
begin

text \<open>
  The wallet service, the accrual service and the ledger together: the ledger's snapshots
  (\<open>src/ledger/ledger.service.ts\<close>) against the balances in the wallets that the operations of
  \<open>src/wallets/wallet.service.ts\<close> and \<open>src/services/point-accrual.service.ts\<close> change.
\<close>

section \<open>The books\<close>

text \<open>What the snapshot of an account shows for a balance state: the last balance that was recorded.\<close>

definition book :: "store \<Rightarrow> account_type \<Rightarrow> string \<Rightarrow> balance_state \<Rightarrow> rat" where
  "book s ty a = fold_balances (sort_entries By_timestamp Asc
     (filter (snapshot_matches a ty None None) (ledger_entries s)))"

definition book_entry ::
  "ledger_entry \<Rightarrow> (account_type \<Rightarrow> string \<Rightarrow> balance_state \<Rightarrow> rat) \<Rightarrow> account_type \<Rightarrow> string \<Rightarrow> balance_state \<Rightarrow> rat" where
  "book_entry d b ty a st =
     (if l_accountType d = ty \<and> l_accountId d = a \<and> l_balanceState d = st then l_balanceAfter d else b ty a st)"

definition ledger_past :: "store \<Rightarrow> bool" where
  "ledger_past s \<longleftrightarrow> list_all (\<lambda>e. l_timestamp e \<le> clock s) (ledger_entries s)"

lemma book_ledger_available: "book s User a Available = ledger_available s a"
  by (simp add: book_def ledger_available_def)

lemma book_append:
  assumes "ledger_entries s' = ledger_entries s @ [d]" and "\<forall>e\<in>set (ledger_entries s). l_timestamp e \<le> l_timestamp d"
  shows "book s' = book_entry d (book s)"
proof (intro ext)
  fix ty a st
  let ?m = "snapshot_matches a ty None None"
  show "book s' ty a st = book_entry d (book s) ty a st"
  proof (cases "?m d")
    case True
    have "sort_entries By_timestamp Asc (filter ?m (ledger_entries s) @ [d]) =
        sort_entries By_timestamp Asc (filter ?m (ledger_entries s)) @ [d]"
      by (rule sort_entries_snoc) (use assms(2) in auto)
    with True show ?thesis
      by (auto simp: book_def book_entry_def assms(1) fold_balances_def snapshot_matches_def)
  next
    case False
    then show ?thesis
      by (auto simp: book_def book_entry_def assms(1) snapshot_matches_def str_match_def truthy_def)
  qed
qed

lemma book_same: "ledger_entries s' = ledger_entries s \<Longrightarrow> book s' = book s"
  by (simp add: book_def fun_eq_iff)

lemma book_now:
  assumes "ledger_past s" and "ledger_entries s' = ledger_entries s @ [d]" and "l_timestamp d = clock s"
  shows "book s' = book_entry d (book s)"
  using assms by (intro book_append) (auto simp: ledger_past_def list_all_iff)

lemma past_now:
  assumes "ledger_past s" and "ledger_entries s' = ledger_entries s @ ds" and "clock s' = clock s"
    and "\<forall>d\<in>set ds. l_timestamp d = clock s"
  shows "ledger_past s'"
  using assms by (auto simp: ledger_past_def list_all_iff)

text \<open>
  The books agree with the wallets: for each user on the available balance, for each model on the
  earned one.
\<close>

definition books_agree :: "store \<Rightarrow> bool" where
  "books_agree s \<longleftrightarrow> (\<forall>u. book s User u Available = available_of s u) \<and> (\<forall>m. book s Model m Earned = earned_of s m)"

definition books_kept :: "store \<Rightarrow> bool" where
  "books_kept s \<longleftrightarrow> ledger_past s \<and> books_agree s"

section \<open>What the operations do to the books\<close>

lemma wallet_available: "wallet_of s u = Some w \<Longrightarrow> available_of s u = w_availableBalance w"
  by (simp add: available_of_def)

lemma available_upd:
  "map_of (wallets s') = (map_of (wallets s))(u \<mapsto> w) \<Longrightarrow>
     available_of s' v = (if v = u then w_availableBalance w else available_of s v)"
  by (simp add: available_of_def)

lemma hold_books:
  assumes "hold_ready ws r s" and "metadata_ok (hr_metadata r)"
    and "wallet_of s (hr_userId r) = Some w" and "hr_amount r \<le> w_availableBalance w" and "ledger_past s"
  shows "\<exists>resp s'. run (holdInEscrow ws r) s = (Inr resp, s') \<and> ledger_past s' \<and>
    hs_escrowId resp = uuids s (uuid_count s) \<and>
    (\<forall>v. available_of s' v = (if v = hr_userId r then w_availableBalance w - hr_amount r else available_of s v)) \<and>
    (\<forall>m. earned_of s' m = earned_of s m) \<and>
    (\<forall>ty a st. book s' ty a st =
       (if ty = User \<and> a = hr_userId r \<and> st = Available then w_availableBalance w - hr_amount r
        else if ty = User \<and> a = hr_userId r \<and> st = Escrow then w_escrowBalance w + hr_amount r
        else book s ty a st))"
proof -
  let ?s1 = "moved_to_escrow r w (after_claim (hr_idempotencyKey r) ''hold_escrow'' s)"
  let ?s2 = "hold_recorded ws r w (uuids s (uuid_count s)) ?s1"
  from run_hold_success [OF assms(1-4)] obtain resp ev where
    run: "run (holdInEscrow ws r) s = (Inr resp, after_publish ev ?s2)"
    and i: "hs_escrowId resp = uuids s (uuid_count s)" by auto
  let ?t = "uuids ?s1 (uuid_count ?s1)"
  let ?d = "new_entry (ws_ledgerCurrency ws) (hold_debit_entry ws r w (uuids s (uuid_count s)) ?t) ?t
      (?s1\<lparr>uuid_count := Suc (uuid_count ?s1)\<rparr>)"
  define sd where "sd = after_entry (ws_ledgerCurrency ws)
      (hold_debit_entry ws r w (uuids s (uuid_count s)) ?t) ?t (?s1\<lparr>uuid_count := Suc (uuid_count ?s1)\<rparr>)"
  let ?c = "new_entry (ws_ledgerCurrency ws) (hold_credit_entry ws r w (uuids s (uuid_count s)) ?t) ?t sd"
  have sd: "ledger_entries sd = ledger_entries s @ [?d]" "clock sd = clock s" by (simp_all add: sd_def)
  define s' where "s' = after_publish ev ?s2"
  have s2: "ledger_entries s' = ledger_entries sd @ [?c]" "clock s' = clock s" "model_wallets s' = model_wallets s"
    by (simp_all add: s'_def) (simp add: hold_recorded_def Let_def sd_def)
  have bd: "book sd = book_entry ?d (book s)" by (rule book_now [OF assms(5) sd(1)]) simp
  have pd: "ledger_past sd" by (rule past_now [OF assms(5) sd]) simp
  have bc: "book s' = book_entry ?c (book sd)" by (rule book_now [OF pd s2(1)]) (simp add: sd)
  have past: "ledger_past s'" by (rule past_now [OF pd s2(1)]) (simp_all add: sd s2)
  have avail: "available_of s' v =
      (if v = hr_userId r then w_availableBalance w - hr_amount r else available_of s v)" for v
    by (simp add: s'_def available_of_def) (simp add: moved_to_escrow_def Let_def)
  have books: "book s' ty a st =
       (if ty = User \<and> a = hr_userId r \<and> st = Available then w_availableBalance w - hr_amount r
        else if ty = User \<and> a = hr_userId r \<and> st = Escrow then w_escrowBalance w + hr_amount r
        else book s ty a st)" for ty a st
    by (simp add: bc bd book_entry_def hold_debit_entry_def hold_credit_entry_def)
  have "run (holdInEscrow ws r) s = (Inr resp, s')" using run by (simp add: s'_def)
  with i past avail books s2(3) show ?thesis by (simp add: earned_of_def)
qed

lemma settle_books:
  assumes "settle_ready ws r s" and "truthy (map_option qs_token a)"
    and "escrow_of s (sr_escrowId r) = Some e" and "e_status e = Held"
    and "wallet_of s (e_userId e) = Some w" and "ledger_past s"
  shows "\<exists>resp s'. run (settleEscrow ws r a) s = (Inr resp, s') \<and> ledger_past s' \<and>
    wallet_of s' (e_userId e) =
      Some (w\<lparr>w_escrowBalance := w_escrowBalance w - sr_amount r, w_version := w_version w + 1\<rparr>) \<and>
    (\<forall>v. available_of s' v = available_of s v) \<and>
    (\<forall>m. earned_of s' m = (if m = sr_modelId r then earned_of s m + sr_amount r else earned_of s m)) \<and>
    (\<forall>ty a st. book s' ty a st =
       (if ty = Model \<and> a = sr_modelId r \<and> st = Earned then earned_of s a + sr_amount r else book s ty a st))"
proof -
  from settle_outcome [OF assms(1-5)] obtain resp s' d where
    run: "run (settleEscrow ws r a) s = (Inr resp, s')"
    and wallets: "map_of (wallets s') = (map_of (wallets s))(e_userId e \<mapsto>
      w\<lparr>w_escrowBalance := w_escrowBalance w - sr_amount r, w_version := w_version w + 1\<rparr>)"
    and earned: "earned_of s' (sr_modelId r) = earned_of s (sr_modelId r) + sr_amount r"
      "\<forall>m. m \<noteq> sr_modelId r \<longrightarrow> earned_of s' m = earned_of s m"
    and entry: "ledger_entries s' = ledger_entries s @ [d]"
      "(l_accountId d, l_balanceState d, l_amount d, l_balanceAfter d) =
        (sr_modelId r, Earned, sr_amount r, earned_of s (sr_modelId r) + sr_amount r)"
      "l_accountType d = Model" "l_timestamp d = clock s" "clock s' = clock s" by metis
  have "book s' = book_entry d (book s)" by (rule book_now [OF assms(6) entry(1,4)])
  moreover have "ledger_past s'" by (rule past_now [OF assms(6) entry(1,5)]) (simp add: entry(4))
  ultimately show ?thesis
    using run wallets earned entry(2,3) wallet_available [OF assms(5)]
    by (intro exI conjI allI) (assumption | auto simp: book_entry_def available_upd)+
qed

lemma refund_books:
  assumes "refund_ready ws r s" and "truthy (map_option qr_token a)"
    and "escrow_of s (rr_escrowId r) = Some e" and "e_status e = Held"
    and "wallet_of s (rr_userId r) = Some w" and "ledger_past s"
  shows "\<exists>resp s'. run (refundEscrow ws r a) s = (Inr resp, s') \<and> ledger_past s' \<and>
    wallet_of s' (rr_userId r) =
      Some (w\<lparr>w_availableBalance := w_availableBalance w + rr_amount r,
        w_escrowBalance := w_escrowBalance w - rr_amount r, w_version := w_version w + 1\<rparr>) \<and>
    (\<forall>v. available_of s' v = (if v = rr_userId r then w_availableBalance w + rr_amount r else available_of s v)) \<and>
    (\<forall>m. earned_of s' m = earned_of s m) \<and>
    (\<forall>ty a st. book s' ty a st =
       (if ty = User \<and> a = rr_userId r \<and> st = Available then w_availableBalance w + rr_amount r else book s ty a st))"
proof -
  from refund_outcome [OF assms(1-5)] obtain resp s' d where
    run: "run (refundEscrow ws r a) s = (Inr resp, s')"
    and wallets: "map_of (wallets s') = (map_of (wallets s))(rr_userId r \<mapsto>
      w\<lparr>w_availableBalance := w_availableBalance w + rr_amount r,
        w_escrowBalance := w_escrowBalance w - rr_amount r, w_version := w_version w + 1\<rparr>)"
    and models: "model_wallets s' = model_wallets s"
    and entry: "ledger_entries s' = ledger_entries s @ [d]"
      "(l_accountId d, l_balanceState d, l_amount d, l_balanceAfter d) =
        (rr_userId r, Available, rr_amount r, w_availableBalance w + rr_amount r)"
      "l_accountType d = User" "l_timestamp d = clock s" "clock s' = clock s" by metis
  have "book s' = book_entry d (book s)" by (rule book_now [OF assms(6) entry(1,4)])
  moreover have "ledger_past s'" by (rule past_now [OF assms(6) entry(1,5)]) (simp add: entry(4))
  ultimately show ?thesis
    using run wallets models entry(2,3)
    by (intro exI conjI allI) (assumption | auto simp: book_entry_def available_upd earned_of_def)+
qed

text \<open>Several entries at once: a partial settlement writes one for each part that is positive.\<close>

lemma book_fold:
  "ledger_past s \<Longrightarrow> ledger_entries s' = ledger_entries s @ ds \<Longrightarrow> \<forall>d\<in>set ds. l_timestamp d = clock s \<Longrightarrow>
     book s' = fold book_entry ds (book s)"
proof (induction ds arbitrary: s)
  case Nil
  have "book s' = book s" by (rule book_same) (use Nil in simp)
  then show ?case by simp
next
  case (Cons d ds)
  let ?t = "s\<lparr>ledger_entries := ledger_entries s @ [d]\<rparr>"
  have "ledger_past ?t" by (rule past_now [OF Cons.prems(1), of _ "[d]"]) (simp_all add: Cons.prems)
  then have "book s' = fold book_entry ds (book ?t)"
    by (rule Cons.IH) (simp_all add: Cons.prems)
  moreover have "book ?t = book_entry d (book s)"
    by (rule book_now [OF Cons.prems(1)]) (simp_all add: Cons.prems)
  ultimately show ?case by simp
qed

lemma partial_books:
  assumes "partial_ready ws r s" and "truthy (map_option qp_token a)"
    and "escrow_of s (pr_escrowId r) = Some e" and "e_status e = Held"
    and "wallet_of s (pr_userId r) = Some w" and "ledger_past s"
    and "\<bar>pr_refundAmount r + pr_settleAmount r - e_amount e\<bar> \<le> 1 / 100"
    and "0 \<le> pr_refundAmount r" and "0 \<le> pr_settleAmount r"
  shows "\<exists>resp s'. run (partialSettleEscrow ws r a) s = (Inr resp, s') \<and> ledger_past s' \<and>
    wallet_of s' (pr_userId r) = Some (partial_wallet r e w) \<and>
    (\<forall>v. available_of s' v =
       (if v = pr_userId r then w_availableBalance w + pr_refundAmount r else available_of s v)) \<and>
    (\<forall>m. earned_of s' m = (if m = pr_modelId r then earned_of s m + pr_settleAmount r else earned_of s m)) \<and>
    (\<forall>ty a st. book s' ty a st =
       (if ty = User \<and> a = pr_userId r \<and> st = Available \<and> 0 < pr_refundAmount r
        then w_availableBalance w + pr_refundAmount r
        else if ty = Model \<and> a = pr_modelId r \<and> st = Earned \<and> 0 < pr_settleAmount r
        then earned_of s a + pr_settleAmount r else book s ty a st))"
proof -
  note moved = partial_moved_simps [where ws = ws and r = r and e = e and w = w and s = s]
  from record_partial_success [OF assms(1) moved(8,9,6)]
  obtain resp refunded settled s' where
    rec: "run (record_partial_settle ws r w (partial_wallet r e w) (model_before ws s (pr_modelId r)))
      (partial_moved ws r e w s) = (Inr resp, s')"
    and same: "wallets s' = wallets (partial_moved ws r e w s)"
      "model_wallets s' = model_wallets (partial_moved ws r e w s)" "clock s' = clock (partial_moved ws r e w s)"
    and entries: "ledger_entries s' = ledger_entries s @
        ((if 0 < pr_refundAmount r then [refunded] else []) @ (if 0 < pr_settleAmount r then [settled] else []))"
    and kinds: "(l_accountId refunded, l_balanceState refunded, l_amount refunded) = (pr_userId r, Available, pr_refundAmount r)"
      "(l_accountId settled, l_balanceState settled, l_amount settled) = (pr_modelId r, Earned, pr_settleAmount r)"
      "(l_accountType refunded, l_balanceAfter refunded, l_timestamp refunded) =
        (User, w_availableBalance w + pr_refundAmount r, clock (partial_moved ws r e w s))"
      "(l_accountType settled, l_balanceAfter settled, l_timestamp settled) =
        (Model, m_earnedBalance (model_before ws s (pr_modelId r)) + pr_settleAmount r,
         clock (partial_moved ws r e w s))" by metis
  have run: "run (partialSettleEscrow ws r a) s = (Inr resp, s')"
    using run_partial_match [OF assms(1-5,7)] rec by simp
  have wallets: "map_of (wallets s') = (map_of (wallets s))(pr_userId r \<mapsto> partial_wallet r e w)"
    using same(1) moved(1) by simp
  have earned: "earned_of s' m = (if m = pr_modelId r then earned_of s m + pr_settleAmount r else earned_of s m)" for m
    using same(2) moved(2,3) by (simp add: earned_of_def)
  have clk: "clock s' = clock s" using same(3) moved(4) by simp
  have now: "\<forall>d\<in>set ((if 0 < pr_refundAmount r then [refunded] else []) @
      (if 0 < pr_settleAmount r then [settled] else [])). l_timestamp d = clock s"
    using kinds(3,4) moved(4) by auto
  have "book s' ty a st =
       (if ty = User \<and> a = pr_userId r \<and> st = Available \<and> 0 < pr_refundAmount r
        then w_availableBalance w + pr_refundAmount r
        else if ty = Model \<and> a = pr_modelId r \<and> st = Earned \<and> 0 < pr_settleAmount r
        then earned_of s a + pr_settleAmount r else book s ty a st)" for ty a st
    using kinds book_fold [OF assms(6) entries now] by (auto simp: book_entry_def earned_model_before)
  with run past_now [OF assms(6) entries clk now] earned wallets show ?thesis
    by (intro exI conjI allI) (assumption | simp add: available_upd partial_wallet_def)+
qed

lemma award_books:
  assumes "request_ready ps r ''award_points'' s" and "validateAmount ps (aw_amount r) = Inr a"
    and "aw_reason r \<in> set earningReasons" and "\<not> key_used (aw_idempotencyKey r) s" and "ledger_past s"
  shows "\<exists>resp s'. run (awardPoints ps r 0) s = (Inr resp, s') \<and> ledger_past s' \<and>
    (\<forall>v. available_of s' v = (if v = aw_userId r then available_of s v + a else available_of s v)) \<and>
    (\<forall>m. earned_of s' m = earned_of s m) \<and>
    (\<forall>ty u st. book s' ty u st =
       (if ty = User \<and> u = aw_userId r \<and> st = Available then available_of s u + a else book s ty u st))"
proof -
  from award_outcome [OF assms(1-3)] obtain resp s' d where
    run: "run (awardPoints ps r 0) s = (Inr resp, s')"
    and avail: "available_of s' (aw_userId r) = available_of s (aw_userId r) + a"
      "\<forall>v. v \<noteq> aw_userId r \<longrightarrow> available_of s' v = available_of s v"
    and entries: "ledger_entries s' = ledger_entries s @ (if key_used (aw_idempotencyKey r) s then [] else [d])"
    and kind: "(l_accountId d, l_amount d, l_balanceAfter d) = (aw_userId r, a, available_of s (aw_userId r) + a)"
      "(l_accountType d, l_balanceState d, l_timestamp d) = (User, Available, clock s)"
    and same: "model_wallets s' = model_wallets s" "clock s' = clock s" by metis
  have new: "ledger_entries s' = ledger_entries s @ [d]" using entries assms(4) by simp
  have "book s' = book_entry d (book s)" by (rule book_now [OF assms(5) new]) (use kind in simp)
  moreover have "ledger_past s'" by (rule past_now [OF assms(5) new same(2)]) (use kind in simp)
  ultimately show ?thesis
    using run avail same(1) kind
    by (intro exI conjI allI) (assumption | auto simp: book_entry_def earned_of_def)+
qed

section \<open>Requests that meet their conditions\<close>

text \<open>
  A request that the wallet service can carry out: valid fields, a fresh key, for a hold a balance
  that covers it, for the others a token and an item that is held by a user with a wallet; the two
  parts of a partial settlement are not negative and add up to the item's amount within a cent.
\<close>

fun call_ready :: "wallet_service \<Rightarrow> wallet_call \<Rightarrow> store \<Rightarrow> bool" where
  "call_ready ws (Hold_call r) s =
     (hold_ready ws r s \<and> metadata_ok (hr_metadata r) \<and>
      (case wallet_of s (hr_userId r) of None \<Rightarrow> False | Some w \<Rightarrow> hr_amount r \<le> w_availableBalance w))"
| "call_ready ws (Settle_call r a) s =
     (settle_ready ws r s \<and> truthy (map_option qs_token a) \<and>
      (case escrow_of s (sr_escrowId r) of None \<Rightarrow> False
       | Some e \<Rightarrow> e_status e = Held \<and> wallet_of s (e_userId e) \<noteq> None))"
| "call_ready ws (Refund_call r a) s =
     (refund_ready ws r s \<and> truthy (map_option qr_token a) \<and> wallet_of s (rr_userId r) \<noteq> None \<and>
      (case escrow_of s (rr_escrowId r) of None \<Rightarrow> False | Some e \<Rightarrow> e_status e = Held))"
| "call_ready ws (Partial_call r a) s =
     (partial_ready ws r s \<and> truthy (map_option qp_token a) \<and> wallet_of s (pr_userId r) \<noteq> None \<and>
      0 \<le> pr_refundAmount r \<and> 0 \<le> pr_settleAmount r \<and>
      (case escrow_of s (pr_escrowId r) of None \<Rightarrow> False
       | Some e \<Rightarrow> e_status e = Held \<and> \<bar>pr_refundAmount r + pr_settleAmount r - e_amount e\<bar> \<le> 1 / 100))"

fun award_ready :: "point_accrual_service \<Rightarrow> award_points_request \<Rightarrow> store \<Rightarrow> bool" where
  "award_ready ps r s =
     (request_ready ps r ''award_points'' s \<and> isl (validateAmount ps (aw_amount r)) = False \<and>
      aw_reason r \<in> set earningReasons \<and> \<not> key_used (aw_idempotencyKey r) s)"

lemma call_keeps_books:
  assumes "call_ready ws c s" and "books_kept s"
  shows "\<exists>s'. run (handle_call ws c) s = (Inr (), s') \<and> books_kept s'"
proof (cases c)
  case (Hold_call r)
  with assms obtain w where "wallet_of s (hr_userId r) = Some w" "hr_amount r \<le> w_availableBalance w"
    "hold_ready ws r s" "metadata_ok (hr_metadata r)" by (auto split: option.splits)
  from hold_books [OF this(3,4,1,2)] assms(2) Hold_call show ?thesis
    by (fastforce simp: books_kept_def books_agree_def run_await run_pure)
next
  case (Settle_call r a)
  with assms obtain e w where "escrow_of s (sr_escrowId r) = Some e" "e_status e = Held"
    "wallet_of s (e_userId e) = Some w" "settle_ready ws r s" "truthy (map_option qs_token a)"
    by (auto split: option.splits)
  from settle_books [OF this(4,5,1-3)] assms(2) Settle_call show ?thesis
    by (fastforce simp: books_kept_def books_agree_def run_await run_pure)
next
  case (Refund_call r a)
  with assms obtain e w where "escrow_of s (rr_escrowId r) = Some e" "e_status e = Held"
    "wallet_of s (rr_userId r) = Some w" "refund_ready ws r s" "truthy (map_option qr_token a)"
    by (auto split: option.splits)
  from refund_books [OF this(4,5,1-3)] assms(2) Refund_call show ?thesis
    by (fastforce simp: books_kept_def books_agree_def run_await run_pure)
next
  case (Partial_call r a)
  with assms obtain e w where r: "escrow_of s (pr_escrowId r) = Some e" "e_status e = Held"
    "wallet_of s (pr_userId r) = Some w" "partial_ready ws r s" "truthy (map_option qp_token a)"
    "\<bar>pr_refundAmount r + pr_settleAmount r - e_amount e\<bar> \<le> 1 / 100"
    "0 \<le> pr_refundAmount r" "0 \<le> pr_settleAmount r"
    by (auto split: option.splits)
  from partial_books [OF r(4,5,1-3) _ r(6-8)] assms(2) Partial_call r(7,8) wallet_available [OF r(3)]
  show ?thesis
    by (fastforce simp: books_kept_def books_agree_def run_await run_pure)
qed

lemma award_keeps_books:
  assumes "award_ready ps r s" and "books_kept s"
  shows "\<exists>resp s'. run (awardPoints ps r 0) s = (Inr resp, s') \<and> books_kept s'"
proof -
  obtain a where "validateAmount ps (aw_amount r) = Inr a"
    using assms(1) by (cases "validateAmount ps (aw_amount r)") auto
  from award_books [OF _ this] assms show ?thesis
    by (fastforce simp: books_kept_def books_agree_def)
qed

section \<open>Any history of such requests\<close>

text \<open>
  The histories in which requests are served one after the other while the clock goes on: requests
  to the wallet service and awards of the accrual service, each when its conditions hold.
\<close>

inductive serial :: "wallet_service \<Rightarrow> point_accrual_service \<Rightarrow> store \<Rightarrow> store \<Rightarrow> bool"
  for ws ps s where
  serial_start: "serial ws ps s s"
| serial_call: "serial ws ps s t \<Longrightarrow> call_ready ws c t \<Longrightarrow> run (handle_call ws c) t = (res, t') \<Longrightarrow> serial ws ps s t'"
| serial_award: "serial ws ps s t \<Longrightarrow> award_ready ps r t \<Longrightarrow> run (awardPoints ps r 0) t = (ares, t') \<Longrightarrow> serial ws ps s t'"
| serial_tick: "serial ws ps s t \<Longrightarrow> 0 \<le> ms \<Longrightarrow> serial ws ps s (t\<lparr>clock := clock t + ms\<rparr>)"

lemma tick_keeps_books: "0 \<le> ms \<Longrightarrow> books_kept s \<Longrightarrow> books_kept (s\<lparr>clock := clock s + ms\<rparr>)"
  by (auto simp: books_kept_def books_agree_def ledger_past_def list_all_iff book_def earned_of_def available_of_def)

lemma serial_keeps_books:
  assumes "serial ws ps s s'" and "books_kept s"
  shows "books_kept s'"
  using assms
proof induction
  case (serial_call t c res t')
  then show ?case using call_keeps_books by fastforce
next
  case (serial_award t r ares t')
  then show ?case using award_keeps_books by fastforce
next
  case (serial_tick t ms)
  then show ?case by (intro tick_keeps_books)
qed


definition settle_awarded :: escrow_settle_request where
  "settle_awarded = demo_settle\<lparr>sr_escrowId := ''uuid-2''\<rparr>"

definition awarded_and_held :: store where
  "awarded_and_held =
     snd (run (handle_call default_wallet_service (Hold_call demo_hold))
       (snd (run (awardPoints default_point_accrual demo_award 0) empty_store)))"

lemma serial_awarded_and_held: "serial default_wallet_service default_point_accrual empty_store awarded_and_held"
proof -
  let ?s1 = "snd (run (awardPoints default_point_accrual demo_award 0) empty_store)"
  have "award_ready default_point_accrual demo_award empty_store" by code_simp
  then have "serial default_wallet_service default_point_accrual empty_store ?s1"
    by (rule serial_award [OF serial_start]) (rule prod.collapse [symmetric])
  moreover have "call_ready default_wallet_service (Hold_call demo_hold) ?s1" by code_simp
  ultimately show ?thesis unfolding awarded_and_held_def by (rule serial_call) (rule prod.collapse [symmetric])
qed

lemma empty_books: "ledger_past empty_store" "books_agree empty_store"
  by (simp_all add: ledger_past_def books_agree_def book_def empty_store_def available_of_def earned_of_def
      sort_entries_def fold_balances_def)


section \<open>What the books do not follow\<close>

definition escrow_balance :: "store \<Rightarrow> string \<Rightarrow> rat" where
  "escrow_balance s u = (case wallet_of s u of None \<Rightarrow> 0 | Some w \<Rightarrow> w_escrowBalance w)"

text \<open>The user out of whose escrow balance a request takes points, and how many.\<close>

fun release_of :: "wallet_call \<Rightarrow> store \<Rightarrow> (string \<times> rat) option" where
  "release_of (Hold_call r) s = None"
| "release_of (Settle_call r a) s = map_option (\<lambda>e. (e_userId e, sr_amount r)) (escrow_of s (sr_escrowId r))"
| "release_of (Refund_call r a) s = Some (rr_userId r, rr_amount r)"
| "release_of (Partial_call r a) s = map_option (\<lambda>e. (pr_userId r, e_amount e)) (escrow_of s (pr_escrowId r))"

lemma run_ledger_getBalance_books:
  "run (ledger_getBalance currency u) s =
     (Inr \<lparr>br_userId = u, br_available = book s User u Available, br_escrow = Some (book s User u Escrow),
        br_total = book s User u Available + book s User u Escrow, br_asOf = toISOString (clock s)\<rparr>, s)"
  by (simp add: ledger_getBalance_def run_simps run_getBalanceSnapshot Let_def book_def or_zero_def)

lemma release_keeps_escrow_book:
  assumes "call_ready ws c s" and "ledger_past s" and "release_of c s = Some (u, amount)"
  shows "\<exists>s'. run (handle_call ws c) s = (Inr (), s') \<and> book s' User u Escrow = book s User u Escrow \<and>
    escrow_balance s' u = escrow_balance s u - amount"
proof (cases c)
  case (Hold_call r)
  with assms(3) show ?thesis by simp
next
  case (Settle_call r a)
  with assms(1) obtain e w where e: "escrow_of s (sr_escrowId r) = Some e" "e_status e = Held"
    "wallet_of s (e_userId e) = Some w" "settle_ready ws r s" "truthy (map_option qs_token a)"
    by (auto split: option.splits)
  have u: "u = e_userId e" "amount = sr_amount r"
    using assms(3) Settle_call e(1) by simp_all
  from settle_books [OF e(4,5,1-3) assms(2)] Settle_call e(3) u show ?thesis
    by (fastforce simp: escrow_balance_def run_await run_pure)
next
  case (Refund_call r a)
  with assms(1) obtain e w where e: "escrow_of s (rr_escrowId r) = Some e" "e_status e = Held"
    "wallet_of s (rr_userId r) = Some w" "refund_ready ws r s" "truthy (map_option qr_token a)"
    by (auto split: option.splits)
  have u: "u = rr_userId r" "amount = rr_amount r"
    using assms(3) Refund_call e(1) by simp_all
  from refund_books [OF e(4,5,1-3) assms(2)] Refund_call e(3) u show ?thesis
    by (fastforce simp: escrow_balance_def run_await run_pure)
next
  case (Partial_call r a)
  with assms(1) obtain e w where e: "escrow_of s (pr_escrowId r) = Some e" "e_status e = Held"
    "wallet_of s (pr_userId r) = Some w" "partial_ready ws r s" "truthy (map_option qp_token a)"
    "\<bar>pr_refundAmount r + pr_settleAmount r - e_amount e\<bar> \<le> 1 / 100"
    "0 \<le> pr_refundAmount r" "0 \<le> pr_settleAmount r"
    by (auto split: option.splits)
  have u: "u = pr_userId r" "amount = e_amount e"
    using assms(3) Partial_call e(1) by simp_all
  from partial_books [OF e(4,5,1-3) assms(2) e(6-8)] obtain resp s' where
    "run (partialSettleEscrow ws r a) s = (Inr resp, s')" "wallet_of s' u = Some (partial_wallet r e w)"
    "book s' User u Escrow = book s User u Escrow" using u(1) by auto
  then show ?thesis
    using Partial_call e(3) u by (simp add: escrow_balance_def partial_wallet_def run_await run_pure)
qed



text \<open>
  A promotional credit is lost with the next hold.  A credit through the ledger's interface
  raises the available balance that the ledger shows, but no wallet; so the wallet service does not
  let the user spend it, and the next hold records the balance of the wallet over it: afterwards
  the ledger shows exactly what it would show had the credit never been made.
\<close>

theorem promotional_credit_lost:
  assumes "0 < amount" and "promo_ready currency u source reason key s" and "books_agree s"
    and "run (creditPoints currency u amount source reason (Some key)) s = (res, s1)"
    and "call_ready ws (Hold_call r) s1" and "hr_userId r = u"
  shows "res = Inr True \<and> book s1 User u Available = available_of s u + amount \<and>
    available_of s1 u = available_of s u \<and>
    (\<exists>s2. run (handle_call ws (Hold_call r)) s1 = (Inr (), s2) \<and>
      book s2 User u Available = available_of s u - hr_amount r)"
proof -
  from creditPoints_outcome [OF assms(1,2)] assms(4) obtain e where
    res: "res = Inr True" and avail: "ledger_available s1 u = ledger_available s u + amount"
    and s1: "s1 = s\<lparr>uuid_count := uuid_count s + 3, ledger_entries := ledger_entries s @ [e]\<rparr>"
    and e: "l_timestamp e = clock s" by auto
  have agree: "ledger_available s u = available_of s u"
    using assms(3) by (simp add: books_agree_def book_ledger_available [symmetric])
  have same: "available_of s1 u = available_of s u" "clock s1 = clock s"
    "ledger_entries s1 = ledger_entries s @ [e]" by (simp_all add: s1 available_of_def)
  have "ledger_past s"
    using assms(2) by (auto simp: promo_ready_def ledger_past_def list_all_iff)
  then have past: "ledger_past s1" by (rule past_now [OF _ same(3,2)]) (simp add: e)
  from assms(5,6) obtain w where w: "wallet_of s1 (hr_userId r) = Some w" "hr_amount r \<le> w_availableBalance w"
    "hold_ready ws r s1" "metadata_ok (hr_metadata r)" by (auto split: option.splits)
  from hold_books [OF w(3,4,1,2) past] obtain resp s2 where
    "run (holdInEscrow ws r) s1 = (Inr resp, s2)" "book s2 User u Available = w_availableBalance w - hr_amount r"
    using assms(6) by auto
  then show ?thesis
    using res avail agree same(1) wallet_available [OF w(1)] assms(6)
    by (simp add: book_ledger_available run_await run_pure)
qed

definition awarded :: store where
  "awarded = snd (run (awardPoints default_point_accrual demo_award 0) empty_store)"

lemma awarded_books: "books_kept awarded"
proof -
  have "award_ready default_point_accrual demo_award empty_store" by code_simp
  then show ?thesis
    using award_keeps_books [of default_point_accrual demo_award empty_store] empty_books
    by (auto simp: awarded_def books_kept_def)
qed

theorem promotional_credit_lost_witness:
  "\<exists>s1 s2. run (creditPoints ''points'' ''alice'' 80 ''shop'' ''hat'' (Some ''c1'')) awarded = (Inr True, s1) \<and>
     book s1 User ''alice'' Available = 330 \<and>
     run (handle_call default_wallet_service (Hold_call demo_hold)) s1 = (Inr (), s2) \<and>
     book s2 User ''alice'' Available = 190"
proof -
  let ?p = "run (creditPoints ''points'' ''alice'' 80 ''shop'' ''hat'' (Some ''c1'')) awarded"
  have "promo_ready ''points'' ''alice'' ''shop'' ''hat'' ''c1'' awarded"
    and "call_ready default_wallet_service (Hold_call demo_hold) (snd ?p)"
    and "available_of awarded ''alice'' = 250" "hr_amount demo_hold = 60" "hr_userId demo_hold = ''alice''"
    by code_simp+
  then show ?thesis
    using promotional_credit_lost [of 80 "''points''" "''alice''" "''shop''" "''hat''" "''c1''" awarded "fst ?p" "snd ?p"
        default_wallet_service demo_hold] awarded_books
    by (auto simp: books_kept_def prod_eq_iff)
qed

end
