(* ===== verification/Application.thy ===== *)
theory Application
  imports Loyalty_Services Merchant_Services Ledger_Api Webhooks Env_Validation Wallet_Properties
begin

text \<open>
  The application as it is put together (\<open>src/app.module.ts\<close>, the modules it imports,
  \<open>src/main.ts\<close>): which controllers are mounted under which routes, what their dependencies are, the
  handlers of the controllers under \<open>src/controllers\<close>, \<open>src/health\<close> and
  \<open>src/webhooks/webhook-receive.controller.ts\<close> over the services modelled elsewhere, and the
  configuration (\<open>src/config/app.config.ts\<close>, \<open>production.config.ts\<close>).

  The state of the application is that of its parts; a handler of one part works on that part of
  the state, each of its database calls one atomic step of the whole.  Bodies of requests are typed;
  what authentication would have put into \<open>req.user\<close> is an argument.
\<close>

section \<open>Modules, controllers and routes\<close>

datatype controller =
    MemberController | MerchantController | BurnController | ReportingController | WhiteLabelController
  | CreatorGiftingPanelController | WalletController | WebhookReceiveController | HealthController
  | AwardingWalletController | CreatorGiftingController

datatype provider =
    MemberService | GateGuardAVService | RedRoomLedgerService | TierEngineService
  | WelfareGuardianScoreService | LedgerService | AwardingWalletService | BurnCatalogService
  | ReportingService | WhiteLabelService | CreatorGiftingPanelService | CreatorGiftingService
  | WebhookReceiveService | WebhookEmitService | IdempotencyService | MerchantService

record nest_module =
  nm_controllers :: "controller list"
  nm_providers :: "provider list"

definition memberModule :: nest_module where
  "memberModule = \<lparr>nm_controllers = [MemberController],
     nm_providers = [MemberService, GateGuardAVService, RedRoomLedgerService, TierEngineService,
       WelfareGuardianScoreService, LedgerService]\<rparr>"

definition merchantModule :: nest_module where
  "merchantModule = \<lparr>nm_controllers = [MerchantController], nm_providers = [AwardingWalletService, LedgerService]\<rparr>"

definition burnModule :: nest_module where
  "burnModule = \<lparr>nm_controllers = [BurnController],
     nm_providers = [BurnCatalogService, RedRoomLedgerService, GateGuardAVService,
       WelfareGuardianScoreService, LedgerService]\<rparr>"

definition reportingModule :: nest_module where
  "reportingModule = \<lparr>nm_controllers = [ReportingController], nm_providers = [ReportingService]\<rparr>"

definition whiteLabelModule :: nest_module where
  "whiteLabelModule = \<lparr>nm_controllers = [WhiteLabelController], nm_providers = [WhiteLabelService]\<rparr>"

definition creatorGiftingPanelModule :: nest_module where
  "creatorGiftingPanelModule = \<lparr>nm_controllers = [CreatorGiftingPanelController],
     nm_providers = [CreatorGiftingPanelService]\<rparr>"

definition redRoomLedgerModule :: nest_module where
  "redRoomLedgerModule = \<lparr>nm_controllers = [],
     nm_providers = [RedRoomLedgerService, GateGuardAVService, WelfareGuardianScoreService, LedgerService]\<rparr>"

definition walletModule :: nest_module where
  "walletModule = \<lparr>nm_controllers = [WalletController], nm_providers = [LedgerService]\<rparr>"

definition webhookModule :: nest_module where
  "webhookModule = \<lparr>nm_controllers = [WebhookReceiveController],
     nm_providers = [WebhookReceiveService, WebhookEmitService, IdempotencyService]\<rparr>"

text \<open>The application: the modules it imports, and its own controller.\<close>

definition app_modules :: "nest_module list" where
  "app_modules = [memberModule, merchantModule, burnModule, reportingModule, whiteLabelModule,
     creatorGiftingPanelModule, redRoomLedgerModule, walletModule, webhookModule,
     \<lparr>nm_controllers = [HealthController], nm_providers = []\<rparr>]"

definition mounted :: "controller list" where
  "mounted = concat (map nm_controllers app_modules)"

text \<open>What the constructors ask for.  The ledger and the idempotency service are made by factories.\<close>

fun controller_needs :: "controller \<Rightarrow> provider list" where
  "controller_needs MemberController = [MemberService]"
| "controller_needs MerchantController = [AwardingWalletService]"
| "controller_needs BurnController = [BurnCatalogService]"
| "controller_needs ReportingController = [ReportingService]"
| "controller_needs WhiteLabelController = [WhiteLabelService]"
| "controller_needs CreatorGiftingPanelController = [CreatorGiftingPanelService]"
| "controller_needs WalletController = [LedgerService]"
| "controller_needs WebhookReceiveController = [WebhookReceiveService]"
| "controller_needs HealthController = []"
| "controller_needs AwardingWalletController = [AwardingWalletService]"
| "controller_needs CreatorGiftingController = [CreatorGiftingService]"

fun provider_needs :: "provider \<Rightarrow> provider list" where
  "provider_needs MemberService = [GateGuardAVService, RedRoomLedgerService, TierEngineService]"
| "provider_needs RedRoomLedgerService = [LedgerService, GateGuardAVService, WelfareGuardianScoreService]"
| "provider_needs AwardingWalletService = [LedgerService]"
| "provider_needs BurnCatalogService = [RedRoomLedgerService]"
| "provider_needs CreatorGiftingService = [LedgerService]"
| "provider_needs WebhookReceiveService = [IdempotencyService, WebhookEmitService]"
| "provider_needs MerchantService = [AwardingWalletService]"
| "provider_needs _ = []"

definition module_closed :: "nest_module \<Rightarrow> bool" where
  "module_closed m \<longleftrightarrow>
     list_all (\<lambda>c. list_all (\<lambda>p. p \<in> set (nm_providers m)) (controller_needs c)) (nm_controllers m) \<and>
     list_all (\<lambda>q. list_all (\<lambda>p. p \<in> set (nm_providers m)) (provider_needs q)) (nm_providers m)"

datatype http_method = GET | POST

fun routes_of :: "controller \<Rightarrow> (http_method \<times> string) list" where
  "routes_of MemberController = [(POST, ''members/signup'')]"
| "routes_of MerchantController = [(POST, ''merchants/awarding-wallet/upload-csv'')]"
| "routes_of BurnController = [(POST, ''burn/redeem'')]"
| "routes_of ReportingController = [(GET, ''reports/liability'')]"
| "routes_of WhiteLabelController = [(POST, ''white-label/config''), (GET, ''white-label/config/:merchantId'')]"
| "routes_of CreatorGiftingPanelController = [(GET, ''creator/gifting-panel/state'')]"
| "routes_of WalletController = [(POST, ''wallet/credit''), (POST, ''wallet/deduct'')]"
| "routes_of WebhookReceiveController = [(POST, ''webhooks/receive'')]"
| "routes_of HealthController = [(GET, ''health'')]"
| "routes_of AwardingWalletController = [(POST, ''awarding-wallet/upload-csv'')]"
| "routes_of CreatorGiftingController = [(POST, ''creator-gifting/create'')]"

text \<open>The global prefix, from which the health check is excluded.\<close>

definition app_routes :: "(http_method \<times> string) list" where
  "app_routes = map (\<lambda>(method, path). (method, if path = ''health'' then ''/'' @ path else ''/api/v1/'' @ path))
     (concat (map routes_of mounted))"

section \<open>Requests and replies\<close>

record request_user =
  us_merchantId :: "string option"
  us_creatorId :: "string option"

datatype api_request =
    Signup member_signup_request
  | Upload_awards "upload_row list"
  | Redeem_burn burn_redemption
  | Read_liability
  | Save_config white_label_config
  | Read_config string
  | Read_panel
  | Credit_wallet wallet_mutation_body
  | Deduct_wallet wallet_mutation_body
  | Receive_webhook metadata string string
  | Check_health
  | Upload_to_awarding_wallet "upload_row list"
  | Create_promotion gifting_promotion

record panel_state =
  pn_promotionalBalance :: rat
  pn_recentPromotions :: "(string \<times> rat \<times> nat) list"

record health_status =
  he_status :: string
  he_version :: string
  he_timestamp :: string
  he_components :: "string list"

datatype api_reply =
    Profile_reply member_profile
  | Upload_reply upload_result
  | Flag_reply bool
  | Liability_reply liability_report
  | Saved_reply
  | Config_reply white_label_config
  | Panel_reply panel_state
  | Ok_reply bool
  | Webhook_reply json
  | Health_reply health_status
  | Not_found

fun controller_of :: "api_request \<Rightarrow> controller" where
  "controller_of (Signup r) = MemberController"
| "controller_of (Upload_awards rows) = MerchantController"
| "controller_of (Redeem_burn r) = BurnController"
| "controller_of Read_liability = ReportingController"
| "controller_of (Save_config c) = WhiteLabelController"
| "controller_of (Read_config m) = WhiteLabelController"
| "controller_of Read_panel = CreatorGiftingPanelController"
| "controller_of (Credit_wallet b) = WalletController"
| "controller_of (Deduct_wallet b) = WalletController"
| "controller_of (Receive_webhook p sig ts) = WebhookReceiveController"
| "controller_of Check_health = HealthController"
| "controller_of (Upload_to_awarding_wallet rows) = AwardingWalletController"
| "controller_of (Create_promotion p) = CreatorGiftingController"

section \<open>The handlers\<close>

text \<open>
  The settings of the services: the check of e-mail addresses, the currency of the ledger, the
  thresholds of the welfare score and the receiver of webhooks.
\<close>

record server =
  sv_email_ok :: "string \<Rightarrow> bool"
  sv_currency :: string
  sv_thresholds :: wgs_thresholds
  sv_webhooks :: webhook_receiver

record app_state =
  as_store :: store
  as_merchants :: merchant_store
  as_labels :: white_label_store

type_synonym 'a app = "(app_state, error, 'a) io"

text \<open>A program on a part of the state as a program on the whole, step by step.\<close>

primrec zoom :: "('t \<Rightarrow> 's) \<Rightarrow> ('s \<Rightarrow> 't \<Rightarrow> 't) \<Rightarrow> ('s, 'a) proc \<Rightarrow> ('t, 'a) proc" where
  "zoom g put (Ret a) = Ret a"
| "zoom g put (Act f) = Act (\<lambda>t. case (map_prod id (zoom g put) \<circ> f) (g t) of (s', q) \<Rightarrow> (put s' t, q))"

definition on_store :: "'a svc \<Rightarrow> 'a app" where
  "on_store p = zoom as_store (\<lambda>s t. t\<lparr>as_store := s\<rparr>) p"

definition on_merchants :: "'a merchant \<Rightarrow> 'a app" where
  "on_merchants p = zoom as_merchants (\<lambda>s t. t\<lparr>as_merchants := s\<rparr>) p"

definition member_signup :: "server \<Rightarrow> member_signup_request \<Rightarrow> member_profile svc" where
  "member_signup sv request = signup (sv_email_ok sv) (sv_currency sv) (sv_thresholds sv) request"

definition merchantService_uploadAwardingWallet :: "server \<Rightarrow> upload_row list \<Rightarrow> string \<Rightarrow> upload_result svc" where
  "merchantService_uploadAwardingWallet sv rows merchantId = uploadCSV (sv_currency sv) rows merchantId"

definition uploading_merchant :: "request_user option \<Rightarrow> string" where
  "uploading_merchant user =
     (case user of None \<Rightarrow> ''system''
      | Some u \<Rightarrow> (case us_merchantId u of None \<Rightarrow> ''system'' | Some m \<Rightarrow> if m = [] then ''system'' else m))"

definition merchant_uploadAwardingWallet :: "server \<Rightarrow> request_user option \<Rightarrow> upload_row list \<Rightarrow> upload_result svc" where
  "merchant_uploadAwardingWallet sv user rows = uploadCSV (sv_currency sv) rows (uploading_merchant user)"

definition burn_redeem :: "server \<Rightarrow> burn_redemption \<Rightarrow> bool svc" where
  "burn_redeem sv redemption = burn_redeemPoints (sv_currency sv) (sv_thresholds sv) redemption"

text \<open>
  Without a user the property access fails; a user without a merchant is printed as
  \<open>undefined\<close> into the source of the award.
\<close>

definition undefined_text :: "string option \<Rightarrow> string" where
  "undefined_text x = (case x of None \<Rightarrow> ''undefined'' | Some t \<Rightarrow> t)"

definition awardingWallet_uploadCSV :: "server \<Rightarrow> request_user option \<Rightarrow> upload_row list \<Rightarrow> upload_result svc" where
  "awardingWallet_uploadCSV sv user rows =
     (case user of
        None \<Rightarrow> throw (Plain ''Cannot read properties of undefined (reading 'merchantId')'')
      | Some u \<Rightarrow> uploadCSV (sv_currency sv) rows (undefined_text (us_merchantId u)))"

definition creatorGifting_create :: "request_user option \<Rightarrow> gifting_promotion \<Rightarrow> bool svc" where
  "creatorGifting_create user promotion =
     (case user of
        None \<Rightarrow> throw (Plain ''Cannot read properties of undefined (reading 'creatorId')'')
      | Some u \<Rightarrow> createPromotion (undefined_text (us_creatorId u)) promotion)"

definition getPanelState :: "string option \<Rightarrow> panel_state" where
  "getPanelState creatorId = \<lparr>pn_promotionalBalance = 0, pn_recentPromotions = []\<rparr>"

definition panel_getState :: "request_user option \<Rightarrow> panel_state" where
  "panel_getState user = getPanelState (case user of None \<Rightarrow> None | Some u \<Rightarrow> us_creatorId u)"

definition reporting_getLiability :: "liability_report merchant" where
  "reporting_getLiability = getLiabilityReport"

definition whiteLabel_saveConfig :: "white_label_config \<Rightarrow> unit app" where
  "whiteLabel_saveConfig config =
     atomically (\<lambda>s. case saveConfig config (as_labels s) of (r, labels) \<Rightarrow> (s\<lparr>as_labels := labels\<rparr>, r))"

definition whiteLabel_getConfig :: "string \<Rightarrow> white_label_config app" where
  "whiteLabel_getConfig merchantId = query (\<lambda>s. getConfig merchantId (as_labels s))"

definition webhook_receive :: "server \<Rightarrow> metadata \<Rightarrow> string \<Rightarrow> string \<Rightarrow> json svc" where
  "webhook_receive sv payload signature timestamp = handleIncoming (sv_webhooks sv) payload signature timestamp"

definition health_check :: "health_status svc" where
  "health_check =
     await new_date (\<lambda>now.
     pure \<lparr>he_status = ''ok'', he_version = ''1.0'', he_timestamp = toISOString now,
           he_components = [''ledger'', ''awarding-wallet'', ''member'', ''merchant'', ''burn-catalog'',
             ''reporting'', ''white-label'', ''creator-gifting'', ''gateguard-av'']\<rparr>)"

definition answer :: "('a \<Rightarrow> api_reply) \<Rightarrow> 'a app \<Rightarrow> api_reply app" where
  "answer reply p = await p (\<lambda>a. pure (reply a))"

fun handle_request :: "server \<Rightarrow> request_user option \<Rightarrow> api_request \<Rightarrow> api_reply app" where
  "handle_request sv user (Signup r) = answer Profile_reply (on_store (member_signup sv r))"
| "handle_request sv user (Upload_awards rows) =
     answer Upload_reply (on_store (merchant_uploadAwardingWallet sv user rows))"
| "handle_request sv user (Redeem_burn r) = answer Flag_reply (on_store (burn_redeem sv r))"
| "handle_request sv user Read_liability = answer Liability_reply (on_merchants reporting_getLiability)"
| "handle_request sv user (Save_config c) = answer (\<lambda>_. Saved_reply) (whiteLabel_saveConfig c)"
| "handle_request sv user (Read_config m) = answer Config_reply (whiteLabel_getConfig m)"
| "handle_request sv user Read_panel = pure (Panel_reply (panel_getState user))"
| "handle_request sv user (Credit_wallet b) = answer Ok_reply (on_store (credit (sv_currency sv) b))"
| "handle_request sv user (Deduct_wallet b) = answer Ok_reply (on_store (deduct (sv_currency sv) b))"
| "handle_request sv user (Receive_webhook p sig ts) = answer Webhook_reply (on_store (webhook_receive sv p sig ts))"
| "handle_request sv user Check_health = answer Health_reply (on_store health_check)"
| "handle_request sv user (Upload_to_awarding_wallet rows) =
     answer Upload_reply (on_store (awardingWallet_uploadCSV sv user rows))"
| "handle_request sv user (Create_promotion p) = answer Flag_reply (on_store (creatorGifting_create user p))"

text \<open>A request whose controller is not mounted finds no route.\<close>

definition serve :: "server \<Rightarrow> request_user option \<Rightarrow> api_request \<Rightarrow> api_reply app" where
  "serve sv user request =
     (if controller_of request \<in> set mounted then handle_request sv user request else pure Not_found)"

section \<open>Configuration\<close>

text \<open>\<open>parseInt(s, 10)\<close>: the digits after white space and a sign; \<open>None\<close> is \<open>NaN\<close>.\<close>

definition is_digit :: "char \<Rightarrow> bool" where
  "is_digit c \<longleftrightarrow> CHR ''0'' \<le> c \<and> c \<le> CHR ''9''"

definition parseInt10 :: "string \<Rightarrow> int option" where
  "parseInt10 s =
     (let t = dropWhile is_space s;
          negative = (t \<noteq> [] \<and> hd t = CHR ''-'');
          ds = takeWhile is_digit (if t \<noteq> [] \<and> hd t \<in> {CHR ''-'', CHR ''+''} then tl t else t) in
      if ds = [] then None
      else map_option (\<lambda>n. if negative then - int n else int n) (digits_in 10 ds))"

record app_config =
  ac_port :: "int option"
  ac_nodeEnv :: string
  ac_swaggerEnabled :: bool
  ac_gateGuardAvEnabled :: bool

definition appConfig :: "(string \<rightharpoonup> string) \<Rightarrow> app_config" where
  "appConfig env =
     \<lparr>ac_port = parseInt10 (case env_value env ''PORT'' of None \<Rightarrow> ''3000'' | Some p \<Rightarrow> p),
      ac_nodeEnv = (case env_value env ''NODE_ENV'' of None \<Rightarrow> ''development'' | Some e \<Rightarrow> e),
      ac_swaggerEnabled = (env ''NODE_ENV'' \<noteq> Some ''production''), ac_gateGuardAvEnabled = True\<rparr>"

record production_config =
  pc_corsOrigins :: "string list"
  pc_ttl :: nat
  pc_limit :: nat
  pc_swaggerEnabled :: bool

definition productionConfig :: "(string \<rightharpoonup> string) \<Rightarrow> production_config" where
  "productionConfig env =
     \<lparr>pc_corsOrigins = (case env ''CORS_ORIGINS'' of None \<Rightarrow> [''*''] | Some origins \<Rightarrow> split_at (CHR '','') origins),
      pc_ttl = 60, pc_limit = 100, pc_swaggerEnabled = (env ''NODE_ENV'' \<noteq> Some ''production'')\<rparr>"

text \<open>The options of the rate limiter, and what the start of the application sets.\<close>

record rate_limit_options =
  rl_windowMs :: nat
  rl_max :: nat
  rl_standardHeaders :: bool
  rl_legacyHeaders :: bool

definition limiter :: rate_limit_options where
  "limiter = \<lparr>rl_windowMs = 60 * 1000, rl_max = 60, rl_standardHeaders = True, rl_legacyHeaders = False\<rparr>"

record listening =
  li_prefix :: string
  li_excluded :: "string list"
  li_any_origin :: bool
  li_docs :: "string option"
  li_port :: string

definition bootstrap :: "(string \<rightharpoonup> string) \<Rightarrow> listening" where
  "bootstrap env =
     \<lparr>li_prefix = ''api/v1'', li_excluded = [''health''], li_any_origin = True, li_docs = Some ''api/docs'',
      li_port = (case env_value env ''PORT'' of None \<Rightarrow> ''3000'' | Some p \<Rightarrow> p)\<rparr>"

section \<open>Parts of the state\<close>

text \<open>
  What a part of the state has to satisfy; a program on the part then does to the whole what it
  does to the part, and stays within every rely of the whole that its own rely implies.
\<close>

locale state_part =
  fixes g :: "'t \<Rightarrow> 's" and put :: "'s \<Rightarrow> 't \<Rightarrow> 't"
  assumes get_put: "g (put s t) = s"
    and put_get: "put (g t) t = t"
    and put_put: "put s (put s' t) = put s t"
begin

lemma run_zoom: "run (zoom g put p) t = (fst (run p (g t)), put (snd (run p (g t))) t)"
proof (induction p arbitrary: t)
  case (Ret a)
  then show ?case by (simp add: put_get)
next
  case (Act f)
  then show ?case by (simp add: prod.case_eq_if get_put put_put)
qed

lemma keeps_zoom:
  assumes "keeps R p" and "\<And>t t'. R' t t' \<Longrightarrow> R (g t) (g t')" and "\<And>t s. R (g t) s \<Longrightarrow> R' t (put s t)"
  shows "keeps R' (zoom g put p)"
proof -
  have "wp R' (\<lambda>_ _. True) (zoom g put p) t" if "wp R (\<lambda>_ _. True) p (g t)" for t
    using that
  proof (induction p arbitrary: t)
    case (Ret a)
    then show ?case by simp
  next
    case (Act f)
    have "R' t1 (put (fst (f (g t1))) t1) \<and> wp R' (\<lambda>_ _. True) (zoom g put (snd (f (g t1)))) (put (fst (f (g t1))) t1)"
      if "R' t t1" for t1
    proof -
      have "R (g t1) (fst (f (g t1)))" and "wp R (\<lambda>_ _. True) (snd (f (g t1))) (fst (f (g t1)))"
        using Act.prems assms(2) [OF that] by (simp_all add: wp_Act del: wp.simps(2))
      then show ?thesis by (auto intro: assms(3) Act.IH simp: get_put)
    qed
    then show ?case by (simp add: wp_Act prod.case_eq_if del: wp.simps(2))
  qed
  then show ?thesis using assms(1) by (simp add: keeps_def)
qed

end

interpretation store_part: state_part as_store "\<lambda>s t. t\<lparr>as_store := s\<rparr>"
  by unfold_locales simp_all

interpretation merchants_part: state_part as_merchants "\<lambda>s t. t\<lparr>as_merchants := s\<rparr>"
  by unfold_locales simp_all

lemma run_on_store: "run (on_store p) a = (fst (run p (as_store a)), a\<lparr>as_store := snd (run p (as_store a))\<rparr>)"
  by (simp add: on_store_def store_part.run_zoom)

lemma run_on_merchants:
  "run (on_merchants p) a = (fst (run p (as_merchants a)), a\<lparr>as_merchants := snd (run p (as_merchants a))\<rparr>)"
  by (simp add: on_merchants_def merchants_part.run_zoom)

section \<open>The routes and their dependencies\<close>

lemma modules_provide_what_they_need: "list_all module_closed app_modules"
  by code_simp

lemma routes_distinct: "distinct app_routes"
  by code_simp

lemma unmounted_controllers: "controller_of r \<notin> set mounted \<longleftrightarrow>
    (\<exists>rows. r = Upload_to_awarding_wallet rows) \<or> (\<exists>p. r = Create_promotion p)"
  by (cases r) (simp_all add: mounted_def app_modules_def memberModule_def merchantModule_def burnModule_def
      reportingModule_def whiteLabelModule_def creatorGiftingPanelModule_def redRoomLedgerModule_def
      walletModule_def webhookModule_def)

text \<open>No route leads to the awarding wallet's own upload or to the creation of promotions.\<close>

lemma unrouted_requests_not_found:
  "run (serve sv user (Upload_to_awarding_wallet rows)) a = (Inr Not_found, a)"
  "run (serve sv user (Create_promotion p)) a = (Inr Not_found, a)"
  using unmounted_controllers [of "Upload_to_awarding_wallet rows"] unmounted_controllers [of "Create_promotion p"]
  by (simp_all add: serve_def run_pure)

text \<open>
  The middlewares of the application identify tenant and user of a request but set no
  \<open>req.user\<close>: every upload over the mounted route is made in the name of the system.
\<close>

lemma uploads_in_the_name_of_the_system:
  "merchant_uploadAwardingWallet sv None rows = merchantService_uploadAwardingWallet sv rows ''system''"
  by (simp add: merchant_uploadAwardingWallet_def merchantService_uploadAwardingWallet_def uploading_merchant_def)

text \<open>What is configured for production is not what the application starts with.\<close>

lemma bootstrap_ignores_configuration:
  "env ''NODE_ENV'' = Some ''production'' \<Longrightarrow> env ''CORS_ORIGINS'' = Some ''https://a.example'' \<Longrightarrow>
     pc_corsOrigins (productionConfig env) = [''https://a.example''] \<and> \<not> pc_swaggerEnabled (productionConfig env) \<and>
     li_any_origin (bootstrap env) \<and> li_docs (bootstrap env) \<noteq> None"
  by (simp add: productionConfig_def bootstrap_def)

section \<open>What the routes can reach\<close>

text \<open>
  The rely of the routes: wallets, model wallets, escrow items and published events stay as they
  are, the ledger grows, and recorded keys are kept.
\<close>

definition ledger_side_only :: "store \<Rightarrow> store \<Rightarrow> bool" where
  "ledger_side_only s s' \<longleftrightarrow> wallets s' = wallets s \<and> model_wallets s' = model_wallets s \<and>
     escrow_items s' = escrow_items s \<and> published s' = published s \<and> ledger_grows s s' \<and> records_kept s s'"

definition app_ledger_side_only :: "app_state \<Rightarrow> app_state \<Rightarrow> bool" where
  "app_ledger_side_only a a' \<longleftrightarrow> ledger_side_only (as_store a) (as_store a')"

interpretation ledger_side: rely ledger_side_only
  by unfold_locales (auto simp: ledger_side_only_def intro: ledger_grows_trans records_kept_trans)

interpretation app_side: rely app_ledger_side_only
  by unfold_locales (auto simp: app_ledger_side_only_def ledger_side.rely_refl intro: ledger_side.rely_trans)

lemma ledger_side_keeps_calls [keeps_intros]:
  "keeps ledger_side_only uuidv4"
  "keeps ledger_side_only new_date"
  "keeps ledger_side_only (ledger_create l)"
  "keeps ledger_side_only (ledger_find lf)"
  "keeps ledger_side_only (idempotency_findOne fi)"
  "keeps ledger_side_only (idempotency_create rec)"
  unfolding store_calls query_def
  by (rule keeps_atomically,
      auto simp: ledger_side_only_def ledger_grows_def records_kept_def split: option.split)+

lemma ledger_side_keeps_points [keeps_intros]:
  "keeps ledger_side_only (createEntry c r)"
  "keeps ledger_side_only (getBalanceSnapshot c acc ty asOf tenant)"
  unfolding createEntry_def insert_entry_def getBalanceSnapshot_def
  by (intro keeps_intros | auto split: list.split intro: keeps_intros)+

lemma ledger_side_keeps_creditPoints [keeps_intros]: "keeps ledger_side_only (creditPoints c acc n src why key)"
  unfolding creditPoints_def by (intro keeps_intros | auto split: option.split intro: keeps_intros)+

lemma ledger_side_keeps_deductPoints [keeps_intros]: "keeps ledger_side_only (deductPoints c acc n src why key)"
  unfolding deductPoints_def by (intro keeps_intros | auto split: option.split intro: keeps_intros)+

lemma ledger_side_keeps_award [keeps_intros]:
  "keeps ledger_side_only (verifyAccount u)"
  "keeps ledger_side_only (awardPointsWithCompliance c th u n why)"
  unfolding awardPointsWithCompliance_def verifyAccount_def by (intro keeps_intros)+

lemma ledger_side_keeps_upload_rows [keeps_intros]: "keeps ledger_side_only (upload_rows c m rows i result)"
  by (induction rows arbitrary: i result)
    (simp_all add: awardPromotionalPoints_def, (intro keeps_intros | assumption)+)

lemma ledger_side_keeps_handlers [keeps_intros]:
  "keeps ledger_side_only (signup ok c th r)"
  "keeps ledger_side_only (burn_redeemPoints c th b)"
  "keeps ledger_side_only (uploadCSV c rows m)"
  "keeps ledger_side_only (createPromotion u p)"
  "keeps ledger_side_only (handleIncoming wh payload sig ts)"
  "keeps ledger_side_only health_check"
  unfolding signup_def burn_redeemPoints_def uploadCSV_def createPromotion_def createGiftingPromotion_def
    handleIncoming_def through_cache_def checkKey_def recordKey_def health_check_def
  by (intro keeps_intros | auto split: option.split intro: keeps_intros)+

lemma app_side_on_store [keeps_intros]: "keeps ledger_side_only p \<Longrightarrow> keeps app_ledger_side_only (on_store p)"
  unfolding on_store_def by (erule store_part.keeps_zoom) (simp_all add: app_ledger_side_only_def)

lemma keeps_anything: "keeps (\<lambda>_ _. True) p"
proof -
  have "wp (\<lambda>_ _. True) (\<lambda>_ _. True) p s" for s
    by (induction p arbitrary: s) (simp_all add: wp_Act del: wp.simps(2))
  then show ?thesis by (simp add: keeps_def)
qed

lemma app_side_on_merchants [keeps_intros]: "keeps app_ledger_side_only (on_merchants p)"
  unfolding on_merchants_def
  by (rule merchants_part.keeps_zoom [of "\<lambda>_ _. True"])
    (simp_all add: app_ledger_side_only_def ledger_side.rely_refl keeps_anything)

lemma app_side_labels [keeps_intros]:
  "keeps app_ledger_side_only (whiteLabel_saveConfig c)"
  "keeps app_ledger_side_only (whiteLabel_getConfig m)"
  unfolding whiteLabel_saveConfig_def whiteLabel_getConfig_def query_def
  by (rule keeps_atomically, simp add: app_ledger_side_only_def ledger_side.rely_refl prod.case_eq_if)+

lemma app_side_answer [keeps_intros]: "keeps app_ledger_side_only p \<Longrightarrow> keeps app_ledger_side_only (answer f p)"
  unfolding answer_def by (intro keeps_intros)

lemma app_side_handle_request: "keeps app_ledger_side_only (handle_request sv user request)"
  by (cases request)
    (auto simp: member_signup_def merchant_uploadAwardingWallet_def burn_redeem_def credit_def deduct_def
      webhook_receive_def awardingWallet_uploadCSV_def creatorGifting_create_def
      intro!: keeps_intros split: option.split)

text \<open>
  C40: The routes reach the ledger and nothing else.  However many requests the application serves
  at once, mounted or not, for whichever users, whatever their interleaving and wherever they stop:
  no wallet, model wallet or escrow item changes and no event is published, entries of the ledger
  and recorded keys stay.  Points that the routes credit (welcome bonuses, uploads, promotional
  credits) therefore never reach a wallet.
\<close>

theorem routes_reach_ledger_only:
  assumes "pool_reach app_ledger_side_only (\<lambda>i. serve sv (users i) (requests i)) a pl' a'"
  shows "wallets (as_store a') = wallets (as_store a) \<and> model_wallets (as_store a') = model_wallets (as_store a) \<and>
    escrow_items (as_store a') = escrow_items (as_store a) \<and> published (as_store a') = published (as_store a) \<and>
    ledger_grows (as_store a) (as_store a') \<and> records_kept (as_store a) (as_store a')"
proof -
  have "wp app_ledger_side_only (\<lambda>_ _. True) (serve sv (users i) (requests i)) a" for i
    unfolding serve_def by (intro keeps_wp keeps_intros app_side_handle_request)
  then have "app_ledger_side_only a a'"
    using app_side.pool_sound [OF assms, where Q = "\<lambda>_ _ _. True"] by blast
  then show ?thesis by (simp add: app_ledger_side_only_def ledger_side_only_def)
qed

section \<open>A new member\<close>

definition member_id :: "store \<Rightarrow> string" where
  "member_id s = ''rr-'' @ uuids s (uuid_count s)"

definition bonus_key :: "store \<Rightarrow> string" where
  "bonus_key s = ''credit-REDROOM_REWARDS-'' @ member_id s @ ''-'' @ uuids s (uuid_count s + 1)"

text \<open>
  The next identifiers are fresh and short enough: nothing of the member that is to be is in the
  store, and the ledger can take the entry of the bonus.
\<close>

definition signup_ready :: "server \<Rightarrow> store \<Rightarrow> bool" where
  "signup_ready sv s \<longleftrightarrow>
     promo_ready (sv_currency sv) (member_id s) ''REDROOM_REWARDS'' ''WELCOME_BONUS'' (bonus_key s)
       (s\<lparr>uuid_count := uuid_count s + 2\<rparr>) \<and>
     list_all (\<lambda>e. l_accountId e \<noteq> member_id s) (ledger_entries s) \<and> wallet_of s (member_id s) = None"

lemma run_creditPoints_new_key:
  assumes "0 < amount"
  shows "run (creditPoints c acc amount source why None) s =
    run (creditPoints c acc amount source why
        (Some (''credit-'' @ source @ ''-'' @ acc @ ''-'' @ uuids s (uuid_count s))))
      (s\<lparr>uuid_count := Suc (uuid_count s)\<rparr>)"
  using assms by (simp add: creditPoints_def run_simps run_getBalanceSnapshot Let_def)

lemma ledger_available_new:
  "list_all (\<lambda>e. l_accountId e \<noteq> acc) (ledger_entries s) \<Longrightarrow> ledger_available s acc = 0"
proof -
  assume "list_all (\<lambda>e. l_accountId e \<noteq> acc) (ledger_entries s)"
  then have "filter (snapshot_matches acc User None None) (ledger_entries s) = []"
    by (auto simp: filter_empty_conv list_all_iff snapshot_matches_def)
  then show ?thesis by (simp add: ledger_available_def fold_balances_def sort_entries_def)
qed

lemma run_signup:
  assumes "sv_email_ok sv (ms_email r)" and "ms_email r \<noteq> []" and "signup_ready sv s"
  shows "\<exists>s'. run (member_signup sv r) s =
      (Inr \<lparr>mp_memberId = member_id s, mp_tier = RED_DESIRE, mp_totalPoints = 1000,
            mp_promotionalBalance = 1000, mp_verifiedAt = clock s\<rparr>, s') \<and>
    ledger_available s' (member_id s) = 1000 \<and> wallets s' = wallets s"
proof -
  let ?s1 = "s\<lparr>uuid_count := uuid_count s + 2\<rparr>"
  have ready: "promo_ready (sv_currency sv) (member_id s) ''REDROOM_REWARDS'' ''WELCOME_BONUS'' (bonus_key s) ?s1"
    and new: "list_all (\<lambda>e. l_accountId e \<noteq> member_id s) (ledger_entries s)"
    using assms(3) by (simp_all add: signup_ready_def)
  have "ledger_available ?s1 (member_id s) = 0" using new by (intro ledger_available_new) simp
  with creditPoints_outcome [OF _ ready, of 1000] obtain s' where
    credit: "run (creditPoints (sv_currency sv) (member_id s) 1000 ''REDROOM_REWARDS'' ''WELCOME_BONUS''
      (Some (bonus_key s))) ?s1 = (Inr True, s')"
    and avail: "ledger_available s' (member_id s) = 1000" and same: "wallets s' = wallets s" by auto
  have award: "run (awardPointsWithCompliance (sv_currency sv) (sv_thresholds sv) (member_id s) 1000 ''WELCOME_BONUS'')
      (s\<lparr>uuid_count := Suc (uuid_count s)\<rparr>) = (Inr True, s')"
    using credit
    by (simp add: awardPointsWithCompliance_def run_simps run_creditPoints_new_key bonus_key_def eval_nat_numeral)
  have tier: "tp_currentTier (calculateTier welcome_bonus_points) = RED_DESIRE" by code_simp
  have "run (member_signup sv r) s =
      (Inr \<lparr>mp_memberId = member_id s, mp_tier = RED_DESIRE, mp_totalPoints = 1000,
            mp_promotionalBalance = 1000, mp_verifiedAt = clock s\<rparr>, s')"
    using assms(1,2) award tier
    by (simp add: member_signup_def signup_def run_simps Let_def member_id_def welcome_bonus_points_def)
  with avail same show ?thesis by blast
qed

lemma holdInEscrow_no_wallet:
  assumes "hold_ready ws h s" and "wallet_of s (hr_userId h) = None" and "0 < hr_amount h"
  shows "\<exists>s'. run (holdInEscrow ws h) s = (Inl (InsufficientBalanceError (hr_amount h) 0), s')"
proof -
  let ?s0 = "after_claim (hr_idempotencyKey h) ''hold_escrow'' s"
  have "\<exists>s'. run (executeHoldInEscrow ws h) ?s0 = (Inl (InsufficientBalanceError (hr_amount h) 0), s')"
    using assms by (simp add: executeHoldInEscrow_def find_or_create_wallet_def run_simps hold_ready_def valid_wallet_def)
  then obtain s' where "run (executeHoldInEscrow ws h) ?s0 = (Inl (InsufficientBalanceError (hr_amount h) 0), s')" by blast
  moreover have "0 < ws_maxRetryAttempts ws" using assms(1) by (simp add: hold_ready_def)
  ultimately have "run (holdInEscrow ws h) s = (Inl (InsufficientBalanceError (hr_amount h) 0), s')"
    unfolding run_holdInEscrow [OF assms(1)]
    by (intro run_hold_attempts_no_conflict) (auto simp: is_optimistic_lock_def)
  then show ?thesis by blast
qed

lemma serve_signup_store:
  "as_store (snd (run (serve sv user (Signup r)) a)) = snd (run (member_signup sv r) (as_store a))"
  using unmounted_controllers [of "Signup r"]
  by (cases "fst (run (member_signup sv r) (as_store a))")
    (simp_all add: serve_def answer_def run_await run_pure run_on_store prod.case_eq_if)


definition demo_server :: server where
  "demo_server = \<lparr>sv_email_ok = (\<lambda>m. CHR ''@'' \<in> set m), sv_currency = ''points'',
     sv_thresholds = default_thresholds, sv_webhooks = demo_receiver\<rparr>"

definition demo_app :: app_state where
  "demo_app = \<lparr>as_store = empty_store, as_merchants = \<lparr>settlements = [], pair_configs = [],
     merchant_uuids = (\<lambda>n. ''m-'' @ show_nat n), merchant_uuid_count = 0, merchant_clock = 1000\<rparr>, as_labels = []\<rparr>"

definition demo_signup :: member_signup_request where
  "demo_signup = \<lparr>ms_email = ''ann@example.org''\<rparr>"

definition member_hold :: escrow_hold_request where
  "member_hold = demo_hold\<lparr>hr_userId := ''rr-uuid-0'', hr_amount := 5\<rparr>"


text \<open>Two requests at once: a signup that runs to its end while an upload has not begun.\<close>

theorem routes_reach_ledger_only_witness:
  "\<exists>pl' a'. pool_reach app_ledger_side_only
       (\<lambda>i. serve demo_server None (if i = 0 then Signup demo_signup else Upload_awards [])) demo_app pl' a' \<and>
     length (ledger_entries (as_store a')) = 1 \<and> wallets (as_store a') = []"
proof -
  let ?reqs = "\<lambda>i :: nat. if i = 0 then Signup demo_signup else Upload_awards []"
  let ?pl = "\<lambda>i. serve demo_server None (?reqs i)"
  let ?a' = "snd (run (?pl 0) demo_app)"
  have r: "pool_reach app_ledger_side_only ?pl demo_app (?pl(0 := Ret (fst (run (?pl 0) demo_app)))) ?a'"
    by (rule pool_reach_run) (rule pool_start)
  have "wallets (as_store demo_app) = []" by code_simp
  then have "wallets (as_store ?a') = []"
    using routes_reach_ledger_only [of demo_server "\<lambda>_. None" ?reqs, OF r] by simp
  moreover have "length (ledger_entries (snd (run (member_signup demo_server demo_signup) (as_store demo_app)))) = 1"
    by code_simp
  then have "length (ledger_entries (as_store ?a')) = 1"
    using serve_signup_store [of demo_server None demo_signup demo_app] by simp
  ultimately show ?thesis using r by blast
qed

end
