(* ===== verification/Metrics_Logging.thy ===== *)
theory Metrics_Logging
  imports Env_Validation Admin_Ops
begin

text \<open>
  Metrics, alerts and logs (\<open>src/metrics/types.ts\<close>, \<open>logger.ts\<close>, \<open>ingest-logger.ts\<close>, the options of
  \<open>src/lib/logger.ts\<close>) and the connection of the database that reports through them
  (\<open>src/db/connection.ts\<close>).

  The console is a list of lines, each the object that is printed as JSON with the method of the
  console that prints it.  The environment is a map; what the driver answers to an attempt to
  connect is a parameter.
\<close>

section \<open>Types of metrics and alerts\<close>

datatype metric_event_type =
    INGEST_EVENT_PROCESSED
  | INGEST_EVENT_FAILED
  | INGEST_EVENT_DLQ
  | INGEST_IDEMPOTENCY_HIT
  | INGEST_RECEIVED
  | INGEST_ACCEPTED
  | INGEST_REJECTED
  | DLQ_EVENT_MOVED
  | DLQ_REPLAY_STARTED
  | DLQ_REPLAY_SUCCESS
  | DLQ_REPLAY_FAILED
  | DLQ_REPLAY_SKIPPED
  | DLQ_DOUBLE_PROCESS_PREVENTED
  | RESERVATION_CREATED
  | RESERVATION_COMMITTED
  | RESERVATION_RELEASED
  | RESERVATION_EXPIRED
  | ACTIVITY_FEED_EVENT
  | ADMIN_DISPUTE_OPENED
  | ADMIN_DISPUTE_RESOLVED
  | ADMIN_FRAUD_FLAGGED
  | EVENT_PUBLISHED
  | EVENT_DUPLICATE_DETECTED
  | EVENT_NO_SUBSCRIBERS
  | EVENT_HANDLER_SUCCESS
  | EVENT_HANDLER_ERROR
  | EVENT_SUBSCRIBER_REGISTERED
  | EVENT_SUBSCRIBER_UNREGISTERED
  | WALLET_EVENT_PUBLISHED
  | WALLET_EVENT_PUBLISH_ERROR
  | WORKER_STARTED
  | WORKER_STOPPED
  | WORKER_ERROR
  | EVENT_PROCESSED
  | DATABASE_CONNECTION
  | DATABASE_CONNECTION_ERROR
  | DATABASE_DISCONNECTION

fun metric_name :: "metric_event_type \<Rightarrow> string" where
  "metric_name INGEST_EVENT_PROCESSED = ''ingest.event.processed''"
| "metric_name INGEST_EVENT_FAILED = ''ingest.event.failed''"
| "metric_name INGEST_EVENT_DLQ = ''ingest.event.dlq''"
| "metric_name INGEST_IDEMPOTENCY_HIT = ''ingest.idempotency.hit''"
| "metric_name INGEST_RECEIVED = ''ingest.received''"
| "metric_name INGEST_ACCEPTED = ''ingest.accepted''"
| "metric_name INGEST_REJECTED = ''ingest.rejected''"
| "metric_name DLQ_EVENT_MOVED = ''dlq.event.moved''"
| "metric_name DLQ_REPLAY_STARTED = ''dlq.replay.started''"
| "metric_name DLQ_REPLAY_SUCCESS = ''dlq.replay.success''"
| "metric_name DLQ_REPLAY_FAILED = ''dlq.replay.failed''"
| "metric_name DLQ_REPLAY_SKIPPED = ''dlq.replay.skipped''"
| "metric_name DLQ_DOUBLE_PROCESS_PREVENTED = ''dlq.double_process.prevented''"
| "metric_name RESERVATION_CREATED = ''reservation.created''"
| "metric_name RESERVATION_COMMITTED = ''reservation.committed''"
| "metric_name RESERVATION_RELEASED = ''reservation.released''"
| "metric_name RESERVATION_EXPIRED = ''reservation.expired''"
| "metric_name ACTIVITY_FEED_EVENT = ''activity.feed.event''"
| "metric_name ADMIN_DISPUTE_OPENED = ''admin.dispute.opened''"
| "metric_name ADMIN_DISPUTE_RESOLVED = ''admin.dispute.resolved''"
| "metric_name ADMIN_FRAUD_FLAGGED = ''admin.fraud.flagged''"
| "metric_name EVENT_PUBLISHED = ''event.published''"
| "metric_name EVENT_DUPLICATE_DETECTED = ''event.duplicate.detected''"
| "metric_name EVENT_NO_SUBSCRIBERS = ''event.no_subscribers''"
| "metric_name EVENT_HANDLER_SUCCESS = ''event.handler.success''"
| "metric_name EVENT_HANDLER_ERROR = ''event.handler.error''"
| "metric_name EVENT_SUBSCRIBER_REGISTERED = ''event.subscriber.registered''"
| "metric_name EVENT_SUBSCRIBER_UNREGISTERED = ''event.subscriber.unregistered''"
| "metric_name WALLET_EVENT_PUBLISHED = ''wallet.event.published''"
| "metric_name WALLET_EVENT_PUBLISH_ERROR = ''wallet.event.publish.error''"
| "metric_name WORKER_STARTED = ''worker.started''"
| "metric_name WORKER_STOPPED = ''worker.stopped''"
| "metric_name WORKER_ERROR = ''worker.error''"
| "metric_name EVENT_PROCESSED = ''event.processed''"
| "metric_name DATABASE_CONNECTION = ''database_connection''"
| "metric_name DATABASE_CONNECTION_ERROR = ''database_connection_error''"
| "metric_name DATABASE_DISCONNECTION = ''database_disconnection''"

datatype alert_severity = Info_alert | Warning_alert | Error_alert | Critical_alert

fun severity_name :: "alert_severity \<Rightarrow> string" where
  "severity_name Info_alert = ''info''"
| "severity_name Warning_alert = ''warning''"
| "severity_name Error_alert = ''error''"
| "severity_name Critical_alert = ''critical''"

record metric_data =
  md_type :: metric_event_type
  md_value :: "rat option"
  md_timestamp :: int
  md_metadata :: "metadata option"

record alert_data =
  ad_severity :: alert_severity
  ad_message :: string
  ad_metricType :: "metric_event_type option"
  ad_timestamp :: int
  ad_metadata :: "metadata option"

section \<open>The logger of metrics\<close>

datatype console_method = Console_log | Console_warn | Console_error

record console =
  co_lines :: "(console_method \<times> metadata) list"
  co_clock :: int

definition print_line :: "console_method \<Rightarrow> metadata \<Rightarrow> console \<Rightarrow> console" where
  "print_line how line c = c\<lparr>co_lines := co_lines c @ [(how, line)]\<rparr>"

definition logs_suppressed :: "(string \<rightharpoonup> string) \<Rightarrow> bool" where
  "logs_suppressed env \<longleftrightarrow> env ''NODE_ENV'' = Some ''test'' \<or> env ''DISABLE_METRICS_LOGS'' = Some ''1''"

text \<open>An absent field has the value \<open>undefined\<close>.\<close>

definition optional_json :: "('a \<Rightarrow> json) \<Rightarrow> 'a option \<Rightarrow> json" where
  "optional_json f x = (case x of None \<Rightarrow> JUndefined | Some a \<Rightarrow> f a)"

definition metric_entry :: "metric_data \<Rightarrow> metadata" where
  "metric_entry d =
     [(''level'', JStr ''METRIC''), (''type'', JStr (metric_name (md_type d))),
      (''value'', optional_json JNum (md_value d)), (''timestamp'', JStr (toISOString (md_timestamp d))),
      (''metadata'', optional_json JObj (md_metadata d))]"

definition logMetric :: "(string \<rightharpoonup> string) \<Rightarrow> metric_data \<Rightarrow> console \<Rightarrow> console" where
  "logMetric env d c = (if logs_suppressed env then c else print_line Console_log (metric_entry d) c)"

definition alert_entry :: "alert_data \<Rightarrow> metadata" where
  "alert_entry d =
     [(''level'', JStr ''ALERT''), (''severity'', JStr (severity_name (ad_severity d))),
      (''message'', JStr (ad_message d)),
      (''metricType'', optional_json (\<lambda>t. JStr (metric_name t)) (ad_metricType d)),
      (''timestamp'', JStr (toISOString (ad_timestamp d))), (''metadata'', optional_json JObj (ad_metadata d))]"

definition alert_method :: "alert_severity \<Rightarrow> console_method" where
  "alert_method severity =
     (case severity of Critical_alert \<Rightarrow> Console_error | Error_alert \<Rightarrow> Console_error
      | Warning_alert \<Rightarrow> Console_warn | Info_alert \<Rightarrow> Console_log)"

definition logAlert :: "(string \<rightharpoonup> string) \<Rightarrow> alert_data \<Rightarrow> console \<Rightarrow> console" where
  "logAlert env d c = (if logs_suppressed env then c else print_line (alert_method (ad_severity d)) (alert_entry d) c)"

definition incrementCounter ::
  "(string \<rightharpoonup> string) \<Rightarrow> metric_event_type \<Rightarrow> metadata option \<Rightarrow> console \<Rightarrow> console" where
  "incrementCounter env type md c =
     logMetric env \<lparr>md_type = type, md_value = Some 1, md_timestamp = co_clock c, md_metadata = md\<rparr> c"

definition recordDuration ::
  "(string \<rightharpoonup> string) \<Rightarrow> metric_event_type \<Rightarrow> rat \<Rightarrow> metadata option \<Rightarrow> console \<Rightarrow> console" where
  "recordDuration env type durationMs md c =
     logMetric env \<lparr>md_type = type, md_value = Some durationMs, md_timestamp = co_clock c, md_metadata = md\<rparr> c"

section \<open>The log of ingested events\<close>

text \<open>
  An entry is the object the caller passes, which may have more properties than its type; the
  line has the approved ones only.
\<close>

definition approved_fields :: "string list" where
  "approved_fields = [''correlationId'', ''merchantId'', ''eventType'', ''eventId'', ''idempotencyKey'',
     ''outcome'', ''httpStatus'', ''errorCode'']"

definition ingest_line :: "metadata \<Rightarrow> int \<Rightarrow> metadata" where
  "ingest_line entry now =
     [(''level'', JStr ''INFO''), (''category'', JStr ''ingest'')] @
     map (\<lambda>f. (f, property (Some entry) f)) approved_fields @ [(''timestamp'', JStr (toISOString now))]"

definition logIngestEvent :: "(string \<rightharpoonup> string) \<Rightarrow> metadata \<Rightarrow> console \<Rightarrow> console" where
  "logIngestEvent env entry c =
     (if logs_suppressed env then c else print_line Console_log (ingest_line entry (co_clock c)) c)"

text \<open>The options of the application's logger; the library writes and redacts.\<close>

record logger_options =
  lo_level :: string
  lo_service :: string
  lo_env :: "string option"
  lo_redact :: "string list"

definition logger_settings :: "(string \<rightharpoonup> string) \<Rightarrow> logger_options" where
  "logger_settings env =
     \<lparr>lo_level = (case env_value env ''LOG_LEVEL'' of None \<Rightarrow> ''info'' | Some l \<Rightarrow> l),
      lo_service = ''redroom-rewards'', lo_env = env ''NODE_ENV'', lo_redact = [''password'', ''secret'', ''token'']\<rparr>"

section \<open>The connection of the database\<close>

text \<open>
  The ready state is the driver's (1 is connected).  A driver answers an attempt to connect, made
  in a ready state, with the name of an error or with success, and with the ready state after it;
  the name is \<open>None\<close> for a thrown value that is no \<open>Error\<close>.
\<close>

type_synonym driver = "string \<Rightarrow> nat \<Rightarrow> (string option + unit) \<times> nat"

record database =
  db_readyState :: nat
  db_console :: console

datatype connection_error = Driver_error "string option"

definition db_alert ::
  "(string \<rightharpoonup> string) \<Rightarrow> alert_severity \<Rightarrow> string \<Rightarrow> metric_event_type \<Rightarrow> metadata option \<Rightarrow> database \<Rightarrow> database" where
  "db_alert env severity message type md d =
     d\<lparr>db_console := logAlert env
       \<lparr>ad_severity = severity, ad_message = message, ad_metricType = Some type,
        ad_timestamp = co_clock (db_console d), ad_metadata = md\<rparr> (db_console d)\<rparr>"

definition connectDatabase ::
  "(string \<rightharpoonup> string) \<Rightarrow> driver \<Rightarrow> string \<Rightarrow> database \<Rightarrow> (connection_error + unit) \<times> database" where
  "connectDatabase env driver uri d =
     (case driver uri (db_readyState d) of
        (Inr _, ready) \<Rightarrow>
          (Inr (), db_alert env Info_alert ''MongoDB connected successfully'' DATABASE_CONNECTION
             (Some [(''readyState'', JNum (of_nat ready))]) (d\<lparr>db_readyState := ready\<rparr>))
      | (Inl name, ready) \<Rightarrow>
          (Inl (Driver_error name), db_alert env Critical_alert ''MongoDB connection error'' DATABASE_CONNECTION_ERROR
             (Some [(''errorType'', JStr (case name of None \<Rightarrow> ''Unknown'' | Some n \<Rightarrow> n))]) (d\<lparr>db_readyState := ready\<rparr>)))"

definition disconnectDatabase :: "(string \<rightharpoonup> string) \<Rightarrow> database \<Rightarrow> database" where
  "disconnectDatabase env d =
     db_alert env Info_alert ''MongoDB disconnected'' DATABASE_DISCONNECTION None (d\<lparr>db_readyState := 0\<rparr>)"

definition isConnected :: "database \<Rightarrow> bool" where
  "isConnected d \<longleftrightarrow> db_readyState d = 1"

section \<open>What is written\<close>

lemma metric_name_inject: "metric_name a = metric_name b \<longleftrightarrow> a = b"
  by (cases a; cases b; simp)

text \<open>Nothing is written when the logs are suppressed, alerts of failures included.\<close>

lemma suppressed_silent:
  assumes "logs_suppressed env"
  shows "logMetric env m c = c" "logAlert env a c = c" "logIngestEvent env e c = c"
    "incrementCounter env t md c = c" "recordDuration env t n md c = c"
    "db_console (snd (connectDatabase env driver uri d)) = db_console d"
  using assms
  by (simp_all add: logMetric_def logAlert_def logIngestEvent_def incrementCounter_def recordDuration_def
      connectDatabase_def db_alert_def split: sum.split prod.split)

text \<open>
  The log of an ingested event shows the approved fields and nothing else: its keys are fixed, and
  two events that agree on these fields leave the same line, whatever else they carry.
\<close>

theorem ingest_log_redacts:
  assumes "\<forall>f\<in>set approved_fields. property (Some entry) f = property (Some entry') f"
  shows "logIngestEvent env entry c = logIngestEvent env entry' c \<and>
    (\<exists>new. co_lines (logIngestEvent env entry c) = co_lines c @ new \<and>
       (\<forall>(how, line)\<in>set new. map fst line = [''level'', ''category''] @ approved_fields @ [''timestamp'']))"
proof -
  have same: "ingest_line entry now = ingest_line entry' now" for now
    using assms by (simp add: ingest_line_def)
  have "map fst (ingest_line entry now) = [''level'', ''category''] @ approved_fields @ [''timestamp'']" for now
    by (simp add: ingest_line_def approved_fields_def)
  then show ?thesis by (auto simp: logIngestEvent_def print_line_def same)
qed

text \<open>
  Connecting reports what happened and hides to where: success leaves a connected state when the
  driver's success does, a failure is passed on with one line on the error channel; what is
  written depends on the driver's answer alone, not on the address with its credentials.
\<close>

theorem connection_log_hides_uri:
  assumes "driver uri (db_readyState d) = driver uri' (db_readyState d)"
    and "\<And>r. driver uri (db_readyState d) = (Inr (), r) \<Longrightarrow> r = 1" and "\<not> logs_suppressed env"
  shows "connectDatabase env driver uri d = connectDatabase env driver uri' d \<and>
    (\<exists>how line. co_lines (db_console (snd (connectDatabase env driver uri d))) = co_lines (db_console d) @ [(how, line)] \<and>
      (case fst (connectDatabase env driver uri d) of
         Inr _ \<Rightarrow> how = Console_log \<and> isConnected (snd (connectDatabase env driver uri d))
       | Inl _ \<Rightarrow> how = Console_error))"
  using assms
  by (auto simp: connectDatabase_def db_alert_def logAlert_def print_line_def alert_method_def isConnected_def
      split: sum.split prod.split)

text \<open>After a disconnection there is no connection until the next attempt succeeds.\<close>

lemma disconnected: "\<not> isConnected (disconnectDatabase env d)"
  by (simp add: disconnectDatabase_def isConnected_def db_alert_def)

theorem ingest_log_redacts_witness:
  "logIngestEvent Map.empty [(''eventId'', JStr ''e1''), (''cardNumber'', JStr ''4111'')] \<lparr>co_lines = [], co_clock = 0\<rparr> =
     logIngestEvent Map.empty [(''eventId'', JStr ''e1''), (''email'', JStr ''a@b.c'')] \<lparr>co_lines = [], co_clock = 0\<rparr>"
proof -
  let ?e = "[(''eventId'', JStr ''e1''), (''cardNumber'', JStr ''4111'')]"
    and ?e' = "[(''eventId'', JStr ''e1''), (''email'', JStr ''a@b.c'')]"
  have "list_all (\<lambda>f. property (Some ?e) f = property (Some ?e') f) approved_fields" by code_simp
  then show ?thesis
    using ingest_log_redacts [of ?e ?e' Map.empty "\<lparr>co_lines = [], co_clock = 0\<rparr>"] by (simp add: list_all_iff)
qed

definition demo_driver :: driver where
  "demo_driver uri ready = (if uri = [] then (Inl (Some ''MongoParseError''), ready) else (Inr (), 1))"

definition demo_database :: database where
  "demo_database = \<lparr>db_readyState = 0, db_console = \<lparr>co_lines = [], co_clock = 0\<rparr>\<rparr>"

theorem connection_log_hides_uri_witness:
  "connectDatabase Map.empty demo_driver ''mongodb://u:p@h'' demo_database =
     connectDatabase Map.empty demo_driver ''mongodb://host'' demo_database \<and>
   isConnected (snd (connectDatabase Map.empty demo_driver ''mongodb://u:p@h'' demo_database))"
proof -
  have "\<not> logs_suppressed Map.empty" by (simp add: logs_suppressed_def)
  then show ?thesis
    using connection_log_hides_uri [of demo_driver "''mongodb://u:p@h''" demo_database "''mongodb://host''" Map.empty]
    by (auto simp: demo_driver_def connectDatabase_def isConnected_def db_alert_def)
qed

end
