(* ===== verification/Ledger_Transactions.thy ===== *)
theory Ledger_Transactions
  imports Ledger_Properties
begin

text \<open>
  Transaction safety of the ledger service (\<open>withTransaction\<close> and \<open>withTransactionSafety\<close> of
  \<open>src/ledger/ledger.service.ts\<close>): a write joins the session of its caller, runs in a transaction of
  its own, or without one when there is no connection, no session, or no support for transactions.

  Sessions and transactions are those of the database driver, whose documented behaviour is an
  interface here (\<open>transactional\<close>): a transaction whose callback succeeds commits what the callback
  did, one whose callback fails leaves the documents as they were, and a deployment without
  transactions refuses the first write in a session with a message that says so.
\<close>

section \<open>The wrapper\<close>

datatype session_use = No_session | Callers_session | Owned_session

record session_state =
  ss_connected :: bool
  ss_starts :: bool

fun has_part :: "string \<Rightarrow> string \<Rightarrow> bool" where
  "has_part p [] \<longleftrightarrow> p = []"
| "has_part p (c # s) \<longleftrightarrow> take (length p) (c # s) = p \<or> has_part p s"

text \<open>The three patterns ignore case.\<close>

definition transactions_unsupported :: "string \<Rightarrow> bool" where
  "transactions_unsupported msg \<longleftrightarrow>
     has_part ''transaction numbers are only allowed'' (to_lower msg) \<or>
     has_part ''this mongodb deployment does not support retryable writes'' (to_lower msg) \<or>
     has_part ''standalone'' (to_lower msg)"

text \<open>\<open>message\<close> is the message of an error, \<open>transact\<close> runs a callback in a transaction.\<close>

definition withTransactionSafety ::
  "(error \<Rightarrow> string) \<Rightarrow> session_state \<Rightarrow> ('a svc \<Rightarrow> 'a svc) \<Rightarrow> bool \<Rightarrow> (session_use \<Rightarrow> 'a svc) \<Rightarrow> 'a svc" where
  "withTransactionSafety message ses transact given fn =
     (if given then fn Callers_session
      else if \<not> ss_connected ses then fn No_session
      else if \<not> ss_starts ses then fn No_session
      else try_catch (transact (fn Owned_session))
        (\<lambda>e. if transactions_unsupported (message e) then fn No_session else throw e))"

definition withTransaction ::
  "(error \<Rightarrow> string) \<Rightarrow> session_state \<Rightarrow> ('a svc \<Rightarrow> 'a svc) \<Rightarrow> (session_use \<Rightarrow> 'a svc) \<Rightarrow> 'a svc" where
  "withTransaction message ses transact fn = withTransactionSafety message ses transact False fn"

text \<open>
  The promotional operations with their wrapper.  The guard on the amount is before the wrapper;
  repeating it inside, as \<open>creditPoints\<close> and \<open>deductPoints\<close> do, changes nothing.
\<close>

definition creditPoints_safely ::
  "(error \<Rightarrow> string) \<Rightarrow> session_state \<Rightarrow> (bool svc \<Rightarrow> bool svc) \<Rightarrow> bool \<Rightarrow>
   string \<Rightarrow> string \<Rightarrow> rat \<Rightarrow> string \<Rightarrow> string \<Rightarrow> string option \<Rightarrow> bool svc" where
  "creditPoints_safely message ses transact given currency accountId amount source reason key =
     (if amount \<le> 0 then throw (CreditNotPositive amount)
      else withTransactionSafety message ses transact given
        (\<lambda>_. creditPoints currency accountId amount source reason key))"

definition deductPoints_safely ::
  "(error \<Rightarrow> string) \<Rightarrow> session_state \<Rightarrow> (bool svc \<Rightarrow> bool svc) \<Rightarrow> bool \<Rightarrow>
   string \<Rightarrow> string \<Rightarrow> rat \<Rightarrow> string \<Rightarrow> string \<Rightarrow> string option \<Rightarrow> bool svc" where
  "deductPoints_safely message ses transact given currency accountId amount source reason key =
     (if amount \<le> 0 then throw (DeductNotPositive amount)
      else withTransactionSafety message ses transact given
        (\<lambda>_. deductPoints currency accountId amount source reason key))"

section \<open>The interface of transactions\<close>

text \<open>A store with the documents of another: what the abort of a transaction leaves.\<close>

definition documents_of :: "store \<Rightarrow> store \<Rightarrow> store" where
  "documents_of s s' =
     s'\<lparr>wallets := wallets s, model_wallets := model_wallets s, escrow_items := escrow_items s,
        ledger_entries := ledger_entries s, idempotency_records := idempotency_records s\<rparr>"

locale transactional =
  fixes message :: "error \<Rightarrow> string" and transact :: "'a svc \<Rightarrow> 'a svc" and supported :: bool
  assumes commits: "supported \<Longrightarrow> run p s = (Inr a, s') \<Longrightarrow> run (transact p) s = (Inr a, s')"
    and aborts: "supported \<Longrightarrow> run p s = (Inl e, s') \<Longrightarrow> run (transact p) s = (Inl e, documents_of s s')"
    and refuses: "\<not> supported \<Longrightarrow>
      \<exists>e k. run (transact p) s = (Inl e, s\<lparr>uuid_count := k\<rparr>) \<and> transactions_unsupported (message e) \<and>
        uuid_count s \<le> k \<and> k \<le> max (uuid_count s) (uuid_count (snd (run p s)))"
begin

text \<open>
  A write that succeeds wherever identifiers are drawn from succeeds under the wrapper, whatever
  the deployment, and its effect is that of a plain execution.
\<close>

lemma safely_succeeds:
  assumes "\<And>k. uuid_count s \<le> k \<Longrightarrow> k \<le> max (uuid_count s) (uuid_count (snd (run p s))) \<Longrightarrow>
      \<exists>a s'. run p (s\<lparr>uuid_count := k\<rparr>) = (Inr a, s') \<and> Q a s'"
  shows "\<exists>a s'. run (withTransactionSafety message ses transact given (\<lambda>_. p)) s = (Inr a, s') \<and> Q a s'"
proof -
  have plain: "\<exists>a s'. run p s = (Inr a, s') \<and> Q a s'" using assms [of "uuid_count s"] by simp
  show ?thesis
  proof (cases "given \<or> \<not> ss_connected ses \<or> \<not> ss_starts ses")
    case True
    then show ?thesis using plain by (auto simp: withTransactionSafety_def)
  next
    case False
    show ?thesis
    proof (cases supported)
      case True
      then show ?thesis
        using plain False commits by (fastforce simp: withTransactionSafety_def run_try_catch)
    next
      case unsupported: False
      from refuses [OF this, of p s] obtain e k where
        e: "run (transact p) s = (Inl e, s\<lparr>uuid_count := k\<rparr>)" "transactions_unsupported (message e)"
        and k: "uuid_count s \<le> k" "k \<le> max (uuid_count s) (uuid_count (snd (run p s)))" by auto
      show ?thesis using e False assms [OF k] by (simp add: withTransactionSafety_def run_try_catch)
    qed
  qed
qed

text \<open>A write that fails in a transaction, for a reason of its own, leaves no document behind.\<close>

lemma safely_aborts:
  assumes "supported" and "ss_connected ses" and "ss_starts ses" and "\<not> given"
    and "run p s = (Inl e, s')" and "\<not> transactions_unsupported (message e)"
  shows "run (withTransactionSafety message ses transact given (\<lambda>_. p)) s = (Inl e, documents_of s s')"
  using assms aborts by (simp add: withTransactionSafety_def run_try_catch run_throw)

end

section \<open>Two deployments\<close>

text \<open>
  A replica set, where a transaction is one step that commits or aborts, and a server of its own,
  which refuses transactions.
\<close>

definition replica_set_transaction :: "'a svc \<Rightarrow> 'a svc" where
  "replica_set_transaction p =
     atomically (\<lambda>s. case run p s of (Inr a, s') \<Rightarrow> (s', Inr a) | (Inl e, s') \<Rightarrow> (documents_of s s', Inl e))"

definition single_server_transaction :: "'a svc \<Rightarrow> 'a svc" where
  "single_server_transaction p =
     throw (Plain ''Transaction numbers are only allowed on a replica set member or mongos'')"

fun plain_message :: "error \<Rightarrow> string" where
  "plain_message (Plain t) = t"
| "plain_message _ = []"

interpretation replica_set: transactional plain_message replica_set_transaction True
  by unfold_locales (simp_all add: replica_set_transaction_def run_simps)

lemma refusal_recognised:
  "transactions_unsupported ''Transaction numbers are only allowed on a replica set member or mongos''"
  by code_simp

interpretation single_server: transactional plain_message single_server_transaction False
proof unfold_locales
  fix p :: "'a svc" and s
  show "\<exists>e k. run (single_server_transaction p) s = (Inl e, s\<lparr>uuid_count := k\<rparr>) \<and>
      transactions_unsupported (plain_message e) \<and>
      uuid_count s \<le> k \<and> k \<le> max (uuid_count s) (uuid_count (snd (run p s)))"
    by (intro exI [of _ "Plain ''Transaction numbers are only allowed on a replica set member or mongos''"]
        exI [of _ "uuid_count s"])
      (simp add: single_server_transaction_def run_throw refusal_recognised)
qed simp_all

section \<open>The promotional operations in every deployment\<close>

text \<open>
  A promotional credit does the same in every deployment: whether it joins a session of its
  caller, commits in a transaction of its own, or is repeated without one after the database has
  refused the transaction, it succeeds, one entry is appended, and the balance that the ledger
  shows rises by the amount.  The identifiers drawn before a refusal are lost.
\<close>

theorem credit_same_in_every_deployment:
  assumes "transactional message transact supported" and "0 < amount"
    and "\<forall>k. uuid_count s \<le> k \<and> k \<le> uuid_count s + 3 \<longrightarrow>
      promo_ready currency a source reason key (s\<lparr>uuid_count := k\<rparr>)"
  shows "\<exists>s'. run (creditPoints_safely message ses transact given currency a amount source reason (Some key)) s =
      (Inr True, s') \<and>
    ledger_available s' a = ledger_available s a + amount \<and> ledger_grows s s' \<and>
    length (ledger_entries s') = length (ledger_entries s) + 1"
proof -
  let ?p = "creditPoints currency a amount source reason (Some key)"
  have same: "ledger_available (s\<lparr>uuid_count := k\<rparr>) a = ledger_available s a"
    "ledger_grows (s\<lparr>uuid_count := k\<rparr>) s' = ledger_grows s s'" for k s'
    by (simp_all add: ledger_available_def ledger_grows_def)
  have each: "\<exists>b s'. run ?p (s\<lparr>uuid_count := k\<rparr>) = (Inr b, s') \<and> b \<and> uuid_count s' = k + 3 \<and>
      ledger_available s' a = ledger_available s a + amount \<and> ledger_grows s s' \<and>
      length (ledger_entries s') = length (ledger_entries s) + 1"
    if "uuid_count s \<le> k" "k \<le> uuid_count s + 3" for k
    using creditPoints_outcome [OF assms(2), of currency a source reason key "s\<lparr>uuid_count := k\<rparr>"] assms(3) that same
    by fastforce
  have "uuid_count (snd (run ?p s)) = uuid_count s + 3"
    using each [of "uuid_count s"] by auto
  then have "\<exists>b s'. run (withTransactionSafety message ses transact given (\<lambda>_. ?p)) s = (Inr b, s') \<and> b \<and>
      ledger_available s' a = ledger_available s a + amount \<and> ledger_grows s s' \<and>
      length (ledger_entries s') = length (ledger_entries s) + 1"
    using each by (intro transactional.safely_succeeds [OF assms(1)]) fastforce
  then show ?thesis using assms(2) by (auto simp: creditPoints_safely_def)
qed

text \<open>
  A debit that is not covered is refused with the two amounts in a transaction too, and no
  document changes.
\<close>

theorem uncovered_debit_aborts:
  assumes "0 < amount" and "ledger_available s a < amount"
    and "\<not> transactions_unsupported (plain_message (DeductInsufficient a (ledger_available s a) amount))"
  shows "run (deductPoints_safely plain_message \<lparr>ss_connected = True, ss_starts = True\<rparr> replica_set_transaction False
      currency a amount source reason key) s =
    (Inl (DeductInsufficient a (ledger_available s a) amount), s)"
proof -
  have "run (deductPoints currency a amount source reason key) s =
      (Inl (DeductInsufficient a (ledger_available s a) amount), s)"
    using assms(1,2)
    by (simp add: deductPoints_def run_simps run_getBalanceSnapshot Let_def ledger_available_def [symmetric])
  from replica_set.safely_aborts [of "\<lparr>ss_connected = True, ss_starts = True\<rparr>" False, OF _ _ _ _ this assms(3)]
  show ?thesis using assms(1) by (simp add: deductPoints_safely_def documents_of_def)
qed

theorem credit_same_in_every_deployment_witness:
  "\<exists>s1 s2. run (creditPoints_safely plain_message \<lparr>ss_connected = True, ss_starts = True\<rparr> replica_set_transaction False
       ''points'' ''alice'' 80 ''shop'' ''hat'' (Some ''c1'')) one_credit = (Inr True, s1) \<and>
     run (creditPoints_safely plain_message \<lparr>ss_connected = True, ss_starts = True\<rparr> single_server_transaction False
       ''points'' ''alice'' 80 ''shop'' ''hat'' (Some ''c1'')) one_credit = (Inr True, s2) \<and>
     ledger_available s1 ''alice'' = 180 \<and> ledger_available s2 ''alice'' = 180"
proof -
  have n: "uuid_count one_credit = 1" by code_simp
  have "list_all (\<lambda>k. promo_ready ''points'' ''alice'' ''shop'' ''hat'' ''c1'' (one_credit\<lparr>uuid_count := k\<rparr>)) [1, 2, 3, 4]"
    by code_simp
  then have ready: "\<forall>k. uuid_count one_credit \<le> k \<and> k \<le> uuid_count one_credit + 3 \<longrightarrow>
      promo_ready ''points'' ''alice'' ''shop'' ''hat'' ''c1'' (one_credit\<lparr>uuid_count := k\<rparr>)"
  proof (intro allI impI)
    fix k assume "uuid_count one_credit \<le> k \<and> k \<le> uuid_count one_credit + 3"
    then have "k = 1 \<or> k = 2 \<or> k = 3 \<or> k = 4" using n by arith
    then show "promo_ready ''points'' ''alice'' ''shop'' ''hat'' ''c1'' (one_credit\<lparr>uuid_count := k\<rparr>)"
      using \<open>list_all _ _\<close> by auto
  qed
  have "ledger_available one_credit ''alice'' = 100" by code_simp
  with credit_same_in_every_deployment [OF replica_set.transactional_axioms _ ready, of 80]
    credit_same_in_every_deployment [OF single_server.transactional_axioms _ ready, of 80]
  show ?thesis by fastforce
qed

theorem uncovered_debit_aborts_witness:
  "run (deductPoints_safely plain_message \<lparr>ss_connected = True, ss_starts = True\<rparr> replica_set_transaction False
     ''points'' ''alice'' 500 ''shop'' ''hat'' None) one_credit = (Inl (DeductInsufficient ''alice'' 100 500), one_credit)"
proof -
  have "ledger_available one_credit ''alice'' = 100" by code_simp
  moreover have "\<not> transactions_unsupported (plain_message (DeductInsufficient ''alice'' 100 500))" by code_simp
  ultimately show ?thesis using uncovered_debit_aborts [of 500 one_credit "''alice''"] by simp
qed

end
