(* ===== verification/Guard_Runs.thy ===== *)
theory Guard_Runs
  imports Source_Guards
begin

text \<open>
  The guards of the build as they are run (\<open>scripts/ci/no-hardcoded-balance.js\<close>,
  \<open>tenant-id-scope-check.js\<close>, \<open>charter-integrity-check.js\<close>, \<open>openapi-drift-check.js\<close>): over a checkout of
  the repository, a tree of directories and files, with their command lines, the list of known
  violations that one of them reads and writes, the fixtures of the self-test, and their exit codes.
  The texts that they print are not modelled.
\<close>

section \<open>The checkout\<close>

datatype dir_entry =
    File_entry string string
  | Dir_entry string "dir_entry list"
  | Other_entry string

definition join_path :: "string \<Rightarrow> string \<Rightarrow> string" where
  "join_path dir name = dir @ ''/'' @ name"

text \<open>The TypeScript files below a directory, with their contents.\<close>

fun walk :: "string \<Rightarrow> dir_entry list \<Rightarrow> (string \<times> string) list" where
  "walk dir [] = []"
| "walk dir (File_entry name source # es) =
     (if ends_with name ''.ts'' then [(join_path dir name, source)] else []) @ walk dir es"
| "walk dir (Dir_entry name below # es) = walk (join_path dir name) below @ walk dir es"
| "walk dir (Other_entry name # es) = walk dir es"

fun subdirectory :: "string list \<Rightarrow> dir_entry list \<Rightarrow> dir_entry list option" where
  "subdirectory [] es = Some es"
| "subdirectory (name # names) [] = None"
| "subdirectory (name # names) (Dir_entry n below # es) =
     (if n = name then subdirectory names below else subdirectory (name # names) es)"
| "subdirectory (name # names) (_ # es) = subdirectory (name # names) es"

text \<open>
  The root of the repository, the list of known violations (its file may be absent, or its
  \<open>allow\<close> no list) and the schedule.
\<close>

record checkout =
  ck_root :: "dir_entry list"
  ck_allowlist :: "scope_violation list option option"
  ck_schedule :: "string option"
  ck_openapi :: bool

text \<open>What a run leaves: its exit code and the checkout.\<close>

type_synonym guard_run = "nat \<times> checkout"

definition files_below :: "checkout \<Rightarrow> string list \<Rightarrow> string \<Rightarrow> (string \<times> string) list" where
  "files_below ck names dir = (case subdirectory names (ck_root ck) of None \<Rightarrow> [] | Some es \<Rightarrow> walk dir es)"

section \<open>The guards\<close>

definition src_files :: "checkout \<Rightarrow> (string \<times> string) list" where
  "src_files ck = files_below ck [''src''] ''src''"

text \<open>The fixtures of the self-test; each text ends in a line feed.\<close>

definition fixture_dir :: string where
  "fixture_dir = ''.tmp-balance-guard-fixture/src''"

definition fixtures :: "dir_entry list" where
  "fixtures =
     [File_entry ''bad-fixture.ts''
        (''export const wallet = {'' @ newline # ''  availableBalance: 12450,'' @ newline #
         ''  escrowBalance: 0,'' @ newline # ''};'' @ [newline]),
      File_entry ''clean-fixture.ts''
        (''export const wallet = {'' @ newline # ''  availableBalance: 0,'' @ newline #
         ''  escrowBalance: 0,'' @ newline # ''};'' @ [newline]),
      File_entry ''allowed-fixture.ts''
        (''export const wallet = {'' @ newline # ''  availableBalance: 12450, '' @ allow_comment @
         newline # ''};'' @ [newline])]"

definition balance_selfTest :: bool where
  "balance_selfTest =
     (let v = balance_findViolations (walk fixture_dir fixtures);
          hits = (\<lambda>name. filter (\<lambda>x. bv_file x = join_path fixture_dir name) v);
          offenders = hits ''bad-fixture.ts'' in
      \<not> (length offenders \<noteq> 1 \<or> bv_field (hd offenders) \<noteq> ''availableBalance'') \<and>
      length (hits ''clean-fixture.ts'') = 0 \<and> length (hits ''allowed-fixture.ts'') = 0)"

definition balance_run :: "string list \<Rightarrow> checkout \<Rightarrow> guard_run" where
  "balance_run argv ck =
     (if ''--self-test'' \<in> set argv then (if balance_selfTest then 0 else 1, ck)
      else (if balance_findViolations (src_files ck) = [] then 0 else 1, ck))"

text \<open>The scope guard walks three directories.\<close>

definition target_files :: "checkout \<Rightarrow> (string \<times> string) list" where
  "target_files ck =
     concat (map (\<lambda>d. files_below ck [''src'', d] (join_path ''src'' d)) [''services'', ''wallets'', ''ledger''])"

definition loadAllowlist :: "checkout \<Rightarrow> scope_violation list" where
  "loadAllowlist ck =
     (case ck_allowlist ck of None \<Rightarrow> [] | Some None \<Rightarrow> [] | Some (Some allow) \<Rightarrow> allow)"

text \<open>The order of the written list is that of \<open>localeCompare\<close> on the keys, a parameter.\<close>

definition scope_run :: "(string \<Rightarrow> 'k :: linorder) \<Rightarrow> string list \<Rightarrow> checkout \<Rightarrow> guard_run" where
  "scope_run collate argv ck =
     (let files = target_files ck in
      if ''--update-baseline'' \<in> set argv
      then (0, ck\<lparr>ck_allowlist := Some (Some (sort_key (\<lambda>v. collate (keyOf v)) (update_baseline files)))\<rparr>)
      else (scope_main (loadAllowlist ck) files, ck))"

definition charter_run :: "checkout \<Rightarrow> guard_run" where
  "charter_run ck = (charter_main (ck_schedule ck), ck)"

definition openapi_run :: "checkout \<Rightarrow> guard_run" where
  "openapi_run ck = (if ck_openapi ck then 0 else 1, ck)"

text \<open>
  The validation of the example events (\<open>scripts/validate-schema.js\<close>).  The contents of the files
  and the library of schemas are parameters: \<open>read\<close> parses a file (a file that is absent or no JSON
  ends the script with an exception) and \<open>compile\<close> gives the validator of a schema.
\<close>

definition schema_examples :: "string list" where
  "schema_examples =
     [''docs/contracts/examples/token_purchase.json'', ''docs/contracts/examples/membership_purchase.json'',
      ''docs/contracts/examples/adjustment_cs_award.json'', ''docs/contracts/examples/reversal_chargeback.json'']"

definition validate_example :: "(string \<Rightarrow> 'json option) \<Rightarrow> ('json \<Rightarrow> bool) \<Rightarrow> string \<Rightarrow> bool option" where
  "validate_example read valid examplePath = map_option valid (read examplePath)"

text \<open>The loop keeps the flag \<open>allValid\<close>; \<open>None\<close> is an exception.\<close>

fun validate_examples :: "(string \<Rightarrow> 'json option) \<Rightarrow> ('json \<Rightarrow> bool) \<Rightarrow> string list \<Rightarrow> bool \<Rightarrow> bool option" where
  "validate_examples read valid [] allValid = Some allValid"
| "validate_examples read valid (path # paths) allValid =
     (case validate_example read valid path of
        None \<Rightarrow> None
      | Some v \<Rightarrow> validate_examples read valid paths (if v then allValid else False))"

definition schema_run :: "(string \<Rightarrow> 'json option) \<Rightarrow> ('json \<Rightarrow> ('json \<Rightarrow> bool) option) \<Rightarrow> nat" where
  "schema_run read compile =
     (case read ''docs/contracts/xxx-events.schema.json'' of
        None \<Rightarrow> 1
      | Some schema \<Rightarrow>
          (case compile schema of
             None \<Rightarrow> 1
           | Some valid \<Rightarrow> if validate_examples read valid schema_examples True = Some True then 0 else 1))"

section \<open>The walk\<close>

text \<open>A file with its path of names below a list of entries.\<close>

fun file_at :: "dir_entry list \<Rightarrow> string list \<Rightarrow> string \<Rightarrow> bool" where
  "file_at [] names source \<longleftrightarrow> False"
| "file_at (File_entry n c # es) names source \<longleftrightarrow> names = [n] \<and> source = c \<or> file_at es names source"
| "file_at (Dir_entry n below # es) names source \<longleftrightarrow>
     names \<noteq> [] \<and> hd names = n \<and> file_at below (tl names) source \<or> file_at es names source"
| "file_at (Other_entry n # es) names source \<longleftrightarrow> file_at es names source"

definition path_of :: "string \<Rightarrow> string list \<Rightarrow> string" where
  "path_of dir names = foldl join_path dir names"

lemma path_of_simps: "path_of dir [n] = join_path dir n" "path_of dir (n # names) = path_of (join_path dir n) names"
  by (simp_all add: path_of_def)

lemma file_at_names: "file_at es names source \<Longrightarrow> names \<noteq> []"
  by (induction es names source rule: file_at.induct) auto

lemma file_in_directory:
  "(\<exists>names. names \<noteq> [] \<and> hd names = n \<and> file_at below (tl names) source \<and> P (last names) \<and> path = path_of dir names) \<longleftrightarrow>
     (\<exists>rest. file_at below rest source \<and> P (last rest) \<and> path = path_of (join_path dir n) rest)"
proof
  assume "\<exists>names. names \<noteq> [] \<and> hd names = n \<and> file_at below (tl names) source \<and> P (last names) \<and> path = path_of dir names"
  then obtain rest where r: "file_at below rest source" "P (last (n # rest))" "path = path_of dir (n # rest)"
    by (metis list.collapse)
  then have "P (last rest)" using file_at_names [OF r(1)] by simp
  with r show "\<exists>rest. file_at below rest source \<and> P (last rest) \<and> path = path_of (join_path dir n) rest"
    by (metis path_of_simps(2))
next
  assume "\<exists>rest. file_at below rest source \<and> P (last rest) \<and> path = path_of (join_path dir n) rest"
  then obtain rest where r: "file_at below rest source" "P (last rest)" "path = path_of (join_path dir n) rest" by blast
  then have "P (last (n # rest))" using file_at_names [OF r(1)] by simp
  with r show "\<exists>names. names \<noteq> [] \<and> hd names = n \<and> file_at below (tl names) source \<and> P (last names) \<and> path = path_of dir names"
    by (intro exI [of _ "n # rest"]) (simp add: path_of_simps(2))
qed

text \<open>
  The walk finds exactly the files whose names end in \<open>.ts\<close>, at whatever depth, under their paths.
\<close>

lemma walk_finds:
  "(path, source) \<in> set (walk dir es) \<longleftrightarrow>
     (\<exists>names. file_at es names source \<and> ends_with (last names) ''.ts'' \<and> path = path_of dir names)"
proof (induction dir es rule: walk.induct)
  case (3 dir name below es)
  let ?P = "\<lambda>n. ends_with n ''.ts''"
  have "(path, source) \<in> set (walk dir (Dir_entry name below # es)) \<longleftrightarrow>
      (\<exists>rest. file_at below rest source \<and> ?P (last rest) \<and> path = path_of (join_path dir name) rest) \<or>
      (\<exists>names. file_at es names source \<and> ?P (last names) \<and> path = path_of dir names)"
    using 3 by simp
  then show ?case
    unfolding file_in_directory [of name below source ?P path dir, symmetric] file_at.simps by blast
next
  case (2 dir name c es)
  have "(\<exists>names. names = [name] \<and> source = c \<and> ends_with (last names) ''.ts'' \<and> path = path_of dir names) \<longleftrightarrow>
      source = c \<and> ends_with name ''.ts'' \<and> path = join_path dir name" by (auto simp: path_of_def)
  with 2 show ?case by auto
qed simp_all

section \<open>What the runs decide\<close>

text \<open>
  The guard over balances passes exactly when no line of a TypeScript file below \<open>src\<close>, tests
  excepted, assigns a balance; its self-test passes.
\<close>

lemma numbered_lines:
  "(\<forall>x\<in>set (enumerate k ls). P (snd x)) \<longleftrightarrow> (\<forall>line\<in>set ls. P line)"
  by (induction ls arbitrary: k) auto

lemma balance_findViolations_Nil:
  "balance_findViolations files = [] \<longleftrightarrow>
     (\<forall>(rel, source)\<in>set files. \<not> isExcludedFile rel \<longrightarrow> (\<forall>line\<in>set (lines_from [] source). line_violation line = None))"
proof -
  have "concat (map (\<lambda>(i, line). case line_violation line of None \<Rightarrow> []
        | Some (field, v) \<Rightarrow> [\<lparr>bv_file = rel, bv_line = i + 1, bv_field = field, bv_value = v\<rparr>])
      (enumerate 0 ls)) = [] \<longleftrightarrow> (\<forall>line\<in>set ls. line_violation line = None)" for rel ls
  proof -
    have "(case line_violation line of None \<Rightarrow> []
        | Some (field, v) \<Rightarrow> [\<lparr>bv_file = rel, bv_line = i + 1, bv_field = field, bv_value = v\<rparr>]) = [] \<longleftrightarrow>
        line_violation line = None" for i line by (simp split: option.split prod.split)
    then show ?thesis using numbered_lines [of 0 ls "\<lambda>line. line_violation line = None"] by (auto simp: split_beta)
  qed
  then show ?thesis
    unfolding balance_findViolations_def by (subst concat_eq_Nil_conv) (auto split: if_splits)
qed

theorem balance_guard_decides:
  assumes "subdirectory [''src''] (ck_root ck) = Some es" and "''--self-test'' \<notin> set argv"
  shows "fst (balance_run argv ck) = 0 \<longleftrightarrow>
    (\<forall>names source. file_at es names source \<and> ends_with (last names) ''.ts'' \<and> \<not> isExcludedFile (path_of ''src'' names) \<longrightarrow>
      (\<forall>line\<in>set (lines_from [] source). line_violation line = None))"
proof -
  have "src_files ck = walk ''src'' es" using assms(1) by (simp add: src_files_def files_below_def)
  then have "fst (balance_run argv ck) = 0 \<longleftrightarrow>
      (\<forall>path source. (path, source) \<in> set (walk ''src'' es) \<and> \<not> isExcludedFile path \<longrightarrow>
        (\<forall>line\<in>set (lines_from [] source). line_violation line = None))"
    using assms(2) by (simp add: balance_run_def balance_findViolations_Nil) fast
  then show ?thesis unfolding walk_finds by blast
qed

text \<open>The self-test passes whatever the checkout.\<close>

theorem balance_self_test_passes: "''--self-test'' \<in> set argv \<Longrightarrow> balance_run argv ck = (0, ck)"
proof -
  have "balance_selfTest" by code_simp
  then show "''--self-test'' \<in> set argv \<Longrightarrow> balance_run argv ck = (0, ck)" by (simp add: balance_run_def)
qed

text \<open>
  Writing the baseline makes the next run over the same files pass, with whatever was known
  before; and a run that does not write it leaves the checkout alone.
\<close>

theorem baseline_silences_guard:
  assumes "''--update-baseline'' \<in> set argv" and "''--update-baseline'' \<notin> set argv'"
  shows "fst (scope_run collate argv' (snd (scope_run collate argv ck))) = 0 \<and>
    snd (scope_run collate argv' ck) = ck"
proof -
  let ?ck = "snd (scope_run collate argv ck)"
  have files: "target_files ?ck = target_files ck"
    by (simp add: scope_run_def Let_def target_files_def files_below_def)
  have "loadAllowlist ?ck = sort_key (\<lambda>v. collate (keyOf v)) (update_baseline (target_files ck))"
    using assms(1) by (simp add: scope_run_def Let_def loadAllowlist_def)
  then have "new_violations (loadAllowlist ?ck) (target_files ?ck) = []"
    by (auto simp: files new_violations_def update_baseline_def filter_empty_conv)
  then show ?thesis using assms(2) by (simp add: scope_run_def Let_def scope_main_def)
qed

lemma validate_examples_all:
  "validate_examples read valid paths allValid = Some True \<longleftrightarrow>
     allValid \<and> (\<forall>path\<in>set paths. \<exists>example. read path = Some example \<and> valid example)"
  by (induction paths arbitrary: allValid) (auto simp: validate_example_def split: option.splits if_splits)

text \<open>
  The validation passes exactly when there is a schema that compiles and every example is there
  and valid.
\<close>

theorem schema_run_decides:
  "schema_run read compile = 0 \<longleftrightarrow>
     (\<exists>schema valid. read ''docs/contracts/xxx-events.schema.json'' = Some schema \<and> compile schema = Some valid \<and>
       (\<forall>path\<in>set schema_examples. \<exists>example. read path = Some example \<and> valid example))"
  by (auto simp: schema_run_def validate_examples_all split: option.splits if_splits)

definition demo_checkout :: checkout where
  "demo_checkout =
     \<lparr>ck_root = [Dir_entry ''src'' [Dir_entry ''services''
         [File_entry ''a.ts'' ''WalletModel.find({ userId })'', File_entry ''b.spec.ts'' ''const aBalance = 5;''],
         File_entry ''notes.md'' ''availableBalance: 7'']],
      ck_allowlist = None, ck_schedule = None, ck_openapi = True\<rparr>"

theorem balance_guard_decides_witness:
  "fst (balance_run [] demo_checkout) = 0 \<and> \<not> isExcludedFile ''src/services/a.ts'' \<and>
     line_violation ''WalletModel.find({ userId })'' = None"
proof -
  let ?es = "the (subdirectory [''src''] (ck_root demo_checkout))"
  have sub: "subdirectory [''src''] (ck_root demo_checkout) = Some ?es" by code_simp
  have at: "file_at ?es [''services'', ''a.ts''] ''WalletModel.find({ userId })''"
    "ends_with (last [''services'', ''a.ts'']) ''.ts''" "path_of ''src'' [''services'', ''a.ts''] = ''src/services/a.ts''"
    "lines_from [] ''WalletModel.find({ userId })'' = [''WalletModel.find({ userId })'']"
    "\<not> isExcludedFile ''src/services/a.ts''" by code_simp+
  have run: "fst (balance_run [] demo_checkout) = 0" by code_simp
  then show ?thesis
    using balance_guard_decides [OF sub, of "[]"] at by fastforce
qed

theorem balance_self_test_passes_witness: "fst (balance_run [''--self-test''] demo_checkout) = 0"
  using balance_self_test_passes [of "[''--self-test'']" demo_checkout] by simp

theorem baseline_silences_guard_witness:
  "fst (scope_run length [] demo_checkout) = 1 \<and>
   fst (scope_run length [] (snd (scope_run length [''--update-baseline''] demo_checkout))) = 0"
proof -
  have "fst (scope_run length [] demo_checkout) = 1" by code_simp
  then show ?thesis using baseline_silences_guard [of "[''--update-baseline'']" "[]" length demo_checkout] by simp
qed

end
