(* ===== verification/Wallet_Cache.thy ===== *)
theory Wallet_Cache
  imports Wallet_Books Balance_Cache
begin

text \<open>
  The way from a wallet to the cache: the events that the wallet service publishes
  (\<open>src/wallets/wallet.service.ts\<close>, \<open>src/events/wallet-event-publisher.ts\<close>) and the balance cache that
  subscribes to them (\<open>src/events/balance-snapshot-cache.ts\<close>), compared with the balances in the
  wallets.
\<close>

section \<open>What the events of a request tell\<close>

lemma reports_told: "reports ev a st = map_of (told ev) (a, st)"
  by (cases ev; cases st) auto

lemma escrow_upd:
  "map_of (wallets s') = (map_of (wallets s))(u \<mapsto> w) \<Longrightarrow>
     escrow_balance s' v = (if v = u then w_escrowBalance w else escrow_balance s v)"
  by (simp add: escrow_balance_def)

text \<open>A balance of an account in the store.\<close>

definition balance_in :: "store \<Rightarrow> string \<Rightarrow> balance_state \<Rightarrow> rat" where
  "balance_in s a st =
     (case st of Available \<Rightarrow> available_of s a | Escrow \<Rightarrow> escrow_balance s a | Earned \<Rightarrow> earned_of s a)"

text \<open>
  What an event tells is true afterwards, and what it does not tell has not changed.
\<close>

definition tells :: "reward_event \<Rightarrow> balance_state \<Rightarrow> store \<Rightarrow> store \<Rightarrow> bool" where
  "tells ev st s s' \<longleftrightarrow>
     (\<forall>a. balance_in s' a st = (case reports ev a st of None \<Rightarrow> balance_in s a st | Some x \<Rightarrow> x))"

lemma hold_tells:
  assumes "hold_ready ws r s" and "metadata_ok (hr_metadata r)"
    and "wallet_of s (hr_userId r) = Some w" and "hr_amount r \<le> w_availableBalance w"
  shows "\<exists>resp s' ev. run (holdInEscrow ws r) s = (Inr resp, s') \<and> published s' = published s @ [ev] \<and>
    escrow_event ev \<and> (\<forall>st. tells ev st s s')"
proof -
  let ?s2 = "hold_recorded ws r w (uuids s (uuid_count s))
    (moved_to_escrow r w (after_claim (hr_idempotencyKey r) ''hold_escrow'' s))"
  from run_hold_success [OF assms] obtain resp ev where
    run: "run (holdInEscrow ws r) s = (Inr resp, after_publish ev ?s2)"
    and ev: "escrow_event ev" "told ev = [((hr_userId r, Available), w_availableBalance w - hr_amount r),
      ((hr_userId r, Escrow), w_escrowBalance w + hr_amount r)]" by auto
  define s' where "s' = after_publish ev ?s2"
  have wallets: "map_of (wallets s') = (map_of (wallets s))(hr_userId r \<mapsto>
      w\<lparr>w_availableBalance := w_availableBalance w - hr_amount r,
        w_escrowBalance := w_escrowBalance w + hr_amount r, w_version := w_version w + 1\<rparr>)"
    by (simp add: s'_def) (simp add: moved_to_escrow_def Let_def)
  have models: "model_wallets s' = model_wallets s" by (simp add: s'_def)
  have "tells ev st s s'" for st
    using ev(2) available_upd [OF wallets] escrow_upd [OF wallets] models
    by (cases st) (auto simp: tells_def reports_told balance_in_def earned_of_def)
  moreover have "published s' = published s @ [ev]" by (simp add: s'_def)
  ultimately show ?thesis using run ev(1) unfolding s'_def [symmetric] by blast
qed

lemma settle_tells:
  assumes "settle_ready ws r s" and "truthy (map_option qs_token a)"
    and "escrow_of s (sr_escrowId r) = Some e" and "e_status e = Held"
    and "wallet_of s (e_userId e) = Some w"
  shows "\<exists>resp s' ev. run (settleEscrow ws r a) s = (Inr resp, s') \<and> published s' = published s @ [ev] \<and>
    escrow_event ev \<and> (\<forall>st. st \<noteq> Escrow \<longrightarrow> tells ev st s s')"
proof -
  from settle_outcome [OF assms] obtain resp s' ev where
    run: "run (settleEscrow ws r a) s = (Inr resp, s')" "published s' = published s @ [ev]" "escrow_event ev"
    and wallets: "map_of (wallets s') = (map_of (wallets s))(e_userId e \<mapsto>
      w\<lparr>w_escrowBalance := w_escrowBalance w - sr_amount r, w_version := w_version w + 1\<rparr>)"
    and earned: "earned_of s' (sr_modelId r) = earned_of s (sr_modelId r) + sr_amount r"
      "\<forall>m. m \<noteq> sr_modelId r \<longrightarrow> earned_of s' m = earned_of s m"
    and told: "told ev = [((sr_modelId r, Earned), earned_of s (sr_modelId r) + sr_amount r)]" by metis
  have "tells ev st s s'" if "st \<noteq> Escrow" for st
    using that told available_upd [OF wallets] wallet_available [OF assms(5)] earned
    by (cases st) (auto simp: tells_def reports_told balance_in_def)
  with run show ?thesis by blast
qed

lemma refund_tells:
  assumes "refund_ready ws r s" and "truthy (map_option qr_token a)"
    and "escrow_of s (rr_escrowId r) = Some e" and "e_status e = Held"
    and "wallet_of s (rr_userId r) = Some w"
  shows "\<exists>resp s' ev. run (refundEscrow ws r a) s = (Inr resp, s') \<and> published s' = published s @ [ev] \<and>
    escrow_event ev \<and> (\<forall>st. tells ev st s s')"
proof -
  from refund_outcome [OF assms] obtain resp s' ev where
    run: "run (refundEscrow ws r a) s = (Inr resp, s')" "published s' = published s @ [ev]" "escrow_event ev"
    and wallets: "map_of (wallets s') = (map_of (wallets s))(rr_userId r \<mapsto>
      w\<lparr>w_availableBalance := w_availableBalance w + rr_amount r,
        w_escrowBalance := w_escrowBalance w - rr_amount r, w_version := w_version w + 1\<rparr>)"
    and models: "model_wallets s' = model_wallets s"
    and told: "told ev = [((rr_userId r, Available), w_availableBalance w + rr_amount r),
      ((rr_userId r, Escrow), w_escrowBalance w - rr_amount r)]" by metis
  have "tells ev st s s'" for st
    using told available_upd [OF wallets] escrow_upd [OF wallets] models
    by (cases st) (auto simp: tells_def reports_told balance_in_def earned_of_def)
  with run show ?thesis by blast
qed

lemma partial_tells:
  assumes "partial_ready ws r s" and "truthy (map_option qp_token a)"
    and "escrow_of s (pr_escrowId r) = Some e" and "e_status e = Held"
    and "wallet_of s (pr_userId r) = Some w"
    and "\<bar>pr_refundAmount r + pr_settleAmount r - e_amount e\<bar> \<le> 1 / 100"
  shows "\<exists>resp s' ev. run (partialSettleEscrow ws r a) s = (Inr resp, s') \<and> published s' = published s @ [ev] \<and>
    escrow_event ev \<and> (\<forall>st. tells ev st s s')"
proof -
  note moved = partial_moved_simps [where ws = ws and r = r and e = e and w = w and s = s]
  from record_partial_success [OF assms(1) moved(8,9,6)]
  obtain resp ev s' where
    rec: "run (record_partial_settle ws r w (partial_wallet r e w) (model_before ws s (pr_modelId r)))
      (partial_moved ws r e w s) = (Inr resp, s')"
    and same: "wallets s' = wallets (partial_moved ws r e w s)"
      "model_wallets s' = model_wallets (partial_moved ws r e w s)"
    and ev: "published s' = published (partial_moved ws r e w s) @ [ev]" "escrow_event ev"
      "told ev = [((pr_userId r, Available), w_availableBalance w + pr_refundAmount r),
        ((pr_userId r, Escrow), w_escrowBalance (partial_wallet r e w)),
        ((pr_modelId r, Earned), m_earnedBalance (model_before ws s (pr_modelId r)) + pr_settleAmount r)]" by metis
  have run: "run (partialSettleEscrow ws r a) s = (Inr resp, s')"
    using run_partial_match [OF assms] rec by simp
  have wallets: "map_of (wallets s') = (map_of (wallets s))(pr_userId r \<mapsto> partial_wallet r e w)"
    using same(1) moved(1) by simp
  have earned: "earned_of s' m = (if m = pr_modelId r then earned_of s m + pr_settleAmount r else earned_of s m)" for m
    using same(2) moved(2,3) by (simp add: earned_of_def)
  have "tells ev st s s'" for st
    using ev(3) available_upd [OF wallets] escrow_upd [OF wallets] earned
    by (cases st) (auto simp: tells_def reports_told balance_in_def partial_wallet_def earned_model_before)
  with run ev(1,2) moved(7) show ?thesis by auto
qed

section \<open>Histories of requests\<close>

fun settles :: "wallet_call \<Rightarrow> bool" where
  "settles (Settle_call r a) = True"
| "settles _ = False"

lemma call_tells:
  assumes "call_ready ws c s"
  shows "\<exists>s' ev. run (handle_call ws c) s = (Inr (), s') \<and> published s' = published s @ [ev] \<and> escrow_event ev \<and>
    (\<forall>st. settles c \<and> st = Escrow \<or> tells ev st s s')"
proof (cases c)
  case (Hold_call r)
  with assms obtain w where w: "wallet_of s (hr_userId r) = Some w" "hr_amount r \<le> w_availableBalance w"
    "hold_ready ws r s" "metadata_ok (hr_metadata r)" by (auto split: option.splits)
  from hold_tells [OF w(3,4,1,2)] Hold_call show ?thesis by (fastforce simp: run_await run_pure)
next
  case (Settle_call r a)
  with assms obtain e w where e: "escrow_of s (sr_escrowId r) = Some e" "e_status e = Held"
    "wallet_of s (e_userId e) = Some w" "settle_ready ws r s" "truthy (map_option qs_token a)"
    by (auto split: option.splits)
  from settle_tells [OF e(4,5,1-3)] Settle_call show ?thesis by (fastforce simp: run_await run_pure)
next
  case (Refund_call r a)
  with assms obtain e w where e: "escrow_of s (rr_escrowId r) = Some e" "e_status e = Held"
    "wallet_of s (rr_userId r) = Some w" "refund_ready ws r s" "truthy (map_option qr_token a)"
    by (auto split: option.splits)
  from refund_tells [OF e(4,5,1-3)] Refund_call show ?thesis by (fastforce simp: run_await run_pure)
next
  case (Partial_call r a)
  with assms obtain e w where e: "escrow_of s (pr_escrowId r) = Some e" "e_status e = Held"
    "wallet_of s (pr_userId r) = Some w" "partial_ready ws r s" "truthy (map_option qp_token a)"
    "\<bar>pr_refundAmount r + pr_settleAmount r - e_amount e\<bar> \<le> 1 / 100"
    by (auto split: option.splits)
  from partial_tells [OF e(4,5,1-3,6)] Partial_call show ?thesis by (fastforce simp: run_await run_pure)
qed

text \<open>
  Requests served one after the other under the conditions under which they succeed, each of a
  permitted kind, while the clock goes on.
\<close>

inductive served :: "wallet_service \<Rightarrow> (wallet_call \<Rightarrow> bool) \<Rightarrow> store \<Rightarrow> store \<Rightarrow> bool"
  for ws permitted s where
  served_start: "served ws permitted s s"
| served_call: "served ws permitted s t \<Longrightarrow> permitted c \<Longrightarrow> call_ready ws c t \<Longrightarrow>
    run (handle_call ws c) t = (res, t') \<Longrightarrow> served ws permitted s t'"
| served_tick: "served ws permitted s t \<Longrightarrow> 0 \<le> ms \<Longrightarrow> served ws permitted s (t\<lparr>clock := clock t + ms\<rparr>)"

lemma last_report_snoc:
  "last_report (evs @ [ev]) a st = (case reports ev a st of None \<Rightarrow> last_report evs a st | Some x \<Rightarrow> Some x)"
  by (simp add: last_report_def split: option.split)

text \<open>The last thing that was told of a balance is the balance.\<close>

definition reported_true :: "store \<Rightarrow> balance_state \<Rightarrow> bool" where
  "reported_true s st \<longleftrightarrow> (\<forall>a x. last_report (published s) a st = Some x \<longrightarrow> x = balance_in s a st)"

lemma served_reports:
  assumes "served ws permitted s s'" and "published s = []"
  shows "list_all escrow_event (published s') \<and>
    (\<forall>st. st = Escrow \<and> (\<exists>c. permitted c \<and> settles c) \<or> reported_true s' st)"
  using assms
proof induction
  case served_start
  then show ?case by (simp add: reported_true_def last_report_def)
next
  case (served_call t c res t')
  from call_tells [OF served_call.hyps(3)] served_call.hyps(4) obtain ev where
    ev: "published t' = published t @ [ev]" "escrow_event ev" "\<And>st. settles c \<and> st = Escrow \<or> tells ev st t t'"
    by auto
  have "reported_true t' st" if "reported_true t st" "tells ev st t t'" for st
    using that by (auto simp: reported_true_def ev(1) last_report_snoc tells_def split: option.splits)
  then show ?case using served_call.IH [OF served_call.prems] ev served_call.hyps(2) by auto
next
  case (served_tick t ms)
  have "balance_in (t\<lparr>clock := clock t + ms\<rparr>) a st = balance_in t a st" for a st
    by (cases st) (simp_all add: balance_in_def available_of_def escrow_balance_def earned_of_def)
  then show ?case using served_tick by (simp add: reported_true_def)
qed

lemma escrow_event_ok: "escrow_event ev \<Longrightarrow> update_ok ev"
  by (cases ev) (simp_all add: update_ok_def)


text \<open>
  A settlement tells the model's balance only, so that the cache goes on showing the user's
  escrow balance of before.
\<close>

lemma settlement_not_told:
  assumes "settle_ready ws r s" and "truthy (map_option qs_token a)"
    and "escrow_of s (sr_escrowId r) = Some e" and "e_status e = Held"
    and "wallet_of s (e_userId e) = Some w"
  shows "\<exists>resp s' ev. run (settleEscrow ws r a) s = (Inr resp, s') \<and> published s' = published s @ [ev] \<and>
    reports ev (e_userId e) Escrow = None \<and>
    escrow_balance s' (e_userId e) = escrow_balance s (e_userId e) - sr_amount r"
proof -
  from settle_outcome [OF assms] obtain resp s' ev where
    run: "run (settleEscrow ws r a) s = (Inr resp, s')" "published s' = published s @ [ev]"
    and wallets: "map_of (wallets s') = (map_of (wallets s))(e_userId e \<mapsto>
      w\<lparr>w_escrowBalance := w_escrowBalance w - sr_amount r, w_version := w_version w + 1\<rparr>)"
    and told: "told ev = [((sr_modelId r, Earned), earned_of s (sr_modelId r) + sr_amount r)]" by metis
  then show ?thesis
    using escrow_upd [OF wallets, of "e_userId e"] assms(5) by (auto simp: reports_told escrow_balance_def)
qed

lemma served_demo_hold:
  "served default_wallet_service (\<lambda>c. \<not> settles c) demo_wallets
     (snd (run (handle_call default_wallet_service (Hold_call demo_hold)) demo_wallets))"
proof -
  have ready: "call_ready default_wallet_service (Hold_call demo_hold) demo_wallets" by code_simp
  show ?thesis
    by (rule served_call [OF served_start _ ready prod.collapse [symmetric]]) simp
qed


end
